(* ===== verification/Prelude.thy ===== *)
theory Prelude
  imports Main "HOL-Library.AList" "HOL-Library.Char_ord" "HOL-Library.List_Lexorder"
    "HOL-Library.Word"
begin

text \<open>
  Shared vocabulary of the development: how Go values are represented, the parts of Go's
  standard library the program relies on (package \<open>strings\<close>, \<open>strconv\<close>), and the
  generic lemmas the component theories use.

  \<^item> A Go string is a byte sequence: \<^typ>\<open>string\<close>, one \<^typ>\<open>char\<close> per byte. The case and
    white-space functions are those of ASCII text; other bytes are left as they are.
  \<^item> A Go map is an association list with distinct keys; the list order stands for the
    order in which a \<open>range\<close> loop visits it, which Go leaves open, so a statement about all
    such lists covers every iteration order. A nil map reads like the empty list.
  \<^item> An \<open>error\<close> is its format string with the arguments, not the rendered text; the typed
    errors the handlers tell apart have constructors of their own, and a run-time panic
    (index out of range) is an error value too.
  \<^item> Instants and durations are integers counting nanoseconds; 0 is Go's zero time.
\<close>

section \<open>Errors and results\<close>

datatype error =
    Errorf string "string list"        \<comment> \<open>\<open>fmt.Errorf\<close>, \<open>errors.New\<close>: format and arguments\<close>
  | Wrapf string "string list" error   \<comment> \<open>\<open>fmt.Errorf\<close> with \<open>%w\<close>\<close>
  | ImageDenied string                 \<comment> \<open>\<open>policy/image.DeniedError\<close>\<close>
  | SecretDenied string                \<comment> \<open>\<open>policy/secret.DeniedError\<close>\<close>
  | ExtError string                    \<comment> \<open>an error made outside the repository\<close>
  | Panic string                       \<comment> \<open>a run-time panic\<close>

type_synonym 'a result = "error + 'a"
type_synonym ('k, 'v) gomap = "('k \<times> 'v) list"
type_synonym time = int
type_synonym duration = int

definition bind_res :: "'a result \<Rightarrow> ('a \<Rightarrow> 'b result) \<Rightarrow> 'b result" where
  "bind_res r f = (case r of Inl e \<Rightarrow> Inl e | Inr x \<Rightarrow> f x)"

lemma bind_res_simps [simp]:
  "bind_res (Inl e) f = Inl e" "bind_res (Inr x) f = f x"
  by (simp_all add: bind_res_def)

lemma bind_res_Inr: "bind_res r f = Inr y \<longleftrightarrow> (\<exists>x. r = Inr x \<and> f x = Inr y)"
  by (cases r) auto

lemma bind_res_Inl: "bind_res r f = Inl e \<longleftrightarrow> r = Inl e \<or> (\<exists>x. r = Inr x \<and> f x = Inl e)"
  by (cases r) auto

text \<open>\<open>errors.As\<close> looks through wrapped errors.\<close>

fun err_root :: "error \<Rightarrow> error" where
  "err_root (Wrapf f as e) = err_root e"
| "err_root e = e"

definition second :: duration where "second = 1000000000"
definition minute :: duration where "minute = 60 * second"

section \<open>Maps\<close>

abbreviation map_get :: "('k, 'v) gomap \<Rightarrow> 'k \<Rightarrow> 'v option" where
  "map_get \<equiv> map_of"

abbreviation map_set :: "'k \<Rightarrow> 'v \<Rightarrow> ('k, 'v) gomap \<Rightarrow> ('k, 'v) gomap" where
  "map_set \<equiv> AList.update"

abbreviation map_del :: "'k \<Rightarrow> ('k, 'v) gomap \<Rightarrow> ('k, 'v) gomap" where
  "map_del \<equiv> AList.delete"

definition map_keys :: "('k, 'v) gomap \<Rightarrow> 'k list" where
  "map_keys m = map fst m"

definition has_key :: "('k, 'v) gomap \<Rightarrow> 'k \<Rightarrow> bool" where
  "has_key m k = (map_of m k \<noteq> None)"

text \<open>Indexing a map of strings yields the empty string for an absent key.\<close>

definition map_str :: "('k, string) gomap \<Rightarrow> 'k \<Rightarrow> string" where
  "map_str m k = (case map_of m k of None \<Rightarrow> [] | Some v \<Rightarrow> v)"

definition go_map :: "('k, 'v) gomap \<Rightarrow> bool" where
  "go_map m = distinct (map fst m)"

text \<open>A map used as a set of keys: \<open>map[string]struct{}\<close>, \<open>map[string]interface{}\<close>.\<close>

definition key_add :: "'k \<Rightarrow> 'k list \<Rightarrow> 'k list" where
  "key_add k ks = (if k \<in> set ks then ks else ks @ [k])"

lemma set_key_add [simp]: "set (key_add k ks) = insert k (set ks)"
  by (auto simp: key_add_def)

lemma distinct_key_add [simp]: "distinct ks \<Longrightarrow> distinct (key_add k ks)"
  by (auto simp: key_add_def)

lemma has_key_iff: "has_key m k \<longleftrightarrow> k \<in> fst ` set m"
  by (auto simp: has_key_def map_of_eq_None_iff)

lemma has_key_set [simp]: "has_key (map_set k v m) k' \<longleftrightarrow> k' = k \<or> has_key m k'"
  by (auto simp: has_key_def update_conv)

lemma map_get_set [simp]:
  "map_get (map_set k v m) k' = (if k' = k then Some v else map_get m k')"
  by (simp add: update_conv)

lemma map_get_del [simp]:
  "map_get (map_del k m) k' = (if k' = k then None else map_get m k')"
  by (simp add: delete_conv)

lemma go_map_set [simp]: "go_map m \<Longrightarrow> go_map (map_set k v m)"
  by (simp add: go_map_def distinct_update)

lemma go_map_del [simp]: "go_map m \<Longrightarrow> go_map (map_del k m)"
  by (simp add: go_map_def distinct_delete)

lemma go_map_Nil [simp]: "go_map []"
  by (simp add: go_map_def)

section \<open>Byte classes\<close>

definition code :: "char \<Rightarrow> nat" where "code c = of_char c"

definition is_digit :: "char \<Rightarrow> bool" where "is_digit c = (48 \<le> code c \<and> code c \<le> 57)"
definition is_upper :: "char \<Rightarrow> bool" where "is_upper c = (65 \<le> code c \<and> code c \<le> 90)"
definition is_lower :: "char \<Rightarrow> bool" where "is_lower c = (97 \<le> code c \<and> code c \<le> 122)"
definition is_alnum :: "char \<Rightarrow> bool" where "is_alnum c = (is_digit c \<or> is_upper c \<or> is_lower c)"
definition is_space :: "char \<Rightarrow> bool" where "is_space c = (code c = 32 \<or> (9 \<le> code c \<and> code c \<le> 13))"
definition is_hex :: "char \<Rightarrow> bool" where "is_hex c = (is_digit c \<or> (97 \<le> code c \<and> code c \<le> 102))"

definition lower_char :: "char \<Rightarrow> char" where
  "lower_char c = (if is_upper c then char_of (code c + 32) else c)"

lemmas byte_class_defs = is_digit_def is_upper_def is_lower_def is_alnum_def is_space_def is_hex_def

lemma code_lt: "code c < 256"
  by (simp add: code_def)

lemma code_char_of: "n < 256 \<Longrightarrow> code (char_of n) = n"
  by (simp add: code_def)

lemma code_lower_char: "code (lower_char c) = (if is_upper c then code c + 32 else code c)"
  by (auto simp: lower_char_def byte_class_defs intro!: code_char_of)

lemma is_upper_lower_char [simp]: "\<not> is_upper (lower_char c)"
  by (auto simp: is_upper_def code_lower_char)

lemma lower_char_idem [simp]: "lower_char (lower_char c) = lower_char c"
  by (simp add: lower_char_def[of "lower_char c"])

lemma is_alnum_lower_char [simp]: "is_alnum (lower_char c) = is_alnum c"
  by (auto simp: byte_class_defs code_lower_char)

lemma lower_char_id: "\<not> is_upper c \<Longrightarrow> lower_char c = c"
  by (simp add: lower_char_def)

end
