(* ===== verification/Strings.thy ===== *)
theory Strings
  imports Prelude
begin

text \<open>
  The functions of Go's packages \<open>strings\<close> and \<open>strconv\<close> that the program calls, on byte
  strings. Separators are single bytes wherever the program splits or cuts a string.
\<close>

section \<open>Package strings\<close>

definition HasPrefix :: "string \<Rightarrow> string \<Rightarrow> bool" where
  "HasPrefix s p = (take (length p) s = p)"

definition TrimPrefix :: "string \<Rightarrow> string \<Rightarrow> string" where
  "TrimPrefix s p = (if HasPrefix s p then drop (length p) s else s)"

definition HasSuffix :: "string \<Rightarrow> string \<Rightarrow> bool" where
  "HasSuffix s p = HasPrefix (rev s) (rev p)"

definition TrimSuffix :: "string \<Rightarrow> string \<Rightarrow> string" where
  "TrimSuffix s p = (if HasSuffix s p then take (length s - length p) s else s)"

fun Contains :: "string \<Rightarrow> string \<Rightarrow> bool" where
  "Contains [] sub = (sub = [])"
| "Contains (c # cs) sub = (HasPrefix (c # cs) sub \<or> Contains cs sub)"

fun Split :: "string \<Rightarrow> char \<Rightarrow> string list" where
  "Split [] sep = [[]]"
| "Split (c # cs) sep =
     (if c = sep then [] # Split cs sep
      else (case Split cs sep of [] \<Rightarrow> [[c]] | f # fs \<Rightarrow> (c # f) # fs))"

fun Join :: "string list \<Rightarrow> string \<Rightarrow> string" where
  "Join [] sep = []"
| "Join [x] sep = x"
| "Join (x # y # ys) sep = x @ sep @ Join (y # ys) sep"

text \<open>\<open>Cut s sep\<close>: the text before and after the first separator, and whether there is one.\<close>

fun Cut :: "string \<Rightarrow> char \<Rightarrow> string \<times> string \<times> bool" where
  "Cut [] sep = ([], [], False)"
| "Cut (c # cs) sep =
     (if c = sep then ([], cs, True)
      else (case Cut cs sep of (b, a, found) \<Rightarrow> (c # b, a, found)))"

text \<open>\<open>ReplaceAll\<close> for a non-empty pattern: leftmost matches, not overlapping.\<close>

function ReplaceAll :: "string \<Rightarrow> string \<Rightarrow> string \<Rightarrow> string" where
  "ReplaceAll [] old new = []"
| "ReplaceAll (c # cs) old new =
     (if old \<noteq> [] \<and> HasPrefix (c # cs) old
      then new @ ReplaceAll (drop (length old - 1) cs) old new
      else c # ReplaceAll cs old new)"
  by pat_completeness auto
termination by (relation "measure (\<lambda>(s, _, _). length s)") auto

definition ToLower :: "string \<Rightarrow> string" where
  "ToLower s = map lower_char s"

definition EqualFold :: "string \<Rightarrow> string \<Rightarrow> bool" where
  "EqualFold s t = (ToLower s = ToLower t)"

definition TrimRightFunc :: "(char \<Rightarrow> bool) \<Rightarrow> string \<Rightarrow> string" where
  "TrimRightFunc p s = rev (dropWhile p (rev s))"

definition TrimSpace :: "string \<Rightarrow> string" where
  "TrimSpace s = TrimRightFunc is_space (dropWhile is_space s)"

definition TrimRight :: "string \<Rightarrow> char \<Rightarrow> string" where
  "TrimRight s c = TrimRightFunc (\<lambda>x. x = c) s"

definition Trim :: "string \<Rightarrow> char \<Rightarrow> string" where
  "Trim s c = TrimRightFunc (\<lambda>x. x = c) (dropWhile (\<lambda>x. x = c) s)"

function Fields :: "string \<Rightarrow> string list" where
  "Fields s = (case dropWhile is_space s of
      [] \<Rightarrow> []
    | c # cs \<Rightarrow> (c # takeWhile (Not \<circ> is_space) cs) # Fields (dropWhile (Not \<circ> is_space) cs))"
  by pat_completeness auto
termination
proof (relation "measure length")
  show "wf (measure length)" by simp
next
  fix s :: string and c cs
  assume "dropWhile is_space s = c # cs"
  then have "length (c # cs) \<le> length s" by (metis length_dropWhile_le)
  moreover have "length (dropWhile (Not \<circ> is_space) cs) \<le> length cs" by (rule length_dropWhile_le)
  ultimately show "(dropWhile (Not \<circ> is_space) cs, s) \<in> measure length" by simp
qed

declare Fields.simps [simp del]

section \<open>Package strconv\<close>

definition digit_val :: "char \<Rightarrow> int" where
  "digit_val c = int (code c) - 48"

definition digits_val :: "string \<Rightarrow> int" where
  "digits_val s = foldl (\<lambda>n c. 10 * n + digit_val c) 0 s"

text \<open>\<open>ParseUint(s, 10, bits)\<close> and \<open>ParseInt(s, 10, bits)\<close>: \<^const>\<open>None\<close> stands for
  the syntax and the range error.\<close>

definition parse_digits :: "string \<Rightarrow> int option" where
  "parse_digits s = (if s \<noteq> [] \<and> list_all is_digit s then Some (digits_val s) else None)"

definition ParseUint :: "nat \<Rightarrow> string \<Rightarrow> int option" where
  "ParseUint bits s = (case parse_digits s of
      None \<Rightarrow> None
    | Some n \<Rightarrow> if n < 2 ^ bits then Some n else None)"

definition ParseInt :: "nat \<Rightarrow> string \<Rightarrow> int option" where
  "ParseInt bits s =
     (let neg = (s \<noteq> [] \<and> hd s = CHR ''-'');
          body = (if s \<noteq> [] \<and> (hd s = CHR ''-'' \<or> hd s = CHR ''+'') then tl s else s)
      in case parse_digits body of
           None \<Rightarrow> None
         | Some n \<Rightarrow>
             if neg then (if n \<le> 2 ^ (bits - 1) then Some (- n) else None)
             else (if n < 2 ^ (bits - 1) then Some n else None))"

text \<open>\<open>Atoi\<close> on a 64-bit platform.\<close>

definition Atoi :: "string \<Rightarrow> int option" where
  "Atoi s = ParseInt 64 s"

text \<open>\<open>ParseBool\<close>; \<^const>\<open>None\<close> is the syntax error.\<close>

definition ParseBool :: "string \<Rightarrow> bool option" where
  "ParseBool s =
     (if s \<in> set [''1'', ''t'', ''T'', ''TRUE'', ''true'', ''True''] then Some True
      else if s \<in> set [''0'', ''f'', ''F'', ''FALSE'', ''false'', ''False''] then Some False
      else None)"

text \<open>\<open>b, _ := strconv.ParseBool(s)\<close>: a syntax error reads as false.\<close>

definition query_bool :: "string \<Rightarrow> bool" where
  "query_bool s = (ParseBool s = Some True)"

text \<open>\<open>fmt.Sprintf("%d", n)\<close>.\<close>

fun show_nat :: "nat \<Rightarrow> string" where
  "show_nat n = (if n < 10 then [char_of (48 + n)] else show_nat (n div 10) @ [char_of (48 + n mod 10)])"

declare show_nat.simps [simp del]

definition show_int :: "int \<Rightarrow> string" where
  "show_int i = (if i < 0 then CHR ''-'' # show_nat (nat (- i)) else show_nat (nat i))"

section \<open>Lemmas\<close>

lemma HasPrefix_append [simp]: "HasPrefix (p @ s) p"
  by (simp add: HasPrefix_def)

lemma HasPrefix_iff: "HasPrefix s p \<longleftrightarrow> (\<exists>r. s = p @ r)"
  by (metis HasPrefix_append HasPrefix_def append_take_drop_id)

lemma TrimPrefix_append [simp]: "TrimPrefix (p @ s) p = s"
  by (simp add: TrimPrefix_def)

lemma HasPrefix_TrimPrefix: "HasPrefix s p \<Longrightarrow> p @ TrimPrefix s p = s"
  by (auto simp: HasPrefix_iff)

lemma Split_nonempty [simp]: "Split s sep \<noteq> []"
  by (induction s) (auto split: list.splits)

lemma Join_Split: "Join (Split s sep) [sep] = s"
proof (induction s)
  case (Cons c cs)
  obtain f fs where f: "Split cs sep = f # fs" by (cases "Split cs sep") auto
  show ?case
  proof (cases "c = sep")
    case True
    then show ?thesis using Cons f by (cases fs) auto
  next
    case False
    then show ?thesis using Cons f by (cases fs) auto
  qed
qed simp

lemma Split_no_sep: "f \<in> set (Split s sep) \<Longrightarrow> sep \<notin> set f"
  by (induction s arbitrary: f) (auto split: if_splits list.splits)

lemma Split_single: "sep \<notin> set s \<Longrightarrow> Split s sep = [s]"
  by (induction s) auto

lemma Split_append_sep: "sep \<notin> set a \<Longrightarrow> Split (a @ sep # b) sep = a # Split b sep"
  by (induction a) auto

lemma Split_pair: "Split s sep = [a, b] \<longleftrightarrow> s = a @ sep # b \<and> sep \<notin> set a \<and> sep \<notin> set b"
proof
  assume eq: "Split s sep = [a, b]"
  have "s = Join (Split s sep) [sep]" by (rule Join_Split [symmetric])
  then have "s = a @ sep # b" unfolding eq by simp
  moreover have "sep \<notin> set a" "sep \<notin> set b" using eq Split_no_sep[of a s sep] Split_no_sep[of b s sep] by simp_all
  ultimately show "s = a @ sep # b \<and> sep \<notin> set a \<and> sep \<notin> set b" by simp
qed (simp add: Split_append_sep Split_single)

lemma Cut_eq:
  "Cut s sep = (takeWhile (\<lambda>c. c \<noteq> sep) s, tl (dropWhile (\<lambda>c. c \<noteq> sep) s), sep \<in> set s)"
  by (induction s) auto

lemma Cut_append [simp]: "sep \<notin> set b \<Longrightarrow> Cut (b @ sep # a) sep = (b, a, True)"
  by (induction b) auto

lemma Cut_True: "Cut s sep = (b, a, True) \<longleftrightarrow> s = b @ sep # a \<and> sep \<notin> set b"
proof
  assume "Cut s sep = (b, a, True)"
  then have b: "b = takeWhile (\<lambda>c. c \<noteq> sep) s" and a: "a = tl (dropWhile (\<lambda>c. c \<noteq> sep) s)"
    and m: "sep \<in> set s" by (simp_all add: Cut_eq)
  from m have ne: "dropWhile (\<lambda>c. c \<noteq> sep) s \<noteq> []" by (simp add: dropWhile_eq_Nil_conv)
  from hd_dropWhile[OF ne] have "hd (dropWhile (\<lambda>c. c \<noteq> sep) s) = sep" by simp
  with list.collapse[OF ne] a have d: "dropWhile (\<lambda>c. c \<noteq> sep) s = sep # a" by simp
  have "s = b @ dropWhile (\<lambda>c. c \<noteq> sep) s" unfolding b by (rule takeWhile_dropWhile_id [symmetric])
  then have "s = b @ sep # a" unfolding d .
  moreover have "sep \<notin> set b" using b by (auto dest: set_takeWhileD)
  ultimately show "s = b @ sep # a \<and> sep \<notin> set b" by simp
qed simp

lemma Cut_found: "snd (snd (Cut s sep)) \<longleftrightarrow> sep \<in> set s"
  by (simp add: Cut_eq)

lemma length_ToLower [simp]: "length (ToLower s) = length s"
  by (simp add: ToLower_def)

lemma ToLower_idem [simp]: "ToLower (ToLower s) = ToLower s"
  by (simp add: ToLower_def)

lemma TrimRightFunc_append: "\<exists>t. s = TrimRightFunc p s @ t \<and> (\<forall>c \<in> set t. p c)"
proof -
  have "rev s = takeWhile p (rev s) @ dropWhile p (rev s)" by simp
  then have "s = rev (dropWhile p (rev s)) @ rev (takeWhile p (rev s))"
    by (metis rev_append rev_rev_ident)
  then show ?thesis
    unfolding TrimRightFunc_def by (metis set_rev set_takeWhileD)
qed

lemma TrimRightFunc_last: "TrimRightFunc p s \<noteq> [] \<Longrightarrow> \<not> p (last (TrimRightFunc p s))"
  by (simp add: TrimRightFunc_def last_rev hd_dropWhile)

lemma set_TrimRightFunc: "set (TrimRightFunc p s) \<subseteq> set s"
  by (auto simp: TrimRightFunc_def dest: set_dropWhileD)

lemma length_TrimRightFunc: "length (TrimRightFunc p s) \<le> length s"
  by (simp add: TrimRightFunc_def) (metis length_dropWhile_le length_rev)

lemma TrimRightFunc_hd: "TrimRightFunc p s \<noteq> [] \<Longrightarrow> hd (TrimRightFunc p s) = hd s"
  by (metis TrimRightFunc_append hd_append2)

lemma TrimSpace_idem [simp]: "TrimSpace (TrimSpace s) = TrimSpace s"
proof -
  let ?t = "TrimSpace s"
  have l: "dropWhile is_space ?t = ?t"
  proof (cases ?t)
    case (Cons c cs)
    then have "hd ?t = hd (dropWhile is_space s)"
      by (metis TrimSpace_def TrimRightFunc_hd list.discI)
    moreover have "dropWhile is_space s \<noteq> []"
      using Cons by (metis TrimSpace_def TrimRightFunc_def dropWhile.simps(1) list.discI rev.simps(1))
    ultimately have "\<not> is_space (hd ?t)" by (simp add: hd_dropWhile)
    then show ?thesis using Cons by simp
  qed simp
  have "TrimRightFunc is_space ?t = ?t"
  proof (cases "?t = []")
    case False
    then have "\<not> is_space (last ?t)" by (metis TrimRightFunc_last TrimSpace_def)
    then have "dropWhile is_space (rev ?t) = rev ?t"
      using False by (metis dropWhile_eq_self_iff hd_rev)
    then show ?thesis by (simp add: TrimRightFunc_def)
  qed (simp add: TrimRightFunc_def)
  then show ?thesis using l by (simp add: TrimSpace_def[of ?t])
qed

lemma ReplaceAll_single:
  "ReplaceAll s [a] t = concat (map (\<lambda>c. if c = a then t else [c]) s)"
  by (induction s) (auto simp: HasPrefix_def)

lemma set_ReplaceAll: "set (ReplaceAll s old new) \<subseteq> set s \<union> set new"
proof (induction s old new rule: ReplaceAll.induct)
  case (2 c cs old new)
  then show ?case using set_drop_subset[of "length old - 1" cs] by auto
qed simp

lemma length_ReplaceAll_le:
  "length new \<le> length old \<Longrightarrow> length (ReplaceAll s old new) \<le> length s"
proof (induction s old new rule: ReplaceAll.induct)
  case (2 c cs old new)
  show ?case
  proof (cases "old \<noteq> [] \<and> HasPrefix (c # cs) old")
    case True
    then have "length old \<le> length (c # cs)"
      by (metis HasPrefix_iff length_append le_add1)
    moreover have "length (ReplaceAll (drop (length old - 1) cs) old new) \<le> length (drop (length old - 1) cs)"
      using 2 True by blast
    ultimately show ?thesis using True 2(3) by (cases old) auto
  next
    case False
    then show ?thesis using 2 by auto
  qed
qed simp

text \<open>Printing and parsing of decimal numbers.\<close>

lemma code_digit: "n < 10 \<Longrightarrow> code (char_of (48 + n)) = 48 + n"
  by (simp add: code_char_of)

lemma show_nat_digits: "list_all is_digit (show_nat n) \<and> show_nat n \<noteq> []"
proof (induction n rule: show_nat.induct)
  case (1 n)
  have "code (char_of (48 + n mod 10)) = 48 + n mod 10" by (rule code_digit) simp
  then show ?case using 1 code_digit[of n]
    by (auto simp: is_digit_def show_nat.simps[of n])
qed

lemma digits_val_snoc: "digits_val (s @ [c]) = 10 * digits_val s + digit_val c"
  by (simp add: digits_val_def)

lemma digits_val_show_nat: "digits_val (show_nat n) = int n"
proof (induction n rule: show_nat.induct)
  case (1 n)
  show ?case
  proof (cases "n < 10")
    case True
    then show ?thesis
      by (subst show_nat.simps) (simp add: digits_val_def digit_val_def code_digit)
  next
    case False
    have c: "code (char_of (48 + n mod 10)) = 48 + n mod 10" by (rule code_digit) simp
    from False show ?thesis
      by (subst show_nat.simps)
        (simp add: 1 digits_val_snoc digit_val_def c zdiv_int zmod_int)
  qed
qed

lemma parse_digits_show_nat: "parse_digits (show_nat n) = Some (int n)"
  using show_nat_digits[of n] by (simp add: parse_digits_def digits_val_show_nat)

lemma hd_show_nat: "is_digit (hd (show_nat n))"
  using show_nat_digits[of n] by (cases "show_nat n") auto

lemma sign_not_digit: "\<not> is_digit (CHR ''-'')" "\<not> is_digit (CHR ''+'')"
  by (simp_all add: is_digit_def code_def)

lemma ParseInt_show_int:
  assumes "- (2 ^ (bits - 1)) \<le> i" "i < 2 ^ (bits - 1)"
  shows "ParseInt bits (show_int i) = Some i"
proof (cases "i < 0")
  case True
  then show ?thesis using assms
    by (simp add: show_int_def ParseInt_def parse_digits_show_nat)
next
  case False
  have "hd (show_nat (nat i)) \<noteq> CHR ''-''" "hd (show_nat (nat i)) \<noteq> CHR ''+''"
    using hd_show_nat[of "nat i"] sign_not_digit by metis+
  then show ?thesis using False assms
    by (simp add: show_int_def ParseInt_def parse_digits_show_nat)
qed

lemma Atoi_show_int: "- (2 ^ 63) \<le> i \<Longrightarrow> i < 2 ^ 63 \<Longrightarrow> Atoi (show_int i) = Some i"
  using ParseInt_show_int[of 64 i] by (simp add: Atoi_def)

lemma digits_val_nonneg: "list_all is_digit s \<Longrightarrow> 0 \<le> digits_val s"
  by (induction s rule: rev_induct)
    (auto simp: digits_val_snoc digit_val_def is_digit_def, simp add: digits_val_def)

lemma digits_val_bound: "list_all is_digit s \<Longrightarrow> digits_val s < 10 ^ length s"
proof (induction s rule: rev_induct)
  case (snoc c s)
  then show ?case by (auto simp: digits_val_snoc digit_val_def is_digit_def)
qed (simp add: digits_val_def)

lemma ParseInt_bounds:
  assumes "ParseInt bits s = Some i"
  shows "- (2 ^ (bits - 1)) \<le> i \<and> i < 2 ^ (bits - 1)"
proof -
  let ?b = "if s \<noteq> [] \<and> (hd s = CHR ''-'' \<or> hd s = CHR ''+'') then tl s else s"
  from assms obtain n where n: "parse_digits ?b = Some n"
    and i: "(if s \<noteq> [] \<and> hd s = CHR ''-'' then (if n \<le> 2 ^ (bits - 1) then Some (- n) else None)
             else if n < 2 ^ (bits - 1) then Some n else None) = Some i"
    by (auto simp: ParseInt_def Let_def split: option.splits)
  from n have "0 \<le> n" using digits_val_nonneg by (auto simp: parse_digits_def split: if_splits)
  moreover have "(0::int) < 2 ^ (bits - 1)" by simp
  moreover from i have "i = - n \<and> n \<le> 2 ^ (bits - 1) \<or> i = n \<and> n < 2 ^ (bits - 1)"
    by (auto simp del: One_nat_def split: if_splits)
  ultimately show ?thesis by linarith
qed

end
