(* ===== verification/ImagePolicy.thy ===== *)
theory ImagePolicy
  imports Strings
begin

text \<open>
  \<open>internal/policy/image/resolver.go\<close>: authorisation and mirror rewriting of image names. The
  reference parser (\<open>github.com/distribution/reference\<close>) is a parameter; the JSON decoder is
  given by what it returns: the decoded policy and what follows it in the stream.
\<close>

section \<open>Definitions\<close>

record 'n reference_lib =
  ParseNormalizedNamed :: "string \<Rightarrow> 'n result"
  TagNameOnly :: "'n \<Rightarrow> 'n"
  NamedString :: "'n \<Rightarrow> string"

definition policyVersion :: string where "policyVersion = ''v1''"

record rule =
  Source :: string
  Target :: string

record policy =
  Version :: string
  DefaultAction :: string
  Rules :: "rule list"

record resolver =
  enabled :: bool
  allowUnmatched :: bool
  rules :: "(string, string) gomap"

datatype json_next = AtEOF | AnotherValue | BadJSON error

record json_stream =
  js_policy :: "policy result"   \<comment> \<open>\<open>dec.Decode(&policy)\<close> with unknown fields disallowed\<close>
  js_next :: json_next           \<comment> \<open>the second \<open>dec.Decode\<close>\<close>

definition Passthrough :: resolver where
  "Passthrough = \<lparr>enabled = False, allowUnmatched = False, rules = []\<rparr>"

definition Normalize :: "'n reference_lib \<Rightarrow> string \<Rightarrow> string result" where
  "Normalize L raw0 =
     (let raw = TrimSpace raw0
      in if raw = [] then Inl (Errorf ''image reference is empty'' [])
         else case ParseNormalizedNamed L raw of
                Inl e \<Rightarrow> Inl (Wrapf ''invalid image reference %q: %w'' [raw] e)
              | Inr named \<Rightarrow> Inr (NamedString L (TagNameOnly L named)))"

definition ensureEOF :: "json_next \<Rightarrow> unit result" where
  "ensureEOF nxt = (case nxt of
      AtEOF \<Rightarrow> Inr ()
    | AnotherValue \<Rightarrow> Inl (Errorf ''decode image policy: multiple JSON values'' [])
    | BadJSON e \<Rightarrow> Inl (Wrapf ''decode image policy: %w'' [] e))"

definition rule_target :: "'n reference_lib \<Rightarrow> rule \<Rightarrow> string \<Rightarrow> string result" where
  "rule_target L r source =
     (if TrimSpace (Target r) \<noteq> [] then Normalize L (Target r) else Inr source)"

fun rules_loop ::
  "'n reference_lib \<Rightarrow> nat \<Rightarrow> rule list \<Rightarrow> (string, string) gomap \<Rightarrow> (string, string) gomap result" where
  "rules_loop L i [] acc = Inr acc"
| "rules_loop L i (r # rs) acc =
     (case Normalize L (Source r) of
        Inl e \<Rightarrow> Inl (Wrapf ''image policy rule %d source: %w'' [show_int (int i)] e)
      | Inr source \<Rightarrow>
          if has_key acc source
          then Inl (Errorf ''image policy rule %d duplicates normalized source %q'' [show_int (int i), source])
          else case rule_target L r source of
                 Inl e \<Rightarrow> Inl (Wrapf ''image policy rule %d target: %w'' [show_int (int i)] e)
               | Inr target \<Rightarrow> rules_loop L (Suc i) rs (map_set source target acc))"

definition Decode :: "'n reference_lib \<Rightarrow> json_stream \<Rightarrow> resolver result" where
  "Decode L r =
     (case js_policy r of
        Inl e \<Rightarrow> Inl (Wrapf ''decode image policy: %w'' [] e)
      | Inr pol \<Rightarrow>
          bind_res (ensureEOF (js_next r)) (\<lambda>_.
            if Version pol \<noteq> policyVersion
            then Inl (Errorf ''unsupported image policy version %q (expected %q)'' [Version pol, policyVersion])
            else
              (let action = ToLower (TrimSpace (DefaultAction pol))
               in if action \<noteq> ''allow'' \<and> action \<noteq> ''deny''
                  then Inl (Errorf ''invalid image policy defaultAction %q (expected allow or deny)'' [DefaultAction pol])
                  else bind_res (rules_loop L 0 (Rules pol) []) (\<lambda>rs.
                       Inr \<lparr>enabled = True, allowUnmatched = (action = ''allow''), rules = rs\<rparr>))))"

text \<open>\<open>open_file\<close> stands for \<open>os.Open\<close> and reading the file through the decoder.\<close>

definition LoadFile ::
  "'n reference_lib \<Rightarrow> (string \<Rightarrow> json_stream result) \<Rightarrow> string \<Rightarrow> resolver result" where
  "LoadFile L open_file path =
     (if TrimSpace path = [] then Inr Passthrough
      else case open_file path of
             Inl e \<Rightarrow> Inl (Wrapf ''open image policy %q: %w'' [path] e)
           | Inr f \<Rightarrow> Decode L f)"

definition Resolve :: "'n reference_lib \<Rightarrow> resolver \<Rightarrow> string \<Rightarrow> string result" where
  "Resolve L r requested =
     (if \<not> enabled r then
        (if TrimSpace requested = [] then Inl (Errorf ''image reference is empty'' []) else Inr requested)
      else
        bind_res (Normalize L requested) (\<lambda>normalized.
          case map_get (rules r) normalized of
            Some target \<Rightarrow> Inr target
          | None \<Rightarrow> if allowUnmatched r then Inr normalized else Inl (ImageDenied requested)))"

text \<open>A reference parser for the examples: names without a tag get \<open>:latest\<close>.\<close>

definition plain_lib :: "string reference_lib" where
  "plain_lib = \<lparr>ParseNormalizedNamed = Inr,
     TagNameOnly = (\<lambda>n. if CHR '':'' \<in> set n then n else n @ '':latest''), NamedString = (\<lambda>n. n)\<rparr>"

definition sample_stream :: json_stream where
  "sample_stream = \<lparr>js_policy = Inr \<lparr>Version = ''v1'', DefaultAction = '' Deny'',
     Rules = [\<lparr>Source = ''redis'', Target = ''mirror/redis:7''\<rparr>]\<rparr>, js_next = AtEOF\<rparr>"

section \<open>Building the rule table\<close>

lemma rules_loop_Cons:
  "rules_loop L i (r # rs) acc = Inr m \<longleftrightarrow>
   (\<exists>s t. Normalize L (Source r) = Inr s \<and> map_get acc s = None \<and> rule_target L r s = Inr t \<and>
      rules_loop L (Suc i) rs (map_set s t acc) = Inr m)"
  by (auto simp: has_key_def split: sum.splits)

lemma rules_loop_mono:
  "rules_loop L i rs acc = Inr m \<Longrightarrow> map_get acc s = Some t \<Longrightarrow> map_get m s = Some t"
proof (induction rs arbitrary: i acc)
  case (Cons r rs)
  then obtain s0 t0 where new: "map_get acc s0 = None"
    and rest: "rules_loop L (Suc i) rs (map_set s0 t0 acc) = Inr m" unfolding rules_loop_Cons by blast
  have "map_get (map_set s0 t0 acc) s = Some t" using new Cons.prems(2) by auto
  then show ?case by (rule Cons.IH[OF rest])
qed simp

lemma rules_loop_complete:
  "rules_loop L i rs acc = Inr m \<Longrightarrow> r \<in> set rs \<Longrightarrow>
   \<exists>s t. Normalize L (Source r) = Inr s \<and> rule_target L r s = Inr t \<and> map_get m s = Some t"
proof (induction rs arbitrary: i acc)
  case (Cons r0 rs)
  then obtain s0 t0 where n: "Normalize L (Source r0) = Inr s0" "rule_target L r0 s0 = Inr t0"
    and rest: "rules_loop L (Suc i) rs (map_set s0 t0 acc) = Inr m" unfolding rules_loop_Cons by blast
  have "map_get m s0 = Some t0" using rules_loop_mono[OF rest] by simp
  then show ?case using Cons.IH[OF rest] Cons.prems(2) n by (cases "r = r0") auto
qed simp

lemma rules_loop_sound:
  "rules_loop L i rs acc = Inr m \<Longrightarrow> map_get m s = Some t \<Longrightarrow>
   map_get acc s = Some t \<or> (\<exists>r \<in> set rs. Normalize L (Source r) = Inr s \<and> rule_target L r s = Inr t)"
proof (induction rs arbitrary: i acc)
  case (Cons r rs)
  then obtain s0 t0 where n: "Normalize L (Source r) = Inr s0" "rule_target L r s0 = Inr t0"
    and rest: "rules_loop L (Suc i) rs (map_set s0 t0 acc) = Inr m" unfolding rules_loop_Cons by blast
  show ?case using Cons.IH[OF rest Cons.prems(2)] n by (auto split: if_splits)
qed simp

lemma rules_loop_distinct:
  "rules_loop L i rs acc = Inr m \<Longrightarrow>
   distinct (map (\<lambda>ru. Normalize L (Source ru)) rs) \<and>
   (\<forall>ru \<in> set rs. \<forall>s. Normalize L (Source ru) = Inr s \<longrightarrow> map_get acc s = None)"
proof (induction rs arbitrary: i acc)
  case (Cons r rs)
  then obtain s0 t0 where n: "Normalize L (Source r) = Inr s0" and new: "map_get acc s0 = None"
    and rest: "rules_loop L (Suc i) rs (map_set s0 t0 acc) = Inr m" unfolding rules_loop_Cons by blast
  note IH = Cons.IH[OF rest]
  have "Normalize L (Source ru) \<noteq> Inr s0" if "ru \<in> set rs" for ru using IH that by auto
  then have fresh: "Normalize L (Source r) \<notin> (\<lambda>ru. Normalize L (Source ru)) ` set rs"
    unfolding n by (metis (no_types, lifting) imageE)
  have old: "map_get acc s = None" if "ru \<in> set rs" "Normalize L (Source ru) = Inr s" for ru s
    using IH that by (metis map_get_set option.distinct(1))
  show ?case
  proof
    show "distinct (map (\<lambda>ru. Normalize L (Source ru)) (r # rs))" using IH fresh by simp
    show "\<forall>ru\<in>set (r # rs). \<forall>s. Normalize L (Source ru) = Inr s \<longrightarrow> map_get acc s = None"
      using old n new by (metis set_ConsD sum.inject(2))
  qed
qed simp

lemma Decode_Inr:
  assumes "Decode L f = Inr r"
  obtains pol where "js_policy f = Inr pol" "js_next f = AtEOF" "Version pol = ''v1''"
    "allowUnmatched r = (ToLower (TrimSpace (DefaultAction pol)) = ''allow'')"
    "ToLower (TrimSpace (DefaultAction pol)) \<in> {''allow'', ''deny''}"
    "enabled r" "rules_loop L 0 (Rules pol) [] = Inr (rules r)"
  using assms
  by (auto simp: Decode_def bind_res_Inr ensureEOF_def policyVersion_def Let_def
      split: sum.splits if_splits json_next.splits)

text \<open>
  (C15) With a decoded policy whose default action is not \<open>allow\<close>, authorisation is exact: a
  request resolves to an image exactly when some rule's source normalises to the same
  reference, and then to that rule's target (its own source when no target is given).
\<close>

theorem Resolve_exact:
  assumes "Decode L f = Inr r" "js_policy f = Inr pol"
    and "ToLower (TrimSpace (DefaultAction pol)) \<noteq> ''allow''"
  shows "Resolve L r requested = Inr img \<longleftrightarrow>
    (\<exists>ru \<in> set (Rules pol). \<exists>s. Normalize L requested = Inr s \<and> Normalize L (Source ru) = Inr s \<and>
       rule_target L ru s = Inr img)"
proof -
  from assms(1) obtain en: "enabled r" and al: "\<not> allowUnmatched r"
    and lp: "rules_loop L 0 (Rules pol) [] = Inr (rules r)"
    by (rule Decode_Inr) (use assms(2,3) in auto)
  have sound: "map_get (rules r) s = Some t \<Longrightarrow>
      \<exists>ru \<in> set (Rules pol). Normalize L (Source ru) = Inr s \<and> rule_target L ru s = Inr t" for s t
    using rules_loop_sound[OF lp, of s t] by simp
  have complete: "map_get (rules r) s = Some t"
    if "ru \<in> set (Rules pol)" "Normalize L (Source ru) = Inr s" "rule_target L ru s = Inr t" for ru s t
    using rules_loop_complete[OF lp that(1)] that by simp
  show ?thesis
  proof (cases "Normalize L requested")
    case (Inr s)
    have "Resolve L r requested = Inr img \<longleftrightarrow> map_get (rules r) s = Some img"
      using en al Inr by (simp add: Resolve_def split: option.splits)
    then show ?thesis using Inr sound[of s img] complete[of _ s img] by auto
  qed (use en in \<open>simp add: Resolve_def\<close>)
qed

theorem Resolve_exact_witness:
  "\<exists>r. Decode plain_lib sample_stream = Inr r \<and> Resolve plain_lib r '' redis:latest'' = Inr ''mirror/redis:7''"
proof -
  have d: "Decode plain_lib sample_stream =
      Inr \<lparr>enabled = True, allowUnmatched = False, rules = [(''redis:latest'', ''mirror/redis:7'')]\<rparr>"
    by code_simp
  have "Normalize plain_lib '' redis:latest'' = Inr ''redis:latest''"
    and "Normalize plain_lib ''redis'' = Inr ''redis:latest''"
    and "rule_target plain_lib \<lparr>Source = ''redis'', Target = ''mirror/redis:7''\<rparr> ''redis:latest'' = Inr ''mirror/redis:7''"
    and "ToLower (TrimSpace '' Deny'') \<noteq> ''allow''"
    by code_simp+
  with Resolve_exact[OF d, of _ "'' redis:latest''" "''mirror/redis:7''"] d show ?thesis
    by (auto simp: sample_stream_def)
qed

text \<open>
  (C16) A configured policy fails closed: for a non-blank path, loading either returns an
  enabled resolver built from a complete, version-v1 document with a valid default action and
  pairwise different normalised sources, or it is an error; the unrestricted resolver is
  returned for a blank path only.
\<close>

theorem LoadFile_fails_closed:
  assumes "TrimSpace path \<noteq> []"
  shows "(\<exists>e. LoadFile L open_file path = Inl e) \<or>
    (\<exists>f pol r. open_file path = Inr f \<and> js_policy f = Inr pol \<and> js_next f = AtEOF \<and> Version pol = ''v1'' \<and>
       ToLower (TrimSpace (DefaultAction pol)) \<in> {''allow'', ''deny''} \<and>
       distinct (map (\<lambda>ru. Normalize L (Source ru)) (Rules pol)) \<and>
       LoadFile L open_file path = Inr r \<and> enabled r)"
proof (cases "LoadFile L open_file path")
  case (Inr r)
  then obtain f where f: "open_file path = Inr f" and d: "Decode L f = Inr r"
    using assms by (auto simp: LoadFile_def split: sum.splits)
  from d obtain pol where pol: "js_policy f = Inr pol" "js_next f = AtEOF" "Version pol = ''v1''"
    "ToLower (TrimSpace (DefaultAction pol)) \<in> {''allow'', ''deny''}" "enabled r"
    and lp: "rules_loop L 0 (Rules pol) [] = Inr (rules r)" by (rule Decode_Inr)
  from rules_loop_distinct[OF lp]
  have "distinct (map (\<lambda>ru. Normalize L (Source ru)) (Rules pol))" by blast
  then show ?thesis using f pol Inr by blast
qed simp

theorem LoadFile_fails_closed_witness:
  "\<exists>r. LoadFile plain_lib (\<lambda>_. Inr sample_stream) ''/policy.json'' = Inr r \<and> enabled r"
proof -
  have "TrimSpace ''/policy.json'' \<noteq> []" by code_simp
  moreover have "LoadFile plain_lib (\<lambda>_. Inr sample_stream) ''/policy.json'' =
      Inr \<lparr>enabled = True, allowUnmatched = False, rules = [(''redis:latest'', ''mirror/redis:7'')]\<rparr>"
    by code_simp
  ultimately show ?thesis
    using LoadFile_fails_closed[of "''/policy.json''" plain_lib "\<lambda>_. Inr sample_stream"] by auto
qed

section \<open>The resolver interface\<close>

text \<open>
  \<open>Resolver\<close> as its clients see it: resolution never accepts a blank name, and a policy denial
  names the image that was asked for.
\<close>

locale image_resolver =
  fixes resolve :: "'r \<Rightarrow> string \<Rightarrow> string result"
  assumes resolve_blank: "TrimSpace requested = [] \<Longrightarrow> \<exists>e. resolve r requested = Inl e \<and> err_root e = e"
    and resolve_denied: "resolve r requested = Inl (ImageDenied i) \<Longrightarrow> i = requested"
begin

lemma resolved_not_blank: "resolve r requested = Inr img \<Longrightarrow> TrimSpace requested \<noteq> []"
  using resolve_blank[of requested r] by auto

end

interpretation policy_resolver: image_resolver "Resolve L" for L :: "'n reference_lib"
proof
  fix r requested i
  show "TrimSpace requested = [] \<Longrightarrow> \<exists>e. Resolve L r requested = Inl e \<and> err_root e = e"
    by (simp add: Resolve_def Normalize_def)
  show "Resolve L r requested = Inl (ImageDenied i) \<Longrightarrow> i = requested"
    by (auto simp: Resolve_def Normalize_def bind_res_Inl Let_def split: if_splits sum.splits option.splits)
qed

end
