(* ===== verification/OidcKeys.thy ===== *)
theory OidcKeys
  imports ImagePolicy
begin

text \<open>
  \<open>internal/auth/oidc.go\<close>, first part: the configuration of the trusted issuer and the keys of
  its JWKS document.

  \<open>url.Parse\<close> and the Kubernetes label validator are arguments. Base64 decoding, big-endian
  integers and the NIST curves are those of Go's standard library: the curve equation is
  written out with the published parameters.
\<close>

section \<open>Configuration\<close>

definition defaultHTTPTimeout :: duration where "defaultHTTPTimeout = 10 * second"
definition defaultRefreshInterval :: duration where "defaultRefreshInterval = 15 * minute"
definition unknownKeyRefreshDelay :: duration where "unknownKeyRefreshDelay = 30 * second"
definition defaultClockSkew :: duration where "defaultClockSkew = 30 * second"
definition maxTokenBytes :: nat where "maxTokenBytes = 16 * 2 ^ 10"
definition maxDiscoveryBytes :: int where "maxDiscoveryBytes = 2 ^ 20"
definition maxJWKSBytes :: int where "maxJWKSBytes = 2 * 2 ^ 20"

definition validMethods :: "string list" where
  "validMethods = [''RS256'', ''ES256'', ''ES384'', ''ES512'']"

record config =
  cf_Required :: bool
  cf_Issuer :: string
  cf_DiscoveryURL :: string
  cf_Audience :: string
  cf_AllowedSubjects :: "string list"
  cf_AllowedNamespaces :: "string list"
  cf_CAFile :: string
  cf_HTTPTimeout :: duration
  cf_RefreshInterval :: duration
  cf_ClockSkew :: duration

record url =
  u_Scheme :: string
  u_Host :: string
  u_HasUser :: bool
  u_RawQuery :: string
  u_Fragment :: string

definition https_url :: "url \<Rightarrow> bool" where
  "https_url u = (u_Scheme u = ''https'' \<and> u_Host u \<noteq> [] \<and> \<not> u_HasUser u \<and> u_RawQuery u = [] \<and> u_Fragment u = [])"

definition validateHTTPSURL :: "(string \<Rightarrow> url result) \<Rightarrow> string \<Rightarrow> string \<Rightarrow> error option" where
  "validateHTTPSURL url_Parse name raw = (case url_Parse raw of
     Inl e \<Rightarrow> Some (Wrapf ''parse %s: %w'' [name] e)
   | Inr u \<Rightarrow> if u_Scheme u \<noteq> ''https'' \<or> u_Host u = [] \<or> u_HasUser u \<or> u_RawQuery u \<noteq> [] \<or> u_Fragment u \<noteq> []
              then Some (Errorf ''%s must be an absolute HTTPS URL without credentials, query or fragment'' [name])
              else None)"

fun exact_loop :: "string \<Rightarrow> string list \<Rightarrow> string list \<Rightarrow> string list result" where
  "exact_loop name [] seen = Inr seen"
| "exact_loop name (raw # rest) seen =
     (let v = TrimSpace raw
      in if v = [] then Inl (Errorf ''%s cannot contain an empty value'' [name])
         else exact_loop name rest (if v \<in> set seen then seen else seen @ [v]))"

definition normalizeExactValues :: "string \<Rightarrow> string list \<Rightarrow> string list result" where
  "normalizeExactValues name vals = bind_res (exact_loop name vals []) (\<lambda>r. Inr (sort r))"

fun namespaces_problem :: "(string \<Rightarrow> string list) \<Rightarrow> string list \<Rightarrow> error option" where
  "namespaces_problem IsDNS1123Label [] = None"
| "namespaces_problem IsDNS1123Label (n # ns) =
     (if IsDNS1123Label n \<noteq> []
      then Some (Errorf ''invalid OIDC allowed namespace %q: %s'' [n, Join (IsDNS1123Label n) '', ''])
      else namespaces_problem IsDNS1123Label ns)"

definition trim_config :: "config \<Rightarrow> config" where
  "trim_config c = c\<lparr>cf_Issuer := TrimSpace (cf_Issuer c),
     cf_DiscoveryURL := TrimRight (TrimSpace (cf_DiscoveryURL c)) (CHR ''/''),
     cf_Audience := TrimSpace (cf_Audience c), cf_CAFile := TrimSpace (cf_CAFile c)\<rparr>"

definition configured :: "config \<Rightarrow> bool" where
  "configured c = (cf_Issuer c \<noteq> [] \<or> cf_DiscoveryURL c \<noteq> [] \<or> cf_Audience c \<noteq> [] \<or>
     cf_AllowedSubjects c \<noteq> [] \<or> cf_AllowedNamespaces c \<noteq> [] \<or> cf_CAFile c \<noteq> [])"

definition default_durations :: "config \<Rightarrow> config" where
  "default_durations c = c\<lparr>
     cf_HTTPTimeout := (if cf_HTTPTimeout c \<le> 0 then defaultHTTPTimeout else cf_HTTPTimeout c),
     cf_RefreshInterval := (if cf_RefreshInterval c \<le> 0 then defaultRefreshInterval else cf_RefreshInterval c),
     cf_ClockSkew := (if cf_ClockSkew c \<le> 0 then defaultClockSkew else cf_ClockSkew c)\<rparr>"

definition default_discovery :: "config \<Rightarrow> config" where
  "default_discovery c =
     (if cf_DiscoveryURL c = [] then c\<lparr>cf_DiscoveryURL := TrimRight (cf_Issuer c) (CHR ''/'')\<rparr> else c)"

text \<open>\<open>normalizeConfig\<close>: \<open>Inr None\<close> is "disabled, no error", \<open>Inr (Some cfg)\<close> "enabled".\<close>

definition normalizeConfig ::
  "(string \<Rightarrow> url result) \<Rightarrow> (string \<Rightarrow> string list) \<Rightarrow> config \<Rightarrow> config option result" where
  "normalizeConfig url_Parse IsDNS1123Label cfg =
     (let c = trim_config cfg
      in if \<not> configured c \<and> \<not> cf_Required c then Inr None
         else if cf_Issuer c = [] then Inl (Errorf ''OIDC issuer is required'' [])
         else
           (let c1 = default_discovery c
            in if cf_Audience c1 = [] then Inl (Errorf ''OIDC audience is required'' [])
               else if cf_AllowedSubjects c1 = [] \<and> cf_AllowedNamespaces c1 = []
               then Inl (Errorf ''at least one exact OIDC subject or Kubernetes namespace is required'' [])
               else case validateHTTPSURL url_Parse ''OIDC issuer'' (cf_Issuer c1) of
                 Some e \<Rightarrow> Inl e
               | None \<Rightarrow> (case validateHTTPSURL url_Parse ''OIDC discovery URL'' (cf_DiscoveryURL c1) of
                   Some e \<Rightarrow> Inl e
                 | None \<Rightarrow>
                     bind_res (normalizeExactValues ''OIDC allowed subjects'' (cf_AllowedSubjects c1)) (\<lambda>subjects.
                       bind_res (normalizeExactValues ''OIDC allowed namespaces'' (cf_AllowedNamespaces c1)) (\<lambda>namespaces.
                         case namespaces_problem IsDNS1123Label namespaces of
                           Some e \<Rightarrow> Inl e
                         | None \<Rightarrow> Inr (Some (default_durations (c1\<lparr>cf_AllowedSubjects := subjects,
                                     cf_AllowedNamespaces := namespaces\<rparr>))))))))"

section \<open>Base64 and big integers\<close>

definition b64_val :: "char \<Rightarrow> nat option" where
  "b64_val c = (if is_upper c then Some (code c - 65)
     else if is_lower c then Some (code c - 71)
     else if is_digit c then Some (code c + 4)
     else if c = CHR ''-'' then Some 62
     else if c = CHR ''_'' then Some 63 else None)"

fun b64_groups :: "nat list \<Rightarrow> nat list option" where
  "b64_groups [] = Some []"
| "b64_groups [a] = None"
| "b64_groups [a, b] = Some [a * 4 + b div 16]"
| "b64_groups [a, b, c] = Some [a * 4 + b div 16, b mod 16 * 16 + c div 4]"
| "b64_groups (a # b # c # d # rest) =
     map_option ((@) [a * 4 + b div 16, b mod 16 * 16 + c div 4, c mod 4 * 64 + d]) (b64_groups rest)"

text \<open>\<open>base64.RawURLEncoding.DecodeString\<close>: no padding, line breaks are skipped.\<close>

definition b64_DecodeString :: "string \<Rightarrow> nat list option" where
  "b64_DecodeString s =
     (let vs = map b64_val (filter (\<lambda>c. code c \<noteq> 10 \<and> code c \<noteq> 13) s)
      in if None \<in> set vs then None else b64_groups (map the vs))"

definition SetBytes :: "nat list \<Rightarrow> nat" where
  "SetBytes bs = foldl (\<lambda>n b. 256 * n + b) 0 bs"

definition BitLen_less :: "nat \<Rightarrow> nat \<Rightarrow> bool" where
  "BitLen_less n k = (n < 2 ^ (k - 1))"

section \<open>Keys\<close>

datatype curve = P256 | P384 | P521

datatype public_key =
    RSAKey (rsa_N: nat) (rsa_E: nat)
  | ECKey (ec_Curve: curve) (ec_X: nat) (ec_Y: nat)

fun curve_name :: "curve \<Rightarrow> string" where
  "curve_name P256 = ''P-256''"
| "curve_name P384 = ''P-384''"
| "curve_name P521 = ''P-521''"

fun curve_p :: "curve \<Rightarrow> int" where
  "curve_p P256 = 2 ^ 256 - 2 ^ 224 + 2 ^ 192 + 2 ^ 96 - 1"
| "curve_p P384 = 2 ^ 384 - 2 ^ 128 - 2 ^ 96 + 2 ^ 32 - 1"
| "curve_p P521 = 2 ^ 521 - 1"

fun curve_b :: "curve \<Rightarrow> int" where
  "curve_b P256 = 0x5ac635d8aa3a93e7b3ebbd55769886bc651d06b0cc53b0f63bce3c3e27d2604b"
| "curve_b P384 = 0xb3312fa7e23ee7e4988e056be3f82d19181d9c6efe8141120314088f5013875ac656398d8a2ed19d2a85c8edd3ec2aef"
| "curve_b P521 = 0x0051953eb9618e1c9a1f929a21a0b68540eea2da725b99b315f3b8b489918ef109e156193951ec7e937b1652c0bd3bb1bf073573df883d2c34f1ef451fd46b503f00"

definition IsOnCurve :: "curve \<Rightarrow> nat \<Rightarrow> nat \<Rightarrow> bool" where
  "IsOnCurve c x y =
     (int x < curve_p c \<and> int y < curve_p c \<and>
      int y ^ 2 mod curve_p c = (int x ^ 3 - 3 * int x + curve_b c) mod curve_p c)"

record jwk =
  KeyID :: string
  KeyType :: string
  Use :: string
  Algorithm :: string
  jwk_N :: string
  jwk_E :: string
  Curve :: string
  jwk_X :: string
  jwk_Y :: string

record keyRecord =
  kr_key :: public_key
  kr_algorithm :: string

definition nonempty_bytes :: "string \<Rightarrow> string \<Rightarrow> nat list result" where
  "nonempty_bytes msg s = (case b64_DecodeString s of
     None \<Rightarrow> Inl (Errorf msg [])
   | Some bs \<Rightarrow> if length bs = 0 then Inl (Errorf msg []) else Inr bs)"

definition parseRSAPublicKey :: "string \<Rightarrow> string \<Rightarrow> public_key result" where
  "parseRSAPublicKey encodedN encodedE =
     bind_res (nonempty_bytes ''invalid RSA modulus'' encodedN) (\<lambda>nBytes.
       bind_res (nonempty_bytes ''invalid RSA exponent'' encodedE) (\<lambda>eBytes.
         let n = SetBytes nBytes; e = SetBytes eBytes
         in if BitLen_less n 2048 then Inl (Errorf ''RSA modulus must be at least 2048 bits'' [])
            else if \<not> e < 2 ^ 63 then Inl (Errorf ''RSA exponent is too large'' [])
            else if e < 3 \<or> e mod 2 = 0 then Inl (Errorf ''invalid RSA exponent'' [])
            else Inr (RSAKey n e)))"

definition parseECPublicKey :: "string \<Rightarrow> string \<Rightarrow> string \<Rightarrow> public_key result" where
  "parseECPublicKey curveName encodedX encodedY =
     bind_res (if curveName = ''P-256'' then Inr P256
               else if curveName = ''P-384'' then Inr P384
               else if curveName = ''P-521'' then Inr P521
               else Inl (Errorf ''unsupported EC curve %q'' [curveName])) (\<lambda>c.
       bind_res (nonempty_bytes ''invalid EC x coordinate'' encodedX) (\<lambda>xBytes.
         bind_res (nonempty_bytes ''invalid EC y coordinate'' encodedY) (\<lambda>yBytes.
           let x = SetBytes xBytes; y = SetBytes yBytes
           in if \<not> IsOnCurve c x y then Inl (Errorf ''EC point is not on the configured curve'' [])
              else Inr (ECKey c x y))))"

fun keyset_loop :: "jwk list \<Rightarrow> (string, keyRecord) gomap \<Rightarrow> (string, keyRecord) gomap result" where
  "keyset_loop [] keys = Inr keys"
| "keyset_loop (v # vs) keys =
     (if Use v \<noteq> [] \<and> Use v \<noteq> ''sig'' then keyset_loop vs keys
      else if KeyID v = [] then Inl (Errorf ''OIDC signing key has no key ID'' [])
      else if has_key keys (KeyID v) then Inl (Errorf ''OIDC JWKS contains duplicate key ID %q'' [KeyID v])
      else if KeyType v \<noteq> ''RSA'' \<and> KeyType v \<noteq> ''EC'' then keyset_loop vs keys
      else case (if KeyType v = ''RSA'' then parseRSAPublicKey (jwk_N v) (jwk_E v)
                 else parseECPublicKey (Curve v) (jwk_X v) (jwk_Y v)) of
             Inl e \<Rightarrow> Inl (Wrapf ''parse OIDC key %q: %w'' [KeyID v] e)
           | Inr key \<Rightarrow>
               if Algorithm v \<noteq> [] \<and> Algorithm v \<notin> set validMethods then keyset_loop vs keys
               else keyset_loop vs (map_set (KeyID v) \<lparr>kr_key = key, kr_algorithm = Algorithm v\<rparr> keys))"

definition parseKeySet :: "jwk list \<Rightarrow> (string, keyRecord) gomap result" where
  "parseKeySet ks =
     (if ks = [] then Inl (Errorf ''OIDC JWKS contains no keys'' [])
      else bind_res (keyset_loop ks []) (\<lambda>keys.
        if keys = [] then Inl (Errorf ''OIDC JWKS contains no supported signing keys'' []) else Inr keys))"

definition checkKeyAlgorithm :: "keyRecord \<Rightarrow> string \<Rightarrow> public_key result" where
  "checkKeyAlgorithm r tokenAlgorithm =
     (if kr_algorithm r \<noteq> [] \<and> kr_algorithm r \<noteq> tokenAlgorithm
      then Inl (Errorf ''OIDC key algorithm %q does not match token algorithm %q'' [kr_algorithm r, tokenAlgorithm])
      else case kr_key r of
             RSAKey n e \<Rightarrow>
               if tokenAlgorithm \<noteq> ''RS256'' then Inl (Errorf ''RSA key cannot verify %s'' [tokenAlgorithm])
               else Inr (RSAKey n e)
           | ECKey c x y \<Rightarrow>
               (let expected = map_str [(''P-256'', ''ES256''), (''P-384'', ''ES384''), (''P-521'', ''ES512'')] (curve_name c)
                in if expected = [] \<or> expected \<noteq> tokenAlgorithm
                   then Inl (Errorf ''EC key cannot verify %s'' [tokenAlgorithm])
                   else Inr (ECKey c x y)))"

section \<open>What a trustworthy key is\<close>

fun strong_key :: "public_key \<Rightarrow> bool" where
  "strong_key (RSAKey n e) = (2 ^ 2047 \<le> n \<and> 3 \<le> e \<and> odd e \<and> e < 2 ^ 63)"
| "strong_key (ECKey c x y) = IsOnCurve c x y"

fun key_method :: "public_key \<Rightarrow> string" where
  "key_method (RSAKey n e) = ''RS256''"
| "key_method (ECKey P256 x y) = ''ES256''"
| "key_method (ECKey P384 x y) = ''ES384''"
| "key_method (ECKey P521 x y) = ''ES512''"

definition trusted_record :: "jwk list \<Rightarrow> string \<Rightarrow> keyRecord \<Rightarrow> bool" where
  "trusted_record ks kid r =
     (kid \<noteq> [] \<and> strong_key (kr_key r) \<and> (kr_algorithm r = [] \<or> kr_algorithm r \<in> set validMethods) \<and>
      (\<exists>v \<in> set ks. KeyID v = kid \<and> Algorithm v = kr_algorithm r \<and> (Use v = [] \<or> Use v = ''sig'') \<and>
         (KeyType v = ''RSA'' \<and> parseRSAPublicKey (jwk_N v) (jwk_E v) = Inr (kr_key r) \<or>
          KeyType v = ''EC'' \<and> parseECPublicKey (Curve v) (jwk_X v) (jwk_Y v) = Inr (kr_key r))))"

text \<open>A configuration the verifier accepts: nothing is left open.\<close>

definition trimmed :: "string \<Rightarrow> bool" where
  "trimmed v = (v \<noteq> [] \<and> TrimSpace v = v)"

definition exact_values :: "string list \<Rightarrow> bool" where
  "exact_values vs = (sorted vs \<and> distinct vs \<and> list_all trimmed vs)"

definition secure_config :: "(string \<Rightarrow> url result) \<Rightarrow> (string \<Rightarrow> string list) \<Rightarrow> config \<Rightarrow> bool" where
  "secure_config url_Parse IsDNS1123Label c =
     (cf_Issuer c \<noteq> [] \<and> cf_Audience c \<noteq> [] \<and>
      (\<exists>u. url_Parse (cf_Issuer c) = Inr u \<and> https_url u) \<and>
      (\<exists>u. url_Parse (cf_DiscoveryURL c) = Inr u \<and> https_url u) \<and>
      (cf_AllowedSubjects c \<noteq> [] \<or> cf_AllowedNamespaces c \<noteq> []) \<and>
      exact_values (cf_AllowedSubjects c) \<and> exact_values (cf_AllowedNamespaces c) \<and>
      list_all (\<lambda>n. IsDNS1123Label n = []) (cf_AllowedNamespaces c) \<and>
      0 < cf_HTTPTimeout c \<and> 0 < cf_RefreshInterval c \<and> 0 < cf_ClockSkew c)"

definition sample_config :: config where
  "sample_config = \<lparr>cf_Required = True, cf_Issuer = '' https://issuer/'', cf_DiscoveryURL = [],
     cf_Audience = ''testtender'', cf_AllowedSubjects = [], cf_AllowedNamespaces = [''ci'', ''ci ''],
     cf_CAFile = [], cf_HTTPTimeout = 0, cf_RefreshInterval = 0, cf_ClockSkew = 0\<rparr>"

definition sample_normal :: config where
  "sample_normal = sample_config\<lparr>
     cf_Issuer := ''https://issuer/'', cf_DiscoveryURL := ''https://issuer'', cf_AllowedNamespaces := [''ci''],
     cf_HTTPTimeout := defaultHTTPTimeout, cf_RefreshInterval := defaultRefreshInterval,
     cf_ClockSkew := defaultClockSkew\<rparr>"

definition sample_url_Parse :: "string \<Rightarrow> url result" where
  "sample_url_Parse s = (if HasPrefix s ''https://''
     then Inr \<lparr>u_Scheme = ''https'', u_Host = drop 8 s, u_HasUser = False, u_RawQuery = [], u_Fragment = []\<rparr>
     else Inl (ExtError ''url.Parse''))"

definition sample_jwk :: jwk where
  "sample_jwk = \<lparr>KeyID = ''k1'', KeyType = ''EC'', Use = ''sig'', Algorithm = ''ES256'', jwk_N = [], jwk_E = [],
     Curve = ''P-256'', jwk_X = ''axfR8uEsQkf4vOblY6RA8ncDfYEt6zOg9KE5RdiYwpY'',
     jwk_Y = ''T-NC4v4af5uO5-tKfA-eFivOM1drMV7Oy7ZAaDe_UfU''\<rparr>"

definition sample_key :: keyRecord where
  "sample_key = \<lparr>kr_key = ECKey P256 0x6b17d1f2e12c4247f8bce6e563a440f277037d812deb33a0f4a13945d898c296
      0x4fe342e2fe1a7f9b8ee7eb4a7c0f9e162bce33576b315ececbb6406837bf51f5,
     kr_algorithm = ''ES256''\<rparr>"

section \<open>Key sets\<close>

lemma parseRSAPublicKey_strong: "parseRSAPublicKey n e = Inr k \<Longrightarrow> strong_key k"
  by (auto simp: parseRSAPublicKey_def bind_res_Inr BitLen_less_def Let_def even_iff_mod_2_eq_zero split: if_splits)

lemma parseECPublicKey_strong: "parseECPublicKey c x y = Inr k \<Longrightarrow> strong_key k"
  by (auto simp: parseECPublicKey_def bind_res_Inr Let_def split: if_splits)

lemma trusted_record_mono: "trusted_record ks kid r \<Longrightarrow> trusted_record (k # ks) kid r"
  by (auto simp: trusted_record_def)

lemma keyset_loop_sound:
  assumes "keyset_loop vs keys = Inr m" "map_get m kid = Some r"
  shows "map_get keys kid = Some r \<or> trusted_record vs kid r"
  using assms
proof (induction vs arbitrary: keys)
  case (Cons v vs)
  show ?case
  proof (cases "keyset_loop vs keys = Inr m")
    case True
    then show ?thesis using Cons.IH[OF True Cons.prems(2)] trusted_record_mono by blast
  next
    case False
    let ?k = "if KeyType v = ''RSA'' then parseRSAPublicKey (jwk_N v) (jwk_E v)
        else parseECPublicKey (Curve v) (jwk_X v) (jwk_Y v)"
    from Cons.prems(1) False obtain key where
      v: "Use v = [] \<or> Use v = ''sig''" "KeyID v \<noteq> []" "KeyType v = ''RSA'' \<or> KeyType v = ''EC''"
      "Algorithm v = [] \<or> Algorithm v \<in> set validMethods" and k: "?k = Inr key"
      and rest: "keyset_loop vs (map_set (KeyID v) \<lparr>kr_key = key, kr_algorithm = Algorithm v\<rparr> keys) = Inr m"
      by (auto split: if_splits sum.splits)
    have "strong_key key" using k parseRSAPublicKey_strong parseECPublicKey_strong by (auto split: if_splits)
    with v k have new: "trusted_record (v # vs) (KeyID v) \<lparr>kr_key = key, kr_algorithm = Algorithm v\<rparr>"
      by (auto simp: trusted_record_def split: if_splits)
    from Cons.IH[OF rest Cons.prems(2)] new show ?thesis
      by (auto split: if_splits intro: trusted_record_mono)
  qed
qed simp

lemma parseKeySet_trusted:
  assumes "parseKeySet ks = Inr keys"
  shows "keys \<noteq> []" and "map_get keys kid = Some r \<Longrightarrow> trusted_record ks kid r"
proof -
  from assms have "keyset_loop ks [] = Inr keys" "keys \<noteq> []"
    by (auto simp: parseKeySet_def bind_res_Inr split: if_splits)
  with keyset_loop_sound[of ks "[]" keys] show "keys \<noteq> []"
    and "map_get keys kid = Some r \<Longrightarrow> trusted_record ks kid r" by auto
qed

lemmas b64_eval = b64_DecodeString_def b64_val_def sample_jwk_def byte_class_defs code_def

lemma mod_eq_by_quotient: "(a :: int) = b + k * p \<Longrightarrow> a mod p = b mod p"
  by simp

lemma sample_key_on_curve: "IsOnCurve P256 (ec_X (kr_key sample_key)) (ec_Y (kr_key sample_key))"
proof -
  have "int (ec_Y (kr_key sample_key)) ^ 2 = int (ec_X (kr_key sample_key)) ^ 3 - 3 * int (ec_X (kr_key sample_key)) + curve_b P256 +
      - 0x12bdd1ad23dfc833dccf5f6141d6bb4a1f365dc1430b0e600b52dd851938d2d6933106a72efbf035fdaf43963b37fd5456e90c6581a8fb7a0d8a46a3629f0458 * curve_p P256"
    by (simp add: sample_key_def)
  then show ?thesis unfolding IsOnCurve_def
    by (intro conjI mod_eq_by_quotient) (simp add: sample_key_def, simp add: sample_key_def, assumption)
qed

lemma sample_keyset: "parseKeySet [sample_jwk] = Inr [(''k1'', sample_key)]"
proof -
  have x: "b64_DecodeString (jwk_X sample_jwk) = Some [107, 23, 209, 242, 225, 44, 66, 71, 248, 188, 230, 229, 99, 164, 64, 242, 119, 3, 125, 129, 45, 235, 51, 160, 244, 161, 57, 69, 216, 152, 194, 150]" by (simp add: b64_eval)
  have y: "b64_DecodeString (jwk_Y sample_jwk) = Some [79, 227, 66, 226, 254, 26, 127, 155, 142, 231, 235, 74, 124, 15, 158, 22, 43, 206, 51, 87, 107, 49, 94, 206, 203, 182, 64, 104, 55, 191, 81, 245]" by (simp add: b64_eval)
  have "parseECPublicKey ''P-256'' (jwk_X sample_jwk) (jwk_Y sample_jwk) = Inr (kr_key sample_key)"
    unfolding parseECPublicKey_def nonempty_bytes_def x y
    using sample_key_on_curve by (simp add: SetBytes_def sample_key_def)
  then show ?thesis
    by (simp add: parseKeySet_def sample_jwk_def has_key_def validMethods_def sample_key_def)
qed

text \<open>
  Only strong, distinct signing keys are trusted: every key of an accepted JWKS document
  stems from an entry of the document meant for signing, has a non-empty key ID, an RSA modulus of
  at least 2048 bits with an odd exponent of at least 3, or a point on its curve, and declares no
  algorithm or one of the four accepted; and the set is never empty.
\<close>

theorem parseKeySet_sound:
  assumes "parseKeySet ks = Inr keys"
  shows "keys \<noteq> [] \<and> (\<forall>kid r. map_get keys kid = Some r \<longrightarrow> trusted_record ks kid r)"
  using parseKeySet_trusted[OF assms] by blast

theorem parseKeySet_sound_witness:
  "parseKeySet [sample_jwk] = Inr [(''k1'', sample_key)] \<and> trusted_record [sample_jwk] ''k1'' sample_key"
  using parseKeySet_sound[OF sample_keyset] sample_keyset by simp

lemma checkKeyAlgorithm_iff:
  "checkKeyAlgorithm r alg = Inr k \<longleftrightarrow>
   k = kr_key r \<and> alg = key_method (kr_key r) \<and> (kr_algorithm r = [] \<or> kr_algorithm r = alg)"
proof (cases "kr_key r")
  case (ECKey c x y)
  then show ?thesis by (cases c) (auto simp: checkKeyAlgorithm_def map_str_def)
qed (auto simp: checkKeyAlgorithm_def)

text \<open>
  No algorithm confusion: a key is handed to the signature check exactly when the token's
  algorithm is the one its key type and curve stand for and the key declares no other.
\<close>

theorem checkKeyAlgorithm_exact:
  "checkKeyAlgorithm r alg = Inr k \<longleftrightarrow>
   k = kr_key r \<and> alg = key_method (kr_key r) \<and> (kr_algorithm r = [] \<or> kr_algorithm r = alg)"
  by (rule checkKeyAlgorithm_iff)

section \<open>Configurations\<close>

lemma trimmed_TrimSpace: "TrimSpace v \<noteq> [] \<Longrightarrow> trimmed (TrimSpace v)"
  by (simp add: trimmed_def)

lemma exact_loop_spec:
  "exact_loop name vs seen = Inr r \<Longrightarrow> distinct seen \<Longrightarrow> list_all trimmed seen \<Longrightarrow>
   distinct r \<and> list_all trimmed r \<and> set r = set seen \<union> TrimSpace ` set vs"
proof (induction vs arbitrary: seen)
  case (Cons raw vs)
  let ?v = "TrimSpace raw"
  from Cons.prems(1) have ne: "?v \<noteq> []" by (auto simp: Let_def split: if_splits)
  show ?case
  proof (cases "?v \<in> set seen")
    case True
    then have "exact_loop name vs seen = Inr r" using Cons.prems(1) ne by simp
    from Cons.IH[OF this Cons.prems(2,3)] True show ?thesis by auto
  next
    case False
    then have "exact_loop name vs (seen @ [?v]) = Inr r" using Cons.prems(1) ne by simp
    from Cons.IH[OF this] Cons.prems(2,3) False trimmed_TrimSpace[OF ne] show ?thesis by simp
  qed
qed simp

lemma exact_loop_id:
  "distinct (seen @ vs) \<Longrightarrow> list_all trimmed vs \<Longrightarrow> exact_loop name vs seen = Inr (seen @ vs)"
  by (induction vs arbitrary: seen) (auto simp: Let_def trimmed_def)

lemma normalizeExactValues_exact:
  assumes "normalizeExactValues name vs = Inr r"
  shows "exact_values r \<and> set r = TrimSpace ` set vs"
proof -
  from assms obtain l where l: "exact_loop name vs [] = Inr l" and r: "r = sort l"
    by (auto simp: normalizeExactValues_def bind_res_Inr)
  from exact_loop_spec[OF l] have "distinct l" "list_all trimmed l" "set l = TrimSpace ` set vs" by simp_all
  then show ?thesis unfolding r exact_values_def by (simp add: list_all_iff)
qed

lemma normalizeExactValues_id: "exact_values r \<Longrightarrow> normalizeExactValues name r = Inr r"
  using exact_loop_id[of "[]" r name]
  by (auto simp: normalizeExactValues_def exact_values_def sorted_sort_id)

lemma validateHTTPSURL_None:
  "validateHTTPSURL U name raw = None \<longleftrightarrow> (\<exists>u. U raw = Inr u \<and> https_url u)"
  by (auto simp: validateHTTPSURL_def https_url_def split: sum.splits)

lemma namespaces_problem_None: "namespaces_problem D ns = None \<longleftrightarrow> list_all (\<lambda>n. D n = []) ns"
  by (induction ns) auto

lemma normalizeConfig_Some:
  assumes "normalizeConfig U D cfg = Inr (Some c)"
  defines "c1 \<equiv> default_discovery (trim_config cfg)"
  shows "\<exists>subjects namespaces.
    cf_Issuer c1 \<noteq> [] \<and> cf_Audience c1 \<noteq> [] \<and>
    (cf_AllowedSubjects c1 \<noteq> [] \<or> cf_AllowedNamespaces c1 \<noteq> []) \<and>
    validateHTTPSURL U ''OIDC issuer'' (cf_Issuer c1) = None \<and>
    validateHTTPSURL U ''OIDC discovery URL'' (cf_DiscoveryURL c1) = None \<and>
    exact_values subjects \<and> set subjects = TrimSpace ` set (cf_AllowedSubjects c1) \<and>
    exact_values namespaces \<and> set namespaces = TrimSpace ` set (cf_AllowedNamespaces c1) \<and>
    namespaces_problem D namespaces = None \<and>
    c = default_durations (c1\<lparr>cf_AllowedSubjects := subjects, cf_AllowedNamespaces := namespaces\<rparr>)"
proof -
  have iss: "cf_Issuer c1 = cf_Issuer (trim_config cfg)" by (simp add: c1_def default_discovery_def)
  from assms(1) have "cf_Issuer c1 \<noteq> []" "cf_Audience c1 \<noteq> []"
    "cf_AllowedSubjects c1 \<noteq> [] \<or> cf_AllowedNamespaces c1 \<noteq> []"
    "validateHTTPSURL U ''OIDC issuer'' (cf_Issuer c1) = None"
    "validateHTTPSURL U ''OIDC discovery URL'' (cf_DiscoveryURL c1) = None"
    unfolding normalizeConfig_def Let_def c1_def[symmetric] iss[symmetric]
    by (auto split: if_splits option.splits)
  moreover obtain subjects namespaces where
    "normalizeExactValues ''OIDC allowed subjects'' (cf_AllowedSubjects c1) = Inr subjects"
    "normalizeExactValues ''OIDC allowed namespaces'' (cf_AllowedNamespaces c1) = Inr namespaces"
    "namespaces_problem D namespaces = None"
    "c = default_durations (c1\<lparr>cf_AllowedSubjects := subjects, cf_AllowedNamespaces := namespaces\<rparr>)"
    using assms(1) unfolding normalizeConfig_def Let_def c1_def[symmetric] iss[symmetric]
    by (auto simp: bind_res_Inr split: if_splits option.splits)
  ultimately show ?thesis
    using normalizeExactValues_exact by (intro exI[of _ subjects] exI[of _ namespaces]) simp
qed

lemma default_durations_positive:
  "0 < cf_HTTPTimeout (default_durations c)" "0 < cf_RefreshInterval (default_durations c)"
  "0 < cf_ClockSkew (default_durations c)"
  by (simp_all add: default_durations_def defaultHTTPTimeout_def defaultRefreshInterval_def
      defaultClockSkew_def second_def minute_def)

lemma normalizeConfig_secure:
  assumes "normalizeConfig U D cfg = Inr (Some c)"
  shows "secure_config U D c"
    and "set (cf_AllowedSubjects c) = TrimSpace ` set (cf_AllowedSubjects cfg)"
    and "set (cf_AllowedNamespaces c) = TrimSpace ` set (cf_AllowedNamespaces cfg)"
proof -
  from normalizeConfig_Some[OF assms] obtain c1 subjects namespaces where *:
    "c1 = default_discovery (trim_config cfg)"
    "cf_Issuer c1 \<noteq> []" "cf_Audience c1 \<noteq> []" "cf_AllowedSubjects c1 \<noteq> [] \<or> cf_AllowedNamespaces c1 \<noteq> []"
    "\<exists>u. U (cf_Issuer c1) = Inr u \<and> https_url u" "\<exists>u. U (cf_DiscoveryURL c1) = Inr u \<and> https_url u"
    "exact_values subjects" "set subjects = TrimSpace ` set (cf_AllowedSubjects c1)"
    "exact_values namespaces" "set namespaces = TrimSpace ` set (cf_AllowedNamespaces c1)"
    "list_all (\<lambda>n. D n = []) namespaces"
    and c: "c = default_durations (c1\<lparr>cf_AllowedSubjects := subjects, cf_AllowedNamespaces := namespaces\<rparr>)"
    unfolding validateHTTPSURL_None namespaces_problem_None by blast
  have same: "cf_AllowedSubjects c1 = cf_AllowedSubjects cfg" "cf_AllowedNamespaces c1 = cf_AllowedNamespaces cfg"
    unfolding *(1) by (simp_all add: trim_config_def default_discovery_def)
  have f: "cf_Issuer c = cf_Issuer c1" "cf_Audience c = cf_Audience c1" "cf_DiscoveryURL c = cf_DiscoveryURL c1"
    "cf_AllowedSubjects c = subjects" "cf_AllowedNamespaces c = namespaces"
    unfolding c by (simp_all add: default_durations_def)
  have "subjects \<noteq> [] \<or> namespaces \<noteq> []" using *(4,8,10) by (metis image_is_empty set_empty)
  with * f show "secure_config U D c" unfolding secure_config_def
    using default_durations_positive c by simp
  show "set (cf_AllowedSubjects c) = TrimSpace ` set (cf_AllowedSubjects cfg)"
    "set (cf_AllowedNamespaces c) = TrimSpace ` set (cf_AllowedNamespaces cfg)"
    using f * same by simp_all
qed

lemma normalizeConfig_fields:
  assumes "normalizeConfig U D cfg = Inr (Some c)"
  shows "cf_Issuer c = TrimSpace (cf_Issuer cfg)" and "cf_Audience c = TrimSpace (cf_Audience cfg)"
  using normalizeConfig_Some[OF assms]
  by (auto simp: default_durations_def default_discovery_def trim_config_def)

lemma sample_config_normal:
  "normalizeConfig sample_url_Parse (\<lambda>n. []) sample_config = Inr (Some sample_normal)"
  by code_simp

text \<open>
  The authentication configuration fails closed: authentication is switched off exactly when
  it is not required and nothing of it is configured; otherwise the result is an error or a
  configuration with an HTTPS issuer and discovery URL, an audience, positive time limits and at
  least one exactly listed subject or namespace, which are the trimmed input values.
\<close>

theorem normalizeConfig_fails_closed:
  "(normalizeConfig U D cfg = Inr None \<longleftrightarrow> \<not> cf_Required cfg \<and> \<not> configured (trim_config cfg)) \<and>
   (\<forall>c. normalizeConfig U D cfg = Inr (Some c) \<longrightarrow> secure_config U D c \<and>
      set (cf_AllowedSubjects c) = TrimSpace ` set (cf_AllowedSubjects cfg) \<and>
      set (cf_AllowedNamespaces c) = TrimSpace ` set (cf_AllowedNamespaces cfg))"
proof
  have "cf_Required (trim_config cfg) = cf_Required cfg" by (simp add: trim_config_def)
  then show "normalizeConfig U D cfg = Inr None \<longleftrightarrow> \<not> cf_Required cfg \<and> \<not> configured (trim_config cfg)"
    by (auto simp: normalizeConfig_def Let_def bind_res_Inr configured_def split: if_splits option.splits)
qed (use normalizeConfig_secure in blast)

theorem normalizeConfig_fails_closed_witness:
  "\<exists>c. normalizeConfig sample_url_Parse (\<lambda>n. []) sample_config = Inr (Some c) \<and>
     secure_config sample_url_Parse (\<lambda>n. []) c \<and> set (cf_AllowedNamespaces c) = {''ci''}"
  using sample_config_normal normalizeConfig_fails_closed[of sample_url_Parse "\<lambda>n. []" sample_config]
  by (simp add: sample_normal_def)

lemma TrimRight_idem [simp]: "TrimRight (TrimRight s c) c = TrimRight s c"
  by (simp add: TrimRight_def TrimRightFunc_def dropWhile_idem)

text \<open>
  Normalising is idempotent, as \<open>New\<close> relies on when it normalises the configuration twice,
  whenever the discovery URL has no white space left at its end.
\<close>

theorem normalizeConfig_idempotent:
  assumes "normalizeConfig U D cfg = Inr (Some c)" "TrimSpace (cf_DiscoveryURL c) = cf_DiscoveryURL c"
  shows "normalizeConfig U D c = Inr (Some c)"
proof -
  from normalizeConfig_Some[OF assms(1)] obtain c1 subjects namespaces where *:
    "c1 = default_discovery (trim_config cfg)"
    "cf_Issuer c1 \<noteq> []" "cf_Audience c1 \<noteq> []" "cf_AllowedSubjects c1 \<noteq> [] \<or> cf_AllowedNamespaces c1 \<noteq> []"
    "validateHTTPSURL U ''OIDC issuer'' (cf_Issuer c1) = None"
    "validateHTTPSURL U ''OIDC discovery URL'' (cf_DiscoveryURL c1) = None"
    "exact_values subjects" "set subjects = TrimSpace ` set (cf_AllowedSubjects c1)"
    "exact_values namespaces" "set namespaces = TrimSpace ` set (cf_AllowedNamespaces c1)"
    "namespaces_problem D namespaces = None"
    and c: "c = default_durations (c1\<lparr>cf_AllowedSubjects := subjects, cf_AllowedNamespaces := namespaces\<rparr>)"
    by blast
  have f: "cf_Issuer c = cf_Issuer c1" "cf_Audience c = cf_Audience c1" "cf_DiscoveryURL c = cf_DiscoveryURL c1"
    "cf_AllowedSubjects c = subjects" "cf_AllowedNamespaces c = namespaces" "cf_CAFile c = cf_CAFile c1"
    unfolding c by (simp_all add: default_durations_def)
  have t1: "TrimSpace (cf_Issuer c1) = cf_Issuer c1" "TrimSpace (cf_Audience c1) = cf_Audience c1"
    "TrimSpace (cf_CAFile c1) = cf_CAFile c1" "TrimRight (cf_DiscoveryURL c1) (CHR ''/'') = cf_DiscoveryURL c1"
    unfolding *(1) by (simp_all add: trim_config_def default_discovery_def)
  have trim: "trim_config c = c" using t1 f assms(2) by (simp add: trim_config_def)
  have disc: "TrimRight (cf_Issuer c) (CHR ''/'') = []" if "cf_DiscoveryURL c = []"
    using that f(3) f(1) unfolding *(1) by (auto simp: default_discovery_def split: if_splits)
  have c1: "default_discovery c = c" using disc by (simp add: default_discovery_def)
  have "default_durations c = c" unfolding c by (simp add: default_durations_def defaultHTTPTimeout_def
      defaultRefreshInterval_def defaultClockSkew_def second_def minute_def)
  then have "default_durations (c\<lparr>cf_AllowedSubjects := cf_AllowedSubjects c, cf_AllowedNamespaces := cf_AllowedNamespaces c\<rparr>) = c"
    by simp
  then have "default_durations (c\<lparr>cf_AllowedSubjects := subjects, cf_AllowedNamespaces := namespaces\<rparr>) = c"
    by (simp only: f(4,5))
  moreover have "subjects \<noteq> [] \<or> namespaces \<noteq> []" using *(4,8,10) by (metis image_is_empty set_empty)
  moreover have "configured c" using f(1) *(2) by (simp add: configured_def)
  ultimately show ?thesis
    unfolding normalizeConfig_def trim Let_def c1
    using f * by (simp add: normalizeExactValues_id)
qed

theorem normalizeConfig_idempotent_witness:
  "\<exists>c. normalizeConfig sample_url_Parse (\<lambda>n. []) sample_config = Inr (Some c) \<and>
     normalizeConfig sample_url_Parse (\<lambda>n. []) c = Inr (Some c)"
proof -
  have "TrimSpace (cf_DiscoveryURL sample_normal) = cf_DiscoveryURL sample_normal" by code_simp
  from normalizeConfig_idempotent[OF sample_config_normal this] sample_config_normal show ?thesis by blast
qed

end
