(* ===== verification/Auth.thy ===== *)
theory Auth
  imports OidcKeys
begin

text \<open>
  \<open>internal/auth/oidc.go\<close>, second part (the verifier and its key cache), and
  \<open>internal/auth/middleware.go\<close>.

  The HTTP client, the clock and the JWT library are parameters. The \<open>n\<close>-th HTTP request and
  the \<open>n\<close>-th reading of the clock have their answers in the environment; the verifier counts
  both. The JWT library parses a token, asks for the key through the function it is given and
  checks signature and registered claims; what it promises is the locale \<open>jwt_library\<close>.
\<close>

section \<open>Data\<close>

record token =
  tk_kid :: "string option"    \<comment> \<open>\<open>token.Header["kid"].(string)\<close>\<close>
  tk_alg :: string

record claims =
  cl_Issuer :: string
  cl_Subject :: string
  cl_Audience :: "string list"
  cl_ExpiresAt :: "time option"
  cl_Namespace :: string
  cl_ServiceAccountName :: string
  cl_PodUID :: string

record identity =
  id_Issuer :: string
  id_Subject :: string
  id_KubernetesNamespace :: string
  id_KubernetesServiceAccount :: string
  id_KubernetesPodUID :: string

record discoveryDocument =
  dd_Issuer :: string
  dd_JWKSURI :: string

text \<open>A response: its status, and what decoding the body up to a byte limit yields.\<close>

record http_response =
  hr_StatusCode :: int
  hr_discovery :: "int \<Rightarrow> discoveryDocument result"
  hr_jwks :: "int \<Rightarrow> jwk list result"
  hr_next :: "int \<Rightarrow> json_next"

record environment =
  en_Do :: "nat \<Rightarrow> string \<Rightarrow> http_response result"
  en_clock :: "nat \<Rightarrow> time"
  en_url_Parse :: "string \<Rightarrow> url result"
  en_IsDNS1123Label :: "string \<Rightarrow> string list"

record verifier =
  vf_cfg :: config
  vf_allowedSubjects :: "string list"
  vf_allowedNamespaces :: "string list"
  vf_keys :: "(string, keyRecord) gomap"
  vf_lastRefresh :: time
  vf_requests :: nat
  vf_reads :: nat

record parse_options =
  po_ValidMethods :: "string list"
  po_Issuer :: string
  po_Audience :: string
  po_ExpirationRequired :: bool
  po_Leeway :: duration
  po_StrictDecoding :: bool

type_synonym keyfunc = "token \<Rightarrow> verifier \<Rightarrow> public_key result \<times> verifier"
type_synonym jwt_parser =
  "parse_options \<Rightarrow> string \<Rightarrow> keyfunc \<Rightarrow> verifier \<Rightarrow> (claims \<times> bool) result \<times> verifier"

section \<open>Fetching the keys\<close>

definition fetchJSON ::
  "environment \<Rightarrow> (http_response \<Rightarrow> int \<Rightarrow> 'a result) \<Rightarrow> string \<Rightarrow> int \<Rightarrow> verifier \<Rightarrow> 'a result \<times> verifier" where
  "fetchJSON en dec endpoint limit v =
     (case en_Do en (vf_requests v) endpoint of
        Inl e \<Rightarrow> Inl e
      | Inr resp \<Rightarrow>
          if hr_StatusCode resp \<noteq> 200 then Inl (Errorf ''endpoint returned HTTP %d'' [show_int (hr_StatusCode resp)])
          else case dec resp (limit + 1) of
                 Inl e \<Rightarrow> Inl e
               | Inr d \<Rightarrow> (case hr_next resp (limit + 1) of
                    AtEOF \<Rightarrow> Inr d
                  | AnotherValue \<Rightarrow> Inl (Errorf ''endpoint returned multiple JSON values'' [])
                  | BadJSON e \<Rightarrow> Inl e),
      v\<lparr>vf_requests := Suc (vf_requests v)\<rparr>)"

definition refreshLocked :: "environment \<Rightarrow> verifier \<Rightarrow> error option \<times> verifier" where
  "refreshLocked en v =
     (case fetchJSON en hr_discovery (cf_DiscoveryURL (vf_cfg v) @ ''/.well-known/openid-configuration'') maxDiscoveryBytes v of
        (Inl e, v1) \<Rightarrow> (Some (Wrapf ''fetch OIDC discovery: %w'' [] e), v1)
      | (Inr discovery, v1) \<Rightarrow>
          if dd_Issuer discovery \<noteq> cf_Issuer (vf_cfg v)
          then (Some (Errorf ''OIDC discovery issuer %q does not match configured issuer'' [dd_Issuer discovery]), v1)
          else case validateHTTPSURL (en_url_Parse en) ''OIDC JWKS URI'' (dd_JWKSURI discovery) of
                 Some e \<Rightarrow> (Some e, v1)
               | None \<Rightarrow>
                   (case fetchJSON en hr_jwks (dd_JWKSURI discovery) maxJWKSBytes v1 of
                      (Inl e, v2) \<Rightarrow> (Some (Wrapf ''fetch OIDC JWKS: %w'' [] e), v2)
                    | (Inr document, v2) \<Rightarrow>
                        (case parseKeySet document of
                           Inl e \<Rightarrow> (Some e, v2)
                         | Inr keys \<Rightarrow> (None, v2\<lparr>vf_keys := keys, vf_lastRefresh := en_clock en (vf_reads v2),
                                               vf_reads := Suc (vf_reads v2)\<rparr>))))"

definition refreshIfAllowed :: "environment \<Rightarrow> bool \<Rightarrow> verifier \<Rightarrow> error option \<times> verifier" where
  "refreshIfAllowed en unknownKey v =
     (let delay = (if unknownKey then unknownKeyRefreshDelay else cf_RefreshInterval (vf_cfg v))
      in if vf_lastRefresh v \<noteq> 0 then
           (let v1 = v\<lparr>vf_reads := Suc (vf_reads v)\<rparr>
            in if en_clock en (vf_reads v) - vf_lastRefresh v < delay then (None, v1) else refreshLocked en v1)
         else refreshLocked en v)"

definition key_lookup :: "string \<Rightarrow> string \<Rightarrow> verifier \<Rightarrow> public_key result" where
  "key_lookup kid alg v = (case map_get (vf_keys v) kid of
     None \<Rightarrow> Inl (Errorf ''OIDC key ID %q is not trusted'' [kid])
   | Some r \<Rightarrow> checkKeyAlgorithm r alg)"

definition keyForToken :: "environment \<Rightarrow> keyfunc" where
  "keyForToken en tok v =
     (case tk_kid tok of
        None \<Rightarrow> (Inl (Errorf ''bearer token has no key ID'' []), v)
      | Some raw \<Rightarrow>
          (let kid = TrimSpace raw
           in if kid = [] then (Inl (Errorf ''bearer token has no key ID'' []), v)
              else
                (let found = has_key (vf_keys v) kid;
                     v1 = (if found then v\<lparr>vf_reads := Suc (vf_reads v)\<rparr> else v)
                 in if found \<and> en_clock en (vf_reads v) - vf_lastRefresh v < cf_RefreshInterval (vf_cfg v)
                    then (key_lookup kid (tk_alg tok) v1, v1)
                    else case refreshIfAllowed en (\<not> found) v1 of
                           (Some e, v2) \<Rightarrow> (Inl e, v2)
                         | (None, v2) \<Rightarrow> (key_lookup kid (tk_alg tok) v2, v2))))"

section \<open>Verification\<close>

definition kubernetesServiceAccountIdentity :: "claims \<Rightarrow> (string \<times> string) result" where
  "kubernetesServiceAccountIdentity c =
     (if cl_Subject c = [] then Inl (Errorf ''bearer token subject is required'' [])
      else if \<not> HasPrefix (cl_Subject c) ''system:serviceaccount:''
      then Inl (Errorf ''bearer token subject is not a Kubernetes service account'' [])
      else
        (let parts = Split (TrimPrefix (cl_Subject c) ''system:serviceaccount:'') (CHR '':'')
         in if length parts \<noteq> 2 \<or> parts ! 0 = [] \<or> parts ! 1 = []
            then Inl (Errorf ''bearer token service-account subject is malformed'' [])
            else if cl_Namespace c \<noteq> parts ! 0 \<or> cl_ServiceAccountName c \<noteq> parts ! 1
            then Inl (Errorf ''bearer token Kubernetes claims do not match its subject'' [])
            else Inr (parts ! 0, parts ! 1)))"

definition verify_options :: "config \<Rightarrow> parse_options" where
  "verify_options cfg = \<lparr>po_ValidMethods = validMethods, po_Issuer = cf_Issuer cfg,
     po_Audience = cf_Audience cfg, po_ExpirationRequired = True, po_Leeway = cf_ClockSkew cfg, po_StrictDecoding = True\<rparr>"

definition authorise :: "verifier \<Rightarrow> claims \<Rightarrow> identity result" where
  "authorise v c = bind_res (kubernetesServiceAccountIdentity c) (\<lambda>(namespace, serviceAccount).
     if cl_Subject c \<notin> set (vf_allowedSubjects v) \<and> namespace \<notin> set (vf_allowedNamespaces v)
     then Inl (Errorf ''bearer token identity is not allowed'' [])
     else Inr \<lparr>id_Issuer = cl_Issuer c, id_Subject = cl_Subject c, id_KubernetesNamespace = namespace,
               id_KubernetesServiceAccount = serviceAccount, id_KubernetesPodUID = cl_PodUID c\<rparr>)"

definition Verify ::
  "environment \<Rightarrow> jwt_parser \<Rightarrow> verifier option \<Rightarrow> string \<Rightarrow> identity result \<times> verifier option" where
  "Verify en ParseWithClaims verif raw = (case verif of
     None \<Rightarrow> (Inl (Errorf ''OIDC verifier is disabled'' []), None)
   | Some v \<Rightarrow>
       if raw = [] \<or> length raw > maxTokenBytes then (Inl (Errorf ''invalid bearer token length'' []), Some v)
       else case ParseWithClaims (verify_options (vf_cfg v)) raw (keyForToken en) v of
              (Inl e, v1) \<Rightarrow> (Inl (Wrapf ''validate bearer token: %w'' [] e), Some v1)
            | (Inr (parsedClaims, valid), v1) \<Rightarrow>
                if \<not> valid then (Inl (Errorf ''bearer token is invalid'' []), Some v1)
                else (authorise v1 parsedClaims, Some v1))"

definition new_verifier :: "config \<Rightarrow> verifier" where
  "new_verifier normalized = \<lparr>vf_cfg = normalized, vf_allowedSubjects = cf_AllowedSubjects normalized,
     vf_allowedNamespaces = cf_AllowedNamespaces normalized, vf_keys = [], vf_lastRefresh = 0,
     vf_requests = 0, vf_reads = 0\<rparr>"

text \<open>The HTTP client is part of the environment, so \<open>client == nil\<close> does not arise.\<close>

definition newWithHTTPClient :: "environment \<Rightarrow> config \<Rightarrow> verifier option result" where
  "newWithHTTPClient en cfg =
     bind_res (normalizeConfig (en_url_Parse en) (en_IsDNS1123Label en) cfg) (\<lambda>n. case n of
       None \<Rightarrow> Inr None
     | Some normalized \<Rightarrow>
         (case refreshLocked en (new_verifier normalized) of
            (Some e, v) \<Rightarrow> Inl (Wrapf ''initialize OIDC keys: %w'' [] e)
          | (None, v) \<Rightarrow> Inr (Some v)))"

section \<open>Middleware\<close>

definition bearerToken :: "string list \<Rightarrow> string result" where
  "bearerToken vals =
     (if length vals \<noteq> 1 then Inl (ExtError ''http.ErrNoCookie'')
      else
        (let parts = Fields (vals ! 0)
         in if length parts \<noteq> 2 \<or> \<not> EqualFold (parts ! 0) ''Bearer'' \<or> parts ! 1 = []
            then Inl (ExtError ''http.ErrNoCookie'') else Inr (parts ! 1)))"

text \<open>\<^const>\<open>None\<close>: the request is aborted with status 401; otherwise it goes on with the identity.\<close>

definition Middleware ::
  "environment \<Rightarrow> jwt_parser \<Rightarrow> verifier option \<Rightarrow> string list \<Rightarrow> identity option \<times> verifier option" where
  "Middleware en ParseWithClaims verif authorization = (case bearerToken authorization of
     Inl e \<Rightarrow> (None, verif)
   | Inr raw \<Rightarrow> (case Verify en ParseWithClaims verif raw of
        (Inl e, verif') \<Rightarrow> (None, verif')
      | (Inr i, verif') \<Rightarrow> (Some i, verif')))"

section \<open>The JWT library\<close>

text \<open>
  What the documentation of the JWT library promises of \<open>ParseWithClaims\<close>: an accepted token has a
  permitted method, a signature that verifies under the key the key function returned for its
  header, and the wanted issuer and audience; an expiry, if it has one, lies ahead (with leeway), and
  it has one if the option requires it; with strict decoding its parts are encoded without stray
  bits; and the only effect is that of the call of the key function.
\<close>

locale jwt_library =
  fixes ParseWithClaims :: jwt_parser
    and header_of :: "string \<Rightarrow> token" and claims_of :: "string \<Rightarrow> claims"
    and signed_by :: "public_key \<Rightarrow> string \<Rightarrow> bool" and strictly_encoded :: "string \<Rightarrow> bool" and jwt_now :: time
  assumes accepted: "ParseWithClaims opts raw kf v = (Inr (c, True), v') \<Longrightarrow>
      c = claims_of raw \<and> tk_alg (header_of raw) \<in> set (po_ValidMethods opts) \<and>
      (\<exists>key. kf (header_of raw) v = (Inr key, v') \<and> signed_by key raw) \<and>
      cl_Issuer c = po_Issuer opts \<and> po_Audience opts \<in> set (cl_Audience c) \<and>
      (po_ExpirationRequired opts \<longrightarrow> cl_ExpiresAt c \<noteq> None) \<and>
      (\<forall>exp. cl_ExpiresAt c = Some exp \<longrightarrow> jwt_now < exp + po_Leeway opts) \<and> (po_StrictDecoding opts \<longrightarrow> strictly_encoded raw)"
    and effect: "ParseWithClaims opts raw kf v = (res, v') \<Longrightarrow> v' = v \<or> (\<exists>k. kf (header_of raw) v = (k, v'))"

text \<open>The procedure the documentation describes, over a decoder and a signature check.\<close>

definition ref_parser ::
  "(string \<Rightarrow> token) \<Rightarrow> (string \<Rightarrow> claims) \<Rightarrow> (public_key \<Rightarrow> string \<Rightarrow> bool) \<Rightarrow> (string \<Rightarrow> bool) \<Rightarrow> time \<Rightarrow> jwt_parser" where
  "ref_parser hdr pay sig strict now opts raw kf v =
     (if po_StrictDecoding opts \<and> \<not> strict raw then (Inl (ExtError ''jwt: token is malformed''), v)
      else if tk_alg (hdr raw) \<notin> set (po_ValidMethods opts) then (Inl (ExtError ''jwt: signing method is invalid''), v)
      else case kf (hdr raw) v of
             (Inl e, v') \<Rightarrow> (Inl (ExtError ''jwt: error while executing keyfunc''), v')
           | (Inr key, v') \<Rightarrow>
               (if \<not> sig key raw then Inl (ExtError ''jwt: signature is invalid'')
                else if cl_Issuer (pay raw) \<noteq> po_Issuer opts then Inl (ExtError ''jwt: token has invalid issuer'')
                else if po_Audience opts \<notin> set (cl_Audience (pay raw)) then Inl (ExtError ''jwt: token has invalid audience'')
                else case cl_ExpiresAt (pay raw) of
                       None \<Rightarrow> if po_ExpirationRequired opts then Inl (ExtError ''jwt: exp claim is required'') else Inr (pay raw, True)
                     | Some exp \<Rightarrow> if now < exp + po_Leeway opts then Inr (pay raw, True)
                                   else Inl (ExtError ''jwt: token is expired''), v'))"

section \<open>Reachable verifiers\<close>

inductive vf_reachable :: "environment \<Rightarrow> jwt_parser \<Rightarrow> config \<Rightarrow> verifier \<Rightarrow> bool"
  for en PWC cfg where
  init: "newWithHTTPClient en cfg = Inr (Some v) \<Longrightarrow> vf_reachable en PWC cfg v"
| request: "vf_reachable en PWC cfg v \<Longrightarrow> Middleware en PWC (Some v) authorization = (res, Some v') \<Longrightarrow>
    vf_reachable en PWC cfg v'"

definition verifier_ok :: "environment \<Rightarrow> verifier \<Rightarrow> bool" where
  "verifier_ok en v =
     (secure_config (en_url_Parse en) (en_IsDNS1123Label en) (vf_cfg v) \<and>
      vf_allowedSubjects v = cf_AllowedSubjects (vf_cfg v) \<and> vf_allowedNamespaces v = cf_AllowedNamespaces (vf_cfg v) \<and>
      vf_keys v \<noteq> [] \<and> (\<forall>kid r. map_get (vf_keys v) kid = Some r \<longrightarrow> (\<exists>ks. trusted_record ks kid r)))"

text \<open>What a refresh may change, and what it leaves.\<close>

definition same_config :: "verifier \<Rightarrow> verifier \<Rightarrow> bool" where
  "same_config v v' = (vf_cfg v' = vf_cfg v \<and> vf_allowedSubjects v' = vf_allowedSubjects v \<and>
     vf_allowedNamespaces v' = vf_allowedNamespaces v)"

text \<open>An environment, a token and a request for the examples.\<close>

definition sample_response :: http_response where
  "sample_response = \<lparr>hr_StatusCode = 200,
     hr_discovery = (\<lambda>n. Inr \<lparr>dd_Issuer = ''https://issuer/'', dd_JWKSURI = ''https://issuer/keys''\<rparr>),
     hr_jwks = (\<lambda>n. Inr [sample_jwk]), hr_next = (\<lambda>n. AtEOF)\<rparr>"

definition sample_env :: environment where
  "sample_env = \<lparr>en_Do = (\<lambda>n u. Inr sample_response), en_clock = (\<lambda>n. 1000 + int n),
     en_url_Parse = sample_url_Parse, en_IsDNS1123Label = (\<lambda>n. [])\<rparr>"

definition sample_token :: token where
  "sample_token = \<lparr>tk_kid = Some '' k1'', tk_alg = ''ES256''\<rparr>"

definition sample_claims :: claims where
  "sample_claims = \<lparr>cl_Issuer = ''https://issuer/'', cl_Subject = ''system:serviceaccount:ci:runner'',
     cl_Audience = [''testtender''], cl_ExpiresAt = Some 5000, cl_Namespace = ''ci'',
     cl_ServiceAccountName = ''runner'', cl_PodUID = ''u''\<rparr>"

definition sample_parser :: jwt_parser where
  "sample_parser = ref_parser (\<lambda>r. sample_token) (\<lambda>r. sample_claims) (\<lambda>k r. r = ''tok'') (\<lambda>r. True) 2000"

definition sample_verifier :: "nat \<Rightarrow> verifier" where
  "sample_verifier n = (new_verifier sample_normal)\<lparr>vf_keys := [(''k1'', sample_key)], vf_lastRefresh := 1000,
     vf_requests := 2, vf_reads := n\<rparr>"

section \<open>Effects of the operations\<close>

lemma same_config_refl [simp]: "same_config v v"
  by (simp add: same_config_def)

lemma same_config_trans: "same_config v1 v2 \<Longrightarrow> same_config v2 v3 \<Longrightarrow> same_config v1 v3"
  by (simp add: same_config_def)

lemma fetchJSON_snd: "snd (fetchJSON en dec endpoint limit v) = v\<lparr>vf_requests := Suc (vf_requests v)\<rparr>"
  by (simp add: fetchJSON_def)

lemma refreshLocked_cases:
  assumes "refreshLocked en v = (e, v')"
  shows "(e \<noteq> None \<and> (\<exists>n \<le> 2. v' = v\<lparr>vf_requests := vf_requests v + n\<rparr>)) \<or>
    (e = None \<and> (\<exists>ks keys. parseKeySet ks = Inr keys \<and>
       v' = v\<lparr>vf_requests := vf_requests v + 2, vf_keys := keys, vf_lastRefresh := en_clock en (vf_reads v),
              vf_reads := Suc (vf_reads v)\<rparr>))"
proof -
  let ?u = "cf_DiscoveryURL (vf_cfg v) @ ''/.well-known/openid-configuration''"
  let ?v1 = "v\<lparr>vf_requests := Suc (vf_requests v)\<rparr>" and ?v2 = "v\<lparr>vf_requests := Suc (Suc (vf_requests v))\<rparr>"
  obtain d where d: "fetchJSON en hr_discovery ?u maxDiscoveryBytes v = (d, ?v1)"
    by (metis fetchJSON_snd prod.collapse)
  have j: "\<exists>k. fetchJSON en hr_jwks uri maxJWKSBytes ?v1 = (k, ?v2)" for uri
    using fetchJSON_snd[of en hr_jwks uri maxJWKSBytes ?v1] by (metis (no_types, lifting) prod.collapse
        verifier.surjective verifier.update_convs(6) verifier.select_convs(6))
  have one: "\<exists>n \<le> 2. ?v1 = v\<lparr>vf_requests := vf_requests v + n\<rparr>" by (intro exI[of _ 1]) simp
  have two: "\<exists>n \<le> 2. ?v2 = v\<lparr>vf_requests := vf_requests v + n\<rparr>" by (intro exI[of _ 2]) simp
  show ?thesis
  proof (cases d)
    case (Inl x)
    then have "\<exists>x. refreshLocked en v = (Some x, ?v1)" using d by (simp add: refreshLocked_def)
    with assms one show ?thesis by (auto simp only: prod.inject)
  next
    case (Inr disc)
    obtain k where k: "fetchJSON en hr_jwks (dd_JWKSURI disc) maxJWKSBytes ?v1 = (k, ?v2)" using j by blast
    show ?thesis
    proof (cases "dd_Issuer disc \<noteq> cf_Issuer (vf_cfg v) \<or> validateHTTPSURL (en_url_Parse en) ''OIDC JWKS URI'' (dd_JWKSURI disc) \<noteq> None")
      case True
      then have "\<exists>x. refreshLocked en v = (Some x, ?v1)"
        using d Inr by (auto simp: refreshLocked_def split: option.split if_split)
      with assms one show ?thesis by (auto simp only: prod.inject)
    next
      case False
      then have r: "refreshLocked en v = (case k of Inl e \<Rightarrow> (Some (Wrapf ''fetch OIDC JWKS: %w'' [] e), ?v2)
          | Inr document \<Rightarrow> (case parseKeySet document of Inl e \<Rightarrow> (Some e, ?v2)
             | Inr keys \<Rightarrow> (None, ?v2\<lparr>vf_keys := keys, vf_lastRefresh := en_clock en (vf_reads v), vf_reads := Suc (vf_reads v)\<rparr>)))"
        using d k Inr by (simp add: refreshLocked_def split: sum.splits)
      show ?thesis using assms two unfolding r by (auto split: sum.splits)
    qed
  qed
qed

lemma refreshIfAllowed_effect:
  assumes "refreshIfAllowed en u v = (e, v')"
  shows "same_config v v' \<and> (vf_keys v' = vf_keys v \<or> (\<exists>ks. parseKeySet ks = Inr (vf_keys v'))) \<and>
    vf_requests v' \<le> vf_requests v + 2"
  using assms
  by (auto simp: refreshIfAllowed_def Let_def same_config_def split: if_splits dest!: refreshLocked_cases)

lemma keyForToken_effect:
  assumes "keyForToken en tok v = (r, v')"
  shows "same_config v v' \<and> (vf_keys v' = vf_keys v \<or> (\<exists>ks. parseKeySet ks = Inr (vf_keys v'))) \<and>
    vf_requests v' \<le> vf_requests v + 2"
  using assms
  by (auto simp: keyForToken_def Let_def same_config_def split: if_splits option.splits prod.splits
      dest!: refreshIfAllowed_effect)

lemma key_lookup_Inr:
  "key_lookup kid alg v = Inr key \<longleftrightarrow>
   (\<exists>r. map_get (vf_keys v) kid = Some r \<and> checkKeyAlgorithm r alg = Inr key)"
  by (auto simp: key_lookup_def split: option.splits)

lemma keyForToken_Inr:
  assumes "keyForToken en tok v = (Inr key, v')"
  shows "\<exists>raw. tk_kid tok = Some raw \<and> TrimSpace raw \<noteq> [] \<and> key_lookup (TrimSpace raw) (tk_alg tok) v' = Inr key"
  using assms
  by (auto simp: keyForToken_def Let_def split: if_splits option.splits prod.splits)

lemma verifier_ok_step:
  "verifier_ok en v \<Longrightarrow> same_config v v' \<Longrightarrow>
   vf_keys v' = vf_keys v \<or> (\<exists>ks. parseKeySet ks = Inr (vf_keys v')) \<Longrightarrow> verifier_ok en v'"
  unfolding verifier_ok_def same_config_def using parseKeySet_trusted by metis

lemma newWithHTTPClient_ok:
  assumes "newWithHTTPClient en cfg = Inr (Some v)"
  shows "verifier_ok en v \<and> normalizeConfig (en_url_Parse en) (en_IsDNS1123Label en) cfg = Inr (Some (vf_cfg v))"
proof -
  from assms obtain c where c: "normalizeConfig (en_url_Parse en) (en_IsDNS1123Label en) cfg = Inr (Some c)"
    and n: "(case refreshLocked en (new_verifier c) of (Some e, v) \<Rightarrow> Inl (Wrapf ''initialize OIDC keys: %w'' [] e)
      | (None, v) \<Rightarrow> Inr (Some v)) = Inr (Some v)"
    by (auto simp: newWithHTTPClient_def bind_res_Inr split: option.splits)
  obtain e v0 where r0: "refreshLocked en (new_verifier c) = (e, v0)" by force
  with n have r: "refreshLocked en (new_verifier c) = (None, v)" by (cases e) auto
  from refreshLocked_cases[OF r] obtain ks keys where "parseKeySet ks = Inr keys" "vf_keys v = keys" "vf_cfg v = c"
    "vf_allowedSubjects v = cf_AllowedSubjects c" "vf_allowedNamespaces v = cf_AllowedNamespaces c"
    by (auto simp: new_verifier_def)
  with normalizeConfig_secure(1)[OF c] parseKeySet_trusted show ?thesis
    unfolding verifier_ok_def using c by metis
qed

context jwt_library
begin

lemma Middleware_state:
  assumes "Middleware en ParseWithClaims (Some v) authorization = (res, Some v')"
  shows "v' = v \<or> (\<exists>tok k. keyForToken en tok v = (k, v'))"
  using assms
  by (auto simp: Middleware_def Verify_def split: sum.splits prod.splits if_splits dest!: effect)

lemma reachable_ok:
  assumes "vf_reachable en ParseWithClaims cfg v"
  shows "verifier_ok en v \<and> normalizeConfig (en_url_Parse en) (en_IsDNS1123Label en) cfg = Inr (Some (vf_cfg v))"
  using assms
proof induction
  case (init v)
  then show ?case by (rule newWithHTTPClient_ok)
next
  case (request v authorization res v')
  from Middleware_state[OF request(2)] show ?case
  proof
    assume "\<exists>tok k. keyForToken en tok v = (k, v')"
    then obtain tok k where "keyForToken en tok v = (k, v')" by blast
    note eff = keyForToken_effect[OF this]
    have "vf_cfg v' = vf_cfg v" using eff by (simp add: same_config_def)
    with verifier_ok_step[OF _ _ , of en v v'] eff request.IH show ?case by simp
  qed (use request in simp)
qed

lemma Verify_accepts:
  assumes "Verify en ParseWithClaims (Some v) raw = (Inr i, Some v')"
  shows "\<exists>kid key. tk_kid (header_of raw) = Some kid \<and>
      key_lookup (TrimSpace kid) (tk_alg (header_of raw)) v' = Inr key \<and> signed_by key raw \<and>
      same_config v v' \<and> authorise v' (claims_of raw) = Inr i \<and>
      cl_Issuer (claims_of raw) = cf_Issuer (vf_cfg v) \<and>
      cf_Audience (vf_cfg v) \<in> set (cl_Audience (claims_of raw)) \<and>
      (\<exists>exp. cl_ExpiresAt (claims_of raw) = Some exp \<and> jwt_now < exp + cf_ClockSkew (vf_cfg v)) \<and> strictly_encoded raw"
proof -
  from assms obtain c where p: "ParseWithClaims (verify_options (vf_cfg v)) raw (keyForToken en) v = (Inr (c, True), v')"
    and au: "authorise v' c = Inr i"
    by (auto simp: Verify_def split: if_splits prod.splits sum.splits)
  from accepted[OF p] obtain key where a: "c = claims_of raw" "keyForToken en (header_of raw) v = (Inr key, v')"
    "signed_by key raw" "cl_Issuer c = cf_Issuer (vf_cfg v)" "cf_Audience (vf_cfg v) \<in> set (cl_Audience c)"
    "\<exists>exp. cl_ExpiresAt c = Some exp \<and> jwt_now < exp + cf_ClockSkew (vf_cfg v)" "strictly_encoded raw"
    by (auto simp: verify_options_def)
  from keyForToken_Inr[OF a(2)] keyForToken_effect[OF a(2)] a au show ?thesis by blast
qed

end

interpretation ref_jwt: jwt_library "ref_parser hdr pay sig strict now" hdr pay sig strict now
proof unfold_locales
  fix opts :: parse_options and raw kf v c v'
  assume "ref_parser hdr pay sig strict now opts raw kf v = (Inr (c, True), v')"
  then show "c = pay raw \<and> tk_alg (hdr raw) \<in> set (po_ValidMethods opts) \<and>
      (\<exists>key. kf (hdr raw) v = (Inr key, v') \<and> sig key raw) \<and>
      cl_Issuer c = po_Issuer opts \<and> po_Audience opts \<in> set (cl_Audience c) \<and>
      (po_ExpirationRequired opts \<longrightarrow> cl_ExpiresAt c \<noteq> None) \<and>
      (\<forall>exp. cl_ExpiresAt c = Some exp \<longrightarrow> now < exp + po_Leeway opts) \<and> (po_StrictDecoding opts \<longrightarrow> strict raw)"
    by (auto simp: ref_parser_def split: if_splits prod.splits sum.splits option.splits)
next
  fix opts :: parse_options and raw kf v res v'
  assume "ref_parser hdr pay sig strict now opts raw kf v = (res, v')"
  then show "v' = v \<or> (\<exists>k. kf (hdr raw) v = (k, v'))"
    by (auto simp: ref_parser_def split: if_splits prod.splits sum.splits option.splits)
qed

lemma bearerToken_Inr:
  "bearerToken vals = Inr raw \<longleftrightarrow>
   (\<exists>h scheme. vals = [h] \<and> Fields h = [scheme, raw] \<and> EqualFold scheme ''Bearer'' \<and> raw \<noteq> [])"
proof -
  have "length xs = 2 \<longleftrightarrow> (\<exists>a b. xs = [a, b])" for xs :: "string list"
    by (auto simp: numeral_2_eq_2 length_Suc_conv)
  then show ?thesis by (fastforce simp: bearerToken_def Let_def length_Suc_conv split: if_splits)
qed

lemma authorise_Inr:
  assumes "authorise v c = Inr i"
  shows "\<exists>ns sa. cl_Subject c = ''system:serviceaccount:'' @ ns @ '':'' @ sa \<and> ns \<noteq> [] \<and> sa \<noteq> [] \<and>
    CHR '':'' \<notin> set ns \<and> CHR '':'' \<notin> set sa \<and>
    cl_Namespace c = ns \<and> cl_ServiceAccountName c = sa \<and>
    (cl_Subject c \<in> set (vf_allowedSubjects v) \<or> ns \<in> set (vf_allowedNamespaces v)) \<and>
    i = \<lparr>id_Issuer = cl_Issuer c, id_Subject = cl_Subject c, id_KubernetesNamespace = ns,
         id_KubernetesServiceAccount = sa, id_KubernetesPodUID = cl_PodUID c\<rparr>"
proof -
  let ?pre = "''system:serviceaccount:''" and ?s = "TrimPrefix (cl_Subject c) ''system:serviceaccount:''"
  from assms obtain ns sa where k: "kubernetesServiceAccountIdentity c = Inr (ns, sa)"
    and al: "cl_Subject c \<in> set (vf_allowedSubjects v) \<or> ns \<in> set (vf_allowedNamespaces v)"
    and i: "i = \<lparr>id_Issuer = cl_Issuer c, id_Subject = cl_Subject c, id_KubernetesNamespace = ns,
         id_KubernetesServiceAccount = sa, id_KubernetesPodUID = cl_PodUID c\<rparr>"
    by (auto simp: authorise_def bind_res_Inr split: if_splits)
  from k have pre: "HasPrefix (cl_Subject c) ?pre" and len: "length (Split ?s (CHR '':'')) = 2"
    and parts: "Split ?s (CHR '':'') ! 0 = ns" "Split ?s (CHR '':'') ! 1 = sa" "ns \<noteq> []" "sa \<noteq> []"
    and eq: "cl_Namespace c = ns" "cl_ServiceAccountName c = sa"
    by (auto simp: kubernetesServiceAccountIdentity_def Let_def split: if_splits)
  from len parts(1,2) have "Split ?s (CHR '':'') = [ns, sa]"
    by (cases "Split ?s (CHR '':'')" rule: list.exhaust) (auto simp: length_Suc_conv)
  then have "?s = ns @ CHR '':'' # sa \<and> CHR '':'' \<notin> set ns \<and> CHR '':'' \<notin> set sa" by (simp add: Split_pair)
  with HasPrefix_TrimPrefix[OF pre] parts(3,4) eq al i show ?thesis by (intro exI[of _ ns] exI[of _ sa]) auto
qed

text \<open>
  (C1) No request without a valid token: whenever a verifier built from a configuration and any
  number of earlier requests lets a request pass, the request carries exactly one Authorization
  header with a bearer token; that token is signed by a strong key the verifier trusts under the
  token's key ID, with the algorithm of that key; it was issued by the configured issuer for the
  configured audience, is strictly encoded and has not expired; its subject is the service account its Kubernetes
  claims name; the subject or its namespace is listed; and the identity is the token's.
\<close>

theorem Middleware_authenticates:
  assumes "jwt_library PWC header_of claims_of signed_by strictly_encoded jwt_now" "vf_reachable en PWC cfg v"
    and "Middleware en PWC (Some v) authorization = (Some i, Some v')"
  shows "\<exists>h scheme raw kid r exp.
    authorization = [h] \<and> Fields h = [scheme, raw] \<and> EqualFold scheme ''Bearer'' \<and> strictly_encoded raw \<and>
    tk_kid (header_of raw) = Some kid \<and> map_get (vf_keys v') (TrimSpace kid) = Some r \<and>
    strong_key (kr_key r) \<and> signed_by (kr_key r) raw \<and> tk_alg (header_of raw) = key_method (kr_key r) \<and>
    cl_Issuer (claims_of raw) = TrimSpace (cf_Issuer cfg) \<and>
    TrimSpace (cf_Audience cfg) \<in> set (cl_Audience (claims_of raw)) \<and>
    cl_ExpiresAt (claims_of raw) = Some exp \<and> jwt_now < exp + cf_ClockSkew (vf_cfg v) \<and>
    id_Subject i = cl_Subject (claims_of raw) \<and>
    id_Subject i = ''system:serviceaccount:'' @ id_KubernetesNamespace i @ '':'' @ id_KubernetesServiceAccount i \<and>
    id_KubernetesNamespace i = cl_Namespace (claims_of raw) \<and>
    (id_Subject i \<in> TrimSpace ` set (cf_AllowedSubjects cfg) \<or>
     id_KubernetesNamespace i \<in> TrimSpace ` set (cf_AllowedNamespaces cfg))"
proof -
  note ok = jwt_library.reachable_ok[OF assms(1,2)]
  from assms(3) obtain raw where b: "bearerToken authorization = Inr raw"
    and vf: "Verify en PWC (Some v) raw = (Inr i, Some v')"
    by (auto simp: Middleware_def split: sum.splits prod.splits)
  from b obtain h scheme where h: "authorization = [h]" "Fields h = [scheme, raw]" "EqualFold scheme ''Bearer''"
    by (auto simp: bearerToken_Inr)
  from jwt_library.Verify_accepts[OF assms(1) vf] obtain kid key exp where a:
    "tk_kid (header_of raw) = Some kid" "key_lookup (TrimSpace kid) (tk_alg (header_of raw)) v' = Inr key"
    "signed_by key raw" "same_config v v'" "authorise v' (claims_of raw) = Inr i"
    "cl_Issuer (claims_of raw) = cf_Issuer (vf_cfg v)" "cf_Audience (vf_cfg v) \<in> set (cl_Audience (claims_of raw))"
    "cl_ExpiresAt (claims_of raw) = Some exp" "jwt_now < exp + cf_ClockSkew (vf_cfg v)" "strictly_encoded raw" by blast
  from a(2) obtain r where r: "map_get (vf_keys v') (TrimSpace kid) = Some r" "key = kr_key r"
    "tk_alg (header_of raw) = key_method (kr_key r)" by (auto simp: key_lookup_Inr checkKeyAlgorithm_iff)
  have ok': "verifier_ok en v'"
    using jwt_library.reachable_ok[OF assms(1) vf_reachable.request[OF assms(2,3)]] by blast
  then have strong: "strong_key (kr_key r)" using r(1) unfolding verifier_ok_def trusted_record_def by blast
  from ok normalizeConfig_secure(2,3) have sets:
    "set (vf_allowedSubjects v) = TrimSpace ` set (cf_AllowedSubjects cfg)"
    "set (vf_allowedNamespaces v) = TrimSpace ` set (cf_AllowedNamespaces cfg)"
    unfolding verifier_ok_def by metis+
  from ok have norm: "cf_Issuer (vf_cfg v) = TrimSpace (cf_Issuer cfg)" "cf_Audience (vf_cfg v) = TrimSpace (cf_Audience cfg)"
    using normalizeConfig_fields by metis+
  from authorise_Inr[OF a(5)] obtain ns sa where au: "cl_Subject (claims_of raw) = ''system:serviceaccount:'' @ ns @ '':'' @ sa"
    "cl_Namespace (claims_of raw) = ns"
    "cl_Subject (claims_of raw) \<in> set (vf_allowedSubjects v') \<or> ns \<in> set (vf_allowedNamespaces v')"
    "id_Subject i = cl_Subject (claims_of raw)" "id_KubernetesNamespace i = ns" "id_KubernetesServiceAccount i = sa"
    by auto
  have al: "cl_Subject (claims_of raw) \<in> TrimSpace ` set (cf_AllowedSubjects cfg) \<or>
      ns \<in> TrimSpace ` set (cf_AllowedNamespaces cfg)"
    using au(3) a(4) sets unfolding same_config_def by simp
  show ?thesis
    by (rule exI[of _ h], rule exI[of _ scheme], rule exI[of _ raw], rule exI[of _ kid], rule exI[of _ r],
        rule exI[of _ exp], use h a r strong norm au(1,2,4-6) al in simp)
qed

lemma sample_verifier_new: "newWithHTTPClient sample_env sample_config = Inr (Some (sample_verifier 1))"
proof -
  have "validateHTTPSURL sample_url_Parse ''OIDC JWKS URI'' ''https://issuer/keys'' = None" by code_simp
  then show ?thesis using sample_config_normal sample_keyset
    by (simp add: newWithHTTPClient_def sample_env_def refreshLocked_def fetchJSON_def sample_response_def
        new_verifier_def sample_normal_def sample_verifier_def)
qed

lemma sample_accepted:
  "\<exists>i. Middleware sample_env sample_parser (Some (sample_verifier 1)) [''bearer tok''] = (Some i, Some (sample_verifier 2))"
proof -
  have f: "Fields ''bearer tok'' = [''bearer'', ''tok'']" and e: "EqualFold ''bearer'' ''Bearer''" by code_simp+
  have kid: "TrimSpace '' k1'' = ''k1''" by code_simp
  have k: "checkKeyAlgorithm sample_key ''ES256'' = Inr (kr_key sample_key)"
    by (simp add: checkKeyAlgorithm_iff sample_key_def)
  have key: "keyForToken sample_env sample_token (sample_verifier 1) = (Inr (kr_key sample_key), sample_verifier 2)"
    using k kid by (simp add: keyForToken_def sample_token_def sample_verifier_def sample_env_def has_key_def
        new_verifier_def sample_normal_def defaultRefreshInterval_def minute_def second_def key_lookup_def)
  have sa: "kubernetesServiceAccountIdentity sample_claims = Inr (''ci'', ''runner'')" by code_simp
  have cfg: "vf_cfg (sample_verifier n) = sample_normal" "vf_allowedNamespaces (sample_verifier n) = [''ci'']" for n
    by (simp_all add: sample_verifier_def new_verifier_def sample_normal_def)
  have au: "\<exists>i. authorise (sample_verifier 2) sample_claims = Inr i"
    using sa by (simp add: authorise_def cfg)
  have ver: "\<exists>i. Verify sample_env sample_parser (Some (sample_verifier 1)) ''tok'' = (Inr i, Some (sample_verifier 2))"
    using key au by (simp add: Verify_def sample_parser_def ref_parser_def cfg verify_options_def validMethods_def)
      (simp add: sample_token_def sample_claims_def sample_normal_def sample_config_def
        maxTokenBytes_def defaultClockSkew_def second_def)
  then show ?thesis using f e by (auto simp: Middleware_def bearerToken_def)
qed

theorem Middleware_authenticates_witness:
  "\<exists>i v'. Middleware sample_env sample_parser (Some (sample_verifier 1)) [''bearer tok''] = (Some i, Some v') \<and>
     id_KubernetesNamespace i = cl_Namespace sample_claims \<and> strong_key (kr_key sample_key)"
proof -
  have kid: "TrimSpace '' k1'' = ''k1''" by code_simp
  obtain i where m: "Middleware sample_env sample_parser (Some (sample_verifier 1)) [''bearer tok''] = (Some i, Some (sample_verifier 2))"
    using sample_accepted by blast
  have "jwt_library sample_parser (\<lambda>r. sample_token) (\<lambda>r. sample_claims) (\<lambda>k r. r = ''tok'') (\<lambda>r. True) 2000"
    unfolding sample_parser_def by (rule ref_jwt.jwt_library_axioms)
  from Middleware_authenticates[OF this vf_reachable.init[OF sample_verifier_new] m] m kid show ?thesis
    by (auto simp: sample_token_def sample_verifier_def)
qed

text \<open>
  (C38) Freshness of the keys: with a clock that does not run backwards, a key is only handed out
  within the refresh interval after the last successful refresh or right after a new one; and the
  issuer is contacted for a known key only after that interval, for an unknown one only 30
  seconds or more after the last successful refresh, at most twice per token.
\<close>

theorem keyForToken_fresh:
  assumes "\<And>i j. i \<le> j \<Longrightarrow> en_clock en i \<le> en_clock en j" "vf_lastRefresh v \<noteq> 0"
    and "tk_kid tok = Some kid" "keyForToken en tok v = (r, v')"
  shows "(\<forall>key. r = Inr key \<longrightarrow>
      (vf_keys v' = vf_keys v \<and> en_clock en (vf_reads v) - vf_lastRefresh v < cf_RefreshInterval (vf_cfg v)) \<or>
      vf_lastRefresh v' = en_clock en (vf_reads v' - 1)) \<and>
    (vf_requests v' \<noteq> vf_requests v \<longrightarrow> vf_requests v' \<le> vf_requests v + 2 \<and>
      (if has_key (vf_keys v) (TrimSpace kid) then cf_RefreshInterval (vf_cfg v) else unknownKeyRefreshDelay)
        \<le> en_clock en (vf_reads v) - vf_lastRefresh v)"
proof (cases "TrimSpace kid = []")
  case True
  then show ?thesis using assms(3,4) by (auto simp: keyForToken_def)
next
  case ne: False
  let ?v1 = "v\<lparr>vf_reads := Suc (vf_reads v)\<rparr>"
  let ?age = "en_clock en (vf_reads v) - vf_lastRefresh v"
  show ?thesis
  proof (cases "has_key (vf_keys v) (TrimSpace kid)")
    case known: True
    show ?thesis
    proof (cases "?age < cf_RefreshInterval (vf_cfg v)")
      case True
      then have "keyForToken en tok v = (key_lookup (TrimSpace kid) (tk_alg tok) ?v1, ?v1)"
        using known ne assms(3) by (simp add: keyForToken_def Let_def)
      with True assms(4) show ?thesis by auto
    next
      case stale: False
      with assms(1)[of "vf_reads v" "Suc (vf_reads v)"] have
        "\<not> en_clock en (Suc (vf_reads v)) - vf_lastRefresh v < cf_RefreshInterval (vf_cfg v)" by simp
      then obtain e v2 where r2: "refreshLocked en (?v1\<lparr>vf_reads := Suc (Suc (vf_reads v))\<rparr>) = (e, v2)"
        and al: "refreshIfAllowed en False ?v1 = (e, v2)"
        using assms(2) by (cases "refreshLocked en (?v1\<lparr>vf_reads := Suc (Suc (vf_reads v))\<rparr>)") (simp add: refreshIfAllowed_def)
      have "keyForToken en tok v = (case e of Some x \<Rightarrow> (Inl x, v2) | None \<Rightarrow> (key_lookup (TrimSpace kid) (tk_alg tok) v2, v2))"
        using assms(3) known ne stale al by (cases e) (simp_all add: keyForToken_def)
      with refreshLocked_cases[OF r2] stale known assms(4) show ?thesis by (auto split: option.splits)
    qed
  next
    case unknown: False
    show ?thesis
    proof (cases "?age < unknownKeyRefreshDelay")
      case True
      then have "keyForToken en tok v = (key_lookup (TrimSpace kid) (tk_alg tok) ?v1, ?v1)"
        using unknown ne assms(2,3) by (simp add: keyForToken_def refreshIfAllowed_def)
      with unknown assms(4) show ?thesis by (auto simp: key_lookup_def has_key_def)
    next
      case old: False
      obtain e v2 where r2: "refreshLocked en ?v1 = (e, v2)" by force
      have "keyForToken en tok v = (case e of Some x \<Rightarrow> (Inl x, v2) | None \<Rightarrow> (key_lookup (TrimSpace kid) (tk_alg tok) v2, v2))"
        using unknown ne old assms(2,3) r2 by (cases e) (simp_all add: keyForToken_def refreshIfAllowed_def)
      with refreshLocked_cases[OF r2] old unknown assms(4) show ?thesis by (auto split: option.splits)
    qed
  qed
qed

theorem keyForToken_fresh_witness:
  "\<exists>r v'. keyForToken sample_env (sample_token\<lparr>tk_kid := Some ''k9''\<rparr>) (sample_verifier 1) = (r, v') \<and>
     vf_requests v' = 2"
proof -
  obtain r v' where k: "keyForToken sample_env (sample_token\<lparr>tk_kid := Some ''k9''\<rparr>) (sample_verifier 1) = (r, v')" by force
  have t: "TrimSpace ''k9'' = ''k9''" by code_simp
  have n: "\<not> has_key (vf_keys (sample_verifier 1)) ''k9''" by (simp add: sample_verifier_def has_key_def)
  have "vf_requests v' = vf_requests (sample_verifier 1)"
    using keyForToken_fresh[of sample_env "sample_verifier 1" "sample_token\<lparr>tk_kid := Some ''k9''\<rparr>" "''k9''" r v', OF _ _ _ k]
      n unfolding t by (auto simp: sample_env_def sample_verifier_def unknownKeyRefreshDelay_def second_def)
  with k show ?thesis by (simp add: sample_verifier_def)
qed

end
