(* ===== verification/ClientProxy.thy ===== *)
theory ClientProxy
  imports Auth
begin

text \<open>
  \<open>internal/clientproxy/proxy.go\<close>: the local proxy that adds the bearer token to the requests of
  an unmodified Docker client. The URL parser, the token and certificate files and the transport to
  the server are parameters; the standard library's reverse proxy is modelled by what it does to the
  headers and the target of a request.
\<close>

section \<open>Configuration\<close>

definition proxy_maxTokenBytes :: nat where "proxy_maxTokenBytes = 16 * 1024"

record proxy_config =
  px_Upstream :: string
  px_TokenFile :: string
  px_CAFile :: string

record proxy_url = url +
  u_Path :: string

record proxy =
  pr_tokenFile :: string
  pr_target :: proxy_url

definition validateConfig :: "(string \<Rightarrow> proxy_url result) \<Rightarrow> proxy_config \<Rightarrow> proxy_url result" where
  "validateConfig url_Parse cfg =
     (let rawUpstream = TrimRight (TrimSpace (px_Upstream cfg)) (CHR ''/'')
      in if rawUpstream = [] then Inl (Errorf ''client proxy upstream is required'' [])
         else case url_Parse rawUpstream of
           Inl e \<Rightarrow> Inl (Wrapf ''parse client proxy upstream: %w'' [] e)
         | Inr target \<Rightarrow>
             if u_Scheme target \<noteq> ''https'' \<or> u_Host target = [] \<or> u_HasUser target \<or> u_RawQuery target \<noteq> [] \<or> u_Fragment target \<noteq> []
             then Inl (Errorf ''client proxy upstream must be an absolute HTTPS URL without credentials, query or fragment'' [])
             else if u_Path target \<noteq> [] then Inl (Errorf ''client proxy upstream must not contain a path'' [])
             else (let tokenFile = TrimSpace (px_TokenFile cfg)
                   in if tokenFile = [] then Inl (Errorf ''client proxy token file is required'' [])
                      else if \<not> HasPrefix tokenFile ''/'' then Inl (Errorf ''client proxy token file must be an absolute path'' [])
                      else Inr target))"

text \<open>The pool of root certificates, and adding the certificates of a file to it (\<^const>\<open>None\<close>: none valid).\<close>

record 'r cert_lib =
  cl_SystemCertPool :: "'r result"
  cl_ReadFile :: "string \<Rightarrow> string result"
  cl_Append :: "'r \<Rightarrow> string \<Rightarrow> 'r option"

definition newTransport :: "'r cert_lib \<Rightarrow> string \<Rightarrow> 'r result" where
  "newTransport CL caFile = (case cl_SystemCertPool CL of
     Inl e \<Rightarrow> Inl (Wrapf ''load system CA pool: %w'' [] e)
   | Inr roots \<Rightarrow>
       if caFile = [] then Inr roots
       else (case cl_ReadFile CL caFile of
               Inl e \<Rightarrow> Inl (Wrapf ''read client proxy CA file: %w'' [] e)
             | Inr pemData \<Rightarrow>
                 (case cl_Append CL roots pemData of
                    None \<Rightarrow> Inl (Errorf ''client proxy CA file contains no valid certificates'' [])
                  | Some roots' \<Rightarrow> Inr roots')))"

definition newWithRoundTripper :: "(string \<Rightarrow> proxy_url result) \<Rightarrow> proxy_config \<Rightarrow> 'r option \<Rightarrow> proxy result" where
  "newWithRoundTripper url_Parse cfg transport =
     bind_res (validateConfig url_Parse cfg) (\<lambda>target. case transport of
       None \<Rightarrow> Inl (Errorf ''client proxy transport is required'' [])
     | Some r \<Rightarrow> Inr \<lparr>pr_tokenFile = TrimSpace (px_TokenFile cfg), pr_target = target\<rparr>)"

definition clientproxy_New :: "(string \<Rightarrow> proxy_url result) \<Rightarrow> 'r cert_lib \<Rightarrow> proxy_config \<Rightarrow> proxy result" where
  "clientproxy_New url_Parse CL cfg =
     bind_res (newTransport CL (TrimSpace (px_CAFile cfg))) (\<lambda>roots. newWithRoundTripper url_Parse cfg (Some roots))"

text \<open>
  The listen address (\<open>cmd/client_proxy.go\<close>); \<open>loopback\<close> is None when the host is not a literal
  address.
\<close>

definition validateLoopbackListenAddress ::
  "(string \<Rightarrow> (string \<times> string) result) \<Rightarrow> (string \<Rightarrow> bool option) \<Rightarrow> string \<Rightarrow> unit result" where
  "validateLoopbackListenAddress SplitHostPort loopback address = (case SplitHostPort address of
     Inl e \<Rightarrow> Inl (Wrapf ''parse client proxy listen address: %w'' [] e)
   | Inr (host, port) \<Rightarrow>
       if loopback host \<noteq> Some True then Inl (Errorf ''client proxy must listen on a literal loopback address'' [])
       else Inr ())"

section \<open>Requests\<close>

text \<open>Headers by canonical name, each with its values in order; the address of the client if it could be parsed.\<close>

record http_request =
  hq_Method :: string
  hq_Scheme :: string
  hq_Host :: string
  hq_Path :: string
  hq_Header :: "(string, string list) gomap"
  hq_ClientIP :: "string option"

text \<open>
  The token file: opening may fail, and so may reading. No more than one byte over the limit is read.
\<close>

type_synonym token_file = "string \<Rightarrow> (string \<times> error option) result"

definition readToken :: "token_file \<Rightarrow> string \<Rightarrow> string result" where
  "readToken files path = bind_res (files path) (\<lambda>(content, err). case err of
     Some e \<Rightarrow> Inl e
   | None \<Rightarrow>
       (let v = take (proxy_maxTokenBytes + 1) content
        in if length v > proxy_maxTokenBytes then Inl (Errorf ''bearer token is too large'' [])
           else (let token = TrimSpace v
                 in if token = [] \<or> CHR 0x0D \<in> set token \<or> CHR 0x0A \<in> set token
                    then Inl (Errorf ''bearer token file is invalid'' []) else Inr token)))"

definition director :: "proxy_url \<Rightarrow> http_request \<Rightarrow> http_request" where
  "director target rq = rq\<lparr>hq_Scheme := u_Scheme target, hq_Host := u_Host target,
     hq_Path := (if HasPrefix (hq_Path rq) ''/'' then hq_Path rq else ''/'' @ hq_Path rq)\<rparr>"

text \<open>
  What \<open>httputil.ReverseProxy\<close> does to the headers after the director. Names are made canonical
  unless they contain a byte that no name has.
\<close>

definition header_values :: "(string, string list) gomap \<Rightarrow> string \<Rightarrow> string list" where
  "header_values h name = (case map_get h name of None \<Rightarrow> [] | Some vs \<Rightarrow> vs)"

definition is_token_byte :: "char \<Rightarrow> bool" where
  "is_token_byte c = (is_alnum c \<or> c = CHR 0x27 \<or> c \<in> set ''!#$%&*+-.^_`|~'')"

definition upper_char :: "char \<Rightarrow> char" where
  "upper_char c = (if is_lower c then char_of (code c - 32) else c)"

fun capitalised :: "bool \<Rightarrow> string \<Rightarrow> string" where
  "capitalised up [] = []"
| "capitalised up (c # cs) = (if up then upper_char c else lower_char c) # capitalised (c = CHR ''-'') cs"

definition CanonicalHeaderKey :: "string \<Rightarrow> string" where
  "CanonicalHeaderKey s = (if list_all is_token_byte s then capitalised True s else s)"

definition TrimString :: "string \<Rightarrow> string" where
  "TrimString s = (let blank = (\<lambda>c. c \<in> {CHR '' '', CHR 0x09, CHR 0x0A, CHR 0x0D}) in TrimRightFunc blank (dropWhile blank s))"

text \<open>The headers that the client's \<open>Connection\<close> header names.\<close>

definition connection_options :: "(string, string list) gomap \<Rightarrow> string list" where
  "connection_options h = map CanonicalHeaderKey (filter (\<lambda>sf. sf \<noteq> [])
     (map TrimString (concat (map (\<lambda>f. Split f (CHR '','')) (header_values h ''Connection'')))))"

definition hopHeaders :: "string list" where
  "hopHeaders = [''Connection'', ''Proxy-Connection'', ''Keep-Alive'', ''Proxy-Authenticate'', ''Proxy-Authorization'', ''Te'', ''Trailer'',
     ''Transfer-Encoding'', ''Upgrade'']"

definition removeHopByHopHeaders :: "(string, string list) gomap \<Rightarrow> (string, string list) gomap" where
  "removeHopByHopHeaders h = foldl (\<lambda>m n. map_del n m) h (connection_options h @ hopHeaders)"

definition contains_token :: "string list \<Rightarrow> string \<Rightarrow> bool" where
  "contains_token vs token = list_ex (\<lambda>v. list_ex (\<lambda>t. ToLower (TrimString t) = ToLower token) (Split v (CHR '',''))) vs"

definition upgradeType :: "(string, string list) gomap \<Rightarrow> string" where
  "upgradeType h = (if contains_token (header_values h ''Connection'') ''Upgrade''
     then (case header_values h ''Upgrade'' of [] \<Rightarrow> [] | v # vs \<Rightarrow> v) else [])"

definition forwarded_headers :: "string option \<Rightarrow> (string, string list) gomap \<Rightarrow> (string, string list) gomap" where
  "forwarded_headers ip h =
     (let up = upgradeType h;
          h1 = removeHopByHopHeaders h;
          h2 = (if contains_token (header_values h ''Te'') ''trailers'' then map_set ''Te'' [''trailers''] h1 else h1);
          h3 = (if up \<noteq> [] then map_set ''Upgrade'' [up] (map_set ''Connection'' [''Upgrade''] h2) else h2);
          h4 = (case ip of None \<Rightarrow> h3
                | Some a \<Rightarrow> map_set ''X-Forwarded-For'' [concat (map (\<lambda>v. v @ '', '') (header_values h3 ''X-Forwarded-For'')) @ a] h3)
      in if has_key h4 ''User-Agent'' then h4 else map_set ''User-Agent'' [[]] h4)"

text \<open>The request that is sent; None when the client asks for a protocol whose name cannot be printed.\<close>

definition printable :: "string \<Rightarrow> bool" where
  "printable s = list_all (\<lambda>c. 32 \<le> code c \<and> code c \<le> 126) s"

definition reverse_proxy :: "proxy_url \<Rightarrow> http_request \<Rightarrow> http_request option" where
  "reverse_proxy target rq =
     (if printable (upgradeType (hq_Header rq))
      then Some ((director target rq)\<lparr>hq_Header := forwarded_headers (hq_ClientIP rq) (hq_Header rq)\<rparr>) else None)"

datatype 'a proxy_answer = Forwarded 'a | ProxyError nat string

definition ServeHTTP :: "token_file \<Rightarrow> (http_request \<Rightarrow> 'a result) \<Rightarrow> proxy \<Rightarrow> http_request \<Rightarrow> 'a proxy_answer" where
  "ServeHTTP files round_trip p r = (case readToken files (pr_tokenFile p) of
     Inl e \<Rightarrow> ProxyError 503 ''bearer token unavailable''
   | Inr token \<Rightarrow>
       (case reverse_proxy (pr_target p) (r\<lparr>hq_Header := map_set ''Authorization'' [''Bearer '' @ token] (hq_Header r)\<rparr>) of
          None \<Rightarrow> ProxyError 502 ''upstream unavailable''
        | Some rq \<Rightarrow> (case round_trip rq of
            Inl e \<Rightarrow> ProxyError 502 ''upstream unavailable''
          | Inr a \<Rightarrow> Forwarded a)))"

section \<open>Properties\<close>

lemma validateConfig_secure:
  assumes "validateConfig url_Parse cfg = Inr target"
  shows "https_url (url.truncate target)" and "u_Path target = []" and "HasPrefix (TrimSpace (px_TokenFile cfg)) ''/''"
  using assms by (auto simp: validateConfig_def Let_def https_url_def url.defs split: if_splits sum.splits)

lemma readToken_Inr:
  assumes "readToken files path = Inr token"
  shows "token \<noteq> []" and "length token \<le> proxy_maxTokenBytes" and "CHR 0x0D \<notin> set token" and "CHR 0x0A \<notin> set token"
proof -
  have "\<exists>v. length v \<le> proxy_maxTokenBytes \<and> token = TrimSpace v \<and> token \<noteq> [] \<and> CHR 0x0D \<notin> set token \<and> CHR 0x0A \<notin> set token"
    using assms by (auto simp: readToken_def bind_res_Inr Let_def not_less split: option.splits if_splits)
  then obtain v where c: "length v \<le> proxy_maxTokenBytes" "token = TrimSpace v" "token \<noteq> []"
    "CHR 0x0D \<notin> set token" "CHR 0x0A \<notin> set token" by blast
  then show "token \<noteq> []" "CHR 0x0D \<notin> set token" "CHR 0x0A \<notin> set token" by blast+
  have "length (TrimSpace v) \<le> length v" for v
    using length_TrimRightFunc[of is_space "dropWhile is_space v"] length_dropWhile_le[of is_space v] by (simp add: TrimSpace_def)
  then show "length token \<le> proxy_maxTokenBytes" using c(1,2) by (metis le_trans)
qed

lemma Fields_word: "t \<noteq> [] \<Longrightarrow> \<forall>c \<in> set t. \<not> is_space c \<Longrightarrow> Fields t = [t]"
proof -
  assume t: "t \<noteq> []" "\<forall>c \<in> set t. \<not> is_space c"
  obtain c cs where c: "t = c # cs" using t(1) by (cases t) auto
  have d: "dropWhile (Not \<circ> is_space) cs = []" "takeWhile (Not \<circ> is_space) cs = cs"
    using t(2) c by (simp_all add: dropWhile_eq_Nil_conv takeWhile_eq_all_conv)
  have nil: "Fields [] = []" by (simp add: Fields.simps)
  have "\<not> is_space c" using t(2) c by simp
  then have "Fields (c # cs) = [c # cs]" by (simp add: Fields.simps[of "c # cs"] d nil del: dropWhile_eq_Nil_conv takeWhile_eq_all_conv)
  then show ?thesis using c by simp
qed

lemma bearer_header:
  assumes "t \<noteq> []" "\<forall>c \<in> set t. \<not> is_space c"
  shows "bearerToken [''Bearer '' @ t] = Inr t"
proof -
  have sp: "is_space (CHR '' '')" and w: "\<not> is_space (CHR ''B'')" "\<not> is_space (CHR ''e'')" "\<not> is_space (CHR ''a'')" "\<not> is_space (CHR ''r'')"
    by (simp_all add: is_space_def code_def)
  have "Fields ('' '' @ t) = Fields t"
    using sp by (simp add: Fields.simps[of "CHR '' '' # t"] Fields.simps[of t])
  moreover have "Fields (''Bearer '' @ t) = ''Bearer'' # Fields ('' '' @ t)"
    using sp w by (subst Fields.simps) simp
  ultimately have "Fields (''Bearer '' @ t) = [''Bearer'', t]" using Fields_word[OF assms] by simp
  then show ?thesis unfolding bearerToken_Inr using assms(1) by (auto simp: EqualFold_def)
qed

lemma removed_headers: "map_get (foldl (\<lambda>m n. map_del n m) h ns) k = (if k \<in> set ns then None else map_get h k)"
  by (induction ns arbitrary: h) auto

lemma forwarded_authorization:
  "map_get (forwarded_headers ip h) ''Authorization'' =
     (if ''Authorization'' \<in> set (connection_options h) then None else map_get h ''Authorization'')"
proof -
  let ?a = "''Authorization''"
  have "?a \<notin> set hopHeaders" by (simp add: hopHeaders_def)
  then have "map_get (removeHopByHopHeaders h) ?a = (if ?a \<in> set (connection_options h) then None else map_get h ?a)"
    by (simp add: removeHopByHopHeaders_def removed_headers)
  moreover have "map_get (forwarded_headers ip h) ?a = map_get (removeHopByHopHeaders h) ?a"
    unfolding forwarded_headers_def Let_def by (simp split: option.split)
  ultimately show ?thesis by simp
qed

lemma connection_options_other: "k \<noteq> ''Connection'' \<Longrightarrow> connection_options (map_set k vs h) = connection_options h"
  by (simp add: connection_options_def header_values_def)

text \<open>
  (C23) From the token file to the server: every request that the proxy sends goes to the configured
  HTTPS host. It carries exactly one authorization header, with the token of the file in a single
  line, which the server's middleware reads back as long as the token contains no blank, whatever
  authorization the client sent itself; only a client that names this header in its
  \<open>Connection\<close> header gets its request through without any authorization, which the server refuses.
  Without a usable token, and for an upgrade to a protocol with an unprintable name, nothing is sent.
\<close>

theorem proxy_token_reaches_server:
  assumes "clientproxy_New url_Parse CL cfg = Inr p"
  shows "case readToken files (pr_tokenFile p) of
      Inl e \<Rightarrow> ServeHTTP files round_trip p r = ProxyError 503 ''bearer token unavailable''
    | Inr token \<Rightarrow> CHR 0x0A \<notin> set token \<and> CHR 0x0D \<notin> set token \<and> length token \<le> maxTokenBytes \<and>
        (if \<not> printable (upgradeType (hq_Header r)) then ServeHTTP files round_trip p r = ProxyError 502 ''upstream unavailable''
         else \<exists>rq. ServeHTTP files round_trip p r = (case round_trip rq of Inl e \<Rightarrow> ProxyError 502 ''upstream unavailable'' | Inr a \<Rightarrow> Forwarded a) \<and>
           hq_Scheme rq = ''https'' \<and> hq_Host rq = u_Host (pr_target p) \<and>
           (if ''Authorization'' \<in> set (connection_options (hq_Header r))
            then map_get (hq_Header rq) ''Authorization'' = None \<and> isl (bearerToken (header_values (hq_Header rq) ''Authorization''))
            else map_get (hq_Header rq) ''Authorization'' = Some [''Bearer '' @ token] \<and>
              ((\<forall>c \<in> set token. \<not> is_space c) \<longrightarrow> bearerToken (header_values (hq_Header rq) ''Authorization'') = Inr token)))"
proof -
  have "https_url (url.truncate (pr_target p))"
    using assms validateConfig_secure(1) by (auto simp: clientproxy_New_def newWithRoundTripper_def bind_res_Inr split: option.splits)
  then have sch: "u_Scheme (pr_target p) = ''https''" by (simp add: https_url_def url.defs)
  show ?thesis
  proof (cases "readToken files (pr_tokenFile p)")
    case (Inr token)
    let ?r = "r\<lparr>hq_Header := map_set ''Authorization'' [''Bearer '' @ token] (hq_Header r)\<rparr>"
    note tok = readToken_Inr[OF Inr]
    have len: "length token \<le> maxTokenBytes" using tok(2) by (simp add: maxTokenBytes_def proxy_maxTokenBytes_def)
    have up: "upgradeType (hq_Header ?r) = upgradeType (hq_Header r)" by (simp add: upgradeType_def header_values_def)
    have none: "isl (bearerToken [])" by (simp add: bearerToken_def)
    show ?thesis
    proof (cases "printable (upgradeType (hq_Header r))")
      case True
      then obtain rq where rq: "reverse_proxy (pr_target p) ?r = Some rq" "hq_Scheme rq = ''https''" "hq_Host rq = u_Host (pr_target p)"
        "hq_Header rq = forwarded_headers (hq_ClientIP r) (hq_Header ?r)"
        using up sch by (simp add: reverse_proxy_def director_def)
      then have "map_get (hq_Header rq) ''Authorization'' =
          (if ''Authorization'' \<in> set (connection_options (hq_Header r)) then None else Some [''Bearer '' @ token])"
        by (simp add: forwarded_authorization connection_options_other)
      moreover have "ServeHTTP files round_trip p r = (case round_trip rq of Inl e \<Rightarrow> ProxyError 502 ''upstream unavailable'' | Inr a \<Rightarrow> Forwarded a)"
        using Inr rq(1) by (simp add: ServeHTTP_def)
      ultimately show ?thesis using Inr True tok(3,4) len rq(2,3) none bearer_header[OF tok(1)]
        unfolding Inr sum.case by (intro conjI) (auto simp: header_values_def)
    qed (use Inr tok(3,4) len up in \<open>simp add: ServeHTTP_def reverse_proxy_def\<close>)
  qed (simp add: ServeHTTP_def)
qed

definition sample_proxy_url :: "string \<Rightarrow> proxy_url result" where
  "sample_proxy_url s = (if HasPrefix s ''https://''
     then Inr \<lparr>u_Scheme = ''https'', u_Host = drop 8 s, u_HasUser = False, u_RawQuery = [], u_Fragment = [], u_Path = []\<rparr>
     else Inl (ExtError ''url.Parse''))"

definition sample_client_request :: http_request where
  "sample_client_request = \<lparr>hq_Method = ''GET'', hq_Scheme = [], hq_Host = ''localhost'', hq_Path = ''/containers/json'',
     hq_Header = [(''Authorization'', [''Basic x'']), (''Connection'', [''keep-alive'']), (''User-Agent'', [''docker''])], hq_ClientIP = Some ''127.0.0.1''\<rparr>"

lemma sample_client_header:
  "''Authorization'' \<notin> set (connection_options (hq_Header sample_client_request))" "printable (upgradeType (hq_Header sample_client_request))"
  "''Authorization'' \<in> set (connection_options [(''Connection'', [''close, authorization''])])"
  by code_simp+

theorem proxy_token_reaches_server_witness:
  "\<exists>p rq. clientproxy_New sample_proxy_url \<lparr>cl_SystemCertPool = Inr (), cl_ReadFile = (\<lambda>f. Inl (ExtError f)), cl_Append = (\<lambda>r d. None)\<rparr>
       \<lparr>px_Upstream = ''https://testtender/'', px_TokenFile = ''/token'', px_CAFile = []\<rparr> = Inr p \<and>
     ServeHTTP (\<lambda>f. Inr (''abc'' @ [CHR 0x0A], None)) Inr p sample_client_request = Forwarded rq \<and>
     hq_Scheme rq = ''https'' \<and> map_get (hq_Header rq) ''Authorization'' = Some [''Bearer abc'']"
proof -
  let ?CL = "\<lparr>cl_SystemCertPool = Inr (), cl_ReadFile = (\<lambda>f. Inl (ExtError f)), cl_Append = (\<lambda>r d. None)\<rparr>"
  let ?cfg = "\<lparr>px_Upstream = ''https://testtender/'', px_TokenFile = ''/token'', px_CAFile = []\<rparr>"
  let ?files = "\<lambda>f. Inr (''abc'' @ [CHR 0x0A], None)"
  have "case clientproxy_New sample_proxy_url ?CL ?cfg of Inl e \<Rightarrow> False | Inr p \<Rightarrow> pr_tokenFile p = ''/token''" by code_simp
  then obtain p where p: "clientproxy_New sample_proxy_url ?CL ?cfg = Inr p" by (auto split: sum.splits)
  have t: "readToken ?files x = Inr ''abc''" for x
  proof -
    have "TrimSpace [CHR ''a'', CHR ''b'', CHR ''c'', CHR 0x0A] = ''abc''" by code_simp
    then show ?thesis by (simp add: readToken_def proxy_maxTokenBytes_def Let_def)
  qed
  have "\<exists>rq. ServeHTTP ?files Inr p sample_client_request = Forwarded rq \<and> hq_Scheme rq = ''https'' \<and>
      map_get (hq_Header rq) ''Authorization'' = Some [''Bearer '' @ ''abc'']"
    using proxy_token_reaches_server[OF p, of ?files Inr sample_client_request] sample_client_header(1,2)
    unfolding t sum.case by auto
  then show ?thesis using p by auto
qed

end
