(* ===== verification/StringID.thy ===== *)
theory StringID
  imports Strings
begin

text \<open>
  Package \<open>internal/util/stringid\<close>: random 64-digit identifiers, their 12-digit short form
  and the tests that tell them apart. The loop of \<open>GenerateRandomID\<close> draws 32 random bytes
  until the short form is not a number; the random source is the list of the blocks it will
  deliver, and \<^const>\<open>None\<close> says the blocks ran out before the loop returned.
\<close>

type_synonym byte = "8 word"

definition shortLen :: nat where "shortLen = 12"

definition IsShortID :: "string \<Rightarrow> bool" where
  "IsShortID ident = (length ident = 12 \<and> list_all is_hex ident)"

definition TruncateID :: "string \<Rightarrow> string" where
  "TruncateID ident =
     (let ident1 = (case Cut ident (CHR '':'') of (_, rest, found) \<Rightarrow> if found then rest else ident)
      in if length ident1 > shortLen then take shortLen ident1 else ident1)"

definition hex_digit :: "nat \<Rightarrow> char" where
  "hex_digit n = (if n < 10 then char_of (48 + n) else char_of (87 + n))"

definition hex_EncodeToString :: "byte list \<Rightarrow> string" where
  "hex_EncodeToString bs =
     concat (map (\<lambda>b. [hex_digit (unat b div 16), hex_digit (unat b mod 16)]) bs)"

fun GenerateRandomID :: "byte list list \<Rightarrow> (string \<times> byte list list) option" where
  "GenerateRandomID [] = None"
| "GenerateRandomID (b # rnd) =
     (let ident = hex_EncodeToString b
      in if ParseInt 64 (TruncateID ident) \<noteq> None then GenerateRandomID rnd
         else Some (ident, rnd))"

definition ValidateID :: "string \<Rightarrow> unit result" where
  "ValidateID ident = (if length ident = 64 \<and> list_all is_hex ident then Inr ()
                    else Inl (Errorf ''image ID %q is invalid'' [ident]))"

section \<open>Lemmas\<close>

lemma is_hex_hex_digit [simp]: "n < 16 \<Longrightarrow> is_hex (hex_digit n)"
  by (auto simp: hex_digit_def is_hex_def is_digit_def code_char_of)

lemma hex_digit_colon: "n < 16 \<Longrightarrow> hex_digit n \<noteq> CHR '':''"
proof -
  assume "n < 16"
  then have "is_hex (hex_digit n)" by simp
  moreover have "\<not> is_hex (CHR '':'')" by (simp add: byte_class_defs code_def)
  ultimately show ?thesis by metis
qed

lemma nibbles: "unat (b :: byte) div 16 < 16" "unat (b :: byte) mod 16 < 16"
proof -
  have "unat b < 2 ^ LENGTH(8)" by (rule unsigned_less)
  then show "unat b div 16 < 16" by simp
qed simp

lemma hex_Encode_hex: "list_all is_hex (hex_EncodeToString bs)"
  by (induction bs) (auto simp: hex_EncodeToString_def nibbles)

lemma hex_Encode_length: "length (hex_EncodeToString bs) = 2 * length bs"
  by (induction bs) (auto simp: hex_EncodeToString_def)

lemma hex_not_special:
  "list_all is_hex s \<Longrightarrow> \<not> is_hex c \<Longrightarrow> c \<notin> set s"
  by (auto simp: list_all_iff)

lemma colon_not_hex: "\<not> is_hex (CHR '':'')" and dash_not_hex: "\<not> is_hex (CHR ''-'')"
  by (simp_all add: byte_class_defs code_def)

lemma TruncateID_hex:
  "list_all is_hex ident \<Longrightarrow> TruncateID ident = take 12 ident"
  using hex_not_special[OF _ colon_not_hex]
  by (auto simp: TruncateID_def shortLen_def Cut_eq)

lemma TruncateID_short: "list_all is_hex ident \<Longrightarrow> 12 \<le> length ident \<Longrightarrow> IsShortID (TruncateID ident)"
  by (auto simp: TruncateID_hex IsShortID_def list_all_iff dest: in_set_takeD)

lemma GenerateRandomID_spec:
  assumes "list_all (\<lambda>b. length b = 32) rnd" "GenerateRandomID rnd = Some (ident, rest)"
  shows "length ident = 64 \<and> list_all is_hex ident \<and> ParseInt 64 (TruncateID ident) = None"
  using assms
  by (induction rnd) (auto simp: Let_def hex_Encode_length hex_Encode_hex split: if_splits)

lemma GenerateRandomID_rest:
  "GenerateRandomID rnd = Some (ident, rest) \<Longrightarrow> \<exists>used. rnd = used @ rest \<and> used \<noteq> []"
proof (induction rnd)
  case (Cons b rnd)
  then show ?case by (auto simp: Let_def split: if_splits)
qed simp

lemma GenerateRandomID_progress:
  "\<exists>b \<in> set rnd. ParseInt 64 (TruncateID (hex_EncodeToString b)) = None \<Longrightarrow>
   \<exists>ident rest. GenerateRandomID rnd = Some (ident, rest)"
  by (induction rnd) (auto simp: Let_def)

lemma length_TruncateID: "length (TruncateID ident) \<le> 12"
  by (auto simp: TruncateID_def shortLen_def Let_def split: prod.splits)

end
