(* ===== verification/Kube.thy ===== *)
theory Kube
  imports StringID
begin

text \<open>
  The Kubernetes API objects (\<open>k8s.io/api/core/v1\<close>) as data: only the fields the program
  reads or writes. The type \<open>'q\<close> of resource quantities is left open, since quantities are
  only produced by \<open>resource.ParseQuantity\<close> and stored.
\<close>

datatype pull_policy = PullAlways | PullIfNotPresent | PullNever | PullUnset

record envvar =
  ev_Name :: string
  ev_Value :: string
  ev_SecretKeyRef :: "(string \<times> string) option"   \<comment> \<open>secret name and key\<close>

record key_to_path =
  kp_Key :: string
  kp_Path :: string
  kp_Mode :: "32 word option"

record secret_projection =
  sp_Name :: string
  sp_Items :: "key_to_path list"

datatype volume_source =
    EmptyDir
  | ConfigMapVolume string "key_to_path list"
  | Projected "secret_projection list" "32 word"
  | OtherVolume string

record volume =
  vol_Name :: string
  vol_Source :: volume_source

record volume_mount =
  vm_Name :: string
  vm_MountPath :: string
  vm_SubPath :: string
  vm_ReadOnly :: bool

text \<open>A resource list is a Go map that may be nil (\<^const>\<open>None\<close>).\<close>

record 'q resources =
  res_Requests :: "(string, 'q) gomap option"
  res_Limits :: "(string, 'q) gomap option"

record container_port =
  cp_ContainerPort :: "32 word"
  cp_Name :: string

record 'q kcontainer =
  kc_Name :: string
  kc_Image :: string
  kc_Command :: "string list"
  kc_Args :: "string list"
  kc_Env :: "envvar list"
  kc_VolumeMounts :: "volume_mount list"
  kc_Ports :: "container_port list"
  kc_ImagePullPolicy :: pull_policy
  kc_TTY :: bool
  kc_Stdin :: bool
  kc_Resources :: "'q resources"

record object_meta =
  om_Name :: string
  om_Namespace :: string
  om_Labels :: "(string, string) gomap"
  om_Annotations :: "(string, string) gomap"
  om_CreationTimestamp :: time
  om_DeletionTimestamp :: "time option"

text \<open>The pod security context, reduced to the user the containers run as.\<close>

record security_context =
  sc_RunAsUser :: "int option"

record container_terminated =
  ct_ExitCode :: "32 word"
  ct_Reason :: string
  ct_Message :: string
  ct_StartedAt :: time
  ct_FinishedAt :: time

record container_status =
  cs_Name :: string
  cs_Terminated :: "container_terminated option"
  cs_Running :: "time option"                     \<comment> \<open>\<open>State.Running.StartedAt\<close>\<close>
  cs_WaitingReason :: "string option"
  cs_LastTerminated :: "container_terminated option"
  cs_RestartCount :: int

record 'q pod =
  pod_Meta :: object_meta
  pod_Containers :: "'q kcontainer list"
  pod_InitContainers :: "'q kcontainer list"
  pod_Volumes :: "volume list"
  pod_NodeSelector :: "(string, string) gomap"
  pod_Hostname :: string
  pod_ServiceAccountName :: string
  pod_RestartPolicyNever :: bool
  pod_ActiveDeadlineSeconds :: "int option"
  pod_SecurityContext :: "security_context option"
  pod_ImagePullSecrets :: "string list"
  pod_PodIP :: string
  pod_PhaseFailed :: bool
  pod_ContainerStatuses :: "container_status list"
  pod_InitContainerStatuses :: "container_status list"

record service_port =
  svp_Name :: string
  svp_Port :: "32 word"
  svp_TargetPort :: "32 word"

record service =
  svc_Meta :: object_meta
  svc_Selector :: "(string, string) gomap"
  svc_Ports :: "service_port list"
  svc_ClusterIPNone :: bool
  svc_PublishNotReadyAddresses :: bool

record config_map =
  cm_Meta :: object_meta
  cm_BinaryData :: "(string, byte list) gomap"

end
