(* ===== verification/Container.thy ===== *)
theory Container
  imports Kube
begin

text \<open>
  \<open>internal/model/types/container.go\<close>: the container record and its accessors. Channels are
  numbered; signalling returns the channel operations in the order the code performs them.
\<close>

section \<open>Data\<close>

record mount =
  m_Type :: string
  m_Source :: string
  m_Target :: string
  m_ReadOnly :: bool

record prearchive =
  pa_Path :: string
  pa_Archive :: "byte list"

record container =
  co_ID :: string
  co_ShortID :: string
  co_Name :: string
  co_Hostname :: string
  co_Image :: string
  co_Labels :: "(string, string) gomap"
  co_Entrypoint :: "string list"
  co_Cmd :: "string list"
  co_Env :: "string list"
  co_Binds :: "string list"
  co_Mounts :: "mount list"
  co_PreArchives :: "prearchive list"
  co_HostIP :: string
  co_ExposedPorts :: "string list"
  co_ImagePorts :: "string list"
  co_HostPorts :: "(int, int) gomap"
  co_MappedPorts :: "(int, int) gomap"
  co_Networks :: "string list"
  co_NetworkAliases :: "string list"
  co_StopChannels :: "nat list"
  co_AttachChannels :: "nat list"
  co_Running :: bool
  co_Completed :: bool
  co_Failed :: bool
  co_Stopped :: bool
  co_Killed :: bool
  co_OOMKilled :: bool
  co_ExitCode :: int
  co_StateError :: string
  co_Tty :: bool
  co_OpenStdin :: bool
  co_Created :: time
  co_Started :: time
  co_Finished :: time

definition LabelRequestCPU :: string where "LabelRequestCPU = ''testtender.io.request-cpu''"
definition LabelRequestMemory :: string where "LabelRequestMemory = ''testtender.io.request-memory''"
definition LabelRequestEphemeralStorage :: string where
  "LabelRequestEphemeralStorage = ''testtender.io.request-ephemeral-storage''"
definition LabelPullPolicy :: string where "LabelPullPolicy = ''testtender.io.pull-policy''"
definition LabelServiceAccount :: string where "LabelServiceAccount = ''testtender.io.service-account''"
definition LabelNamePrefix :: string where "LabelNamePrefix = ''testtender.io.name-prefix''"
definition LabelRunasUser :: string where "LabelRunasUser = ''testtender.io.runas-user''"
definition LabelNodeSelector :: string where "LabelNodeSelector = ''testtender.io.node-selector''"
definition LabelActiveDeadlineSeconds :: string where
  "LabelActiveDeadlineSeconds = ''testtender.io.active-deadline-seconds''"

lemmas label_defs = LabelRequestCPU_def LabelRequestMemory_def LabelRequestEphemeralStorage_def
  LabelPullPolicy_def LabelServiceAccount_def LabelNamePrefix_def LabelRunasUser_def
  LabelNodeSelector_def LabelActiveDeadlineSeconds_def

section \<open>Environment, pull policy, resources\<close>

fun env_vars :: "string list \<Rightarrow> envvar list" where
  "env_vars [] = []"
| "env_vars (e # es) = (case Cut e (CHR ''='') of (key, val, found) \<Rightarrow>
     if found then \<lparr>ev_Name = key, ev_Value = val, ev_SecretKeyRef = None\<rparr> # env_vars es
     else env_vars es)"

definition GetEnvVar :: "container \<Rightarrow> envvar list" where
  "GetEnvVar co = env_vars (co_Env co)"

definition pull_policies :: "(string, pull_policy) gomap" where
  "pull_policies =
    [(''default'', PullIfNotPresent), (''notpresent'', PullIfNotPresent),
     (''ifnotpresent'', PullIfNotPresent), (''always'', PullAlways),
     (''allways'', PullAlways), (''never'', PullNever)]"

text \<open>The second component is the returned error; the policy is returned beside it.\<close>

definition GetImagePullPolicy :: "container \<Rightarrow> pull_policy \<times> error option" where
  "GetImagePullPolicy co =
     (let p = map_str (co_Labels co) LabelPullPolicy
      in if p \<noteq> [] then
           (case map_get pull_policies (ToLower p) of
              Some c \<Rightarrow> (c, None)
            | None \<Rightarrow> (PullIfNotPresent, Some (Errorf ''invalid pull policy: %s'' [p])))
         else (PullIfNotPresent, None))"

definition resource_labels :: "(string, string) gomap" where
  "resource_labels =
    [(''cpu'', LabelRequestCPU), (''memory'', LabelRequestMemory),
     (''ephemeral-storage'', LabelRequestEphemeralStorage)]"

text \<open>One pass of the loop: the label \<open>rls\<close> of resource \<open>typ\<close> read into requests and limits.\<close>

definition resource_step ::
  "(string \<Rightarrow> 'q result) \<Rightarrow> string \<Rightarrow> string \<Rightarrow> (string, 'q) gomap \<Rightarrow> (string, 'q) gomap \<Rightarrow>
   (string, 'q) gomap \<times> (string, 'q) gomap \<times> error option" where
  "resource_step ParseQuantity typ rls reqs lims =
     (let rl = Split (ReplaceAll rls '' '' '''') (CHR '','')
      in if length rl = 0 \<or> length rl > 2
         then (reqs, lims, Some (Errorf ''invalid resource requirement: %s'' [rls]))
         else
           (let r0 = rl ! 0;
                l = (if length rl = 2 then rl ! 1 else []);
                r = (if r0 = [] \<and> l \<noteq> [] then l else r0)
            in case ParseQuantity r of
                 Inl e \<Rightarrow> (reqs, lims, Some e)
               | Inr rq \<Rightarrow>
                   (let reqs' = map_set typ rq reqs
                    in if l \<noteq> [] then
                         (case ParseQuantity l of
                            Inl e \<Rightarrow> (reqs', lims, Some e)
                          | Inr lt \<Rightarrow> (reqs', map_set typ lt lims, None))
                       else (reqs', lims, None))))"

fun resource_loop ::
  "(string \<Rightarrow> 'q result) \<Rightarrow> (string, string) gomap \<Rightarrow> (string \<times> string) list \<Rightarrow>
   (string, 'q) gomap \<Rightarrow> (string, 'q) gomap \<Rightarrow>
   (string, 'q) gomap \<times> (string, 'q) gomap \<times> error option" where
  "resource_loop ParseQuantity labels [] reqs lims = (reqs, lims, None)"
| "resource_loop ParseQuantity labels ((typ, labl) # rest) reqs lims =
     (case map_get labels labl of
        None \<Rightarrow> resource_loop ParseQuantity labels rest reqs lims
      | Some rls \<Rightarrow>
          (case resource_step ParseQuantity typ rls reqs lims of
             (reqs', lims', Some e) \<Rightarrow> (reqs', lims', Some e)
           | (reqs', lims', None) \<Rightarrow> resource_loop ParseQuantity labels rest reqs' lims'))"

text \<open>
  The argument is passed by value, but its two maps are references: when the caller's map is
  not nil, the assignments are made in the caller's map. The model returns the maps after the
  call; what this means for the caller's template is stated where the caller is modelled.
  The table of the three labels is a Go map too: \<open>order\<close> is the order the loop visits it in.
\<close>

definition GetResourceRequirements ::
  "(string \<Rightarrow> 'q result) \<Rightarrow> (string \<times> string) list \<Rightarrow> container \<Rightarrow> 'q resources \<Rightarrow>
   'q resources \<times> error option" where
  "GetResourceRequirements ParseQuantity order co req =
     (let reqs = (case res_Requests req of None \<Rightarrow> [] | Some m \<Rightarrow> m);
          lims = (case res_Limits req of None \<Rightarrow> [] | Some m \<Rightarrow> m)
      in case resource_loop ParseQuantity (co_Labels co) order reqs lims of
           (reqs', lims', e) \<Rightarrow> (\<lparr>res_Requests = Some reqs', res_Limits = Some lims'\<rparr>, e))"

section \<open>Node selector, service account, deadline\<close>

definition quoted :: "string \<Rightarrow> string" where
  "quoted s = [CHR 0x27] @ s @ [CHR 0x27]"

definition splitNodeSelector :: "string \<Rightarrow> (string \<times> string) result" where
  "splitNodeSelector selector =
     (let parts = Split selector (CHR ''='')
      in if length parts \<noteq> 2 then
           Inl (Errorf (''node-selector in wrong format, must contain exactly one equals sign '' @ quoted ''='' @ '': '' @ quoted ''%s'') [selector])
         else Inr (parts ! 0, parts ! 1))"

fun node_selector_loop ::
  "string list \<Rightarrow> (string, string) gomap \<Rightarrow> (string, string) gomap \<times> error option" where
  "node_selector_loop [] nodesel = (nodesel, None)"
| "node_selector_loop (s # ss) nodesel =
     (case splitNodeSelector s of
        Inr (k, v) \<Rightarrow> node_selector_loop ss (map_set k v nodesel)
      | Inl e \<Rightarrow> (nodesel, Some e))"

definition GetNodeSelector ::
  "container \<Rightarrow> (string, string) gomap \<Rightarrow> (string, string) gomap \<times> error option" where
  "GetNodeSelector co nodesel =
     (let selector = map_str (co_Labels co) LabelNodeSelector
      in if selector = [] then (nodesel, None)
         else node_selector_loop (Split selector (CHR '','')) nodesel)"

definition GetServiceAccountName :: "container \<Rightarrow> string \<Rightarrow> string" where
  "GetServiceAccountName co current =
     (let current' = (if current = [] then ''default'' else current)
      in case map_get (co_Labels co) LabelServiceAccount of Some sa \<Rightarrow> sa | None \<Rightarrow> current')"

definition GetActiveDeadlineSeconds :: "container \<Rightarrow> int option result" where
  "GetActiveDeadlineSeconds co =
     (case map_get (co_Labels co) LabelActiveDeadlineSeconds of
        None \<Rightarrow> Inr None
      | Some ads \<Rightarrow> (case ParseInt 64 ads of
            None \<Rightarrow> Inl (Errorf ''failed to parse %s to Int64'' [ads])
          | Some n \<Rightarrow> Inr (Some n)))"

section \<open>Pod name, security context\<close>

definition GetPodName :: "container \<Rightarrow> string" where
  "GetPodName co =
     (let name0 = (case map_get (co_Labels co) LabelNamePrefix of
                     Some p \<Rightarrow> p @ ''-'' @ co_Name co
                   | None \<Rightarrow> ''testtender-'' @ co_Name co);
          name1 = ReplaceAll name0 ''_'' ''-'';
          name2 = filter (\<lambda>c. is_alnum c \<or> c = CHR ''-'') name1;
          name3 = (if length name2 > 32 then take 32 name2 else name2);
          name4 = name3 @ ''-'' @ co_ShortID co;
          name5 = ReplaceAll name4 ''--'' ''-'';
          name6 = dropWhile (\<lambda>c. \<not> is_alnum c) name5
      in ToLower name6)"

definition GetPodSecurityContext ::
  "container \<Rightarrow> security_context option \<Rightarrow> security_context option \<times> error option" where
  "GetPodSecurityContext co ctx =
     (case map_get (co_Labels co) LabelRunasUser of
        None \<Rightarrow> (ctx, None)
      | Some user0 \<Rightarrow>
          if user0 = [] then (ctx, None)
          else
            (let user = (if hd (Split user0 (CHR '':'')) = ''root'' then ''0'' else user0);
                 ctx' = (case ctx of None \<Rightarrow> \<lparr>sc_RunAsUser = None\<rparr> | Some c \<Rightarrow> c)
             in case ParseInt 64 user of
                  None \<Rightarrow> (Some ctx', Some (Errorf ''failed to parse %s to Int64'' [user]))
                | Some n \<Rightarrow> (Some (ctx'\<lparr>sc_RunAsUser := Some n\<rparr>), None)))"

section \<open>Ports\<close>

definition MapPort :: "container \<Rightarrow> int \<Rightarrow> int \<Rightarrow> container" where
  "MapPort co pod local = co\<lparr>co_MappedPorts := map_set pod local (co_MappedPorts co)\<rparr>"

definition getTCPPort :: "string \<Rightarrow> int result" where
  "getTCPPort p =
     (let f = Split p (CHR ''/'')
      in if length f = 0 \<or> length f > 2 then Inl (Errorf ''could not parse exposed port %s'' [p])
         else case Atoi (f ! 0) of
             None \<Rightarrow> Inl (Wrapf ''could not parse exposed port %s: %w'' [p] (ExtError ''strconv.Atoi''))
           | Some pp \<Rightarrow>
               if length f = 2 \<and> f ! 1 \<noteq> ''tcp''
               then Inl (Errorf ''unsupported protocol %s for port: %d - only tcp is supported''
                          [f ! 1, show_int pp])
               else Inr pp)"

definition AddHostPort :: "container \<Rightarrow> string \<Rightarrow> string \<Rightarrow> container result" where
  "AddHostPort co src dst =
     bind_res (getTCPPort dst) (\<lambda>dp.
       bind_res (if src \<noteq> [] \<and> src \<noteq> ''0'' then
                   (case Atoi src of
                      None \<Rightarrow> Inl (Wrapf ''could not parse exposed port %s: %w'' [dst] (ExtError ''strconv.Atoi''))
                    | Some sp \<Rightarrow> Inr sp)
                 else Inr (- dp)) (\<lambda>sp.
         Inr (co\<lparr>co_HostPorts := map_set sp dp (co_HostPorts co)\<rparr>)))"

fun getTCPPorts :: "string list \<Rightarrow> int list" where
  "getTCPPorts [] = []"
| "getTCPPorts (p # ps) = (case getTCPPort p of
     Inl e \<Rightarrow> getTCPPorts ps
   | Inr pp \<Rightarrow> pp # getTCPPorts ps)"

definition GetContainerTCPPorts :: "container \<Rightarrow> int list" where
  "GetContainerTCPPorts co = getTCPPorts (co_ExposedPorts co)"

definition GetImageTCPPorts :: "container \<Rightarrow> int list" where
  "GetImageTCPPorts co = getTCPPorts (co_ImagePorts co)"

fun add_self_ports :: "int list \<Rightarrow> (int, int) gomap \<Rightarrow> (int, int) gomap" where
  "add_self_ports [] ports = ports"
| "add_self_ports (pp # pps) ports = add_self_ports pps (map_set pp pp ports)"

fun add_port_map :: "(int \<times> int) list \<Rightarrow> (int, int) gomap \<Rightarrow> (int, int) gomap" where
  "add_port_map [] ports = ports"
| "add_port_map ((src, dst) # rest) ports =
     add_port_map rest (map_set (if src < 0 then dst else src) dst ports)"

definition GetServicePorts :: "container \<Rightarrow> (int, int) gomap" where
  "GetServicePorts co =
     add_port_map (co_MappedPorts co)
       (add_port_map (co_HostPorts co)
         (add_self_ports (GetContainerTCPPorts co)
           (add_self_ports (GetImageTCPPorts co) [])))"

section \<open>Volumes\<close>

text \<open>Reading \<open>f[1]\<close> of a bind without a colon panics.\<close>

fun bind_mounts :: "string list \<Rightarrow> (string, string) gomap \<Rightarrow> (string, string) gomap result" where
  "bind_mounts [] mounts = Inr mounts"
| "bind_mounts (b # bs) mounts =
     (case Split b (CHR '':'') of
        src # dst # _ \<Rightarrow> bind_mounts bs (map_set dst src mounts)
      | _ \<Rightarrow> Inl (Panic ''index out of range [1] with length 1''))"

fun add_mounts :: "mount list \<Rightarrow> (string, string) gomap \<Rightarrow> (string, string) gomap" where
  "add_mounts [] mounts = mounts"
| "add_mounts (m # ms) mounts = add_mounts ms (map_set (m_Target m) (m_Source m) mounts)"

definition GetVolumes :: "container \<Rightarrow> (string, string) gomap result" where
  "GetVolumes co = bind_res (bind_mounts (co_Binds co) []) (\<lambda>m. Inr (add_mounts (co_Mounts co) m))"

text \<open>\<open>stat\<close> stands for \<open>os.Stat\<close>: \<^const>\<open>None\<close> on error, else whether the path is a directory.\<close>

definition GetVolumeFolders :: "(string \<Rightarrow> bool option) \<Rightarrow> container \<Rightarrow> (string, string) gomap result" where
  "GetVolumeFolders stat co =
     bind_res (GetVolumes co) (\<lambda>vs. Inr (filter (\<lambda>(dst, src). stat src = Some True) vs))"

definition GetVolumeFiles :: "(string \<Rightarrow> bool option) \<Rightarrow> container \<Rightarrow> (string, string) gomap result" where
  "GetVolumeFiles stat co =
     bind_res (GetVolumes co) (\<lambda>vs.
       Inr (filter (\<lambda>(dst, src). stat src = Some False \<and> dst \<noteq> ''/var/run/docker.sock'') vs))"

definition HasDockerSockBinding :: "container \<Rightarrow> bool result" where
  "HasDockerSockBinding co =
     bind_res (GetVolumes co) (\<lambda>vs. Inr (list_ex (\<lambda>(dst, src). dst = ''/var/run/docker.sock'') vs))"

definition HasVolumes :: "container \<Rightarrow> bool" where
  "HasVolumes co = (length (co_Binds co) > 0)"

definition HasPreArchives :: "container \<Rightarrow> bool" where
  "HasPreArchives co = (length (co_PreArchives co) > 0)"

section \<open>Channels and networks\<close>

datatype chan_op = ChanSend nat | ChanClose nat

definition AddStopChannel :: "container \<Rightarrow> nat \<Rightarrow> container" where
  "AddStopChannel co stop = co\<lparr>co_StopChannels := co_StopChannels co @ [stop]\<rparr>"

definition SignalStop :: "container \<Rightarrow> chan_op list \<times> container" where
  "SignalStop co =
     (concat (map (\<lambda>c. [ChanSend c, ChanClose c]) (co_StopChannels co)), co\<lparr>co_StopChannels := []\<rparr>)"

definition AddAttachChannel :: "container \<Rightarrow> nat \<Rightarrow> container" where
  "AddAttachChannel co stop = co\<lparr>co_AttachChannels := co_AttachChannels co @ [stop]\<rparr>"

definition SignalDetach :: "container \<Rightarrow> chan_op list \<times> container" where
  "SignalDetach co =
     (concat (map (\<lambda>c. [ChanSend c, ChanClose c]) (co_AttachChannels co)), co\<lparr>co_AttachChannels := []\<rparr>)"

definition ConnectNetwork :: "container \<Rightarrow> string \<Rightarrow> container" where
  "ConnectNetwork co i = co\<lparr>co_Networks := key_add i (co_Networks co)\<rparr>"

definition DisconnectNetwork :: "container \<Rightarrow> string \<Rightarrow> container result" where
  "DisconnectNetwork co i =
     (if i \<notin> set (co_Networks co)
      then Inl (Errorf ''container is not connected to network %s'' [i])
      else Inr (co\<lparr>co_Networks := removeAll i (co_Networks co)\<rparr>))"

section \<open>Matching and state strings\<close>

text \<open>\<open>re\<close> stands for \<open>regexp.MatchString(pattern, text)\<close>.\<close>

definition co_nameMatch :: "(string \<Rightarrow> string \<Rightarrow> bool result) \<Rightarrow> container \<Rightarrow> string \<Rightarrow> bool result" where
  "co_nameMatch re co key = (if co_Name co = key then Inr True else re key (co_Name co))"

definition co_Match ::
  "(string \<Rightarrow> string \<Rightarrow> bool result) \<Rightarrow> container \<Rightarrow> string \<Rightarrow> string \<Rightarrow> string \<Rightarrow> bool result" where
  "co_Match re co typ key val =
     (if typ = ''name'' then co_nameMatch re co key
      else if typ \<noteq> ''label'' then Inr True
      else (case map_get (co_Labels co) key of
              None \<Rightarrow> Inr False
            | Some v \<Rightarrow> if val = [] then Inr True else Inr (v = val)))"

definition StateString :: "container \<Rightarrow> string" where
  "StateString co =
     (if co_Running co then ''running''
      else if co_Stopped co \<or> co_Killed co then ''dead''
      else if co_Failed co then ''dead''
      else if co_Completed co then ''exited''
      else ''created'')"

definition StatusString :: "container \<Rightarrow> string" where
  "StatusString co = (if co_Running co then ''healthy'' else ''unhealthy'')"

end
