(* ===== verification/SecretPolicy.thy ===== *)
theory SecretPolicy
  imports Container "HOL-Library.Multiset"
begin

text \<open>
  \<open>internal/policy/secret/env.go\<close>: labels that request namespace-local Secrets, checked
  against an exact allowlist. The three validators of \<open>k8s.io/apimachinery\<close> are parameters:
  each returns its list of problems, empty when the value is valid.
\<close>

section \<open>Definitions\<close>

record validators =
  IsDNS1123Subdomain :: "string \<Rightarrow> string list"
  IsConfigMapKey :: "string \<Rightarrow> string list"
  IsEnvVarName :: "string \<Rightarrow> string list"

definition EnvLabelPrefix :: string where "EnvLabelPrefix = ''testtender.io/secret-env.''"
definition FileLabelPrefix :: string where "FileLabelPrefix = ''testtender.io/secret-file.''"
definition VolumeName :: string where "VolumeName = ''testtender-secrets''"
definition MountPath :: string where "MountPath = ''/run/secrets''"
definition maxEnvReferences :: nat where "maxEnvReferences = 32"

text \<open>\<open>Policy\<close>: the allowed Secret names (a Go map used as a set).\<close>

record secret_policy =
  allowed :: "string list"

fun new_loop :: "validators \<Rightarrow> string list \<Rightarrow> string list \<Rightarrow> string list result" where
  "new_loop V [] acc = Inr acc"
| "new_loop V (raw # rest) acc =
     (let name = TrimSpace raw
      in if name = [] then new_loop V rest acc
         else if IsDNS1123Subdomain V name \<noteq> []
         then Inl (Errorf ''invalid allowed Secret name %q: %s'' [name, Join (IsDNS1123Subdomain V name) '', ''])
         else new_loop V rest (key_add name acc))"

definition secret_New :: "validators \<Rightarrow> string list \<Rightarrow> secret_policy result" where
  "secret_New V names = bind_res (new_loop V names []) (\<lambda>a. Inr \<lparr>allowed = a\<rparr>)"

definition parseReference ::
  "validators \<Rightarrow> secret_policy \<Rightarrow> string \<Rightarrow> string \<Rightarrow> (string \<times> string) result" where
  "parseReference V p target raw =
     (case Cut (TrimSpace raw) (CHR '':'') of (secretName, secretKey, found) \<Rightarrow>
        if \<not> found \<or> secretName = [] \<or> secretKey = []
        then Inl (Errorf ''invalid Secret reference for %q: expected <secret-name>:<secret-key>'' [target])
        else if IsDNS1123Subdomain V secretName \<noteq> []
        then Inl (Errorf ''invalid Secret name %q for %q: %s''
                   [secretName, target, Join (IsDNS1123Subdomain V secretName) '', ''])
        else if IsConfigMapKey V secretKey \<noteq> []
        then Inl (Errorf ''invalid Secret key %q for %q: %s''
                   [secretKey, target, Join (IsConfigMapKey V secretKey) '', ''])
        else if secretName \<notin> set (allowed p) then Inl (SecretDenied secretName)
        else Inr (secretName, secretKey))"

text \<open>The labels with a prefix, in the order of \<open>sort.Strings\<close>.\<close>

definition prefixed_labels :: "string \<Rightarrow> (string, string) gomap \<Rightarrow> string list" where
  "prefixed_labels pre labels = filter (\<lambda>l. HasPrefix l pre) (map_keys labels)"

fun env_loop ::
  "validators \<Rightarrow> secret_policy \<Rightarrow> (string, string) gomap \<Rightarrow> string list \<Rightarrow> string list \<Rightarrow> envvar list result" where
  "env_loop V p labels existingNames [] = Inr []"
| "env_loop V p labels existingNames (label # rest) =
     (let envName = TrimPrefix label EnvLabelPrefix
      in if IsEnvVarName V envName \<noteq> []
         then Inl (Errorf ''invalid Secret environment variable name %q: %s''
                    [envName, Join (IsEnvVarName V envName) '', ''])
         else if envName \<in> set existingNames
         then Inl (Errorf ''Secret environment variable %q conflicts with an ordinary environment variable'' [envName])
         else bind_res (parseReference V p envName (map_str labels label)) (\<lambda>(secretName, secretKey).
              bind_res (env_loop V p labels existingNames rest) (\<lambda>result.
              Inr (\<lparr>ev_Name = envName, ev_Value = [], ev_SecretKeyRef = Some (secretName, secretKey)\<rparr> # result))))"

definition EnvVars ::
  "validators \<Rightarrow> secret_policy \<Rightarrow> (string, string) gomap \<Rightarrow> envvar list \<Rightarrow> envvar list result" where
  "EnvVars V p labels existing =
     (let labelKeys = prefixed_labels EnvLabelPrefix labels
      in if length labelKeys > maxEnvReferences
         then Inl (Errorf ''too many Secret environment references: %d exceeds maximum %d''
                    [show_int (int (length labelKeys)), show_int (int maxEnvReferences)])
         else env_loop V p labels (map ev_Name existing) (sort labelKeys))"

text \<open>\<open>filesBySecret\<close> maps a Secret name to its items; \<open>append\<close> to an absent entry starts a
  new slice.\<close>

definition append_item ::
  "string \<Rightarrow> key_to_path \<Rightarrow> (string, key_to_path list) gomap \<Rightarrow> (string, key_to_path list) gomap" where
  "append_item s it m = map_set s ((case map_get m s of None \<Rightarrow> [] | Some its \<Rightarrow> its) @ [it]) m"

fun files_loop ::
  "validators \<Rightarrow> secret_policy \<Rightarrow> (string, string) gomap \<Rightarrow> string list \<Rightarrow>
   string list \<Rightarrow> (string, key_to_path list) gomap \<Rightarrow> (string, key_to_path list) gomap result" where
  "files_loop V p labels [] seen files = Inr files"
| "files_loop V p labels (label # rest) seen files =
     (let fileName = TrimPrefix label FileLabelPrefix
      in if fileName = ''.'' \<or> fileName = ''..''
         then Inl (Errorf ''invalid Secret filename %q'' [fileName])
         else if IsConfigMapKey V fileName \<noteq> []
         then Inl (Errorf ''invalid Secret filename %q: %s'' [fileName, Join (IsConfigMapKey V fileName) '', ''])
         else if fileName \<in> set seen
         then Inl (Errorf ''duplicate Secret filename %q'' [fileName])
         else bind_res (parseReference V p fileName (map_str labels label)) (\<lambda>(secretName, secretKey).
              files_loop V p labels rest (seen @ [fileName])
                (append_item secretName \<lparr>kp_Key = secretKey, kp_Path = fileName, kp_Mode = None\<rparr> files)))"

definition Files ::
  "validators \<Rightarrow> secret_policy \<Rightarrow> (string, string) gomap \<Rightarrow> (volume list \<times> volume_mount list) result" where
  "Files V p labels =
     (let labelKeys = prefixed_labels FileLabelPrefix labels
      in if length labelKeys > maxEnvReferences
         then Inl (Errorf ''too many Secret file references: %d exceeds maximum %d''
                    [show_int (int (length labelKeys)), show_int (int maxEnvReferences)])
         else if length labelKeys = 0 then Inr ([], [])
         else bind_res (files_loop V p labels (sort labelKeys) [] []) (\<lambda>filesBySecret.
           let sources = map (\<lambda>s. \<lparr>sp_Name = s,
                                   sp_Items = (case map_get filesBySecret s of None \<Rightarrow> [] | Some its \<Rightarrow> its)\<rparr>)
                             (sort (map_keys filesBySecret))
           in Inr ([\<lparr>vol_Name = VolumeName, vol_Source = Projected sources 288\<rparr>],
                   [\<lparr>vm_Name = VolumeName, vm_MountPath = MountPath, vm_SubPath = [], vm_ReadOnly = True\<rparr>])))"

definition secret_Validate ::
  "validators \<Rightarrow> secret_policy \<Rightarrow> (string, string) gomap \<Rightarrow> envvar list \<Rightarrow> unit result" where
  "secret_Validate V p labels existing =
     bind_res (EnvVars V p labels existing) (\<lambda>_. bind_res (Files V p labels) (\<lambda>_. Inr ()))"

text \<open>The items of a projected volume, Secret by Secret.\<close>

fun projected_items :: "volume list \<Rightarrow> (string \<times> key_to_path) list" where
  "projected_items [] = []"
| "projected_items (v # vs) =
     (case vol_Source v of
        Projected sources mode \<Rightarrow>
          concat (map (\<lambda>s. map (Pair (sp_Name s)) (sp_Items s)) sources) @ projected_items vs
      | _ \<Rightarrow> projected_items vs)"

text \<open>Validators and a policy for the examples.\<close>

definition accept_all :: validators where
  "accept_all = \<lparr>IsDNS1123Subdomain = (\<lambda>_. []), IsConfigMapKey = (\<lambda>_. []), IsEnvVarName = (\<lambda>_. [])\<rparr>"

definition sample_policy :: secret_policy where
  "sample_policy = \<lparr>allowed = [''db'']\<rparr>"

definition sample_labels :: "(string, string) gomap" where
  "sample_labels = [(''testtender.io/secret-file.pw'', ''db:password''), (''other'', ''x''),
                    (''testtender.io/secret-env.PW'', '' db:password'')]"

section \<open>References\<close>

lemma parseReference_Inr:
  assumes "parseReference V p target raw = Inr (s, k)"
  shows "s \<in> set (allowed p) \<and> s \<noteq> [] \<and> k \<noteq> [] \<and> IsDNS1123Subdomain V s = [] \<and>
         IsConfigMapKey V k = [] \<and> TrimSpace raw = s @ '':'' @ k"
  using assms by (auto simp: parseReference_def Cut_True split: prod.splits if_splits)

lemma secret_New_allowed:
  assumes "secret_New V names = Inr p"
  shows "set (allowed p) = TrimSpace ` set names - {[]}"
    and "s \<in> set (allowed p) \<Longrightarrow> IsDNS1123Subdomain V s = []"
proof -
  have gen: "new_loop V ns acc = Inr a \<Longrightarrow>
      set a = set acc \<union> (TrimSpace ` set ns - {[]}) \<and>
      (\<forall>n \<in> TrimSpace ` set ns - {[]}. IsDNS1123Subdomain V n = [])" for ns acc a
    by (induction V ns acc rule: new_loop.induct) (auto simp: Let_def split: if_splits)
  from assms obtain a where "new_loop V names [] = Inr a" "p = \<lparr>allowed = a\<rparr>"
    by (auto simp: secret_New_def bind_res_Inr)
  with gen[of names "[]" a] show "set (allowed p) = TrimSpace ` set names - {[]}"
    and "s \<in> set (allowed p) \<Longrightarrow> IsDNS1123Subdomain V s = []" by auto
qed

section \<open>Environment references\<close>

lemma map_str_cong: "map_get l1 = map_get l2 \<Longrightarrow> map_str l1 = map_str l2"
  by (auto simp: map_str_def)

lemma env_loop_cong: "map_str l1 = map_str l2 \<Longrightarrow> env_loop V p l1 ex ks = env_loop V p l2 ex ks"
  by (induction ks) (auto simp: Let_def)

lemma files_loop_cong:
  "map_str l1 = map_str l2 \<Longrightarrow> files_loop V p l1 ks seen fs = files_loop V p l2 ks seen fs"
proof (induction ks arbitrary: seen fs)
  case (Cons k ks)
  then show ?case by (simp add: Let_def case_prod_beta)
qed simp

lemma env_loop_Inr:
  "env_loop V p labels ex ks = Inr r \<Longrightarrow>
   map ev_Name r = map (\<lambda>l. TrimPrefix l EnvLabelPrefix) ks \<and>
   list_all2 (\<lambda>l e. ev_Name e \<notin> set ex \<and> IsEnvVarName V (ev_Name e) = [] \<and> ev_Value e = [] \<and>
     (\<exists>s k. ev_SecretKeyRef e = Some (s, k) \<and> parseReference V p (ev_Name e) (map_str labels l) = Inr (s, k))) ks r"
proof (induction ks arbitrary: r)
  case (Cons l ks)
  then show ?case by (auto simp: Let_def bind_res_Inr split: if_splits)
qed simp

lemma EnvVars_allowed:
  assumes "EnvVars V p labels existing = Inr r" "e \<in> set r" "ev_SecretKeyRef e = Some (s, k)"
  shows "s \<in> set (allowed p)"
proof -
  obtain ks where "env_loop V p labels (map ev_Name existing) ks = Inr r"
    using assms(1) by (auto simp: EnvVars_def Let_def split: if_splits)
  from env_loop_Inr[OF this] obtain l where "parseReference V p (ev_Name e) (map_str labels l) = Inr (s, k)"
    using assms(2,3) by (auto simp: list_all2_conv_all_nth in_set_conv_nth)
  then show ?thesis using parseReference_Inr by blast
qed

lemma env_loop_refs:
  "env_loop V p labels ex ks = Inr r \<Longrightarrow> l \<in> set ks \<Longrightarrow>
   \<exists>s k. parseReference V p (TrimPrefix l EnvLabelPrefix) (map_str labels l) = Inr (s, k)"
  by (induction ks arbitrary: r) (auto simp: Let_def bind_res_Inr split: if_splits)

lemma prefixed_labels_distinct: "go_map labels \<Longrightarrow> distinct (prefixed_labels pre labels)"
  by (simp add: prefixed_labels_def map_keys_def go_map_def)

lemma set_prefixed_labels: "set (prefixed_labels pre labels) = {l. has_key labels l \<and> HasPrefix l pre}"
  by (auto simp: prefixed_labels_def map_keys_def has_key_iff)

lemma TrimPrefix_names:
  "(\<lambda>l. TrimPrefix l pre) ` {l. has_key labels l \<and> HasPrefix l pre} = {n. has_key labels (pre @ n)}"
proof -
  have "n \<in> (\<lambda>l. TrimPrefix l pre) ` {l. has_key labels l \<and> HasPrefix l pre}" if "has_key labels (pre @ n)" for n
    using that by (intro image_eqI[of _ _ "pre @ n"]) auto
  then show ?thesis by (auto simp: HasPrefix_iff)
qed

text \<open>
  (C14) Every Secret-backed environment variable the policy emits is authorised: its Secret is
  on the exact allowlist and is the one its label names, its variable name is valid and does
  not replace an ordinary variable; there are at most 32 of them, and they are exactly the
  \<open>secret-env\<close> labels.
\<close>

theorem EnvVars_authorised:
  assumes "EnvVars V p labels existing = Inr r"
  shows "(\<forall>e \<in> set r. \<exists>s k. ev_SecretKeyRef e = Some (s, k) \<and> s \<in> set (allowed p) \<and>
            TrimSpace (map_str labels (EnvLabelPrefix @ ev_Name e)) = s @ '':'' @ k \<and>
            IsEnvVarName V (ev_Name e) = [] \<and> ev_Name e \<notin> ev_Name ` set existing) \<and>
         ev_Name ` set r = {n. has_key labels (EnvLabelPrefix @ n)} \<and> length r \<le> 32"
proof -
  let ?ks = "prefixed_labels EnvLabelPrefix labels"
  from assms have len: "length ?ks \<le> 32"
    and loop: "env_loop V p labels (map ev_Name existing) (sort ?ks) = Inr r"
    by (auto simp: EnvVars_def Let_def maxEnvReferences_def split: if_splits)
  note spec = env_loop_Inr[OF loop]
  then have names: "map ev_Name r = map (\<lambda>l. TrimPrefix l EnvLabelPrefix) (sort ?ks)" by blast
  then have lenr: "length r \<le> 32" using len by (metis length_map length_sort)
  have "set (map ev_Name r) = (\<lambda>l. TrimPrefix l EnvLabelPrefix) ` set ?ks" unfolding names by simp
  then have nameset: "ev_Name ` set r = {n. has_key labels (EnvLabelPrefix @ n)}"
    by (simp add: set_prefixed_labels TrimPrefix_names)
  have "\<exists>s k. ev_SecretKeyRef e = Some (s, k) \<and> s \<in> set (allowed p) \<and>
            TrimSpace (map_str labels (EnvLabelPrefix @ ev_Name e)) = s @ '':'' @ k \<and>
            IsEnvVarName V (ev_Name e) = [] \<and> ev_Name e \<notin> ev_Name ` set existing"
    if e: "e \<in> set r" for e
  proof -
    from e obtain i where i: "i < length r" "r ! i = e" by (metis in_set_conv_nth)
    let ?l = "sort ?ks ! i"
    have li: "i < length (sort ?ks)" using i names by (metis length_map)
    have "?l \<in> set ?ks" using li by (metis nth_mem set_sort)
    then have "HasPrefix ?l EnvLabelPrefix" by (simp add: set_prefixed_labels)
    moreover have "ev_Name e = TrimPrefix ?l EnvLabelPrefix" using names i li by (metis nth_map)
    ultimately have l: "?l = EnvLabelPrefix @ ev_Name e" by (simp add: HasPrefix_TrimPrefix)
    from spec li i have "ev_Name e \<notin> set (map ev_Name existing)" "IsEnvVarName V (ev_Name e) = []"
      "\<exists>s k. ev_SecretKeyRef e = Some (s, k) \<and> parseReference V p (ev_Name e) (map_str labels ?l) = Inr (s, k)"
      by (auto simp: list_all2_conv_all_nth)
    then show ?thesis unfolding l using parseReference_Inr by fastforce
  qed
  then show ?thesis using nameset lenr by blast
qed

theorem EnvVars_authorised_witness:
  "\<exists>r. EnvVars accept_all sample_policy sample_labels [] = Inr r \<and>
     ev_Name ` set r = {n. has_key sample_labels (EnvLabelPrefix @ n)} \<and> r \<noteq> []"
proof -
  have ev: "EnvVars accept_all sample_policy sample_labels [] =
      Inr [\<lparr>ev_Name = ''PW'', ev_Value = [], ev_SecretKeyRef = Some (''db'', ''password'')\<rparr>]"
    by code_simp
  from EnvVars_authorised[OF ev] show ?thesis unfolding ev by blast
qed

text \<open>
  (C21) The output of the policy does not depend on the order in which Go iterates over the
  label map: two maps with the same entries give the same variables, volumes and errors.
\<close>

theorem secret_policy_deterministic:
  assumes "go_map l1" "go_map l2" "map_get l1 = map_get l2"
  shows "EnvVars V p l1 existing = EnvVars V p l2 existing \<and> Files V p l1 = Files V p l2"
proof -
  have str: "map_str l1 = map_str l2" using assms(3) by (rule map_str_cong)
  have keys: "has_key l1 = has_key l2" using assms(3) by (auto simp: has_key_def fun_eq_iff)
  have ms: "mset (prefixed_labels pre l1) = mset (prefixed_labels pre l2)" for pre
    using prefixed_labels_distinct[OF assms(1), of pre] prefixed_labels_distinct[OF assms(2), of pre]
    by (simp add: set_eq_iff_mset_eq_distinct [symmetric] set_prefixed_labels keys)
  then have len: "length (prefixed_labels pre l1) = length (prefixed_labels pre l2)" for pre
    by (metis size_mset)
  have srt: "sort (prefixed_labels pre l1) = sort (prefixed_labels pre l2)" for pre
    using ms[of pre] by (metis properties_for_sort mset_sort sorted_sort)
  show ?thesis
    unfolding EnvVars_def Files_def Let_def len srt env_loop_cong[OF str] files_loop_cong[OF str]
    by (rule conjI) (rule refl)+
qed

theorem secret_policy_deterministic_witness:
  "EnvVars accept_all sample_policy sample_labels [] = EnvVars accept_all sample_policy (rev sample_labels) [] \<and>
   Files accept_all sample_policy sample_labels = Files accept_all sample_policy (rev sample_labels)"
  by (rule secret_policy_deterministic)
    (auto simp: sample_labels_def go_map_def fun_eq_iff)

section \<open>File references\<close>

lemma append_item_items:
  "(\<exists>its. map_get (append_item s it m) s' = Some its \<and> it' \<in> set its) \<longleftrightarrow>
   (s' = s \<and> it' = it) \<or> (\<exists>its. map_get m s' = Some its \<and> it' \<in> set its)"
  by (auto simp: append_item_def split: option.splits)

lemma files_loop_items:
  "files_loop V p labels ks seen fs = Inr m \<Longrightarrow>
   (\<exists>its. map_get m s = Some its \<and> it \<in> set its) \<longleftrightarrow>
   (\<exists>its. map_get fs s = Some its \<and> it \<in> set its) \<or>
   (\<exists>l \<in> set ks. kp_Path it = TrimPrefix l FileLabelPrefix \<and> kp_Mode it = None \<and>
      parseReference V p (kp_Path it) (map_str labels l) = Inr (s, kp_Key it))"
proof (induction ks arbitrary: seen fs)
  case (Cons l ks)
  let ?f = "TrimPrefix l FileLabelPrefix"
  from Cons.prems obtain s1 k1 where pr: "parseReference V p ?f (map_str labels l) = Inr (s1, k1)"
    and rest: "files_loop V p labels ks (seen @ [?f])
        (append_item s1 \<lparr>kp_Key = k1, kp_Path = ?f, kp_Mode = None\<rparr> fs) = Inr m"
    by (auto simp: Let_def bind_res_Inr split: if_splits)
  have "s = s1 \<and> it = \<lparr>kp_Key = k1, kp_Path = ?f, kp_Mode = None\<rparr> \<longleftrightarrow>
      kp_Path it = ?f \<and> kp_Mode it = None \<and> parseReference V p (kp_Path it) (map_str labels l) = Inr (s, kp_Key it)"
    using pr by (cases it) auto
  then show ?case using Cons.IH[OF rest] by (auto simp: append_item_items)
qed simp

lemma files_loop_names:
  "files_loop V p labels ks seen fs = Inr m \<Longrightarrow> l \<in> set ks \<Longrightarrow>
   TrimPrefix l FileLabelPrefix \<notin> {''.'', ''..''} \<and> IsConfigMapKey V (TrimPrefix l FileLabelPrefix) = [] \<and>
   (\<exists>s k. parseReference V p (TrimPrefix l FileLabelPrefix) (map_str labels l) = Inr (s, k))"
  by (induction ks arbitrary: seen fs) (auto simp: Let_def bind_res_Inr split: if_splits)

lemma projected_items_one:
  "set (projected_items [\<lparr>vol_Name = n, vol_Source = Projected
      (map (\<lambda>s. \<lparr>sp_Name = s, sp_Items = (case map_get m s of None \<Rightarrow> [] | Some its \<Rightarrow> its)\<rparr>) (sort (map_keys m))) mode\<rparr>]) =
   {(s, it). \<exists>its. map_get m s = Some its \<and> it \<in> set its}"
  by (auto simp: map_keys_def map_of_eq_None_iff dest: map_of_SomeD split: option.splits)
    (force dest: map_of_SomeD)

lemma Files_allowed:
  assumes "Files V p labels = Inr (vols, mounts)" "(s, it) \<in> set (projected_items vols)"
  shows "s \<in> set (allowed p)"
proof -
  obtain m ks where loop: "files_loop V p labels ks [] [] = Inr m"
    and vols: "vols = [\<lparr>vol_Name = VolumeName, vol_Source = Projected
       (map (\<lambda>s. \<lparr>sp_Name = s, sp_Items = (case map_get m s of None \<Rightarrow> [] | Some its \<Rightarrow> its)\<rparr>) (sort (map_keys m))) 288\<rparr>]"
    using assms by (auto simp: Files_def Let_def bind_res_Inr split: if_splits)
  have "(s, it) \<in> {(s, it). \<exists>its. map_get m s = Some its \<and> it \<in> set its}"
    using assms(2) unfolding vols projected_items_one .
  then obtain l where "parseReference V p (kp_Path it) (map_str labels l) = Inr (s, kp_Key it)"
    using files_loop_items[OF loop, of s it] by auto
  then show ?thesis using parseReference_Inr by blast
qed

lemma Files_mounts:
  assumes "Files V p labels = Inr (vols, mounts)"
  shows "\<forall>m \<in> set mounts. vm_ReadOnly m \<and> vm_MountPath m = ''/run/secrets'' \<and> vm_Name m = VolumeName"
    and "vols = [] \<longleftrightarrow> mounts = []" and "\<forall>v \<in> set vols. vol_Name v = VolumeName"
  using assms by (auto simp: Files_def Let_def bind_res_Inr MountPath_def split: if_splits)

text \<open>
  (C18) Secret files are authorised and confined: the policy emits at most one volume and one
  mount, read-only at \<open>/run/secrets\<close>; every projected key comes from an allowlisted Secret, the
  one its label names, and lands in a file whose name is a valid key and is neither \<open>.\<close> nor
  \<open>..\<close>; and the projected files are exactly the \<open>secret-file\<close> labels.
\<close>

theorem Files_authorised:
  assumes "Files V p labels = Inr (vols, mounts)"
  shows "(\<forall>(s, it) \<in> set (projected_items vols).
            s \<in> set (allowed p) \<and> kp_Path it \<notin> {''.'', ''..''} \<and> IsConfigMapKey V (kp_Path it) = [] \<and>
            TrimSpace (map_str labels (FileLabelPrefix @ kp_Path it)) = s @ '':'' @ kp_Key it) \<and>
         kp_Path ` snd ` set (projected_items vols) = {n. has_key labels (FileLabelPrefix @ n)} \<and>
         length vols \<le> 1 \<and>
         (\<forall>m \<in> set mounts. vm_ReadOnly m \<and> vm_MountPath m = ''/run/secrets'' \<and> vm_Name m = VolumeName)"
proof -
  let ?ks = "prefixed_labels FileLabelPrefix labels"
  have names: "(\<lambda>l. TrimPrefix l FileLabelPrefix) ` set ?ks = {n. has_key labels (FileLabelPrefix @ n)}"
    by (simp add: set_prefixed_labels TrimPrefix_names)
  show ?thesis
  proof (cases "?ks = []")
    case True
    then have "vols = [] \<and> mounts = []" using assms by (auto simp: Files_def Let_def split: if_splits)
    then show ?thesis using True names by simp
  next
    case False
    with assms obtain m where loop: "files_loop V p labels (sort ?ks) [] [] = Inr m"
      and vols: "vols = [\<lparr>vol_Name = VolumeName, vol_Source = Projected
         (map (\<lambda>s. \<lparr>sp_Name = s, sp_Items = (case map_get m s of None \<Rightarrow> [] | Some its \<Rightarrow> its)\<rparr>) (sort (map_keys m))) 288\<rparr>]"
      and mounts: "mounts = [\<lparr>vm_Name = VolumeName, vm_MountPath = MountPath, vm_SubPath = [], vm_ReadOnly = True\<rparr>]"
      by (auto simp: Files_def Let_def bind_res_Inr split: if_splits)
    have items: "(s, it) \<in> set (projected_items vols) \<longleftrightarrow>
       (\<exists>l \<in> set ?ks. kp_Path it = TrimPrefix l FileLabelPrefix \<and> kp_Mode it = None \<and>
          parseReference V p (kp_Path it) (map_str labels l) = Inr (s, kp_Key it))" for s it
      unfolding vols projected_items_one using files_loop_items[OF loop, of s it] by simp
    have lab: "l = FileLabelPrefix @ TrimPrefix l FileLabelPrefix" if "l \<in> set ?ks" for l
      using that by (simp add: set_prefixed_labels HasPrefix_TrimPrefix)
    have one: "s \<in> set (allowed p) \<and> kp_Path it \<notin> {''.'', ''..''} \<and> IsConfigMapKey V (kp_Path it) = [] \<and>
            TrimSpace (map_str labels (FileLabelPrefix @ kp_Path it)) = s @ '':'' @ kp_Key it"
      if "(s, it) \<in> set (projected_items vols)" for s it
    proof -
      from that obtain l where l: "l \<in> set ?ks" "kp_Path it = TrimPrefix l FileLabelPrefix"
        and pr: "parseReference V p (kp_Path it) (map_str labels l) = Inr (s, kp_Key it)" using items by blast
      then show ?thesis
        using parseReference_Inr[OF pr] files_loop_names[OF loop, of l] lab[OF l(1)] by simp
    qed
    have "kp_Path ` snd ` set (projected_items vols) = (\<lambda>l. TrimPrefix l FileLabelPrefix) ` set ?ks"
    proof (intro equalityI subsetI)
      fix n assume "n \<in> (\<lambda>l. TrimPrefix l FileLabelPrefix) ` set ?ks"
      then obtain l where l: "l \<in> set ?ks" "n = TrimPrefix l FileLabelPrefix" by blast
      then obtain s k where "parseReference V p n (map_str labels l) = Inr (s, k)"
        using files_loop_names[OF loop, of l] by auto
      then have "(s, \<lparr>kp_Key = k, kp_Path = n, kp_Mode = None\<rparr>) \<in> set (projected_items vols)"
        using l items by auto
      then show "n \<in> kp_Path ` snd ` set (projected_items vols)" by force
    qed (use items in force)
    then have "kp_Path ` snd ` set (projected_items vols) = {n. has_key labels (FileLabelPrefix @ n)}"
      by (simp only: names)
    moreover have "length vols \<le> 1" by (simp add: vols)
    moreover have "\<forall>m \<in> set mounts. vm_ReadOnly m \<and> vm_MountPath m = ''/run/secrets'' \<and> vm_Name m = VolumeName"
      by (simp add: mounts MountPath_def)
    ultimately show ?thesis using one by blast
  qed
qed

theorem Files_authorised_witness:
  "\<exists>vols mounts. Files accept_all sample_policy sample_labels = Inr (vols, mounts) \<and>
     kp_Path ` snd ` set (projected_items vols) = {n. has_key sample_labels (FileLabelPrefix @ n)} \<and> mounts \<noteq> []"
proof -
  have ev: "Files accept_all sample_policy sample_labels =
      Inr ([\<lparr>vol_Name = VolumeName, vol_Source = Projected [\<lparr>sp_Name = ''db'', sp_Items =
              [\<lparr>kp_Key = ''password'', kp_Path = ''pw'', kp_Mode = None\<rparr>]\<rparr>] 288\<rparr>],
           [\<lparr>vm_Name = VolumeName, vm_MountPath = MountPath, vm_SubPath = [], vm_ReadOnly = True\<rparr>])"
    by code_simp
  from Files_authorised[OF ev] show ?thesis unfolding ev by blast
qed

text \<open>
  An empty allowlist disables Secret references: a request that carries any
  \<open>secret-env\<close> or \<open>secret-file\<close> label is rejected.
\<close>

theorem empty_allowlist_rejects:
  assumes "secret_New V names = Inr p" "\<forall>n \<in> set names. TrimSpace n = []"
    and "has_key labels (pre @ n)" "pre = EnvLabelPrefix \<or> pre = FileLabelPrefix"
  shows "\<exists>e. secret_Validate V p labels existing = Inl e"
proof (rule ccontr)
  assume "\<nexists>e. secret_Validate V p labels existing = Inl e"
  then obtain u where "secret_Validate V p labels existing = Inr u" by (metis old.sum.exhaust)
  then obtain r f where ev: "EnvVars V p labels existing = Inr r" and fl: "Files V p labels = Inr f"
    by (auto simp: secret_Validate_def bind_res_Inr)
  have none: "parseReference V p t raw \<noteq> Inr (s, k)" for t raw s k
    using parseReference_Inr[of V p t raw s k] secret_New_allowed(1)[OF assms(1)] assms(2) by auto
  let ?l = "pre @ n" and ?ks = "prefixed_labels pre labels"
  have l: "?l \<in> set ?ks" using assms(3) by (simp add: set_prefixed_labels)
  from assms(4) show False
  proof
    assume "pre = EnvLabelPrefix"
    then have "env_loop V p labels (map ev_Name existing) (sort ?ks) = Inr r"
      using ev by (auto simp: EnvVars_def Let_def split: if_splits)
    from env_loop_refs[OF this, of ?l] l none show False by auto
  next
    assume "pre = FileLabelPrefix"
    then obtain m where "files_loop V p labels (sort ?ks) [] [] = Inr m"
      using fl l by (auto simp: Files_def Let_def bind_res_Inr split: if_splits)
    from files_loop_names[OF this, of ?l] l none show False by auto
  qed
qed

theorem empty_allowlist_rejects_witness:
  "\<exists>e. secret_Validate accept_all \<lparr>allowed = []\<rparr> sample_labels [] = Inl e"
proof (rule empty_allowlist_rejects)
  show "secret_New accept_all [] = Inr \<lparr>allowed = []\<rparr>" by (simp add: secret_New_def)
  show "\<forall>n \<in> set []. TrimSpace n = []" by simp
  show "has_key sample_labels (EnvLabelPrefix @ ''PW'')"
    by (simp add: sample_labels_def has_key_def EnvLabelPrefix_def)
qed simp

end
