(* ===== verification/ContainerProps.thy ===== *)
theory ContainerProps
  imports Container "HOL-Library.Multiset"
begin

text \<open>
  Properties of the container record: pod names are valid, bounded and unique per container;
  service ports cover every exposed and mapped port; no accepted bind targets the Docker
  socket; resource labels are read independently of the order the table is visited in.
\<close>

section \<open>Pod names\<close>

text \<open>RFC 1123 labels, the syntax Kubernetes requires of a pod name used as a host name.\<close>

definition label_char :: "char \<Rightarrow> bool" where
  "label_char c = (is_lower c \<or> is_digit c \<or> c = CHR ''-'')"

definition dns_label :: "string \<Rightarrow> bool" where
  "dns_label s = (s \<noteq> [] \<and> length s \<le> 63 \<and> list_all label_char s \<and>
                  is_alnum (hd s) \<and> is_alnum (last s))"

text \<open>The shape of a pod name: a cleaned prefix followed by the short ID.\<close>

definition pod_base :: "container \<Rightarrow> string" where
  "pod_base co =
     (let name0 = (case map_get (co_Labels co) LabelNamePrefix of
                     Some p \<Rightarrow> p @ ''-'' @ co_Name co
                   | None \<Rightarrow> ''testtender-'' @ co_Name co);
          name2 = filter (\<lambda>c. is_alnum c \<or> c = CHR ''-'') (ReplaceAll name0 ''_'' ''-'')
      in if length name2 > 32 then take 32 name2 else name2)"

definition pod_prefix :: "container \<Rightarrow> string" where
  "pod_prefix co =
     ToLower (dropWhile (\<lambda>c. \<not> is_alnum c) (ReplaceAll (pod_base co @ ''-'') ''--'' ''-''))"

text \<open>The key under which a host or mapped port is published: negative keys mark random ports.\<close>

fun port_key :: "int \<times> int \<Rightarrow> int" where
  "port_key (src, dst) = (if src < 0 then dst else src)"

text \<open>What one resource label says: the request and the optional limit.\<close>

definition resource_spec :: "(string \<Rightarrow> 'q result) \<Rightarrow> string \<Rightarrow> ('q \<times> 'q option) option" where
  "resource_spec PQ rls =
     (case Split (ReplaceAll rls '' '' []) (CHR '','') of
        [r] \<Rightarrow> (case PQ r of Inl _ \<Rightarrow> None | Inr q \<Rightarrow> Some (q, None))
      | [r, l] \<Rightarrow>
          if l = [] then (case PQ r of Inl _ \<Rightarrow> None | Inr q \<Rightarrow> Some (q, None))
          else (case (PQ (if r = [] then l else r), PQ l) of
                  (Inr q, Inr lt) \<Rightarrow> Some (q, Some lt)
                | _ \<Rightarrow> None)
      | _ \<Rightarrow> None)"

definition resource_requests :: "'q resources \<Rightarrow> string \<Rightarrow> 'q option" where
  "resource_requests r = map_get (case res_Requests r of None \<Rightarrow> [] | Some m \<Rightarrow> m)"

definition resource_limits :: "'q resources \<Rightarrow> string \<Rightarrow> 'q option" where
  "resource_limits r = map_get (case res_Limits r of None \<Rightarrow> [] | Some m \<Rightarrow> m)"

text \<open>A container used in the examples.\<close>

definition sample_container :: container where
  "sample_container =
     \<lparr>co_ID = [], co_ShortID = ''0a1b2c3d4e5f'', co_Name = ''My_DB'', co_Hostname = [],
      co_Image = ''postgres:16'', co_Labels = [], co_Entrypoint = [], co_Cmd = [],
      co_Env = [''A=1'', ''B''], co_Binds = [''/tmp/x:/data''], co_Mounts = [], co_PreArchives = [],
      co_HostIP = [], co_ExposedPorts = [''5432/tcp'', ''53/udp''], co_ImagePorts = [''80''],
      co_HostPorts = [(8080, 80)], co_MappedPorts = [(30000, 5432)], co_Networks = [],
      co_NetworkAliases = [], co_StopChannels = [], co_AttachChannels = [], co_Running = False,
      co_Completed = False, co_Failed = False, co_Stopped = False, co_Killed = False,
      co_OOMKilled = False, co_ExitCode = 0, co_StateError = [], co_Tty = False,
      co_OpenStdin = False, co_Created = 0, co_Started = 0, co_Finished = 0\<rparr>"

lemma is_alnum_dash: "\<not> is_alnum (CHR ''-'')"
  by (simp add: byte_class_defs code_def)

lemma is_hex_alnum: "is_hex c \<Longrightarrow> is_alnum c"
  by (auto simp: byte_class_defs)

lemma is_hex_not_upper: "is_hex c \<Longrightarrow> \<not> is_upper c"
  by (auto simp: byte_class_defs)

lemma label_char_lower: "is_alnum c \<or> c = CHR ''-'' \<Longrightarrow> label_char (lower_char c)"
  using is_upper_lower_char[of c] is_alnum_lower_char[of c] is_alnum_dash
  by (auto simp: label_char_def is_alnum_def lower_char_id is_upper_def code_def)

lemma ReplaceAll_dash_append:
  "CHR ''-'' \<notin> set s \<Longrightarrow> ReplaceAll (a @ s) ''--'' ''-'' = ReplaceAll a ''--'' ''-'' @ s"
proof (induction a "''--''" "''-''" rule: ReplaceAll.induct)
  case 1
  have "CHR ''-'' \<notin> set t \<Longrightarrow> ReplaceAll t ''--'' ''-'' = t" for t
    by (induction t) (auto simp: HasPrefix_def)
  then show ?case using 1 by simp
next
  case (2 c cs)
  have same: "HasPrefix (c # cs @ s) ''--'' \<longleftrightarrow> HasPrefix (c # cs) ''--''"
    using 2(3) by (cases cs; cases s) (auto simp: HasPrefix_def)
  show ?case
  proof (cases "HasPrefix (c # cs) ''--''")
    case True
    then have "cs \<noteq> []" by (auto simp: HasPrefix_def)
    then have "drop 1 (cs @ s) = drop 1 cs @ s" by (cases cs) auto
    with True same 2 show ?thesis by simp
  next
    case False
    with same 2 show ?thesis by simp
  qed
qed

lemma ToLower_hex: "list_all is_hex s \<Longrightarrow> ToLower s = s"
  by (auto simp: ToLower_def list_all_iff lower_char_id is_hex_not_upper intro!: map_idI)

lemma GetPodName_shape:
  assumes "IsShortID (co_ShortID co)"
  shows "GetPodName co = pod_prefix co @ co_ShortID co"
proof -
  let ?s = "co_ShortID co"
  from assms have hex: "list_all is_hex ?s" and ne: "?s \<noteq> []" by (auto simp: IsShortID_def)
  then have nodash: "CHR ''-'' \<notin> set ?s" using hex_not_special dash_not_hex by blast
  have "is_alnum (hd ?s)" using hex ne by (cases ?s) (auto intro: is_hex_alnum)
  then have drop: "dropWhile (\<lambda>c. \<not> is_alnum c) (b @ ?s) = dropWhile (\<lambda>c. \<not> is_alnum c) b @ ?s" for b
    using ne by (cases ?s) (auto simp: dropWhile_append3 dropWhile_append1 dropWhile_append)
  have split: "n @ ''-'' @ ?s = (n @ ''-'') @ ?s" for n by simp
  have lower: "ToLower (b @ ?s) = ToLower b @ ?s" for b
    using ToLower_hex[OF hex] by (simp add: ToLower_def)
  show ?thesis
    unfolding GetPodName_def pod_prefix_def pod_base_def Let_def split
    by (simp only: ReplaceAll_dash_append[OF nodash] drop lower)
qed

lemma pod_base_chars: "c \<in> set (pod_base co) \<Longrightarrow> is_alnum c \<or> c = CHR ''-''"
  by (auto simp: pod_base_def Let_def dest!: in_set_takeD split: if_splits)

lemma pod_base_length: "length (pod_base co) \<le> 32"
  by (simp add: pod_base_def Let_def)

lemma pod_prefix_chars: "list_all label_char (pod_prefix co)"
proof -
  have "is_alnum c \<or> c = CHR ''-''" if "c \<in> set (ReplaceAll (pod_base co @ ''-'') ''--'' ''-'')" for c
    using that set_ReplaceAll[of "pod_base co @ ''-''" "''--''" "''-''"] pod_base_chars[of c co] by auto
  then show ?thesis
    unfolding pod_prefix_def list_all_iff ToLower_def
    by (auto dest!: set_dropWhileD intro!: label_char_lower)
qed

lemma pod_prefix_length: "length (pod_prefix co) \<le> 33"
  unfolding pod_prefix_def length_ToLower
  using length_dropWhile_le[of "\<lambda>c. \<not> is_alnum c" "ReplaceAll (pod_base co @ ''-'') ''--'' ''-''"]
    length_ReplaceAll_le[of "''-''" "''--''" "pod_base co @ ''-''"] pod_base_length[of co]
  by simp

lemma pod_prefix_hd:
  assumes "pod_prefix co \<noteq> []"
  shows "is_alnum (hd (pod_prefix co))"
proof -
  let ?d = "dropWhile (\<lambda>c. \<not> is_alnum c) (ReplaceAll (pod_base co @ ''-'') ''--'' ''-'')"
  from assms have ne: "?d \<noteq> []" unfolding pod_prefix_def ToLower_def by blast
  from hd_dropWhile[OF ne] show ?thesis
    by (simp only: pod_prefix_def ToLower_def hd_map[OF ne] is_alnum_lower_char) simp
qed

text \<open>
  (C28) For every container whose short ID has the form the database assigns, the pod name is a
  valid RFC 1123 label of at most 45 bytes, whatever the container's name and name-prefix
  label are, and it ends in the short ID.
\<close>

theorem GetPodName_valid:
  assumes "IsShortID (co_ShortID co)"
  shows "dns_label (GetPodName co) \<and> length (GetPodName co) \<le> 45 \<and>
         HasSuffix (GetPodName co) (co_ShortID co)"
proof -
  let ?s = "co_ShortID co"
  note shape = GetPodName_shape[OF assms]
  from assms have len: "length ?s = 12" and hex: "list_all is_hex ?s" by (auto simp: IsShortID_def)
  then have ne: "?s \<noteq> []" by auto
  have hexc: "list_all label_char ?s"
    using hex by (auto simp: list_all_iff label_char_def byte_class_defs)
  have "is_alnum (hd ?s)" "is_alnum (last ?s)"
    using hex ne by (auto simp: list_all_iff intro: is_hex_alnum)
  then have ends: "is_alnum (hd (GetPodName co))" "is_alnum (last (GetPodName co))"
    using ne pod_prefix_hd[of co] by (auto simp: shape hd_append)
  have "length (GetPodName co) \<le> 45" using pod_prefix_length[of co] len by (simp add: shape)
  then show ?thesis using ends hexc pod_prefix_chars[of co] ne
    by (simp add: dns_label_def shape HasSuffix_def)
qed

lemma sample_ShortID: "IsShortID (co_ShortID sample_container)"
  by (simp add: sample_container_def IsShortID_def byte_class_defs code_def)

theorem GetPodName_valid_witness:
  "dns_label (GetPodName sample_container) \<and> length (GetPodName sample_container) \<le> 45 \<and>
   HasSuffix (GetPodName sample_container) (co_ShortID sample_container)"
  by (rule GetPodName_valid [OF sample_ShortID])

text \<open>
  Pod names separate containers: two containers with different short IDs never share a
  pod name, so creating one pod cannot be mistaken for a duplicate of another's.
\<close>

theorem GetPodName_separates:
  assumes "IsShortID (co_ShortID a)" "IsShortID (co_ShortID b)" "GetPodName a = GetPodName b"
  shows "co_ShortID a = co_ShortID b"
  using assms(3) assms(1,2)
  by (simp add: GetPodName_shape[OF assms(1)] GetPodName_shape[OF assms(2)] IsShortID_def)

theorem GetPodName_separates_witness:
  "co_ShortID sample_container = co_ShortID (sample_container\<lparr>co_Cmd := [''sh'']\<rparr>)"
proof (rule GetPodName_separates)
  show "IsShortID (co_ShortID sample_container)" by (rule sample_ShortID)
  show "IsShortID (co_ShortID (sample_container\<lparr>co_Cmd := [''sh'']\<rparr>))"
    using sample_ShortID by simp
  show "GetPodName sample_container = GetPodName (sample_container\<lparr>co_Cmd := [''sh'']\<rparr>)"
    by (simp add: GetPodName_def cong: option.case_cong)
qed

section \<open>Service ports\<close>

lemma map_get_add_self:
  "map_get (add_self_ports pps ports) k = (if k \<in> set pps then Some k else map_get ports k)"
  by (induction pps arbitrary: ports) auto

lemma has_key_add_port_map:
  "has_key (add_port_map prts ports) k \<longleftrightarrow> k \<in> port_key ` set prts \<or> has_key ports k"
  by (induction prts ports rule: add_port_map.induct) (auto simp: has_key_def split: if_splits)

lemma map_get_add_port_map_nonneg:
  "go_map prts \<Longrightarrow> \<forall>(src, dst) \<in> set prts. 0 \<le> src \<Longrightarrow>
   map_get (add_port_map prts ports) k = (case map_get prts k of Some d \<Rightarrow> Some d | None \<Rightarrow> map_get ports k)"
proof (induction prts ports rule: add_port_map.induct)
  case (2 src dst rest ports)
  have "src \<notin> fst ` set rest" "go_map rest" using 2(2) by (auto simp: go_map_def)
  then have "map_get rest src = None" by (simp add: map_of_eq_None_iff)
  then show ?case using 2 \<open>go_map rest\<close> by (auto split: option.splits)
qed simp

text \<open>
  The Service of a container publishes exactly the TCP ports of the image, the exposed
  TCP ports and the host and mapped ports (a random host port under its container port), and
  a mapped port is always forwarded to the container port it was mapped to.
\<close>

theorem GetServicePorts_spec:
  assumes "go_map (co_MappedPorts co)" "\<forall>(src, dst) \<in> set (co_MappedPorts co). 0 \<le> src"
  shows "(\<forall>p. has_key (GetServicePorts co) p \<longleftrightarrow>
            p \<in> set (GetImageTCPPorts co) \<or> p \<in> set (GetContainerTCPPorts co) \<or>
            p \<in> port_key ` set (co_HostPorts co) \<or> p \<in> port_key ` set (co_MappedPorts co)) \<and>
         (\<forall>p d. map_get (co_MappedPorts co) p = Some d \<longrightarrow> map_get (GetServicePorts co) p = Some d)"
proof (intro conjI allI impI)
  fix p
  show "has_key (GetServicePorts co) p \<longleftrightarrow>
          p \<in> set (GetImageTCPPorts co) \<or> p \<in> set (GetContainerTCPPorts co) \<or>
          p \<in> port_key ` set (co_HostPorts co) \<or> p \<in> port_key ` set (co_MappedPorts co)"
    unfolding GetServicePorts_def has_key_add_port_map
    by (simp add: has_key_def map_get_add_self) blast
next
  fix p d
  assume "map_get (co_MappedPorts co) p = Some d"
  then show "map_get (GetServicePorts co) p = Some d"
    using map_get_add_port_map_nonneg[OF assms, of _ p] by (simp add: GetServicePorts_def)
qed

theorem GetServicePorts_spec_witness:
  "map_get (GetServicePorts sample_container) 30000 = Some 5432"
  using GetServicePorts_spec[of sample_container] by (simp add: sample_container_def go_map_def)

section \<open>Binds\<close>

lemma Split_two:
  "sep \<in> set b \<Longrightarrow> \<exists>src dst rest. Split b sep = src # dst # rest"
proof -
  assume "sep \<in> set b"
  then obtain a t where "b = a @ sep # t" "sep \<notin> set a" by (metis split_list_first)
  then show ?thesis by (cases "Split t sep") (auto simp: Split_append_sep)
qed

lemma bind_mounts_panic:
  "\<exists>b \<in> set bs. CHR '':'' \<notin> set b \<Longrightarrow>
   bind_mounts bs m = Inl (Panic ''index out of range [1] with length 1'')"
proof (induction bs arbitrary: m)
  case (Cons b bs)
  show ?case
  proof (cases "CHR '':'' \<in> set b")
    case True
    then obtain src dst rest where "Split b (CHR '':'') = src # dst # rest" using Split_two by blast
    then show ?thesis using Cons True by auto
  qed (simp add: Split_single)
qed simp

lemma bind_mounts_keys:
  "\<forall>b \<in> set bs. CHR '':'' \<in> set b \<Longrightarrow>
   \<exists>m'. bind_mounts bs m = Inr m' \<and>
     fst ` set m' = fst ` set m \<union> (\<lambda>b. Split b (CHR '':'') ! 1) ` set bs"
proof (induction bs arbitrary: m)
  case (Cons b bs)
  then obtain src dst rest where sp: "Split b (CHR '':'') = src # dst # rest"
    using Split_two[of "CHR '':''" b] by auto
  have "\<forall>b \<in> set bs. CHR '':'' \<in> set b" using Cons.prems by simp
  from Cons.IH[OF this, of "map_set dst src m"] obtain m' where
    "bind_mounts bs (map_set dst src m) = Inr m'"
    "fst ` set m' = fst ` set (map_set dst src m) \<union> (\<lambda>b. Split b (CHR '':'') ! 1) ` set bs" by blast
  then show ?case using sp by (auto simp: dom_update)
qed simp

lemma image_eq_iff: "k \<in> f ` A \<longleftrightarrow> (\<exists>x \<in> A. f x = k)"
  by auto

lemma add_mounts_keys: "fst ` set (add_mounts ms m) = fst ` set m \<union> m_Target ` set ms"
  by (induction ms m rule: add_mounts.induct) (auto simp: dom_update)

text \<open>
  The Docker socket test is exact: it panics exactly when some bind has no colon, and
  otherwise reports whether the target of a bind or of a mount is \<open>/var/run/docker.sock\<close>; a
  later entry never hides an earlier one.
\<close>

theorem HasDockerSockBinding_exact:
  "HasDockerSockBinding co =
     (if \<exists>b \<in> set (co_Binds co). CHR '':'' \<notin> set b
      then Inl (Panic ''index out of range [1] with length 1'')
      else Inr ((\<exists>b \<in> set (co_Binds co). Split b (CHR '':'') ! 1 = ''/var/run/docker.sock'') \<or>
                (\<exists>m \<in> set (co_Mounts co). m_Target m = ''/var/run/docker.sock'')))"
proof (cases "\<exists>b \<in> set (co_Binds co). CHR '':'' \<notin> set b")
  case True
  then show ?thesis by (simp add: HasDockerSockBinding_def GetVolumes_def bind_mounts_panic)
next
  case False
  then obtain m' where m': "bind_mounts (co_Binds co) [] = Inr m'"
    and keys: "fst ` set m' = (\<lambda>b. Split b (CHR '':'') ! 1) ` set (co_Binds co)"
    using bind_mounts_keys[of "co_Binds co" "[]"] by auto
  have ex: "list_ex (\<lambda>(dst, src). dst = k) v \<longleftrightarrow> k \<in> fst ` set v"
    for k :: string and v :: "(string, string) gomap"
    by (induction v) auto
  have "HasDockerSockBinding co =
      Inr (''/var/run/docker.sock'' \<in> (\<lambda>b. Split b (CHR '':'') ! 1) ` set (co_Binds co) \<union> m_Target ` set (co_Mounts co))"
    unfolding HasDockerSockBinding_def GetVolumes_def m' bind_res_simps ex add_mounts_keys keys ..
  then show ?thesis unfolding if_not_P[OF False] Un_iff image_eq_iff .
qed

section \<open>Resource labels\<close>

lemma resource_step_ok:
  "resource_spec PQ rls = Some (q, lo) \<Longrightarrow>
   resource_step PQ typ rls reqs lims =
     (map_set typ q reqs, (case lo of None \<Rightarrow> lims | Some lt \<Rightarrow> map_set typ lt lims), None)"
  by (auto simp: resource_step_def resource_spec_def Let_def split: list.splits sum.splits if_splits)

lemma resource_step_fail:
  "resource_spec PQ rls = None \<Longrightarrow> \<exists>reqs' lims' e. resource_step PQ typ rls reqs lims = (reqs', lims', Some e)"
  by (auto simp: resource_step_def resource_spec_def Let_def split: list.splits sum.splits if_splits)

lemma resource_loop_None_iff:
  "snd (snd (resource_loop PQ labels order reqs lims)) = None \<longleftrightarrow>
   (\<forall>(typ, labl) \<in> set order. \<forall>rls. map_get labels labl = Some rls \<longrightarrow> resource_spec PQ rls \<noteq> None)"
proof (induction order arbitrary: reqs lims)
  case (Cons x order)
  obtain ty labl where tl: "x = (ty, labl)" by (cases x)
  show ?case
  proof (cases "map_get labels labl")
    case None
    then show ?thesis using Cons tl by auto
  next
    case (Some rls)
    show ?thesis
    proof (cases "resource_spec PQ rls")
      case None
      then show ?thesis using Some tl resource_step_fail[OF None, of ty reqs lims] by auto
    next
      case spec: (Some ql)
      obtain q lo where ql: "ql = (q, lo)" by (cases ql)
      then show ?thesis using Some tl spec Cons by (simp add: resource_step_ok)
    qed
  qed
qed simp

lemma resource_loop_values:
  "distinct (map fst order) \<Longrightarrow> resource_loop PQ labels order reqs lims = (reqs', lims', None) \<Longrightarrow>
   map_get reqs' t = (case map_get order t of
       None \<Rightarrow> map_get reqs t
     | Some labl \<Rightarrow> (case map_get labels labl of
           None \<Rightarrow> map_get reqs t
         | Some rls \<Rightarrow> map_option fst (resource_spec PQ rls))) \<and>
   map_get lims' t = (case map_get order t of
       None \<Rightarrow> map_get lims t
     | Some labl \<Rightarrow> (case map_get labels labl of
           None \<Rightarrow> map_get lims t
         | Some rls \<Rightarrow> (case resource_spec PQ rls of
               Some (q, Some lt) \<Rightarrow> Some lt
             | _ \<Rightarrow> map_get lims t)))"
proof (induction order arbitrary: reqs lims)
  case (Cons x order)
  obtain ty labl where tl: "x = (ty, labl)" by (cases x)
  have fresh: "map_get order ty = None" using Cons.prems(1) tl by (simp add: map_of_eq_None_iff)
  show ?case
  proof (cases "map_get labels labl")
    case None
    then show ?thesis using Cons tl fresh by (auto split: option.splits)
  next
    case (Some rls)
    show ?thesis
    proof (cases "resource_spec PQ rls")
      case None
      then show ?thesis using Some tl Cons.prems(2) resource_step_fail[OF None, of ty reqs lims] by auto
    next
      case spec: (Some ql)
      obtain q lo where ql: "ql = (q, lo)" by (cases ql)
      let ?lims = "case lo of None \<Rightarrow> lims | Some lt \<Rightarrow> map_set ty lt lims"
      have "resource_loop PQ labels order (map_set ty q reqs) ?lims = (reqs', lims', None)"
        using Cons.prems(2) Some tl spec ql by (simp add: resource_step_ok)
      note IH = Cons.IH[OF _ this]
      show ?thesis using IH Cons.prems(1) Some tl spec ql fresh
        by (cases "t = ty"; cases lo) (auto split: option.splits)
    qed
  qed
qed simp

text \<open>
  The resource labels are read independently of the order in which Go happens to visit
  the three-entry label table: whether the call fails does not depend on the order, and on
  success the requests and limits are, resource by resource, the ones the label states (a
  label with only a limit also sets the request) and otherwise the template's.
\<close>

theorem GetResourceRequirements_spec:
  assumes "mset order = mset resource_labels"
  shows "(snd (GetResourceRequirements PQ order co req) = None \<longleftrightarrow>
            (\<forall>(typ, labl) \<in> set resource_labels. \<forall>rls.
               map_get (co_Labels co) labl = Some rls \<longrightarrow> resource_spec PQ rls \<noteq> None)) \<and>
         (\<forall>res typ labl. GetResourceRequirements PQ order co req = (res, None) \<longrightarrow>
            (typ, labl) \<in> set resource_labels \<longrightarrow>
            resource_requests res typ = (case map_get (co_Labels co) labl of
                None \<Rightarrow> resource_requests req typ
              | Some rls \<Rightarrow> map_option fst (resource_spec PQ rls)) \<and>
            resource_limits res typ = (case map_get (co_Labels co) labl of
                None \<Rightarrow> resource_limits req typ
              | Some rls \<Rightarrow> (case resource_spec PQ rls of
                    Some (q, Some lt) \<Rightarrow> Some lt
                  | _ \<Rightarrow> resource_limits req typ)))"
proof (intro conjI allI impI)
  have same: "set order = set resource_labels" using assms by (rule mset_eq_setD)
  have "distinct (map fst resource_labels)" by (simp add: resource_labels_def)
  then have dist: "distinct (map fst order)"
    using assms by (metis mset_eq_imp_distinct_iff mset_map)
  let ?reqs = "case res_Requests req of None \<Rightarrow> [] | Some m \<Rightarrow> m"
  let ?lims = "case res_Limits req of None \<Rightarrow> [] | Some m \<Rightarrow> m"
  show "snd (GetResourceRequirements PQ order co req) = None \<longleftrightarrow>
          (\<forall>(typ, labl) \<in> set resource_labels. \<forall>rls.
             map_get (co_Labels co) labl = Some rls \<longrightarrow> resource_spec PQ rls \<noteq> None)"
    unfolding same [symmetric] resource_loop_None_iff [of PQ "co_Labels co" order ?reqs ?lims, symmetric]
    by (simp add: GetResourceRequirements_def case_prod_beta Let_def)
  fix res ty labl
  assume g: "GetResourceRequirements PQ order co req = (res, None)" and "(ty, labl) \<in> set resource_labels"
  then have look: "map_get order ty = Some labl" using dist same by (simp add: map_of_is_SomeI)
  from g obtain reqs' lims' where
    l: "resource_loop PQ (co_Labels co) order ?reqs ?lims = (reqs', lims', None)"
    and res: "res = \<lparr>res_Requests = Some reqs', res_Limits = Some lims'\<rparr>"
    by (auto simp: GetResourceRequirements_def split: prod.splits)
  note v = resource_loop_values[OF dist l, of ty]
  show "resource_requests res ty = (case map_get (co_Labels co) labl of
                None \<Rightarrow> resource_requests req ty
              | Some rls \<Rightarrow> map_option fst (resource_spec PQ rls))"
    unfolding resource_requests_def using v look res by simp
  show "resource_limits res ty = (case map_get (co_Labels co) labl of
                None \<Rightarrow> resource_limits req ty
              | Some rls \<Rightarrow> (case resource_spec PQ rls of
                    Some (q, Some lt) \<Rightarrow> Some lt
                  | _ \<Rightarrow> resource_limits req ty))"
    unfolding resource_limits_def using v look res by simp
qed

theorem GetResourceRequirements_spec_witness:
  "snd (GetResourceRequirements (\<lambda>s. Inr (length s)) (rev resource_labels)
          (sample_container\<lparr>co_Labels := [(LabelRequestCPU, '',500m'')]\<rparr>)
          \<lparr>res_Requests = None, res_Limits = None\<rparr>) = None"
  using GetResourceRequirements_spec[of "rev resource_labels" "\<lambda>s. Inr (length s)"
      "sample_container\<lparr>co_Labels := [(LabelRequestCPU, '',500m'')]\<rparr>"
      "\<lparr>res_Requests = None, res_Limits = None\<rparr>"]
  by (simp add: resource_labels_def label_defs resource_spec_def HasPrefix_def)

end
