(* ===== verification/KubeNames.thy ===== *)
theory KubeNames
  imports ContainerProps
begin

text \<open>
  \<open>internal/backend/util.go\<close>: sanitising strings into Kubernetes label keys, label values and
  names, and binding local ports to the exposed ports of a container.

  The regular expressions of the source have three shapes: a leading run, any single byte and a
  trailing run outside or inside a byte class; \<open>pattern\<close> names them, and
  \<open>ReplaceAllEmpty\<close> is what replacing every match by the empty string does. A rune outside
  ASCII is outside every class, so removing runes and removing bytes agree.
\<close>

section \<open>Names\<close>

datatype pattern =
    LeadingNot "char \<Rightarrow> bool"   \<comment> \<open>\<open>^[^...]+\<close>\<close>
  | EachNot "char \<Rightarrow> bool"      \<comment> \<open>\<open>[^...]\<close>\<close>
  | TrailingRun "char \<Rightarrow> bool"  \<comment> \<open>\<open>[...]*$\<close>\<close>

fun ReplaceAllEmpty :: "pattern \<Rightarrow> string \<Rightarrow> string" where
  "ReplaceAllEmpty (LeadingNot p) v = dropWhile (\<lambda>c. \<not> p c) v"
| "ReplaceAllEmpty (EachNot p) v = filter p v"
| "ReplaceAllEmpty (TrailingRun p) v = TrimRightFunc p v"

fun replace_loop :: "pattern list \<Rightarrow> string \<Rightarrow> string" where
  "replace_loop [] v = v"
| "replace_loop (re # pt) v =
     (let v' = ReplaceAllEmpty re v
      in replace_loop pt (if length v' > 63 then take 63 v' else v'))"

definition replaceValueWithPatterns :: "string \<Rightarrow> string \<Rightarrow> pattern list \<Rightarrow> string" where
  "replaceValueWithPatterns v def_val pt = (let r = replace_loop pt v in if r = [] then def_val else r)"

definition key_class :: "char \<Rightarrow> bool" where
  "key_class c = (is_alnum c \<or> c \<in> {CHR ''-'', CHR ''.'', CHR ''/''})"

definition value_class :: "char \<Rightarrow> bool" where
  "value_class c = (is_alnum c \<or> c \<in> {CHR ''-'', CHR ''.''})"

definition name_class :: "char \<Rightarrow> bool" where
  "name_class c = (is_alnum c \<or> c = CHR ''-'')"

definition toKubernetesKey :: "string \<Rightarrow> string" where
  "toKubernetesKey v = replaceValueWithPatterns v []
     [LeadingNot is_alnum, EachNot key_class,
      TrailingRun (\<lambda>c. c \<in> {CHR ''-'', CHR ''_'', CHR ''.'', CHR ''/''})]"

definition toKubernetesValue :: "string \<Rightarrow> string" where
  "toKubernetesValue v = replaceValueWithPatterns v []
     [LeadingNot is_alnum, EachNot value_class,
      TrailingRun (\<lambda>c. c \<in> {CHR ''-'', CHR ''_'', CHR ''.''})]"

definition toKubernetesName :: "string \<Rightarrow> string" where
  "toKubernetesName v = replaceValueWithPatterns v ''undef''
     [LeadingNot is_alnum, EachNot name_class,
      TrailingRun (\<lambda>c. c \<in> {CHR ''-'', CHR ''_'', CHR ''.''})]"

section \<open>Mapping random ports\<close>

text \<open>
  \<open>listen i\<close> is the port (or the error) of the call's \<open>i\<close>-th listener on port 0; the
  listeners stay open until the call returns. The result is the container as the call leaves
  it, the error and the number of listeners asked for.
\<close>

definition port_bound :: "container \<Rightarrow> int \<Rightarrow> bool" where
  "port_bound co pp =
     ((\<exists>sd \<in> set (co_HostPorts co). fst sd > 0 \<and> snd sd = pp) \<or>
      (\<exists>sd \<in> set (co_MappedPorts co). snd sd = pp))"

fun map_ports_loop ::
  "(nat \<Rightarrow> int result) \<Rightarrow> int list \<Rightarrow> nat \<Rightarrow> container \<Rightarrow> container \<times> error option \<times> nat" where
  "map_ports_loop listen [] n co = (co, None, n)"
| "map_ports_loop listen (pp # pps) n co =
     (if port_bound co pp then map_ports_loop listen pps n co
      else case listen n of
             Inl e \<Rightarrow> (co, Some e, Suc n)
           | Inr port \<Rightarrow> map_ports_loop listen pps (Suc n) (MapPort co port pp))"

definition MapContainerTCPPorts ::
  "(nat \<Rightarrow> int result) \<Rightarrow> container \<Rightarrow> container \<times> error option \<times> nat" where
  "MapContainerTCPPorts listen co = map_ports_loop listen (GetContainerTCPPorts co) 0 co"

section \<open>What a label value is\<close>

text \<open>The rule Kubernetes states for label values and name segments, over a byte class.\<close>

definition kube_segment :: "(char \<Rightarrow> bool) \<Rightarrow> string \<Rightarrow> bool" where
  "kube_segment p s =
     (length s \<le> 63 \<and> list_all p s \<and> (s \<noteq> [] \<longrightarrow> is_alnum (hd s) \<and> is_alnum (last s)))"

text \<open>Every listener gets a port, of its own and not mapped yet.\<close>

definition fresh_listeners :: "(nat \<Rightarrow> int result) \<Rightarrow> container \<Rightarrow> nat \<Rightarrow> bool" where
  "fresh_listeners listen co n =
     ((\<forall>i \<ge> n. \<exists>port. listen i = Inr port \<and> \<not> has_key (co_MappedPorts co) port) \<and>
      (\<forall>i \<ge> n. \<forall>j \<ge> n. listen i = listen j \<longrightarrow> i = j))"

section \<open>Sanitising\<close>

lemma class_not_trailing:
  "key_class c \<Longrightarrow> c \<notin> {CHR ''-'', CHR ''_'', CHR ''.'', CHR ''/''} \<Longrightarrow> is_alnum c"
  "value_class c \<Longrightarrow> c \<notin> {CHR ''-'', CHR ''_'', CHR ''.''} \<Longrightarrow> is_alnum c"
  "name_class c \<Longrightarrow> c \<notin> {CHR ''-'', CHR ''_'', CHR ''.''} \<Longrightarrow> is_alnum c"
  by (auto simp: key_class_def value_class_def name_class_def)

lemma alnum_class: "is_alnum c \<Longrightarrow> key_class c" "is_alnum c \<Longrightarrow> value_class c" "is_alnum c \<Longrightarrow> name_class c"
  by (simp_all add: key_class_def value_class_def name_class_def)

lemma hd_filter: "p (hd v) \<Longrightarrow> v \<noteq> [] \<Longrightarrow> filter p v \<noteq> [] \<and> hd (filter p v) = hd v"
  by (cases v) auto

lemma take63 [simp]: "(if length v > 63 then take 63 v else v) = take 63 v"
  by simp

lemma replace_loop_segment:
  assumes "\<And>c. is_alnum c \<Longrightarrow> p c" "\<And>c. p c \<Longrightarrow> \<not> q c \<Longrightarrow> is_alnum c"
  shows "kube_segment p (replace_loop [LeadingNot is_alnum, EachNot p, TrailingRun q] v)"
proof -
  define a where "a = take 63 (dropWhile (\<lambda>c. \<not> is_alnum c) v)"
  define b where "b = take 63 (filter p a)"
  define r where "r = TrimRightFunc q b"
  have hb: "is_alnum (hd b)" if "b \<noteq> []"
  proof -
    from that have "a \<noteq> []" by (auto simp: b_def)
    then have "is_alnum (hd a)" using hd_dropWhile[of "\<lambda>c. \<not> is_alnum c" v] by (auto simp: a_def)
    with \<open>a \<noteq> []\<close> have "hd (filter p a) = hd a" using hd_filter assms(1) by blast
    with \<open>is_alnum (hd a)\<close> show ?thesis by (simp add: b_def)
  qed
  have pb: "list_all p b" by (auto simp: b_def list_all_iff dest: in_set_takeD)
  have pr: "list_all p r" using pb set_TrimRightFunc[of q b] by (auto simp: r_def list_all_iff)
  have "is_alnum (hd r) \<and> is_alnum (last r)" if "r \<noteq> []"
  proof
    show "is_alnum (hd r)" 
    proof -
      have "b \<noteq> []" using that by (auto simp: r_def TrimRightFunc_def)
      with hb that TrimRightFunc_hd[of q b] show ?thesis by (simp add: r_def)
    qed
    show "is_alnum (last r)"
      using that assms(2) pr TrimRightFunc_last[of q b] by (auto simp: r_def list_all_iff)
  qed
  moreover have "length r \<le> 63" using length_TrimRightFunc[of q b] by (simp add: r_def b_def)
  moreover have "replace_loop [LeadingNot is_alnum, EachNot p, TrailingRun q] v = r"
    using \<open>length r \<le> 63\<close> by (simp add: r_def b_def a_def Let_def)
  ultimately show ?thesis using pr by (simp add: kube_segment_def)
qed

lemma TrimRightFunc_id: "s = [] \<or> \<not> q (last s) \<Longrightarrow> TrimRightFunc q s = s"
  by (cases s rule: rev_cases) (auto simp: TrimRightFunc_def)

lemma replace_loop_id:
  assumes "kube_segment p s" "\<And>c. is_alnum c \<Longrightarrow> \<not> q c"
  shows "replace_loop [LeadingNot is_alnum, EachNot p, TrailingRun q] s = s"
proof -
  from assms(1) have l: "length s \<le> 63" and p: "filter p s = s"
    and h: "s \<noteq> [] \<Longrightarrow> is_alnum (hd s)" and t: "s = [] \<or> \<not> q (last s)"
    using assms(2) by (auto simp: kube_segment_def list_all_iff)
  have "dropWhile (\<lambda>c. \<not> is_alnum c) s = s" using h by (cases s) auto
  then show ?thesis using l p TrimRightFunc_id[of s q, OF t] by (simp add: Let_def)
qed

lemma punct_not_alnum:
  "is_alnum c \<Longrightarrow> c \<notin> {CHR ''-'', CHR ''_'', CHR ''.'', CHR ''/''}"
  "is_alnum c \<Longrightarrow> c \<notin> {CHR ''-'', CHR ''_'', CHR ''.''}"
  by (auto simp: byte_class_defs code_def)

lemma toKubernetesValue_loop:
  "toKubernetesValue v = replace_loop [LeadingNot is_alnum, EachNot value_class,
      TrailingRun (\<lambda>c. c \<in> {CHR ''-'', CHR ''_'', CHR ''.''})] v"
  by (simp add: toKubernetesValue_def replaceValueWithPatterns_def Let_def del: replace_loop.simps)

lemma toKubernetesValue_segment: "kube_segment value_class (toKubernetesValue w)"
  unfolding toKubernetesValue_loop by (rule replace_loop_segment) (auto intro: alnum_class class_not_trailing(2))

text \<open>
  Label values: whatever the string, the sanitised value is at most 63 bytes of letters,
  digits, dashes and dots that starts and ends with a letter or digit (or is empty), and
  sanitising leaves every such value alone, so it is idempotent.
\<close>

theorem toKubernetesValue_normal_form:
  "kube_segment value_class (toKubernetesValue v) \<and>
   toKubernetesValue (toKubernetesValue v) = toKubernetesValue v \<and>
   (kube_segment value_class v \<longleftrightarrow> toKubernetesValue v = v)"
proof -
  note seg = toKubernetesValue_segment
  have "toKubernetesValue w = w" if "kube_segment value_class w" for w
    unfolding toKubernetesValue_loop by (rule replace_loop_id[OF that punct_not_alnum(2)])
  with seg show ?thesis by metis
qed

text \<open>
  Names: the sanitised name is never empty and is at most 63 bytes of letters, digits and
  dashes that starts and ends with a letter or digit.
\<close>

theorem toKubernetesName_valid:
  "toKubernetesName v \<noteq> [] \<and> kube_segment name_class (toKubernetesName v)"
proof -
  let ?r = "replace_loop [LeadingNot is_alnum, EachNot name_class,
      TrailingRun (\<lambda>c. c \<in> {CHR ''-'', CHR ''_'', CHR ''.''})] v"
  have "kube_segment name_class ?r"
    by (rule replace_loop_segment) (auto intro: alnum_class class_not_trailing(3))
  moreover have "kube_segment name_class ''undef''" by code_simp
  ultimately show ?thesis
    by (simp add: toKubernetesName_def replaceValueWithPatterns_def Let_def del: replace_loop.simps)
qed

text \<open>Keys keep every slash of the label, so a label with two slashes stays an invalid key.\<close>

lemma toKubernetesKey_keeps_slashes: "toKubernetesKey ''a/b/c'' = ''a/b/c''"
  by code_simp

section \<open>Port mapping\<close>

lemma map_ports_loop_keeps:
  "map_ports_loop listen pps n co = (co', e, m) \<Longrightarrow>
   co_HostPorts co' = co_HostPorts co \<and> co_ExposedPorts co' = co_ExposedPorts co \<and> n \<le> m"
  by (induction pps arbitrary: n co)
     (force simp: MapPort_def split: sum.splits if_splits)+

lemma map_get_set_pair: "(k, v) \<in> set (map_set k v m)"
  by (metis map_get_set map_of_SomeD)

lemma port_bound_MapPort [simp]: "port_bound (MapPort co port pp) pp"
  using map_get_set_pair[of port pp] by (force simp: port_bound_def MapPort_def)

lemma set_map_set_fresh: "\<not> has_key m k \<Longrightarrow> set (map_set k v m) = insert (k, v) (set m)"
  by (induction m) (auto simp: has_key_iff)

lemma port_bound_MapPort_fresh:
  "\<not> has_key (co_MappedPorts co) port \<Longrightarrow> port_bound co q \<Longrightarrow> port_bound (MapPort co port pp) q"
  by (auto simp: port_bound_def MapPort_def set_map_set_fresh)

lemma fresh_listeners_step:
  assumes "fresh_listeners listen co n" "listen n = Inr port"
  shows "fresh_listeners listen (MapPort co port pp) (Suc n)" and "\<not> has_key (co_MappedPorts co) port"
proof -
  have ne: "listen i \<noteq> Inr port" if "Suc n \<le> i" for i
  proof
    assume "listen i = Inr port"
    with assms(2) have "listen i = listen n" by simp
    with assms(1) that have "i = n" unfolding fresh_listeners_def by (meson Suc_leD order_refl)
    with that show False by simp
  qed
  show "fresh_listeners listen (MapPort co port pp) (Suc n)"
    unfolding fresh_listeners_def
  proof (intro conjI allI impI)
    fix i assume i: "Suc n \<le> i"
    then obtain q where q: "listen i = Inr q" "\<not> has_key (co_MappedPorts co) q"
      using assms(1) unfolding fresh_listeners_def by (meson Suc_leD)
    with ne[OF i] show "\<exists>q. listen i = Inr q \<and> \<not> has_key (co_MappedPorts (MapPort co port pp)) q"
      by (auto simp: MapPort_def)
  next
    fix i j assume "Suc n \<le> i" "Suc n \<le> j" "listen i = listen j"
    then show "i = j" using assms(1) unfolding fresh_listeners_def by (meson Suc_leD)
  qed
  show "\<not> has_key (co_MappedPorts co) port"
    using assms unfolding fresh_listeners_def by (metis order_refl sum.inject(2))
qed

lemma map_ports_loop_bound:
  assumes "fresh_listeners listen co n" "map_ports_loop listen pps n co = (co', e, m)"
  shows "e = None \<and> (\<forall>pp \<in> set pps. port_bound co' pp) \<and> (\<forall>q. port_bound co q \<longrightarrow> port_bound co' q) \<and>
    (\<forall>k t. map_get (co_MappedPorts co) k = Some t \<longrightarrow> map_get (co_MappedPorts co') k = Some t)"
  using assms
proof (induction pps arbitrary: n co)
  case (Cons pp pps)
  show ?case
  proof (cases "port_bound co pp")
    case True
    then show ?thesis using Cons.IH[OF Cons.prems(1)] Cons.prems(2) by simp
  next
    case False
    obtain port where port: "listen n = Inr port" using Cons.prems(1) unfolding fresh_listeners_def by blast
    note fr = fresh_listeners_step(1)[OF Cons.prems(1) port, of pp] fresh_listeners_step(2)[OF Cons.prems(1) port]
    have "map_ports_loop listen pps (Suc n) (MapPort co port pp) = (co', e, m)"
      using Cons.prems(2) False port by simp
    note IH = Cons.IH[OF fr(1) this]
    have "port_bound co' pp" using IH by simp
    moreover have "map_get (co_MappedPorts co') k = Some t" if "map_get (co_MappedPorts co) k = Some t" for k t
    proof -
      have "k \<noteq> port" using fr(2) that by (auto simp: has_key_def)
      with that IH show ?thesis by (simp add: MapPort_def)
    qed
    ultimately show ?thesis using IH port_bound_MapPort_fresh[OF fr(2)] by simp
  qed
qed simp

lemma map_ports_loop_done:
  "\<forall>pp \<in> set pps. port_bound co pp \<Longrightarrow> map_ports_loop listen pps n co = (co, None, n)"
  by (induction pps) auto

text \<open>
  Port mapping: when every listener gets a port of its own that is not mapped yet, the call
  succeeds, afterwards every exposed TCP port is bound (explicitly, or by a mapped port), no
  earlier mapping is lost, and a second call opens no listener and changes nothing.
\<close>

theorem MapContainerTCPPorts_complete:
  assumes "fresh_listeners listen co 0" "MapContainerTCPPorts listen co = (co', e, n)"
  shows "e = None \<and> (\<forall>pp \<in> set (GetContainerTCPPorts co). port_bound co' pp) \<and>
    (\<forall>k t. map_get (co_MappedPorts co) k = Some t \<longrightarrow> map_get (co_MappedPorts co') k = Some t) \<and>
    MapContainerTCPPorts listen' co' = (co', None, 0)"
proof -
  have run: "map_ports_loop listen (GetContainerTCPPorts co) 0 co = (co', e, n)"
    using assms(2) by (simp add: MapContainerTCPPorts_def)
  note bd = map_ports_loop_bound[OF assms(1) run]
  have "GetContainerTCPPorts co' = GetContainerTCPPorts co"
    using map_ports_loop_keeps[OF run] by (simp add: GetContainerTCPPorts_def)
  with bd show ?thesis by (simp add: MapContainerTCPPorts_def map_ports_loop_done)
qed

theorem MapContainerTCPPorts_complete_witness:
  "\<exists>co'. MapContainerTCPPorts (\<lambda>i. Inr (40000 + int i)) (sample_container\<lparr>co_MappedPorts := []\<rparr>) = (co', None, 1) \<and>
     port_bound co' 5432 \<and> MapContainerTCPPorts (\<lambda>i. Inl (ExtError ''listen'')) co' = (co', None, 0)"
proof -
  let ?co = "sample_container\<lparr>co_MappedPorts := []\<rparr>" and ?co' = "sample_container\<lparr>co_MappedPorts := [(40000, 5432)]\<rparr>"
  have fr: "fresh_listeners (\<lambda>i. Inr (40000 + int i)) ?co 0"
    by (auto simp: fresh_listeners_def has_key_def sample_container_def)
  have run: "MapContainerTCPPorts (\<lambda>i. Inr (40000 + int i)) ?co = (?co', None, 1)" by code_simp
  have "5432 \<in> set (GetContainerTCPPorts ?co)" by code_simp
  with MapContainerTCPPorts_complete[OF fr run, of "\<lambda>i. Inl (ExtError ''listen'')"] run show ?thesis by blast
qed

end
