(* ===== verification/Network.thy ===== *)
theory Network
  imports Container
begin

text \<open>
  The remaining types of \<open>internal/model/types\<close>: networks (\<open>network.go\<close>), execs
  (\<open>exec.go\<close>) and images (\<open>image.go\<close>), and the event messages of
  \<open>internal/events\<close> with the publishing of an event to its subscribers.
\<close>

section \<open>Networks, execs, images\<close>

record network =
  nw_ID :: string
  nw_ShortID :: string
  nw_Name :: string
  nw_Driver :: string
  nw_Options :: "(string, string) gomap"
  nw_Labels :: "(string, string) gomap"
  nw_Created :: time

record exec =
  ex_ID :: string
  ex_ContainerID :: string
  ex_Cmd :: "string list"
  ex_Env :: "string list"
  ex_User :: string
  ex_WorkingDir :: string
  ex_TTY :: bool
  ex_Stdin :: bool
  ex_Stdout :: bool
  ex_Stderr :: bool
  ex_ExitCode :: int
  ex_Created :: time

record img =
  im_ID :: string
  im_ShortID :: string
  im_Name :: string
  im_ExposedPorts :: "string list"
  im_Created :: time

definition DriverName :: "network \<Rightarrow> string" where
  "DriverName nw = (if nw_Driver nw = [] then ''bridge'' else nw_Driver nw)"

definition IsPredefined :: "network \<Rightarrow> bool" where
  "IsPredefined nw = (nw_Name nw = ''bridge'' \<or> nw_Name nw = ''null'' \<or> nw_Name nw = ''host'')"

definition nw_nameMatch :: "(string \<Rightarrow> string \<Rightarrow> bool result) \<Rightarrow> network \<Rightarrow> string \<Rightarrow> bool result" where
  "nw_nameMatch re nw key = (if nw_Name nw = key then Inr True else re key (nw_Name nw))"

definition nw_Match ::
  "(string \<Rightarrow> string \<Rightarrow> bool result) \<Rightarrow> network \<Rightarrow> string \<Rightarrow> string \<Rightarrow> string \<Rightarrow> bool result" where
  "nw_Match re nw typ key val =
     (if typ = ''name'' then nw_nameMatch re nw key
      else if typ \<noteq> ''label'' then Inr True
      else (case map_get (nw_Labels nw) key of None \<Rightarrow> Inr False | Some v \<Rightarrow> Inr (v = val)))"

section \<open>Events\<close>

record message =
  ms_ID :: string
  ms_Type :: string
  ms_Action :: string
  ms_Time :: int
  ms_TimeNano :: int

definition ms_Match :: "message \<Rightarrow> string \<Rightarrow> string \<Rightarrow> string \<Rightarrow> bool result" where
  "ms_Match m typ key val =
     (if typ = ''type'' then Inr (ms_Type m = key)
      else if ms_Type m = typ then Inr (ms_ID m = key)
      else Inr True)"

text \<open>
  The observers: one channel of capacity one per subscription, as the queue of undelivered
  messages. A send on a full channel blocks the publisher: \<open>Publish\<close> returns the observers
  and whether it got through all of them.
\<close>

type_synonym observers = "(string, message list) gomap"

definition Subscribe :: "string \<Rightarrow> observers \<Rightarrow> observers" where
  "Subscribe i obs = map_set i [] obs"

definition Unsubscribe :: "string \<Rightarrow> observers \<Rightarrow> observers" where
  "Unsubscribe i obs = map_del i obs"

fun publish_loop :: "message \<Rightarrow> observers \<Rightarrow> observers \<times> bool" where
  "publish_loop msg [] = ([], True)"
| "publish_loop msg ((i, q) # obs) =
     (if length q < 1 then (case publish_loop msg obs of (obs', ok) \<Rightarrow> ((i, q @ [msg]) # obs', ok))
      else ((i, q) # obs, False))"

definition Publish :: "int \<Rightarrow> string \<Rightarrow> string \<Rightarrow> string \<Rightarrow> observers \<Rightarrow> observers \<times> bool" where
  "Publish now i kind action obs =
     publish_loop \<lparr>ms_ID = i, ms_Type = kind, ms_Action = action, ms_Time = now div second, ms_TimeNano = now\<rparr> obs"

lemma publish_loop_spec:
  "publish_loop msg obs = (obs', ok) \<Longrightarrow>
   (ok \<longleftrightarrow> (\<forall>(i, q) \<in> set obs. q = [])) \<and> map fst obs' = map fst obs \<and>
   (ok \<longrightarrow> obs' = map (\<lambda>(i, q). (i, [msg])) obs)"
proof (induction obs arbitrary: obs' ok)
  case (Cons iq obs)
  obtain i q where iq: "iq = (i, q)" by force
  show ?case
  proof (cases "q = []")
    case True
    obtain obs1 ok1 where r: "publish_loop msg obs = (obs1, ok1)" by force
    with Cons.IH[OF r] Cons.prems True iq show ?thesis by auto
  next
    case False
    then have "(obs', ok) = (iq # obs, False)" using Cons.prems iq by (cases q) auto
    with False iq show ?thesis by auto
  qed
qed simp

text \<open>
  An event is delivered once to every subscriber when each of them has read its previous
  event; the publisher is held up exactly when some subscriber still has an unread event.
\<close>

theorem Publish_delivers:
  assumes "Publish now i kind action obs = (obs', ok)"
  shows "(ok \<longleftrightarrow> (\<forall>s q. (s, q) \<in> set obs \<longrightarrow> q = [])) \<and> map fst obs' = map fst obs \<and>
    (ok \<longrightarrow> (\<forall>s q. (s, q) \<in> set obs' \<longrightarrow> (\<exists>m. q = [m] \<and> ms_ID m = i \<and> ms_Type m = kind \<and> ms_Action m = action)))"
  using publish_loop_spec[OF assms[unfolded Publish_def]] by (auto simp: case_prod_beta)

theorem Publish_delivers_witness:
  "\<exists>obs'. Publish 5 ''c1'' ''container'' ''die'' (Subscribe ''b'' (Subscribe ''a'' [])) = (obs', True) \<and>
     map fst obs' = [''a'', ''b'']"
proof -
  obtain obs' ok where r: "Publish 5 ''c1'' ''container'' ''die'' (Subscribe ''b'' (Subscribe ''a'' [])) = (obs', ok)"
    by force
  have obs: "Subscribe ''b'' (Subscribe ''a'' []) = [(''a'', []), (''b'', [])]" by code_simp
  from Publish_delivers[OF r] r show ?thesis unfolding obs by auto
qed

end
