(* ===== verification/Database.thy ===== *)
theory Database
  imports ContainerProps Network
begin

text \<open>
  \<open>internal/model/database.go\<close>: the in-memory database of containers, execs, networks and
  images.

  The table library \<open>go-memdb\<close> is a parameter: it keeps, per table, the index keys of the
  records (ID, short ID, name), and answers lookups with the ID of a record. The records
  themselves are Go pointers; the store holds what they point to, by ID. What the program relies
  on is the locale \<open>memdb_table\<close>. The identifier and the instant a save uses for a new record
  (\<open>stringid.GenerateRandomID()\<close>, \<open>time.Now()\<close>) are arguments.
\<close>

section \<open>The table library\<close>

datatype table = TContainer | TExec | TNetwork | TImage
datatype db_index = IdxID | IdxShortID | IdxName

type_synonym dbkey = "string \<times> string \<times> string"   \<comment> \<open>ID, short ID, name\<close>

fun index_key :: "db_index \<Rightarrow> dbkey \<Rightarrow> string" where
  "index_key IdxID (i, s, n) = i"
| "index_key IdxShortID (i, s, n) = s"
| "index_key IdxName (i, s, n) = n"

record 'db memdb =
  md_First :: "'db \<Rightarrow> table \<Rightarrow> db_index \<Rightarrow> string \<Rightarrow> string option result"
  md_Get :: "'db \<Rightarrow> table \<Rightarrow> string list result"
  md_Insert :: "table \<Rightarrow> dbkey \<Rightarrow> 'db \<Rightarrow> 'db result"
  md_Delete :: "table \<Rightarrow> dbkey \<Rightarrow> 'db \<Rightarrow> 'db result"

text \<open>\<open>createSchema\<close>: which indexes a table has, which of them are unique, which may be empty.\<close>

fun has_index :: "table \<Rightarrow> db_index \<Rightarrow> bool" where
  "has_index TExec ix = (ix = IdxID)"
| "has_index _ ix = True"

fun unique_index :: "table \<Rightarrow> db_index \<Rightarrow> bool" where
  "unique_index TContainer ix = (ix \<noteq> IdxName)"
| "unique_index TImage ix = (ix \<noteq> IdxName)"
| "unique_index _ ix = True"

fun may_be_missing :: "table \<Rightarrow> db_index \<Rightarrow> bool" where
  "may_be_missing TContainer ix = (ix = IdxName)"
| "may_be_missing TImage ix = (ix = IdxName)"
| "may_be_missing _ ix = False"

definition row_ok :: "table \<Rightarrow> dbkey \<Rightarrow> bool" where
  "row_ok t k = list_all (\<lambda>ix. has_index t ix \<longrightarrow> may_be_missing t ix \<or> index_key ix k \<noteq> []) [IdxID, IdxShortID, IdxName]"

definition key_conflict :: "table \<Rightarrow> dbkey \<Rightarrow> dbkey \<Rightarrow> bool" where
  "key_conflict t k k' = list_ex (\<lambda>ix. has_index t ix \<and> unique_index t ix \<and> index_key ix k = index_key ix k') [IdxID, IdxShortID, IdxName]"

section \<open>The store\<close>

record 'db store =
  st_db :: 'db
  st_containers :: "(string, container) gomap"
  st_execs :: "(string, exec) gomap"
  st_networks :: "(string, network) gomap"
  st_images :: "(string, img) gomap"

definition co_key :: "container \<Rightarrow> dbkey" where "co_key co = (co_ID co, co_ShortID co, co_Name co)"
definition ex_key :: "exec \<Rightarrow> dbkey" where "ex_key ex = (ex_ID ex, [], [])"
definition nw_key :: "network \<Rightarrow> dbkey" where "nw_key nw = (nw_ID nw, nw_ShortID nw, nw_Name nw)"
definition im_key :: "img \<Rightarrow> dbkey" where "im_key im = (im_ID im, im_ShortID im, im_Name im)"

text \<open>Following a pointer the table holds.\<close>

definition deref :: "(string, 'r) gomap \<Rightarrow> string \<Rightarrow> 'r result" where
  "deref heap i = (case map_get heap i of None \<Rightarrow> Inl (Panic ''nil pointer'') | Some r \<Rightarrow> Inr r)"

fun deref_all :: "(string, 'r) gomap \<Rightarrow> string list \<Rightarrow> 'r list result" where
  "deref_all heap [] = Inr []"
| "deref_all heap (i # is) = bind_res (deref heap i) (\<lambda>r. bind_res (deref_all heap is) (\<lambda>rs. Inr (r # rs)))"

definition db_save :: "'db memdb \<Rightarrow> table \<Rightarrow> dbkey \<Rightarrow> 'db store \<Rightarrow> error option \<times> 'db store" where
  "db_save M t k st = (case md_Insert M t k (st_db st) of
     Inl e \<Rightarrow> (Some e, st)
   | Inr d \<Rightarrow> (None, st\<lparr>st_db := d\<rparr>))"

definition db_delete :: "'db memdb \<Rightarrow> table \<Rightarrow> dbkey \<Rightarrow> 'db store \<Rightarrow> error option \<times> 'db store" where
  "db_delete M t k st = (case md_Delete M t k (st_db st) of
     Inl e \<Rightarrow> (Some e, st)
   | Inr d \<Rightarrow> (None, st\<lparr>st_db := d\<rparr>))"

definition id_index :: "string \<Rightarrow> db_index" where
  "id_index i = (if IsShortID i then IdxShortID else IdxID)"

definition found_or :: "string \<Rightarrow> string \<Rightarrow> (string, 'r) gomap \<Rightarrow> string option result \<Rightarrow> 'r result" where
  "found_or msg i heap r = bind_res r (\<lambda>x. case x of None \<Rightarrow> Inl (Errorf msg [i]) | Some y \<Rightarrow> deref heap y)"

section \<open>Containers\<close>

definition GetContainer :: "'db memdb \<Rightarrow> 'db store \<Rightarrow> string \<Rightarrow> container result" where
  "GetContainer M st i =
     found_or ''container %s not found'' i (st_containers st)
       (bind_res (md_First M (st_db st) TContainer (id_index i) i) (\<lambda>raw. case raw of
          Some x \<Rightarrow> Inr (Some x)
        | None \<Rightarrow> md_First M (st_db st) TContainer IdxName i))"

definition getContainerByName :: "'db memdb \<Rightarrow> 'db store \<Rightarrow> string \<Rightarrow> container result" where
  "getContainerByName M st name =
     found_or ''container %s not found'' name (st_containers st) (md_First M (st_db st) TContainer IdxName name)"

definition GetContainerByName :: "'db memdb \<Rightarrow> 'db store \<Rightarrow> string \<Rightarrow> container result" where
  "GetContainerByName M st name = (case getContainerByName M st name of
     Inr tainr \<Rightarrow> Inr tainr
   | Inl e \<Rightarrow> if CHR ''-'' \<notin> set name then Inl e
              else GetContainer M st (last (Split name (CHR ''-''))))"

definition GetContainerByNameOrID :: "'db memdb \<Rightarrow> 'db store \<Rightarrow> string \<Rightarrow> container result" where
  "GetContainerByNameOrID M st i = (case GetContainer M st i of
     Inr con \<Rightarrow> Inr con
   | Inl e \<Rightarrow> GetContainerByName M st i)"

definition GetContainers :: "'db memdb \<Rightarrow> 'db store \<Rightarrow> container list result" where
  "GetContainers M st = bind_res (md_Get M (st_db st) TContainer) (deref_all (st_containers st))"

definition init_container :: "string \<Rightarrow> time \<Rightarrow> container \<Rightarrow> container" where
  "init_container newid now con =
     (if co_ID con = [] then con\<lparr>co_ID := newid, co_ShortID := TruncateID newid, co_Created := now\<rparr> else con)"

definition SaveContainer ::
  "'db memdb \<Rightarrow> string \<Rightarrow> time \<Rightarrow> container \<Rightarrow> 'db store \<Rightarrow> container \<times> error option \<times> 'db store" where
  "SaveContainer M newid now con st =
     (let con' = init_container newid now con
      in (con', db_save M TContainer (co_key con') (st\<lparr>st_containers := map_set (co_ID con') con' (st_containers st)\<rparr>)))"

definition db_DeleteContainer :: "'db memdb \<Rightarrow> container \<Rightarrow> 'db store \<Rightarrow> error option \<times> 'db store" where
  "db_DeleteContainer M con st = db_delete M TContainer (co_key con) st"

section \<open>Execs\<close>

definition GetExec :: "'db memdb \<Rightarrow> 'db store \<Rightarrow> string \<Rightarrow> exec result" where
  "GetExec M st i = found_or ''exec %s not found'' i (st_execs st) (md_First M (st_db st) TExec IdxID i)"

definition GetExecs :: "'db memdb \<Rightarrow> 'db store \<Rightarrow> exec list result" where
  "GetExecs M st = bind_res (md_Get M (st_db st) TExec) (deref_all (st_execs st))"

definition SaveExec ::
  "'db memdb \<Rightarrow> string \<Rightarrow> time \<Rightarrow> exec \<Rightarrow> 'db store \<Rightarrow> exec \<times> error option \<times> 'db store" where
  "SaveExec M newid now exc st =
     (let exc' = (if ex_ID exc = [] then exc\<lparr>ex_ID := newid, ex_Created := now\<rparr> else exc)
      in (exc', db_save M TExec (ex_key exc') (st\<lparr>st_execs := map_set (ex_ID exc') exc' (st_execs st)\<rparr>)))"

definition DeleteExec :: "'db memdb \<Rightarrow> exec \<Rightarrow> 'db store \<Rightarrow> error option \<times> 'db store" where
  "DeleteExec M exc st = db_delete M TExec (ex_key exc) st"

section \<open>Networks\<close>

definition GetNetwork :: "'db memdb \<Rightarrow> 'db store \<Rightarrow> string \<Rightarrow> network result" where
  "GetNetwork M st i =
     found_or ''network %s not found'' i (st_networks st) (md_First M (st_db st) TNetwork (id_index i) i)"

definition GetNetworkByName :: "'db memdb \<Rightarrow> 'db store \<Rightarrow> string \<Rightarrow> network result" where
  "GetNetworkByName M st name =
     found_or ''network %s not found'' name (st_networks st) (md_First M (st_db st) TNetwork IdxName name)"

definition GetNetworkByNameOrID :: "'db memdb \<Rightarrow> 'db store \<Rightarrow> string \<Rightarrow> network result" where
  "GetNetworkByNameOrID M st i = (case GetNetwork M st i of
     Inr netw \<Rightarrow> Inr netw
   | Inl e \<Rightarrow> GetNetworkByName M st i)"

definition GetNetworks :: "'db memdb \<Rightarrow> 'db store \<Rightarrow> network list result" where
  "GetNetworks M st = bind_res (md_Get M (st_db st) TNetwork) (deref_all (st_networks st))"

definition GetNetworksByIDs :: "'db memdb \<Rightarrow> 'db store \<Rightarrow> string list \<Rightarrow> network list result" where
  "GetNetworksByIDs M st ids =
     bind_res (GetNetworks M st) (\<lambda>ns. Inr (filter (\<lambda>netw. nw_ID netw \<in> set ids) ns))"

definition SaveNetwork ::
  "'db memdb \<Rightarrow> string \<Rightarrow> time \<Rightarrow> network \<Rightarrow> 'db store \<Rightarrow> network \<times> error option \<times> 'db store" where
  "SaveNetwork M newid now netw st =
     (let netw' = (if nw_ID netw = []
                   then netw\<lparr>nw_ID := newid, nw_ShortID := TruncateID newid, nw_Created := now\<rparr> else netw)
      in (netw', db_save M TNetwork (nw_key netw') (st\<lparr>st_networks := map_set (nw_ID netw') netw' (st_networks st)\<rparr>)))"

definition DeleteNetwork :: "'db memdb \<Rightarrow> network \<Rightarrow> 'db store \<Rightarrow> error option \<times> 'db store" where
  "DeleteNetwork M netw st = db_delete M TNetwork (nw_key netw) st"

definition named_network :: "string \<Rightarrow> network" where
  "named_network name = \<lparr>nw_ID = [], nw_ShortID = [], nw_Name = name, nw_Driver = [], nw_Options = [],
     nw_Labels = [], nw_Created = 0\<rparr>"

text \<open>The errors of the three saves are not looked at.\<close>

definition loadDefaults :: "'db memdb \<Rightarrow> string \<Rightarrow> string \<Rightarrow> string \<Rightarrow> time \<Rightarrow> 'db store \<Rightarrow> 'db store" where
  "loadDefaults M id1 id2 id3 now st =
     (let st1 = snd (snd (SaveNetwork M id1 now (named_network ''null'') st));
          st2 = snd (snd (SaveNetwork M id2 now (named_network ''host'') st1))
      in snd (snd (SaveNetwork M id3 now (named_network ''bridge'') st2)))"

section \<open>Images\<close>

definition GetImage :: "'db memdb \<Rightarrow> 'db store \<Rightarrow> string \<Rightarrow> img result" where
  "GetImage M st i =
     found_or ''image %s not found'' i (st_images st) (md_First M (st_db st) TImage (id_index i) i)"

definition GetImageByName :: "'db memdb \<Rightarrow> 'db store \<Rightarrow> string \<Rightarrow> img result" where
  "GetImageByName M st name =
     found_or ''image %s not found'' name (st_images st) (md_First M (st_db st) TImage IdxName name)"

definition GetImageByNameOrID :: "'db memdb \<Rightarrow> 'db store \<Rightarrow> string \<Rightarrow> img result" where
  "GetImageByNameOrID M st i = (case GetImage M st i of
     Inr im \<Rightarrow> Inr im
   | Inl e \<Rightarrow> GetImageByName M st i)"

definition GetImages :: "'db memdb \<Rightarrow> 'db store \<Rightarrow> img list result" where
  "GetImages M st = bind_res (md_Get M (st_db st) TImage) (deref_all (st_images st))"

definition SaveImage ::
  "'db memdb \<Rightarrow> string \<Rightarrow> time \<Rightarrow> img \<Rightarrow> 'db store \<Rightarrow> img \<times> error option \<times> 'db store" where
  "SaveImage M newid now im st =
     (let im' = (if im_ID im = []
                 then im\<lparr>im_ID := newid, im_ShortID := TruncateID newid, im_Created := now\<rparr> else im)
      in (im', db_save M TImage (im_key im') (st\<lparr>st_images := map_set (im_ID im') im' (st_images st)\<rparr>)))"

definition DeleteImage :: "'db memdb \<Rightarrow> img \<Rightarrow> 'db store \<Rightarrow> error option \<times> 'db store" where
  "DeleteImage M im st = db_delete M TImage (im_key im) st"

section \<open>A table library for the examples\<close>

text \<open>Tables as lists of rows; the indexes are searched.\<close>

type_synonym list_db = "(table \<times> dbkey) list"

definition list_rows :: "list_db \<Rightarrow> table \<Rightarrow> dbkey list" where
  "list_rows db t = map snd (filter (\<lambda>r. fst r = t) db)"

definition list_memdb :: "list_db memdb" where
  "list_memdb = \<lparr>
     md_First = (\<lambda>db t ix x. Inr (map_option fst (find (\<lambda>k. x \<noteq> [] \<and> index_key ix k = x) (list_rows db t)))),
     md_Get = (\<lambda>db t. Inr (remdups (map fst (list_rows db t)))),
     md_Insert = (\<lambda>t k db. if row_ok t k then Inr ((t, k) # filter (\<lambda>r. \<not> (fst r = t \<and> fst (snd r) = fst k)) db)
                           else Inl (ExtError ''missing value for index'')),
     md_Delete = (\<lambda>t k db. if \<exists>r \<in> set db. fst r = t \<and> fst (snd r) = fst k
                           then Inr (filter (\<lambda>r. \<not> (fst r = t \<and> fst (snd r) = fst k)) db)
                           else Inl (ExtError ''not found''))\<rparr>"

definition empty_store :: "list_db store" where
  "empty_store = \<lparr>st_db = [], st_containers = [], st_execs = [], st_networks = [], st_images = []\<rparr>"

definition sample_id :: string where
  "sample_id = ''0a1b2c3d4e5f'' @ replicate 52 (CHR ''0'')"

section \<open>Invariant\<close>

text \<open>An identifier as the random generator makes it.\<close>

definition random_id :: "string \<Rightarrow> bool" where
  "random_id i = (length i = 64 \<and> list_all is_hex i)"

text \<open>
  The rows of a table describe the records of its heap: each row's record is there with these
  keys, and rows do not collide in a unique index.
\<close>

definition table_ok :: "table \<Rightarrow> ('r \<Rightarrow> dbkey) \<Rightarrow> dbkey list \<Rightarrow> (string, 'r) gomap \<Rightarrow> bool" where
  "table_ok t keyf rs heap =
     ((\<forall>k \<in> set rs. \<exists>r. map_get heap (fst k) = Some r \<and> keyf r = k) \<and>
      (\<forall>k \<in> set rs. \<forall>k' \<in> set rs. key_conflict t k k' \<longrightarrow> k = k'))"

definition containers_ok :: "('db \<Rightarrow> table \<Rightarrow> dbkey list) \<Rightarrow> 'db store \<Rightarrow> bool" where
  "containers_ok rows st =
     (table_ok TContainer co_key (rows (st_db st) TContainer) (st_containers st) \<and>
      (\<forall>k \<in> set (rows (st_db st) TContainer). random_id (fst k) \<and> fst (snd k) = TruncateID (fst k)))"

text \<open>A container the database holds, and a container that may be saved: a new one whose short
  identifier is not taken, or a stored one whose keys have not changed.\<close>

definition stored :: "('db \<Rightarrow> table \<Rightarrow> dbkey list) \<Rightarrow> 'db store \<Rightarrow> container \<Rightarrow> bool" where
  "stored rows st co =
     (co_key co \<in> set (rows (st_db st) TContainer) \<and> map_get (st_containers st) (co_ID co) = Some co)"

definition saveable :: "('db \<Rightarrow> table \<Rightarrow> dbkey list) \<Rightarrow> string \<Rightarrow> 'db store \<Rightarrow> container \<Rightarrow> bool" where
  "saveable rows newid st con =
     (if co_ID con = []
      then random_id newid \<and> (\<forall>k \<in> set (rows (st_db st) TContainer). fst (snd k) \<noteq> TruncateID newid)
      else co_key con \<in> set (rows (st_db st) TContainer))"

section \<open>Reading the invariant\<close>

lemma index_key_sel [simp]:
  "index_key IdxID k = fst k" "index_key IdxShortID k = fst (snd k)" "index_key IdxName k = snd (snd k)"
  by (cases k, simp)+

lemma key_conflict_container:
  "key_conflict TContainer k k' \<longleftrightarrow> fst k = fst k' \<or> fst (snd k) = fst (snd k')"
  by (simp add: key_conflict_def)

lemma containers_row:
  assumes "containers_ok rows st" "k \<in> set (rows (st_db st) TContainer)"
  shows "random_id (fst k)" and "fst (snd k) = TruncateID (fst k)"
    and "\<exists>r. map_get (st_containers st) (fst k) = Some r \<and> co_key r = k"
  using assms unfolding containers_ok_def table_ok_def by blast+

lemma stored_row:
  assumes "containers_ok rows st" "stored rows st co"
  shows "random_id (co_ID co)" and "co_ShortID co = TruncateID (co_ID co)"
  using containers_row(1,2)[OF assms(1), of "co_key co"] assms(2) by (simp_all add: stored_def co_key_def)

section \<open>Pod names end in a dash and the short identifier\<close>

lemma Split_last: "sep \<notin> set b \<Longrightarrow> \<exists>xs. xs \<noteq> [] \<and> Split (a @ sep # b) sep = xs @ [b]"
proof (induction a)
  case Nil
  then show ?case by (intro exI[of _ "[[]]"]) (simp add: Split_single)
next
  case (Cons c a)
  then obtain f fs where "Split (a @ sep # b) sep = (f # fs) @ [b]" by (metis neq_Nil_conv)
  then show ?case by (cases "c = sep") (auto intro: exI[of _ "[] # f # fs"] exI[of _ "(c # f) # fs"])
qed

lemma last_Split: "sep \<notin> set b \<Longrightarrow> last (Split (a @ sep # b) sep) = b"
  using Split_last[of sep b a] by auto

lemma ReplaceAll_ends_dash: "\<exists>q. ReplaceAll (a @ ''-'') ''--'' ''-'' = q @ ''-''"
proof (induction "length a" arbitrary: a rule: less_induct)
  case less
  show ?case
  proof (cases a)
    case Nil
    then show ?thesis by (intro exI[of _ "[]"]) (simp add: HasPrefix_def)
  next
    case (Cons c cs)
    show ?thesis
    proof (cases "HasPrefix (c # cs @ ''-'') ''--''")
      case True
      show ?thesis
      proof (cases cs)
        case Nil
        then show ?thesis using True Cons by (intro exI[of _ "[]"]) simp
      next
        case (Cons d ds)
        from less[of ds] obtain q where "ReplaceAll (ds @ ''-'') ''--'' ''-'' = q @ ''-''"
          using \<open>a = c # cs\<close> Cons by auto
        then show ?thesis using True \<open>a = c # cs\<close> Cons by (intro exI[of _ "''-'' @ q"]) simp
      qed
    next
      case False
      from less[of cs] obtain q where "ReplaceAll (cs @ ''-'') ''--'' ''-'' = q @ ''-''" using Cons by auto
      then show ?thesis using False Cons by (intro exI[of _ "c # q"]) simp
    qed
  qed
qed

lemma pod_prefix_dash: "pod_prefix co \<noteq> [] \<Longrightarrow> \<exists>q. pod_prefix co = q @ ''-''"
proof -
  assume ne: "pod_prefix co \<noteq> []"
  obtain q where q: "ReplaceAll (pod_base co @ ''-'') ''--'' ''-'' = q @ ''-''" using ReplaceAll_ends_dash by blast
  have "pod_prefix co = ToLower (dropWhile (\<lambda>c. \<not> is_alnum c) (q @ ''-''))" by (simp only: pod_prefix_def q)
  moreover have "\<not> is_alnum (CHR ''-'')" by (rule is_alnum_dash)
  ultimately show ?thesis using ne
    by (cases "\<forall>c \<in> set q. \<not> is_alnum c")
       (auto simp: ToLower_def dropWhile_append lower_char_def byte_class_defs code_def)
qed

section \<open>What the program relies on\<close>

locale memdb_table =
  fixes M :: "'db memdb" and rows :: "'db \<Rightarrow> table \<Rightarrow> dbkey list"
  assumes first_total: "has_index t ix \<Longrightarrow> \<exists>r. md_First M db t ix x = Inr r"
    and first_Some: "has_index t ix \<Longrightarrow> md_First M db t ix x = Inr (Some i) \<Longrightarrow>
        \<exists>k \<in> set (rows db t). index_key ix k = x \<and> fst k = i"
    and first_None: "has_index t ix \<Longrightarrow> md_First M db t ix x = Inr None \<Longrightarrow> x \<noteq> [] \<Longrightarrow>
        \<forall>k \<in> set (rows db t). index_key ix k \<noteq> x"
    and get_ids: "\<exists>ids. md_Get M db t = Inr ids \<and> set ids = fst ` set (rows db t) \<and> distinct ids"
    and insert_row: "row_ok t k \<Longrightarrow> \<forall>k' \<in> set (rows db t). key_conflict t k k' \<longrightarrow> k' = k \<Longrightarrow>
        \<exists>db'. md_Insert M t k db = Inr db' \<and> set (rows db' t) = insert k (set (rows db t)) \<and>
          (\<forall>t'. t' \<noteq> t \<longrightarrow> rows db' t' = rows db t')"
    and delete_row: "k \<in> set (rows db t) \<Longrightarrow> \<forall>k' \<in> set (rows db t). fst k' = fst k \<longrightarrow> k' = k \<Longrightarrow>
        \<exists>db'. md_Delete M t k db = Inr db' \<and> set (rows db' t) = set (rows db t) - {k} \<and>
          (\<forall>t'. t' \<noteq> t \<longrightarrow> rows db' t' = rows db t')"
    and delete_absent: "\<forall>k' \<in> set (rows db t). fst k' \<noteq> fst k \<Longrightarrow> \<exists>e. md_Delete M t k db = Inl e"

begin

lemma first_unique:
  assumes "has_index t ix" "k \<in> set (rows db t)" "index_key ix k = x" "x \<noteq> []"
    and "\<And>k'. k' \<in> set (rows db t) \<Longrightarrow> index_key ix k' = x \<Longrightarrow> k' = k"
  shows "md_First M db t ix x = Inr (Some (fst k))"
proof -
  obtain r where r: "md_First M db t ix x = Inr r" using first_total[OF assms(1)] by blast
  show ?thesis
  proof (cases r)
    case None
    then show ?thesis using first_None[OF assms(1) r[unfolded None] assms(4)] assms(2,3) by blast
  next
    case (Some i)
    then show ?thesis using first_Some[OF assms(1) r[unfolded Some]] assms(5) r by blast
  qed
qed

lemma first_absent:
  assumes "has_index t ix" "\<forall>k \<in> set (rows db t). index_key ix k \<noteq> x"
  shows "md_First M db t ix x = Inr None"
proof -
  obtain r where r: "md_First M db t ix x = Inr r" using first_total[OF assms(1)] by blast
  then show ?thesis using first_Some[OF assms(1), of db x] assms(2) by (cases r) auto
qed

lemma save_ok:
  assumes "row_ok t k" "\<forall>k' \<in> set (rows (st_db st) t). key_conflict t k k' \<longrightarrow> k' = k"
  obtains d where "db_save M t k st = (None, st\<lparr>st_db := d\<rparr>)" "set (rows d t) = insert k (set (rows (st_db st) t))"
    "\<And>t'. t' \<noteq> t \<Longrightarrow> rows d t' = rows (st_db st) t'"
  using insert_row[OF assms] by (auto simp: db_save_def)

lemma container_unique:
  assumes "containers_ok rows st" "k \<in> set (rows (st_db st) TContainer)" "k' \<in> set (rows (st_db st) TContainer)"
    and "fst k' = fst k \<or> fst (snd k') = fst (snd k)"
  shows "k' = k"
proof -
  have "key_conflict TContainer k' k" using assms(4) by (simp add: key_conflict_container)
  then show ?thesis using assms(1-3) unfolding containers_ok_def table_ok_def by blast
qed

lemma GetContainer_by_id:
  assumes "containers_ok rows st" "stored rows st co"
  shows "GetContainer M st (co_ID co) = Inr co"
proof -
  have k: "co_key co \<in> set (rows (st_db st) TContainer)" using assms(2) by (simp add: stored_def)
  from stored_row(1)[OF assms] have ix: "id_index (co_ID co) = IdxID" and ne: "co_ID co \<noteq> []"
    by (auto simp: random_id_def id_index_def IsShortID_def)
  have "md_First M (st_db st) TContainer IdxID (co_ID co) = Inr (Some (fst (co_key co)))"
  proof (rule first_unique[OF _ k _ ne])
    show "k' = co_key co" if "k' \<in> set (rows (st_db st) TContainer)" "index_key IdxID k' = co_ID co" for k'
      by (rule container_unique[OF assms(1) k that(1)]) (use that(2) in \<open>simp add: co_key_def\<close>)
  qed (simp_all add: co_key_def)
  then show ?thesis using ix assms(2) by (simp add: GetContainer_def found_or_def deref_def stored_def co_key_def)
qed

lemma GetContainer_by_short:
  assumes "containers_ok rows st" "stored rows st co"
  shows "IsShortID (co_ShortID co)" and "GetContainer M st (co_ShortID co) = Inr co"
proof -
  have k: "co_key co \<in> set (rows (st_db st) TContainer)" using assms(2) by (simp add: stored_def)
  show short: "IsShortID (co_ShortID co)"
    using stored_row[OF assms] TruncateID_short[of "co_ID co"] by (simp add: random_id_def)
  then have ne: "co_ShortID co \<noteq> []" by (auto simp: IsShortID_def)
  have "md_First M (st_db st) TContainer IdxShortID (co_ShortID co) = Inr (Some (fst (co_key co)))"
  proof (rule first_unique[OF _ k _ ne])
    show "k' = co_key co" if "k' \<in> set (rows (st_db st) TContainer)" "index_key IdxShortID k' = co_ShortID co" for k'
      by (rule container_unique[OF assms(1) k that(1)]) (use that(2) in \<open>simp add: co_key_def\<close>)
  qed (simp_all add: co_key_def)
  then show "GetContainer M st (co_ShortID co) = Inr co"
    using short assms(2) by (simp add: GetContainer_def id_index_def found_or_def deref_def stored_def co_key_def)
qed

text \<open>Names need not be unique; one that no other stored container has finds its container.\<close>

lemma GetContainer_by_name:
  assumes "containers_ok rows st" "stored rows st co" "co_Name co \<noteq> []"
    and "\<And>c. stored rows st c \<Longrightarrow> co_Name c = co_Name co \<Longrightarrow> co_ID c = co_ID co"
  shows "GetContainerByName M st (co_Name co) = Inr co"
proof -
  have k: "co_key co \<in> set (rows (st_db st) TContainer)" using assms(2) by (simp add: stored_def)
  have "md_First M (st_db st) TContainer IdxName (co_Name co) = Inr (Some (fst (co_key co)))"
  proof (rule first_unique[OF _ k _ assms(3)])
    show "k' = co_key co" if k': "k' \<in> set (rows (st_db st) TContainer)" "index_key IdxName k' = co_Name co" for k'
    proof -
      obtain c where c: "map_get (st_containers st) (fst k') = Some c" "co_key c = k'"
        using containers_row(3)[OF assms(1) k'(1)] by blast
      then have "stored rows st c" "co_Name c = co_Name co" using k' by (auto simp: stored_def co_key_def)
      then have "fst k' = fst (co_key co)" using assms(4) c(2) by (auto simp: co_key_def)
      then show ?thesis by (intro container_unique[OF assms(1) k k'(1)]) simp
    qed
  qed (simp_all add: co_key_def)
  then show ?thesis
    using assms(2) by (simp add: GetContainerByName_def getContainerByName_def found_or_def deref_def stored_def co_key_def)
qed

lemma SaveContainer_stored:
  assumes ok: "containers_ok rows st" and sv: "saveable rows newid st con"
    and run: "SaveContainer M newid now con st = (con', e, st')"
  shows "e = None" "containers_ok rows st'" "stored rows st' con'"
    and "\<And>c. stored rows st c \<Longrightarrow> co_ID c \<noteq> co_ID con' \<Longrightarrow> stored rows st' c"
proof -
  let ?rs = "set (rows (st_db st) TContainer)"
  have con': "con' = init_container newid now con" using run by (simp add: SaveContainer_def Let_def)
  have rid: "random_id (co_ID con') \<and> co_ShortID con' = TruncateID (co_ID con')"
  proof (cases "co_ID con = []")
    case True
    then show ?thesis using sv by (simp add: saveable_def con' init_container_def)
  next
    case False
    then have "co_key con \<in> ?rs" "con' = con" using sv by (simp_all add: saveable_def con' init_container_def)
    then show ?thesis using containers_row(1,2)[OF ok, of "co_key con"] by (simp add: co_key_def)
  qed
  then have short: "co_ShortID con' \<noteq> []" and idne: "co_ID con' \<noteq> []"
    using TruncateID_short[of "co_ID con'"] by (auto simp: random_id_def IsShortID_def)
  have conf: "k' = co_key con'" if "k' \<in> ?rs" "key_conflict TContainer (co_key con') k'" for k'
  proof (cases "co_ID con = []")
    case True
    then have fresh: "fst (snd k') \<noteq> co_ShortID con'" and "co_ShortID con' = TruncateID (co_ID con')"
      using sv that(1) rid by (auto simp: saveable_def con' init_container_def)
    moreover have "fst (snd k') = TruncateID (fst k')" by (rule containers_row(2)[OF ok that(1)])
    ultimately show ?thesis using that(2) by (auto simp: key_conflict_container co_key_def)
  next
    case False
    then have "co_key con' \<in> ?rs" using sv by (simp add: saveable_def con' init_container_def)
    then show ?thesis
      by (rule container_unique[OF ok _ that(1)]) (use that(2) in \<open>auto simp: key_conflict_container\<close>)
  qed
  let ?st1 = "st\<lparr>st_containers := map_set (co_ID con') con' (st_containers st)\<rparr>"
  have "row_ok TContainer (co_key con')" using short idne by (simp add: row_ok_def co_key_def)
  with conf obtain d where d: "db_save M TContainer (co_key con') ?st1 = (None, ?st1\<lparr>st_db := d\<rparr>)"
    "set (rows d TContainer) = insert (co_key con') ?rs"
    by (rule_tac save_ok[of TContainer "co_key con'" ?st1]) auto
  have st': "e = None \<and> st' = ?st1\<lparr>st_db := d\<rparr>"
    using run d(1) by (simp add: SaveContainer_def con'[symmetric])
  then show "e = None" by simp
  have same: "k' = co_key con'" if "k' \<in> ?rs" "fst k' = co_ID con'" for k'
    by (rule conf[OF that(1)]) (use that(2) in \<open>simp add: key_conflict_container co_key_def\<close>)
  show "stored rows st' con'" using st' d(2) by (simp add: stored_def)
  show "stored rows st' c" if "stored rows st c" "co_ID c \<noteq> co_ID con'" for c
    using that st' d(2) by (simp add: stored_def)
  show "containers_ok rows st'" unfolding containers_ok_def table_ok_def
  proof (intro conjI ballI impI)
    fix k assume "k \<in> set (rows (st_db st') TContainer)"
    then have k: "k = co_key con' \<or> k \<in> ?rs" using st' d(2) by simp
    show "\<exists>r. map_get (st_containers st') (fst k) = Some r \<and> co_key r = k"
    proof (cases "fst k = co_ID con'")
      case True
      with k same have "k = co_key con'" by blast
      then show ?thesis using st' by (simp add: co_key_def)
    next
      case False
      then have "k \<in> ?rs" using k by (auto simp: co_key_def)
      from containers_row(3)[OF ok this] show ?thesis using False st' by simp
    qed
    show "random_id (fst k)" "fst (snd k) = TruncateID (fst k)"
      using k rid containers_row(1)[OF ok, of k] containers_row(2)[OF ok, of k] by (auto simp: co_key_def)
    fix k' assume "k' \<in> set (rows (st_db st') TContainer)" and c: "key_conflict TContainer k k'"
    then have k': "k' = co_key con' \<or> k' \<in> ?rs" using st' d(2) by simp
    have sym: "key_conflict TContainer k' k" using c by (auto simp: key_conflict_container)
    show "k = k'" using k k' c sym conf ok unfolding containers_ok_def table_ok_def by metis
  qed
qed

lemma DeleteContainer_gone:
  assumes ok: "containers_ok rows st" and co: "stored rows st con"
    and run: "db_DeleteContainer M con st = (e, st')"
  shows "e = None" "containers_ok rows st'" "st_containers st' = st_containers st"
    and "set (rows (st_db st') TContainer) = set (rows (st_db st) TContainer) - {co_key con}"
proof -
  have k: "co_key con \<in> set (rows (st_db st) TContainer)" using co by (simp add: stored_def)
  have "\<forall>k' \<in> set (rows (st_db st) TContainer). fst k' = fst (co_key con) \<longrightarrow> k' = co_key con"
    using container_unique[OF ok k] by blast
  from delete_row[OF k this] obtain d where d: "md_Delete M TContainer (co_key con) (st_db st) = Inr d"
    "set (rows d TContainer) = set (rows (st_db st) TContainer) - {co_key con}" by blast
  then have st': "e = None \<and> st' = st\<lparr>st_db := d\<rparr>" using run by (simp add: db_DeleteContainer_def db_delete_def)
  then show "e = None" "st_containers st' = st_containers st"
    "set (rows (st_db st') TContainer) = set (rows (st_db st) TContainer) - {co_key con}" using d(2) by simp_all
  then show "containers_ok rows st'" using ok by (simp add: containers_ok_def table_ok_def)
qed

lemma GetContainer_absent:
  assumes "\<forall>k \<in> set (rows (st_db st) TContainer). index_key (id_index i) k \<noteq> i \<and> index_key IdxName k \<noteq> i"
  shows "GetContainer M st i = Inl (Errorf ''container %s not found'' [i])"
proof -
  have "md_First M (st_db st) TContainer (id_index i) i = Inr None" "md_First M (st_db st) TContainer IdxName i = Inr None"
    using assms by (simp_all add: first_absent)
  then show ?thesis by (simp add: GetContainer_def found_or_def)
qed

lemma stored_of_row:
  assumes "containers_ok rows st" "k \<in> set (rows (st_db st) TContainer)"
  shows "\<exists>c. stored rows st c \<and> co_key c = k"
  using containers_row(3)[OF assms] assms(2) by (auto simp: stored_def co_key_def)

lemma delete_forgets:
  assumes ok: "containers_ok rows st" and co: "stored rows st con"
    and nm: "\<And>c. stored rows st c \<Longrightarrow> co_Name c \<noteq> co_ID con \<and> co_Name c \<noteq> co_ShortID con"
    and run: "db_DeleteContainer M con st = (e, st')"
  shows "GetContainer M st' (co_ID con) = Inl (Errorf ''container %s not found'' [co_ID con])"
    and "GetContainer M st' (co_ShortID con) = Inl (Errorf ''container %s not found'' [co_ShortID con])"
    and "\<And>c. stored rows st c \<Longrightarrow> c \<noteq> con \<Longrightarrow> GetContainer M st' (co_ID c) = Inr c"
proof -
  note del = DeleteContainer_gone[OF ok co run]
  have k: "co_key con \<in> set (rows (st_db st) TContainer)" using co by (simp add: stored_def)
  have gone: "fst k' \<noteq> co_ID con \<and> fst (snd k') \<noteq> co_ShortID con \<and> snd (snd k') \<noteq> co_ID con \<and> snd (snd k') \<noteq> co_ShortID con"
    if "k' \<in> set (rows (st_db st') TContainer)" for k'
  proof -
    have k': "k' \<in> set (rows (st_db st) TContainer)" "k' \<noteq> co_key con" using that del(4) by auto
    from stored_of_row[OF ok k'(1)] obtain c where c: "stored rows st c" "co_key c = k'" by blast
    have "fst k' \<noteq> fst (co_key con) \<and> fst (snd k') \<noteq> fst (snd (co_key con))"
      using container_unique[OF ok k k'(1)] k'(2) by blast
    with nm[OF c(1)] c(2) show ?thesis by (auto simp: co_key_def)
  qed
  have "id_index (co_ID con) = IdxID" using stored_row(1)[OF ok co] by (simp add: id_index_def random_id_def IsShortID_def)
  moreover have "id_index (co_ShortID con) = IdxShortID" using GetContainer_by_short(1)[OF ok co] by (simp add: id_index_def)
  ultimately show "GetContainer M st' (co_ID con) = Inl (Errorf ''container %s not found'' [co_ID con])"
    "GetContainer M st' (co_ShortID con) = Inl (Errorf ''container %s not found'' [co_ShortID con])"
    using gone by (simp_all add: GetContainer_absent)
  show "GetContainer M st' (co_ID c) = Inr c" if "stored rows st c" "c \<noteq> con" for c
  proof (rule GetContainer_by_id[OF del(2)])
    have "co_key c \<noteq> co_key con"
    proof
      assume "co_key c = co_key con"
      then have "co_ID c = co_ID con" by (simp add: co_key_def)
      then show False using that co by (simp add: stored_def)
    qed
    then show "stored rows st' c" using that(1) del(3,4) by (simp add: stored_def)
  qed
qed

lemma pod_name_lookup:
  assumes ok: "containers_ok rows st" and co: "stored rows st con"
    and nm: "\<And>c. stored rows st c \<Longrightarrow> co_Name c \<noteq> GetPodName con"
  shows "GetContainerByNameOrID M st (GetPodName con) = Inr con"
proof -
  note short = GetContainer_by_short[OF ok co]
  note shape = GetPodName_shape[OF short(1)]
  show ?thesis
  proof (cases "pod_prefix con = []")
    case True
    then show ?thesis using short(2) shape by (simp add: GetContainerByNameOrID_def)
  next
    case False
    then obtain q where q: "pod_prefix con = q @ ''-''" using pod_prefix_dash by blast
    let ?p = "GetPodName con"
    have p: "?p = q @ CHR ''-'' # co_ShortID con" using q shape by simp
    have nd: "CHR ''-'' \<notin> set (co_ShortID con)"
      using short(1) hex_not_special dash_not_hex by (auto simp: IsShortID_def)
    have dash: "CHR ''-'' \<in> set ?p" by (simp add: p)
    have ix: "id_index ?p = IdxID" using dash hex_not_special dash_not_hex by (auto simp: id_index_def IsShortID_def)
    have "fst k \<noteq> ?p \<and> snd (snd k) \<noteq> ?p" if row: "k \<in> set (rows (st_db st) TContainer)" for k
    proof -
      have "CHR ''-'' \<notin> set (fst k)"
        using containers_row(1)[OF ok row] hex_not_special dash_not_hex by (auto simp: random_id_def)
      moreover obtain c where "stored rows st c" "co_key c = k" using stored_of_row[OF ok row] by blast
      ultimately show ?thesis using dash nm by (auto simp: co_key_def)
    qed
    then have "GetContainer M st ?p = Inl (Errorf ''container %s not found'' [?p])"
      and "md_First M (st_db st) TContainer IdxName ?p = Inr None"
      using ix by (simp_all add: GetContainer_absent first_absent)
    moreover have "last (Split ?p (CHR ''-'')) = co_ShortID con" unfolding p by (rule last_Split[OF nd])
    ultimately show ?thesis
      using dash short(2) by (simp add: GetContainerByNameOrID_def GetContainerByName_def getContainerByName_def found_or_def)
  qed
qed

end

text \<open>The tables are independent: an operation on one leaves the rows of the others as they are.\<close>

locale memdb_tables = memdb_table +
  assumes insert_other: "md_Insert M t k db = Inr db' \<Longrightarrow> t' \<noteq> t \<Longrightarrow> rows db' t' = rows db t'"
    and delete_other: "md_Delete M t k db = Inr db' \<Longrightarrow> t' \<noteq> t \<Longrightarrow> rows db' t' = rows db t'"

lemma list_rows_filter_other:
  "t' \<noteq> t \<Longrightarrow> list_rows (filter (\<lambda>r. \<not> (fst r = t \<and> fst (snd r) = x)) db) t' = list_rows db t'"
  by (induction db) (auto simp: list_rows_def)

interpretation listdb: memdb_table list_memdb list_rows
proof unfold_locales
  fix t :: table and ix x and db :: list_db and i
  show "\<exists>r. md_First list_memdb db t ix x = Inr r" by (simp add: list_memdb_def)
  show "\<exists>k \<in> set (list_rows db t). index_key ix k = x \<and> fst k = i" if "md_First list_memdb db t ix x = Inr (Some i)"
    using that by (auto simp: list_memdb_def find_Some_iff) (metis fst_conv nth_mem)
  show "\<forall>k \<in> set (list_rows db t). index_key ix k \<noteq> x" if "md_First list_memdb db t ix x = Inr None" "x \<noteq> []"
    using that by (auto simp: list_memdb_def find_None_iff)
next
  fix t and db :: list_db
  show "\<exists>ids. md_Get list_memdb db t = Inr ids \<and> set ids = fst ` set (list_rows db t) \<and> distinct ids"
    by (simp add: list_memdb_def)
next
  fix t and k :: dbkey and db :: list_db
  assume k: "row_ok t k" and c: "\<forall>k' \<in> set (list_rows db t). key_conflict t k k' \<longrightarrow> k' = k"
  have "k' = k" if "(t, k') \<in> set db" "fst k' = fst k" for k'
  proof -
    have "key_conflict t k k'" using that(2) by (cases k; cases k'; cases t) (auto simp: key_conflict_def)
    moreover have "k' \<in> set (list_rows db t)" using that(1) by (force simp: list_rows_def)
    ultimately show ?thesis using c by blast
  qed
  then have "set (list_rows ((t, k) # filter (\<lambda>r. \<not> (fst r = t \<and> fst (snd r) = fst k)) db) t) = insert k (set (list_rows db t))"
    by (force simp: list_rows_def)
  moreover have "list_rows ((t, k) # filter (\<lambda>r. \<not> (fst r = t \<and> fst (snd r) = fst k)) db) t' = list_rows db t'"
    if "t' \<noteq> t" for t' using list_rows_filter_other[OF that] that by (simp add: list_rows_def)
  ultimately show "\<exists>db'. md_Insert list_memdb t k db = Inr db' \<and> set (list_rows db' t) = insert k (set (list_rows db t)) \<and>
      (\<forall>t'. t' \<noteq> t \<longrightarrow> list_rows db' t' = list_rows db t')"
    using k by (simp add: list_memdb_def)
next
  fix t and k :: dbkey and db :: list_db
  let ?db = "filter (\<lambda>r. \<not> (fst r = t \<and> fst (snd r) = fst k)) db"
  assume k: "k \<in> set (list_rows db t)" and u: "\<forall>k' \<in> set (list_rows db t). fst k' = fst k \<longrightarrow> k' = k"
  have "\<exists>r \<in> set db. fst r = t \<and> fst (snd r) = fst k" using k by (force simp: list_rows_def)
  moreover have "list_rows ?db t = filter (\<lambda>k'. fst k' \<noteq> fst k) (list_rows db t)"
    by (induction db) (auto simp: list_rows_def)
  then have "set (list_rows ?db t) = set (list_rows db t) - {k}" using u by auto
  moreover have "list_rows ?db t' = list_rows db t'" if "t' \<noteq> t" for t'
    using list_rows_filter_other[OF that] by simp
  ultimately show "\<exists>db'. md_Delete list_memdb t k db = Inr db' \<and> set (list_rows db' t) = set (list_rows db t) - {k} \<and>
      (\<forall>t'. t' \<noteq> t \<longrightarrow> list_rows db' t' = list_rows db t')" by (simp add: list_memdb_def)
next
  fix t and k :: dbkey and db :: list_db
  assume "\<forall>k' \<in> set (list_rows db t). fst k' \<noteq> fst k"
  then show "\<exists>e. md_Delete list_memdb t k db = Inl e" by (force simp: list_memdb_def list_rows_def)
qed

interpretation listtabs: memdb_tables list_memdb list_rows
proof unfold_locales
  fix t t' :: table and k and db db' :: list_db
  assume "md_Insert list_memdb t k db = Inr db'" "t' \<noteq> t"
  then show "list_rows db' t' = list_rows db t'"
    using list_rows_filter_other[of t' t _ db] by (auto simp: list_memdb_def list_rows_def split: if_splits)
next
  fix t t' :: table and k and db db' :: list_db
  assume "md_Delete list_memdb t k db = Inr db'" "t' \<noteq> t"
  then show "list_rows db' t' = list_rows db t'"
    using list_rows_filter_other[of t' t _ db] by (auto simp: list_memdb_def split: if_splits)
qed

section \<open>Properties of the database\<close>

text \<open>
  Saving and finding: a new container (or one whose keys are unchanged) is saved without
  error; afterwards it is found by its ID and by its short ID, with exactly the saved contents,
  every other container is still there, and the database is as consistent as before.
\<close>

theorem SaveContainer_roundtrip:
  assumes "memdb_table M rows" "containers_ok rows st" "saveable rows newid st con"
    and "SaveContainer M newid now con st = (con', e, st')"
  shows "e = None \<and> containers_ok rows st' \<and> GetContainer M st' (co_ID con') = Inr con' \<and>
    GetContainer M st' (co_ShortID con') = Inr con' \<and>
    (\<forall>c. stored rows st c \<longrightarrow> co_ID c \<noteq> co_ID con' \<longrightarrow> GetContainer M st' (co_ID c) = Inr c)"
  using memdb_table.SaveContainer_stored[OF assms] memdb_table.GetContainer_by_id[OF assms(1)]
    memdb_table.GetContainer_by_short(2)[OF assms(1)] by blast

lemma sample_id_random: "random_id sample_id"
  by (simp add: random_id_def sample_id_def list_all_iff byte_class_defs code_def)

lemma empty_store_ok: "containers_ok list_rows empty_store"
  by (simp add: containers_ok_def table_ok_def empty_store_def list_rows_def)

lemma sample_saveable: "saveable list_rows sample_id empty_store sample_container"
  using sample_id_random by (simp add: saveable_def sample_container_def empty_store_def list_rows_def)

lemma sample_saved:
  assumes "SaveContainer list_memdb sample_id 7 sample_container empty_store = (con, e, st)"
  shows "con = sample_container\<lparr>co_ID := sample_id, co_ShortID := TruncateID sample_id, co_Created := 7\<rparr>"
    and "stored list_rows st c \<Longrightarrow> c = con"
proof -
  have "co_ID sample_container = []" by (simp add: sample_container_def)
  moreover have "con = init_container sample_id 7 sample_container"
    using assms unfolding SaveContainer_def Let_def by blast
  ultimately show con: "con = sample_container\<lparr>co_ID := sample_id, co_ShortID := TruncateID sample_id, co_Created := 7\<rparr>"
    by (simp add: init_container_def)
  have sv: "db_save list_memdb TContainer (co_key con) (empty_store\<lparr>st_containers := map_set (co_ID con) con []\<rparr>) = (e, st)"
    using assms unfolding SaveContainer_def Let_def empty_store_def by force
  have row: "set (list_rows (st_db st) TContainer) \<subseteq> {co_key con}" "st_containers st = [(co_ID con, con)]"
    using sv by (auto simp: db_save_def list_memdb_def list_rows_def empty_store_def split: if_splits)
  show "c = con" if "stored list_rows st c"
  proof -
    have "co_key c \<in> set (list_rows (st_db st) TContainer)" using that by (simp add: stored_def)
    with row(1) have "co_key c = co_key con" by (metis singletonD subsetD)
    then have "co_ID c = co_ID con" unfolding co_key_def by (rule Pair_inject)
    moreover have "map_get (st_containers st) (co_ID c) = Some c" using that unfolding stored_def by blast
    ultimately have "map_get [(co_ID con, con)] (co_ID con) = Some c" by (simp only: row(2))
    then show ?thesis by simp
  qed
qed

theorem SaveContainer_roundtrip_witness:
  "\<exists>con' st'. SaveContainer list_memdb sample_id 7 sample_container empty_store = (con', None, st') \<and>
     GetContainer list_memdb st' sample_id = Inr con'"
proof -
  obtain con' e st' where r: "SaveContainer list_memdb sample_id 7 sample_container empty_store = (con', e, st')"
    by (metis prod_cases3)
  have "co_ID con' = sample_id" using sample_saved(1)[OF r] by simp
  with SaveContainer_roundtrip[OF listdb.memdb_table_axioms empty_store_ok sample_saveable r] r show ?thesis by auto
qed

text \<open>
  Deleting a stored container succeeds, keeps every other container and leaves nothing to be
  found under its ID or short ID (unless another container carries that string as its name).
\<close>

theorem DeleteContainer_forgets:
  assumes "memdb_table M rows" "containers_ok rows st" "stored rows st con"
    and "\<And>c. stored rows st c \<Longrightarrow> co_Name c \<noteq> co_ID con \<and> co_Name c \<noteq> co_ShortID con"
    and "db_DeleteContainer M con st = (e, st')"
  shows "e = None \<and> containers_ok rows st' \<and> GetContainer M st' (co_ID con) = Inl (Errorf ''container %s not found'' [co_ID con]) \<and>
    GetContainer M st' (co_ShortID con) = Inl (Errorf ''container %s not found'' [co_ShortID con]) \<and>
    (\<forall>c. stored rows st c \<longrightarrow> c \<noteq> con \<longrightarrow> GetContainer M st' (co_ID c) = Inr c)"
  using memdb_table.DeleteContainer_gone(1,2)[OF assms(1-3,5)] memdb_table.delete_forgets[OF assms(1-5)] by blast

theorem DeleteContainer_forgets_witness:
  "\<exists>con st'. db_DeleteContainer list_memdb con (snd (snd (SaveContainer list_memdb sample_id 7 sample_container empty_store))) = (None, st') \<and>
     GetContainer list_memdb st' sample_id = Inl (Errorf ''container %s not found'' [sample_id])"
proof -
  obtain con e st where r: "SaveContainer list_memdb sample_id 7 sample_container empty_store = (con, e, st)"
    by (metis prod_cases3)
  note sv = listdb.SaveContainer_stored[OF empty_store_ok sample_saveable r]
  note con = sample_saved(1)[OF r] and only = sample_saved(2)[OF r]
  have "length (TruncateID sample_id) = 12" "length sample_id = 64"
    using sample_id_random by (simp_all add: random_id_def TruncateID_hex)
  then have nm: "co_Name c \<noteq> co_ID con \<and> co_Name c \<noteq> co_ShortID con" if "stored list_rows st c" for c
  proof -
    have "length (co_Name c) = 5" using only[OF that] con by (simp add: sample_container_def)
    moreover have "length (co_ID con) = 64" "length (co_ShortID con) = 12"
      using con \<open>length (TruncateID sample_id) = 12\<close> \<open>length sample_id = 64\<close> by simp_all
    ultimately show ?thesis by auto
  qed
  obtain e' st' where d: "db_DeleteContainer list_memdb con st = (e', st')" by force
  have "co_ID con = sample_id" using con by simp
  with DeleteContainer_forgets[OF listdb.memdb_table_axioms sv(2,3) nm d] d r show ?thesis by auto
qed

text \<open>
  The pod name leads back to the container: looking up the name the container's pod has in
  Kubernetes finds that container, as long as no container carries this name as its own.
\<close>

theorem GetContainerByNameOrID_pod_name:
  assumes "memdb_table M rows" "containers_ok rows st" "stored rows st con"
    and "\<And>c. stored rows st c \<Longrightarrow> co_Name c \<noteq> GetPodName con"
  shows "GetContainerByNameOrID M st (GetPodName con) = Inr con"
  by (rule memdb_table.pod_name_lookup[OF assms])

theorem GetContainerByNameOrID_pod_name_witness:
  "\<exists>con st. SaveContainer list_memdb sample_id 7 sample_container empty_store = (con, None, st) \<and>
     GetContainerByNameOrID list_memdb st (GetPodName con) = Inr con"
proof -
  obtain con e st where r: "SaveContainer list_memdb sample_id 7 sample_container empty_store = (con, e, st)"
    by (metis prod_cases3)
  note sv = listdb.SaveContainer_stored[OF empty_store_ok sample_saveable r]
  note con = sample_saved(1)[OF r] and only = sample_saved(2)[OF r]
  have "IsShortID (co_ShortID con)" by (rule listdb.GetContainer_by_short(1)[OF sv(2,3)])
  then have "12 \<le> length (GetPodName con)" by (simp add: GetPodName_shape IsShortID_def)
  moreover have "length (co_Name con) = 5" using con by (simp add: sample_container_def)
  ultimately have "co_Name c \<noteq> GetPodName con" if "stored list_rows st c" for c
    using only[OF that] by auto
  from GetContainerByNameOrID_pod_name[OF listdb.memdb_table_axioms sv(2,3) this] r sv(1) show ?thesis by blast
qed

end
