(* ===== verification/Delete.thy ===== *)
theory Delete
  imports Database
begin

text \<open>
  \<open>internal/backend/delete.go\<close> and \<open>internal/reaper\<close>: removing the Kubernetes resources of
  containers, and the periodic clean-up of old containers and execs.

  The Kubernetes client is a parameter: listing and deleting objects of a kind, over a cluster
  state \<open>'k\<close>. One instant \<open>now\<close> stands for the readings of the clock during a call.
\<close>

section \<open>The Kubernetes client\<close>

datatype kind = KPod | KService | KConfigMap

record 'k kube_client =
  ka_List :: "'k \<Rightarrow> kind \<Rightarrow> string \<Rightarrow> string \<Rightarrow> object_meta list result"
  ka_Delete :: "kind \<Rightarrow> string \<Rightarrow> string \<Rightarrow> 'k \<Rightarrow> 'k result"

section \<open>Deleting by label\<close>

fun delete_items :: "'k kube_client \<Rightarrow> kind \<Rightarrow> object_meta list \<Rightarrow> 'k \<Rightarrow> error option \<times> 'k" where
  "delete_items C kd [] k = (None, k)"
| "delete_items C kd (o1 # os) k = (case ka_Delete C kd (om_Namespace o1) (om_Name o1) k of
     Inl e \<Rightarrow> (Some e, k)
   | Inr k' \<Rightarrow> delete_items C kd os k')"

definition delete_selected :: "'k kube_client \<Rightarrow> string \<Rightarrow> kind \<Rightarrow> string \<Rightarrow> 'k \<Rightarrow> error option \<times> 'k" where
  "delete_selected C ns kd selector k = (case ka_List C k kd ns selector of
     Inl e \<Rightarrow> (Some e, k)
   | Inr items \<Rightarrow> delete_items C kd items k)"

definition deleteServices :: "'k kube_client \<Rightarrow> string \<Rightarrow> string \<Rightarrow> 'k \<Rightarrow> error option \<times> 'k" where
  "deleteServices C ns selector k = delete_selected C ns KService selector k"

definition deleteConfigMaps :: "'k kube_client \<Rightarrow> string \<Rightarrow> string \<Rightarrow> 'k \<Rightarrow> error option \<times> 'k" where
  "deleteConfigMaps C ns selector k = delete_selected C ns KConfigMap selector k"

definition deletePods :: "'k kube_client \<Rightarrow> string \<Rightarrow> string \<Rightarrow> 'k \<Rightarrow> error option \<times> 'k" where
  "deletePods C ns selector k = delete_selected C ns KPod selector k"

text \<open>The three deletions one after the other; failures are remembered, not passed on at once.\<close>

definition delete_three :: "'k kube_client \<Rightarrow> string \<Rightarrow> string \<Rightarrow> error \<Rightarrow> 'k \<Rightarrow> error option \<times> 'k" where
  "delete_three C ns selector failure k =
     (case deleteServices C ns selector k of (e1, k1) \<Rightarrow>
        case deleteConfigMaps C ns selector k1 of (e2, k2) \<Rightarrow>
          case deletePods C ns selector k2 of (e3, k3) \<Rightarrow>
            (if e1 \<noteq> None \<or> e2 \<noteq> None \<or> e3 \<noteq> None then Some failure else None, k3))"

definition DeleteAll :: "'k kube_client \<Rightarrow> string \<Rightarrow> 'k \<Rightarrow> error option \<times> 'k" where
  "DeleteAll C ns k =
     delete_three C ns ''testtender.io/managed=true'' (Errorf ''failed deleting all containers'' []) k"

definition DeleteWithInstanceID :: "'k kube_client \<Rightarrow> string \<Rightarrow> string \<Rightarrow> 'k \<Rightarrow> error option \<times> 'k" where
  "DeleteWithInstanceID C ns i k =
     delete_three C ns (''testtender.io/instance-id='' @ i) (Errorf ''failed deleting container %s'' [i]) k"

definition kub_DeleteContainer :: "'k kube_client \<Rightarrow> string \<Rightarrow> container \<Rightarrow> 'k \<Rightarrow> error option \<times> 'k" where
  "kub_DeleteContainer C ns tainr k =
     delete_three C ns (''testtender.io/container-id='' @ co_ShortID tainr)
       (Errorf ''failed deleting container %s'' [co_ShortID tainr]) k"

section \<open>Deleting by age\<close>

definition isOlderThan :: "time \<Rightarrow> object_meta \<Rightarrow> duration \<Rightarrow> bool" where
  "isOlderThan now met keepmax =
     (if om_DeletionTimestamp met \<noteq> None then False else om_CreationTimestamp met < now - keepmax)"

fun old_containers_loop ::
  "'k kube_client \<Rightarrow> string \<Rightarrow> time \<Rightarrow> duration \<Rightarrow> object_meta list \<Rightarrow> 'k \<Rightarrow> error option \<times> 'k" where
  "old_containers_loop C ns now keepmax [] k = (None, k)"
| "old_containers_loop C ns now keepmax (pod # pods) k =
     (if isOlderThan now pod keepmax then
        (let k1 = snd (deleteServices C ns (''testtender.io/container-id='' @ om_Name pod) k);
             k2 = snd (deleteConfigMaps C ns (''testtender.io/container-id='' @ om_Name pod) k1)
         in case ka_Delete C KPod (om_Namespace pod) (om_Name pod) k2 of
              Inl e \<Rightarrow> (Some e, k2)
            | Inr k3 \<Rightarrow> old_containers_loop C ns now keepmax pods k3)
      else old_containers_loop C ns now keepmax pods k)"

definition DeleteContainersOlderThan ::
  "'k kube_client \<Rightarrow> string \<Rightarrow> time \<Rightarrow> duration \<Rightarrow> 'k \<Rightarrow> error option \<times> 'k" where
  "DeleteContainersOlderThan C ns now keepmax k = (case ka_List C k KPod ns ''testtender.io/managed=true'' of
     Inl e \<Rightarrow> (Some e, k)
   | Inr pods \<Rightarrow> old_containers_loop C ns now keepmax pods k)"

fun old_items_loop ::
  "'k kube_client \<Rightarrow> kind \<Rightarrow> time \<Rightarrow> duration \<Rightarrow> object_meta list \<Rightarrow> 'k \<Rightarrow> error option \<times> 'k" where
  "old_items_loop C kd now keepmax [] k = (None, k)"
| "old_items_loop C kd now keepmax (o1 # os) k =
     (if isOlderThan now o1 keepmax then
        (case ka_Delete C kd (om_Namespace o1) (om_Name o1) k of
           Inl e \<Rightarrow> (Some e, k)
         | Inr k' \<Rightarrow> old_items_loop C kd now keepmax os k')
      else old_items_loop C kd now keepmax os k)"

definition delete_older ::
  "'k kube_client \<Rightarrow> string \<Rightarrow> kind \<Rightarrow> time \<Rightarrow> duration \<Rightarrow> 'k \<Rightarrow> error option \<times> 'k" where
  "delete_older C ns kd now keepmax k = (case ka_List C k kd ns ''testtender.io/managed=true'' of
     Inl e \<Rightarrow> (Some e, k)
   | Inr items \<Rightarrow> old_items_loop C kd now keepmax items k)"

definition DeleteServicesOlderThan ::
  "'k kube_client \<Rightarrow> string \<Rightarrow> time \<Rightarrow> duration \<Rightarrow> 'k \<Rightarrow> error option \<times> 'k" where
  "DeleteServicesOlderThan C ns now keepmax k = delete_older C ns KService now keepmax k"

definition DeleteConfigMapsOlderThan ::
  "'k kube_client \<Rightarrow> string \<Rightarrow> time \<Rightarrow> duration \<Rightarrow> 'k \<Rightarrow> error option \<times> 'k" where
  "DeleteConfigMapsOlderThan C ns now keepmax k = delete_older C ns KConfigMap now keepmax k"

definition DeletePodsOlderThan ::
  "'k kube_client \<Rightarrow> string \<Rightarrow> time \<Rightarrow> duration \<Rightarrow> 'k \<Rightarrow> error option \<times> 'k" where
  "DeletePodsOlderThan C ns now keepmax k = delete_older C ns KPod now keepmax k"

text \<open>\<open>then_step r f\<close>: go on with \<open>f\<close> unless there was an error.\<close>

definition then_step :: "error option \<times> 'k \<Rightarrow> ('k \<Rightarrow> error option \<times> 'k) \<Rightarrow> error option \<times> 'k" where
  "then_step r f = (case r of (Some e, k) \<Rightarrow> (Some e, k) | (None, k) \<Rightarrow> f k)"

definition DeleteOlderThan ::
  "'k kube_client \<Rightarrow> string \<Rightarrow> time \<Rightarrow> duration \<Rightarrow> 'k \<Rightarrow> error option \<times> 'k" where
  "DeleteOlderThan C ns now keepmax k =
     then_step (DeleteContainersOlderThan C ns now keepmax k) (\<lambda>k1.
       then_step (DeleteConfigMapsOlderThan C ns now keepmax k1) (\<lambda>k2.
         then_step (DeletePodsOlderThan C ns now keepmax k2) (\<lambda>k3.
           DeleteServicesOlderThan C ns now keepmax k3)))"

section \<open>The reaper\<close>

record ('db, 'k) world =
  w_store :: "'db store"
  w_kube :: 'k

definition execReapMax :: duration where "execReapMax = 5 * minute"

fun reap_containers ::
  "'db memdb \<Rightarrow> 'k kube_client \<Rightarrow> string \<Rightarrow> time \<Rightarrow> duration \<Rightarrow> container list \<Rightarrow> ('db, 'k) world \<Rightarrow>
   error option \<times> ('db, 'k) world" where
  "reap_containers M C ns now keepMax [] w = (None, w)"
| "reap_containers M C ns now keepMax (tainr # rest) w =
     (if co_Created tainr < now - keepMax then
        (let k' = snd (kub_DeleteContainer C ns tainr (w_kube w))
         in case db_DeleteContainer M tainr (w_store w) of
              (Some e, s) \<Rightarrow> (Some e, \<lparr>w_store = s, w_kube = k'\<rparr>)
            | (None, s) \<Rightarrow> reap_containers M C ns now keepMax rest \<lparr>w_store = s, w_kube = k'\<rparr>)
      else reap_containers M C ns now keepMax rest w)"

definition CleanContainers ::
  "'db memdb \<Rightarrow> 'k kube_client \<Rightarrow> string \<Rightarrow> time \<Rightarrow> duration \<Rightarrow> ('db, 'k) world \<Rightarrow> error option \<times> ('db, 'k) world" where
  "CleanContainers M C ns now keepMax w = (case GetContainers M (w_store w) of
     Inl e \<Rightarrow> (Some e, w)
   | Inr tainrs \<Rightarrow> reap_containers M C ns now keepMax tainrs w)"

definition CleanContainersKubernetes ::
  "'k kube_client \<Rightarrow> string \<Rightarrow> time \<Rightarrow> duration \<Rightarrow> ('db, 'k) world \<Rightarrow> error option \<times> ('db, 'k) world" where
  "CleanContainersKubernetes C ns now keepMax w =
     (case DeleteOlderThan C ns now (keepMax + 15 * minute) (w_kube w) of (e, k) \<Rightarrow> (e, w\<lparr>w_kube := k\<rparr>))"

fun reap_execs ::
  "'db memdb \<Rightarrow> time \<Rightarrow> exec list \<Rightarrow> 'db store \<Rightarrow> error option \<times> 'db store" where
  "reap_execs M now [] s = (None, s)"
| "reap_execs M now (exc # rest) s =
     (if ex_Created exc < now - execReapMax then
        (case DeleteExec M exc s of (Some e, s') \<Rightarrow> (Some e, s') | (None, s') \<Rightarrow> reap_execs M now rest s')
      else reap_execs M now rest s)"

definition CleanExecs ::
  "'db memdb \<Rightarrow> time \<Rightarrow> ('db, 'k) world \<Rightarrow> error option \<times> ('db, 'k) world" where
  "CleanExecs M now w = (case GetExecs M (w_store w) of
     Inl e \<Rightarrow> (Some e, w)
   | Inr excs \<Rightarrow> (case reap_execs M now excs (w_store w) of (e, s) \<Rightarrow> (e, w\<lparr>w_store := s\<rparr>)))"

text \<open>\<open>clean\<close> logs the errors of the cleaners and goes on.\<close>

definition reaper_clean ::
  "'db memdb \<Rightarrow> 'k kube_client \<Rightarrow> string \<Rightarrow> time \<Rightarrow> duration \<Rightarrow> ('db, 'k) world \<Rightarrow> ('db, 'k) world" where
  "reaper_clean M C ns now keepMax w =
     (let w1 = snd (CleanExecs M now w)
      in if keepMax \<le> 0 then w1
         else (let w2 = snd (CleanContainers M C ns now keepMax w1)
               in snd (CleanContainersKubernetes C ns now keepMax w2)))"

section \<open>A cluster for the examples\<close>

type_synonym list_cluster = "(kind \<times> object_meta) list"

definition cluster_objs :: "list_cluster \<Rightarrow> kind \<Rightarrow> object_meta list" where
  "cluster_objs k kd = map snd (filter (\<lambda>r. fst r = kd) k)"

definition selector_matches :: "string \<Rightarrow> object_meta \<Rightarrow> bool" where
  "selector_matches sel met = (case Cut sel (CHR ''='') of (lk, lv, found) \<Rightarrow> found \<and> map_get (om_Labels met) lk = Some lv)"

definition list_client :: "list_cluster kube_client" where
  "list_client = \<lparr>
     ka_List = (\<lambda>k kd ns sel. Inr (remdups (filter (\<lambda>met. om_Namespace met = ns \<and> selector_matches sel met) (cluster_objs k kd)))),
     ka_Delete = (\<lambda>kd ns name k.
        if \<exists>r \<in> set k. fst r = kd \<and> om_Namespace (snd r) = ns \<and> om_Name (snd r) = name
        then Inr (filter (\<lambda>r. \<not> (fst r = kd \<and> om_Namespace (snd r) = ns \<and> om_Name (snd r) = name)) k)
        else Inl (ExtError ''NotFound''))\<rparr>"

definition sample_meta :: "string \<Rightarrow> string \<Rightarrow> time \<Rightarrow> object_meta" where
  "sample_meta name short created = \<lparr>om_Name = name, om_Namespace = ''ci'',
     om_Labels = [(''testtender.io/container-id'', short), (''testtender.io/managed'', ''true'')],
     om_Annotations = [], om_CreationTimestamp = created, om_DeletionTimestamp = None\<rparr>"

definition sample_cluster :: list_cluster where
  "sample_cluster = [(KPod, sample_meta ''p1'' ''0a1b2c3d4e5f'' 0), (KService, sample_meta ''s1'' ''0a1b2c3d4e5f'' 0),
     (KPod, sample_meta ''p2'' ''f00f00f00f00'' 9000000000000)]"

section \<open>What the program relies on\<close>

text \<open>A label value that can stand in a selector.\<close>

definition selector_value :: "string \<Rightarrow> bool" where
  "selector_value v = list_all (\<lambda>c. is_alnum c \<or> c \<in> {CHR ''-'', CHR ''_'', CHR ''.''}) v"

definition labelled :: "string \<Rightarrow> string \<Rightarrow> string \<Rightarrow> object_meta \<Rightarrow> bool" where
  "labelled ns lk lv met = (om_Namespace met = ns \<and> map_get (om_Labels met) lk = Some lv)"

definition terminating :: "object_meta \<Rightarrow> bool" where
  "terminating met = (om_DeletionTimestamp met \<noteq> None)"

text \<open>
  A reachable API server whose objects are uniquely named: \<open>List\<close> returns the objects with the
  label, \<open>Delete\<close> removes the object or marks it as being deleted, and touches nothing else.
\<close>

locale kube_api =
  fixes C :: "'k kube_client" and objs :: "'k \<Rightarrow> kind \<Rightarrow> object_meta list" and good :: "'k \<Rightarrow> bool"
  assumes unique_names: "good k \<Longrightarrow> a \<in> set (objs k kd) \<Longrightarrow> b \<in> set (objs k kd) \<Longrightarrow>
        om_Namespace a = om_Namespace b \<Longrightarrow> om_Name a = om_Name b \<Longrightarrow> a = b"
    and pod_names: "good k \<Longrightarrow> a \<in> set (objs k KPod) \<Longrightarrow> selector_value (om_Name a)"
    and list_labelled: "good k \<Longrightarrow> CHR ''='' \<notin> set lk \<Longrightarrow> selector_value lv \<Longrightarrow>
        \<exists>items. ka_List C k kd ns (lk @ ''='' @ lv) = Inr items \<and> distinct items \<and>
          set items = {a \<in> set (objs k kd). labelled ns lk lv a}"
    and delete_object: "good k \<Longrightarrow> a \<in> set (objs k kd) \<Longrightarrow>
        \<exists>k' t. ka_Delete C kd (om_Namespace a) (om_Name a) k = Inr k' \<and> good k' \<and>
          (\<forall>kd'. kd' \<noteq> kd \<longrightarrow> objs k' kd' = objs k kd') \<and>
          (set (objs k' kd) = set (objs k kd) - {a} \<or>
           set (objs k' kd) = insert (a\<lparr>om_DeletionTimestamp := Some t\<rparr>) (set (objs k kd) - {a}))"
begin

text \<open>Only objects satisfying \<open>D\<close> have been removed or marked.\<close>

definition shrinks :: "(kind \<Rightarrow> object_meta \<Rightarrow> bool) \<Rightarrow> 'k \<Rightarrow> 'k \<Rightarrow> bool" where
  "shrinks D k k' =
     (\<forall>kd. (\<forall>a \<in> set (objs k kd). \<not> D kd a \<longrightarrow> a \<in> set (objs k' kd)) \<and>
           (\<forall>a \<in> set (objs k' kd). a \<in> set (objs k kd) \<or>
              (\<exists>b \<in> set (objs k kd). \<exists>t. D kd b \<and> a = b\<lparr>om_DeletionTimestamp := Some t\<rparr>)))"

lemma shrinks_refl: "shrinks D k k"
  by (simp add: shrinks_def)

lemma shrinks_mono: "shrinks D k k' \<Longrightarrow> (\<And>kd a. D kd a \<Longrightarrow> D' kd a) \<Longrightarrow> shrinks D' k k'"
  unfolding shrinks_def by blast

lemma shrinks_trans:
  assumes "shrinks D k k1" "shrinks D k1 k2"
  shows "shrinks D k k2"
  unfolding shrinks_def
proof (intro allI conjI ballI impI)
  fix kd a assume "a \<in> set (objs k kd)" "\<not> D kd a"
  then show "a \<in> set (objs k2 kd)" using assms(1,2) unfolding shrinks_def by blast
next
  fix kd a assume "a \<in> set (objs k2 kd)"
  then consider "a \<in> set (objs k1 kd)" | b t where "b \<in> set (objs k1 kd)" "D kd b" "a = b\<lparr>om_DeletionTimestamp := Some t\<rparr>"
    using assms(2) unfolding shrinks_def by blast
  then show "a \<in> set (objs k kd) \<or> (\<exists>b \<in> set (objs k kd). \<exists>t. D kd b \<and> a = b\<lparr>om_DeletionTimestamp := Some t\<rparr>)"
  proof cases
    case 1
    then show ?thesis using assms(1) unfolding shrinks_def by blast
  next
    case 2
    from 2(1) assms(1) consider "b \<in> set (objs k kd)" | c s where "c \<in> set (objs k kd)" "D kd c" "b = c\<lparr>om_DeletionTimestamp := Some s\<rparr>"
      unfolding shrinks_def by blast
    then show ?thesis
    proof cases
      case 1
      with 2 show ?thesis by blast
    next
      case c: 2
      then have "a = c\<lparr>om_DeletionTimestamp := Some t\<rparr>" using 2(3) by simp
      with c show ?thesis by blast
    qed
  qed
qed

lemma shrinks_terminating:
  assumes "shrinks D k k'" "\<forall>b \<in> set (objs k kd). Q b \<longrightarrow> terminating b"
  shows "\<forall>b \<in> set (objs k' kd). Q b \<longrightarrow> terminating b"
proof (intro ballI impI)
  fix b assume b: "b \<in> set (objs k' kd)" "Q b"
  then have "b \<in> set (objs k kd) \<or> (\<exists>c t. b = c\<lparr>om_DeletionTimestamp := Some t\<rparr>)"
    using assms(1) unfolding shrinks_def by blast
  then show "terminating b" using b(2) assms(2) by (auto simp: terminating_def)
qed

lemma delete_object_shrinks:
  assumes "good k" "a \<in> set (objs k kd)" "D kd a"
  shows "\<exists>k'. ka_Delete C kd (om_Namespace a) (om_Name a) k = Inr k' \<and> good k' \<and> shrinks D k k' \<and>
    (\<forall>kd'. kd' \<noteq> kd \<longrightarrow> objs k' kd' = objs k kd') \<and> (\<forall>b \<in> set (objs k kd). b \<noteq> a \<longrightarrow> b \<in> set (objs k' kd)) \<and>
    (a \<in> set (objs k' kd) \<longrightarrow> terminating a)"
proof -
  from delete_object[OF assms(1,2)] obtain k' t where d:
    "ka_Delete C kd (om_Namespace a) (om_Name a) k = Inr k'" "good k'" "\<forall>kd'. kd' \<noteq> kd \<longrightarrow> objs k' kd' = objs k kd'"
    and s: "set (objs k' kd) = set (objs k kd) - {a} \<or>
      set (objs k' kd) = insert (a\<lparr>om_DeletionTimestamp := Some t\<rparr>) (set (objs k kd) - {a})" by blast
  have "shrinks D k k'" unfolding shrinks_def
  proof (intro allI conjI ballI impI)
    fix kd' b assume "b \<in> set (objs k kd')" "\<not> D kd' b"
    then show "b \<in> set (objs k' kd')" using d(3) s assms(3) by (cases "kd' = kd") auto
  next
    fix kd' b assume "b \<in> set (objs k' kd')"
    then show "b \<in> set (objs k kd') \<or> (\<exists>c \<in> set (objs k kd'). \<exists>t. D kd' c \<and> b = c\<lparr>om_DeletionTimestamp := Some t\<rparr>)"
      using d(3) s assms(2,3) by (cases "kd' = kd") auto
  qed
  moreover have "a \<in> set (objs k' kd) \<longrightarrow> terminating a"
    using s by (metis DiffE insertE object_meta.select_convs(6) object_meta.surjective object_meta.update_convs(6)
        option.distinct(1) singletonI terminating_def)
  ultimately show ?thesis using d s by blast
qed

lemma delete_items_ok:
  assumes "good k" "distinct items" "set items \<subseteq> set (objs k kd)" "\<forall>a \<in> set items. D kd a"
  shows "\<exists>k'. delete_items C kd items k = (None, k') \<and> good k' \<and> shrinks D k k' \<and>
    (\<forall>kd'. kd' \<noteq> kd \<longrightarrow> objs k' kd' = objs k kd') \<and> (\<forall>b \<in> set (objs k' kd). b \<in> set items \<longrightarrow> terminating b)"
  using assms
proof (induction items arbitrary: k)
  case Nil
  then show ?case using shrinks_refl by simp
next
  case (Cons a items)
  from delete_object_shrinks[of k a kd D] Cons.prems obtain k1 where k1:
    "ka_Delete C kd (om_Namespace a) (om_Name a) k = Inr k1" "good k1" "shrinks D k k1"
    "\<forall>kd'. kd' \<noteq> kd \<longrightarrow> objs k1 kd' = objs k kd'" "\<forall>b \<in> set (objs k kd). b \<noteq> a \<longrightarrow> b \<in> set (objs k1 kd)"
    "a \<in> set (objs k1 kd) \<longrightarrow> terminating a" by auto
  have "set items \<subseteq> set (objs k1 kd)" using Cons.prems(2,3) k1(5) by auto
  from Cons.IH[OF k1(2) _ this] Cons.prems obtain k' where k': "delete_items C kd items k1 = (None, k')" "good k'"
    "shrinks D k1 k'" "\<forall>kd'. kd' \<noteq> kd \<longrightarrow> objs k' kd' = objs k1 kd'" "\<forall>b \<in> set (objs k' kd). b \<in> set items \<longrightarrow> terminating b"
    by auto
  have "\<forall>b \<in> set (objs k' kd). b = a \<longrightarrow> terminating b"
    by (rule shrinks_terminating[OF k'(3)]) (use k1(6) in blast)
  then show ?case using k1 k' shrinks_trans[OF k1(3) k'(3)] by simp
qed

lemma delete_selected_ok:
  assumes "good k" "CHR ''='' \<notin> set lk" "selector_value lv"
    and D: "\<And>a. a \<in> set (objs k kd) \<Longrightarrow> labelled ns lk lv a \<Longrightarrow> D kd a"
  shows "\<exists>k'. delete_selected C ns kd (lk @ ''='' @ lv) k = (None, k') \<and> good k' \<and> shrinks D k k' \<and>
    (\<forall>kd'. kd' \<noteq> kd \<longrightarrow> objs k' kd' = objs k kd') \<and> (\<forall>b \<in> set (objs k' kd). labelled ns lk lv b \<longrightarrow> terminating b)"
proof -
  from list_labelled[OF assms(1-3)] obtain items where l: "ka_List C k kd ns (lk @ ''='' @ lv) = Inr items"
    "distinct items" "set items = {a \<in> set (objs k kd). labelled ns lk lv a}" by blast
  from delete_items_ok[OF assms(1) l(2), of kd D] l(3) D obtain k' where k': "delete_items C kd items k = (None, k')" "good k'"
    "shrinks D k k'" "\<forall>kd'. kd' \<noteq> kd \<longrightarrow> objs k' kd' = objs k kd'"
    "\<forall>b \<in> set (objs k' kd). b \<in> set items \<longrightarrow> terminating b" by auto
  have "terminating b" if b: "b \<in> set (objs k' kd)" "labelled ns lk lv b" for b
  proof (cases "b \<in> set (objs k kd)")
    case True
    then show ?thesis using b k'(5) l(3) by blast
  next
    case False
    then show ?thesis using b(1) k'(3) unfolding shrinks_def by (metis object_meta.select_convs(6)
        object_meta.surjective object_meta.update_convs(6) option.distinct(1) terminating_def)
  qed
  then show ?thesis using k' l(1) by (auto simp: delete_selected_def)
qed

lemma delete_three_ok:
  assumes "good k" "CHR ''='' \<notin> set lk" "selector_value lv"
  shows "\<exists>k'. delete_three C ns (lk @ ''='' @ lv) f k = (None, k') \<and> good k' \<and>
    shrinks (\<lambda>kd a. labelled ns lk lv a) k k' \<and> (\<forall>kd. \<forall>b \<in> set (objs k' kd). labelled ns lk lv b \<longrightarrow> terminating b)"
proof -
  let ?D = "\<lambda>(kd :: kind) a. labelled ns lk lv a"
  from delete_selected_ok[OF assms, of KService ns ?D] obtain k1 where 1:
    "delete_selected C ns KService (lk @ ''='' @ lv) k = (None, k1)" "good k1" "shrinks ?D k k1"
    "\<forall>b \<in> set (objs k1 KService). labelled ns lk lv b \<longrightarrow> terminating b" by auto
  from delete_selected_ok[OF 1(2) assms(2,3), of KConfigMap ns ?D] obtain k2 where 2:
    "delete_selected C ns KConfigMap (lk @ ''='' @ lv) k1 = (None, k2)" "good k2" "shrinks ?D k1 k2"
    "\<forall>b \<in> set (objs k2 KConfigMap). labelled ns lk lv b \<longrightarrow> terminating b" by auto
  from delete_selected_ok[OF 2(2) assms(2,3), of KPod ns ?D] obtain k3 where 3:
    "delete_selected C ns KPod (lk @ ''='' @ lv) k2 = (None, k3)" "good k3" "shrinks ?D k2 k3"
    "\<forall>b \<in> set (objs k3 KPod). labelled ns lk lv b \<longrightarrow> terminating b" by auto
  have t: "\<forall>b \<in> set (objs k3 KService). labelled ns lk lv b \<longrightarrow> terminating b"
    "\<forall>b \<in> set (objs k3 KConfigMap). labelled ns lk lv b \<longrightarrow> terminating b"
    using shrinks_terminating[OF shrinks_trans[OF 2(3) 3(3)] 1(4)] shrinks_terminating[OF 3(3) 2(4)] by blast+
  have all: "\<forall>b \<in> set (objs k3 kd). labelled ns lk lv b \<longrightarrow> terminating b" for kd using t 3(4) by (cases kd) auto
  have run: "delete_three C ns (lk @ ''='' @ lv) f k = (None, k3)"
    using 1(1) 2(1) 3(1) by (simp add: delete_three_def deleteServices_def deleteConfigMaps_def deletePods_def)
  show ?thesis using run 3(2) all shrinks_trans[OF shrinks_trans[OF 1(3) 2(3)] 3(3)] by blast
qed

end

lemma old_items_delete:
  "old_items_loop C kd now keepmax items k = delete_items C kd (filter (\<lambda>a. isOlderThan now a keepmax) items) k"
  by (induction items arbitrary: k) (auto split: sum.splits)

text \<open>The objects the program manages in a namespace, and the old ones among them.\<close>

abbreviation managed_key :: string where "managed_key \<equiv> ''testtender.io/managed''"
abbreviation container_key :: string where "container_key \<equiv> ''testtender.io/container-id''"

definition old_managed :: "string \<Rightarrow> time \<Rightarrow> duration \<Rightarrow> object_meta \<Rightarrow> bool" where
  "old_managed ns now keepmax a = (labelled ns managed_key ''true'' a \<and> om_CreationTimestamp a < now - keepmax)"

context kube_api
begin

text \<open>What the age-based deletion may touch: old managed objects, and services and config maps
  labelled with the name of an old managed pod.\<close>

definition reapable :: "string \<Rightarrow> time \<Rightarrow> duration \<Rightarrow> 'k \<Rightarrow> kind \<Rightarrow> object_meta \<Rightarrow> bool" where
  "reapable ns now keepmax k kd a =
     (old_managed ns now keepmax a \<or>
      (kd \<noteq> KPod \<and> (\<exists>pod \<in> set (objs k KPod). old_managed ns now keepmax pod \<and> labelled ns container_key (om_Name pod) a)))"

lemma selector_true: "selector_value ''true''"
  by (simp add: selector_value_def byte_class_defs code_def)

lemma managed_list:
  assumes "good k"
  shows "\<exists>items. ka_List C k kd ns ''testtender.io/managed=true'' = Inr items \<and> distinct items \<and>
    set items = {a \<in> set (objs k kd). labelled ns managed_key ''true'' a}"
  using list_labelled[OF assms _ selector_true, of managed_key kd ns] by simp

lemma delete_older_ok:
  assumes "good k" and D: "\<And>a. a \<in> set (objs k kd) \<Longrightarrow> old_managed ns now keepmax a \<Longrightarrow> D kd a"
  shows "\<exists>k'. delete_older C ns kd now keepmax k = (None, k') \<and> good k' \<and> shrinks D k k' \<and>
    (\<forall>b \<in> set (objs k' kd). old_managed ns now keepmax b \<longrightarrow> terminating b)"
proof -
  from managed_list[OF assms(1)] obtain items where l: "ka_List C k kd ns ''testtender.io/managed=true'' = Inr items"
    "distinct items" "set items = {a \<in> set (objs k kd). labelled ns managed_key ''true'' a}" by blast
  let ?old = "filter (\<lambda>a. isOlderThan now a keepmax) items"
  have "\<forall>a \<in> set ?old. D kd a" using l(3) D by (auto simp: isOlderThan_def old_managed_def split: if_splits)
  from delete_items_ok[of k ?old kd D, OF assms(1) distinct_filter[OF l(2)] _ this] l(3) obtain k' where k':
    "delete_items C kd ?old k = (None, k')" "good k'" "shrinks D k k'"
    "\<forall>b \<in> set (objs k' kd). b \<in> set ?old \<longrightarrow> terminating b" by auto
  have "terminating b" if b: "b \<in> set (objs k' kd)" "old_managed ns now keepmax b" for b
  proof (cases "b \<in> set (objs k kd)")
    case True
    with b(2) l(3) have "b \<in> set items" by (simp add: old_managed_def)
    with b k'(4) show ?thesis by (auto simp: isOlderThan_def old_managed_def terminating_def)
  next
    case False
    then obtain c t where "b = c\<lparr>om_DeletionTimestamp := Some t\<rparr>" using b(1) k'(3) unfolding shrinks_def by blast
    then show ?thesis by (simp add: terminating_def)
  qed
  with k' l(1) show ?thesis by (simp add: delete_older_def old_items_delete)
qed

lemma old_containers_ok:
  assumes "good k" "distinct pods" "set pods \<subseteq> set (objs k KPod)" "\<forall>p \<in> set pods. labelled ns managed_key ''true'' p"
    and "\<And>p. p \<in> set pods \<Longrightarrow> p \<in> set (objs k0 KPod)"
  shows "\<exists>k'. old_containers_loop C ns now keepmax pods k = (None, k') \<and> good k' \<and>
    shrinks (reapable ns now keepmax k0) k k'"
  using assms
proof (induction pods arbitrary: k)
  case Nil
  then show ?case using shrinks_refl by simp
next
  case (Cons p pods)
  let ?D = "reapable ns now keepmax k0"
  show ?case
  proof (cases "isOlderThan now p keepmax")
    case False
    then show ?thesis using Cons by simp
  next
    case True
    have old: "old_managed ns now keepmax p" using True Cons.prems(4) by (auto simp: isOlderThan_def old_managed_def split: if_splits)
    have sel: "selector_value (om_Name p)" using pod_names[OF Cons.prems(1)] Cons.prems(3) by simp
    have D: "?D kd a" if "kd \<noteq> KPod" "labelled ns container_key (om_Name p) a" for kd a
      using that old Cons.prems(5)[of p] by (auto simp: reapable_def)
    from delete_selected_ok[OF Cons.prems(1) _ sel, of container_key KService ns ?D] D obtain k1 where 1:
      "deleteServices C ns (container_key @ ''='' @ om_Name p) k = (None, k1)" "good k1" "shrinks ?D k k1"
      "objs k1 KPod = objs k KPod" by (auto simp: deleteServices_def)
    from delete_selected_ok[OF 1(2) _ sel, of container_key KConfigMap ns ?D] D obtain k2 where 2:
      "deleteConfigMaps C ns (container_key @ ''='' @ om_Name p) k1 = (None, k2)" "good k2" "shrinks ?D k1 k2"
      "objs k2 KPod = objs k1 KPod" by (auto simp: deleteConfigMaps_def)
    have "?D KPod p" using old by (simp add: reapable_def)
    from delete_object_shrinks[OF 2(2), of p KPod ?D, OF _ this] Cons.prems(3) 1(4) 2(4) obtain k3 where 3:
      "ka_Delete C KPod (om_Namespace p) (om_Name p) k2 = Inr k3" "good k3" "shrinks ?D k2 k3"
      "\<forall>b \<in> set (objs k2 KPod). b \<noteq> p \<longrightarrow> b \<in> set (objs k3 KPod)" by auto
    have "set pods \<subseteq> set (objs k3 KPod)" using Cons.prems(2,3) 3(4) 1(4) 2(4) by auto
    from Cons.IH[OF 3(2) _ this] Cons.prems obtain k' where 4:
      "old_containers_loop C ns now keepmax pods k3 = (None, k')" "good k'" "shrinks ?D k3 k'" by auto
    have "shrinks ?D k k'"
      by (rule shrinks_trans[OF shrinks_trans[OF 1(3) 2(3)] shrinks_trans[OF 3(3) 4(3)]])
    then show ?thesis using True 1(1) 2(1) 3(1) 4 by (simp add: Let_def)
  qed
qed

lemma DeleteOlderThan_ok:
  assumes "good k"
  shows "\<exists>k'. DeleteOlderThan C ns now keepmax k = (None, k') \<and> good k' \<and> shrinks (reapable ns now keepmax k) k k' \<and>
    (\<forall>kd. \<forall>b \<in> set (objs k' kd). old_managed ns now keepmax b \<longrightarrow> terminating b)"
proof -
  let ?D = "reapable ns now keepmax k"
  have D: "?D kd a" if "old_managed ns now keepmax a" for kd a using that by (simp add: reapable_def)
  from managed_list[OF assms] obtain pods where l: "ka_List C k KPod ns ''testtender.io/managed=true'' = Inr pods"
    "distinct pods" "set pods = {a \<in> set (objs k KPod). labelled ns managed_key ''true'' a}" by blast
  have sub: "set pods \<subseteq> set (objs k KPod)" and lab: "\<forall>p \<in> set pods. labelled ns managed_key ''true'' p"
    using l(3) by blast+
  from old_containers_ok[OF assms l(2) sub lab, of k now keepmax] sub obtain k1 where r1:
    "old_containers_loop C ns now keepmax pods k = (None, k1)" "good k1" "shrinks ?D k k1" by blast
  note 1 = r1
  have run1: "DeleteContainersOlderThan C ns now keepmax k = (None, k1)"
    using l(1) r1(1) by (simp add: DeleteContainersOlderThan_def)
  from delete_older_ok[OF 1(2), of KConfigMap ns now keepmax ?D] D obtain k2 where 2:
    "DeleteConfigMapsOlderThan C ns now keepmax k1 = (None, k2)" "good k2" "shrinks ?D k1 k2"
    "\<forall>b \<in> set (objs k2 KConfigMap). old_managed ns now keepmax b \<longrightarrow> terminating b"
    by (auto simp: DeleteConfigMapsOlderThan_def)
  from delete_older_ok[OF 2(2), of KPod ns now keepmax ?D] D obtain k3 where 3:
    "DeletePodsOlderThan C ns now keepmax k2 = (None, k3)" "good k3" "shrinks ?D k2 k3"
    "\<forall>b \<in> set (objs k3 KPod). old_managed ns now keepmax b \<longrightarrow> terminating b"
    by (auto simp: DeletePodsOlderThan_def)
  from delete_older_ok[OF 3(2), of KService ns now keepmax ?D] D obtain k4 where 4:
    "DeleteServicesOlderThan C ns now keepmax k3 = (None, k4)" "good k4" "shrinks ?D k3 k4"
    "\<forall>b \<in> set (objs k4 KService). old_managed ns now keepmax b \<longrightarrow> terminating b"
    by (auto simp: DeleteServicesOlderThan_def)
  have "\<forall>b \<in> set (objs k4 kd). old_managed ns now keepmax b \<longrightarrow> terminating b" for kd
    using 4(4) shrinks_terminating[OF 4(3) 3(4)] shrinks_terminating[OF shrinks_trans[OF 3(3) 4(3)] 2(4)]
    by (cases kd) simp_all
  moreover have "shrinks ?D k k4"
    by (rule shrinks_trans[OF shrinks_trans[OF 1(3) 2(3)] shrinks_trans[OF 3(3) 4(3)]])
  ultimately show ?thesis using run1 2(1) 3(1) 4(1,2) by (simp add: DeleteOlderThan_def then_step_def)
qed

end

definition cluster_good :: "list_cluster \<Rightarrow> bool" where
  "cluster_good k =
     (distinct (map (\<lambda>r. (fst r, om_Namespace (snd r), om_Name (snd r))) k) \<and>
      list_all (\<lambda>r. selector_value (om_Name (snd r))) k)"

lemma cluster_unique:
  assumes "cluster_good k" "r \<in> set k" "r' \<in> set k" "fst r = fst r'"
    "om_Namespace (snd r) = om_Namespace (snd r')" "om_Name (snd r) = om_Name (snd r')"
  shows "r = r'"
  using assms unfolding cluster_good_def distinct_map inj_on_def by auto

lemma in_cluster_objs: "a \<in> set (cluster_objs k kd) \<longleftrightarrow> (kd, a) \<in> set k"
  by (force simp: cluster_objs_def)

interpretation cluster: kube_api list_client cluster_objs cluster_good
proof unfold_locales
  fix k a b kd
  assume "cluster_good k" "a \<in> set (cluster_objs k kd)" "b \<in> set (cluster_objs k kd)"
    "om_Namespace a = om_Namespace b" "om_Name a = om_Name b"
  then show "a = b" using cluster_unique[of k "(kd, a)" "(kd, b)"] by (simp add: in_cluster_objs)
next
  fix k a assume "cluster_good k" "a \<in> set (cluster_objs k KPod)"
  then show "selector_value (om_Name a)" by (auto simp: in_cluster_objs cluster_good_def list_all_iff)
next
  fix k lk lv kd ns
  assume "CHR ''='' \<notin> set lk"
  then have "Cut (lk @ ''='' @ lv) (CHR ''='') = (lk, lv, True)" by simp
  then show "\<exists>items. ka_List list_client k kd ns (lk @ ''='' @ lv) = Inr items \<and> distinct items \<and>
      set items = {a \<in> set (cluster_objs k kd). labelled ns lk lv a}"
    by (auto simp: list_client_def selector_matches_def labelled_def)
next
  fix k and a :: object_meta and kd :: kind
  let ?q = "\<lambda>r. fst r = kd \<and> om_Namespace (snd r) = om_Namespace a \<and> om_Name (snd r) = om_Name a"
  assume g: "cluster_good k" and a: "a \<in> set (cluster_objs k kd)"
  then have "\<exists>r \<in> set k. ?q r" by (intro bexI[of _ "(kd, a)"]) (simp_all add: in_cluster_objs)
  moreover have "cluster_good (filter (\<lambda>r. \<not> ?q r) k)"
    using g by (auto simp: cluster_good_def list_all_iff distinct_map inj_on_def)
  moreover have "cluster_objs (filter (\<lambda>r. \<not> ?q r) k) kd' = cluster_objs k kd'" if "kd' \<noteq> kd" for kd'
    unfolding cluster_objs_def by (rule arg_cong[where f = "map snd"]) (use that in \<open>induction k; auto\<close>)
  moreover have "set (cluster_objs (filter (\<lambda>r. \<not> ?q r) k) kd) = set (cluster_objs k kd) - {a}"
  proof (intro set_eqI iffI)
    fix b assume "b \<in> set (cluster_objs k kd) - {a}"
    then have "(kd, b) \<in> set k" "b \<noteq> a" by (auto simp: in_cluster_objs)
    then have "\<not> ?q (kd, b)" using cluster_unique[OF g, of "(kd, b)" "(kd, a)"] a by (auto simp: in_cluster_objs)
    then show "b \<in> set (cluster_objs (filter (\<lambda>r. \<not> ?q r) k) kd)" using \<open>(kd, b) \<in> set k\<close> by (simp add: in_cluster_objs)
  qed (auto simp: in_cluster_objs)
  ultimately show "\<exists>k' t. ka_Delete list_client kd (om_Namespace a) (om_Name a) k = Inr k' \<and> cluster_good k' \<and>
      (\<forall>kd'. kd' \<noteq> kd \<longrightarrow> cluster_objs k' kd' = cluster_objs k kd') \<and>
      (set (cluster_objs k' kd) = set (cluster_objs k kd) - {a} \<or>
       set (cluster_objs k' kd) = insert (a\<lparr>om_DeletionTimestamp := Some t\<rparr>) (set (cluster_objs k kd) - {a}))"
    by (auto simp: list_client_def)
qed

text \<open>
  Deleting a container: with a reachable API server the call succeeds; afterwards no
  service, config map or pod of the namespace with this container's label is left that is not
  being deleted, and every object without this label is untouched.
\<close>

theorem kub_DeleteContainer_exact:
  assumes "kube_api C objs good" "good k" "IsShortID (co_ShortID tainr)"
  shows "\<exists>k'. kub_DeleteContainer C ns tainr k = (None, k') \<and>
    (\<forall>kd a. a \<in> set (objs k' kd) \<longrightarrow> labelled ns ''testtender.io/container-id'' (co_ShortID tainr) a \<longrightarrow> terminating a) \<and>
    (\<forall>kd a. \<not> labelled ns ''testtender.io/container-id'' (co_ShortID tainr) a \<longrightarrow>
       a \<in> set (objs k kd) \<longrightarrow> a \<in> set (objs k' kd))"
proof -
  have "selector_value (co_ShortID tainr)" using assms(3)
    by (auto simp: IsShortID_def selector_value_def list_all_iff intro: is_hex_alnum)
  moreover have "CHR ''='' \<notin> set container_key" by simp
  ultimately obtain k' where "delete_three C ns (container_key @ ''='' @ co_ShortID tainr)
      (Errorf ''failed deleting container %s'' [co_ShortID tainr]) k = (None, k')"
    "kube_api.shrinks objs (\<lambda>kd a. labelled ns container_key (co_ShortID tainr) a) k k'"
    "\<forall>kd. \<forall>b \<in> set (objs k' kd). labelled ns container_key (co_ShortID tainr) b \<longrightarrow> terminating b"
    using kube_api.delete_three_ok[OF assms(1,2)] by blast
  then show ?thesis unfolding kub_DeleteContainer_def kube_api.shrinks_def[OF assms(1)]
    by (intro exI[of _ k']) simp
qed

lemma sample_cluster_good: "cluster_good sample_cluster"
  by (simp add: cluster_good_def sample_cluster_def sample_meta_def selector_value_def byte_class_defs code_def)

theorem kub_DeleteContainer_exact_witness:
  "\<exists>k'. kub_DeleteContainer list_client ''ci'' sample_container sample_cluster = (None, k') \<and>
     sample_meta ''p2'' ''f00f00f00f00'' 9000000000000 \<in> set (cluster_objs k' KPod)"
proof -
  let ?p = "sample_meta ''p2'' ''f00f00f00f00'' 9000000000000"
  from kub_DeleteContainer_exact[OF cluster.kube_api_axioms sample_cluster_good sample_ShortID, of "''ci''"]
  obtain k' where k': "kub_DeleteContainer list_client ''ci'' sample_container sample_cluster = (None, k')"
    and keep: "\<And>kd a. \<not> labelled ''ci'' ''testtender.io/container-id'' (co_ShortID sample_container) a \<Longrightarrow>
      a \<in> set (cluster_objs sample_cluster kd) \<Longrightarrow> a \<in> set (cluster_objs k' kd)" by blast
  have "?p \<in> set (cluster_objs k' KPod)"
    by (rule keep) (simp_all add: labelled_def sample_meta_def sample_container_def in_cluster_objs sample_cluster_def)
  with k' show ?thesis by blast
qed

text \<open>
  (C39) Reaping by age: with a reachable API server the call succeeds and no managed object of the
  namespace older than the limit is left that is not being deleted; and it is safe: an object
  that is not such an old managed one, nor labelled with the name of an old managed pod, is
  untouched.
\<close>

theorem DeleteOlderThan_exact:
  assumes "kube_api C objs good" "good k"
  shows "\<exists>k'. DeleteOlderThan C ns now keepmax k = (None, k') \<and>
    (\<forall>kd a. a \<in> set (objs k' kd) \<longrightarrow> old_managed ns now keepmax a \<longrightarrow> terminating a) \<and>
    (\<forall>kd a. a \<in> set (objs k kd) \<longrightarrow> \<not> old_managed ns now keepmax a \<longrightarrow>
       (\<forall>pod \<in> set (objs k KPod). old_managed ns now keepmax pod \<longrightarrow> \<not> labelled ns ''testtender.io/container-id'' (om_Name pod) a) \<longrightarrow>
       a \<in> set (objs k' kd))"
proof -
  from kube_api.DeleteOlderThan_ok[OF assms, of ns now keepmax] obtain k' where
    run: "DeleteOlderThan C ns now keepmax k = (None, k')"
    and sh: "kube_api.shrinks objs (kube_api.reapable objs ns now keepmax k) k k'"
    and tm: "\<forall>kd. \<forall>b \<in> set (objs k' kd). old_managed ns now keepmax b \<longrightarrow> terminating b" by blast
  have "a \<in> set (objs k' kd)" if "a \<in> set (objs k kd)" "\<not> kube_api.reapable objs ns now keepmax k kd a" for kd a
    using sh that unfolding kube_api.shrinks_def[OF assms(1)] by blast
  then have "a \<in> set (objs k' kd)" if "a \<in> set (objs k kd)" "\<not> old_managed ns now keepmax a"
    "\<forall>pod \<in> set (objs k KPod). old_managed ns now keepmax pod \<longrightarrow> \<not> labelled ns container_key (om_Name pod) a" for kd a
    using that by (simp add: kube_api.reapable_def[OF assms(1)])
  with run tm show ?thesis by (intro exI[of _ k']) simp
qed

theorem DeleteOlderThan_exact_witness:
  "\<exists>k'. DeleteOlderThan list_client ''ci'' 9000000000000 minute sample_cluster = (None, k') \<and>
     sample_meta ''p2'' ''f00f00f00f00'' 9000000000000 \<in> set (cluster_objs k' KPod)"
proof -
  from DeleteOlderThan_exact[OF cluster.kube_api_axioms sample_cluster_good, of "''ci''" 9000000000000 minute]
  obtain k' where k': "DeleteOlderThan list_client ''ci'' 9000000000000 minute sample_cluster = (None, k')"
    and keep: "\<And>kd a. a \<in> set (cluster_objs sample_cluster kd) \<Longrightarrow> \<not> old_managed ''ci'' 9000000000000 minute a \<Longrightarrow>
      (\<forall>pod \<in> set (cluster_objs sample_cluster KPod). old_managed ''ci'' 9000000000000 minute pod \<longrightarrow>
         \<not> labelled ''ci'' ''testtender.io/container-id'' (om_Name pod) a) \<Longrightarrow> a \<in> set (cluster_objs k' kd)" by blast
  have "sample_meta ''p2'' ''f00f00f00f00'' 9000000000000 \<in> set (cluster_objs k' KPod)"
  proof (rule keep)
    have "''f00f00f00f00'' \<noteq> om_Name pod" if "pod \<in> set (cluster_objs sample_cluster KPod)" for pod
      using that by (auto simp: cluster_objs_def sample_cluster_def sample_meta_def)
    then show "\<forall>pod \<in> set (cluster_objs sample_cluster KPod). old_managed ''ci'' 9000000000000 minute pod \<longrightarrow>
        \<not> labelled ''ci'' ''testtender.io/container-id'' (om_Name pod) (sample_meta ''p2'' ''f00f00f00f00'' 9000000000000)"
      by (simp add: labelled_def sample_meta_def)
  qed (simp_all add: in_cluster_objs sample_cluster_def old_managed_def sample_meta_def minute_def second_def)
  with k' show ?thesis by blast
qed

section \<open>The reaper\<close>

context memdb_table
begin

lemma deref_all_ok:
  "\<forall>i \<in> set is. \<exists>c. map_get heap i = Some c \<and> co_ID c = i \<Longrightarrow> distinct is \<Longrightarrow>
   \<exists>cs. deref_all heap is = Inr cs \<and> map co_ID cs = is \<and> (\<forall>c \<in> set cs. map_get heap (co_ID c) = Some c)"
proof (induction "is")
  case (Cons i ids)
  then obtain c cs where "map_get heap i = Some c" "co_ID c = i" "deref_all heap ids = Inr cs" "map co_ID cs = ids"
    "\<forall>c \<in> set cs. map_get heap (co_ID c) = Some c" by auto
  then show ?case by (intro exI[of _ "c # cs"]) (simp add: deref_def)
qed simp

lemma GetContainers_ok:
  assumes "containers_ok rows st"
  shows "\<exists>cs. GetContainers M st = Inr cs \<and> distinct (map co_ID cs) \<and> set cs = {c. stored rows st c}"
proof -
  obtain ids where ids: "md_Get M (st_db st) TContainer = Inr ids" "set ids = fst ` set (rows (st_db st) TContainer)" "distinct ids"
    using get_ids by blast
  have at: "\<exists>c. map_get (st_containers st) i = Some c \<and> co_ID c = i \<and> stored rows st c" if "i \<in> set ids" for i
  proof -
    from that ids(2) obtain k where k: "k \<in> set (rows (st_db st) TContainer)" "fst k = i" by auto
    from stored_of_row[OF assms k(1)] obtain c where c: "stored rows st c" "co_key c = k" by blast
    then have "co_ID c = i" using k(2) by (auto simp: co_key_def)
    with c(1) show ?thesis by (auto simp: stored_def)
  qed
  then obtain cs where cs: "deref_all (st_containers st) ids = Inr cs" "map co_ID cs = ids"
    "\<forall>c \<in> set cs. map_get (st_containers st) (co_ID c) = Some c"
    using deref_all_ok[of ids "st_containers st"] ids(3) by auto
  have "set cs = {c. stored rows st c}"
  proof (intro set_eqI iffI)
    fix c assume c: "c \<in> set cs"
    then have "co_ID c \<in> set ids" using cs(2) by (metis image_eqI list.set_map)
    from at[OF this] c cs(3) show "c \<in> {c. stored rows st c}" by auto
  next
    fix c assume "c \<in> {c. stored rows st c}"
    then have c: "co_key c \<in> set (rows (st_db st) TContainer)" "map_get (st_containers st) (co_ID c) = Some c"
      by (simp_all add: stored_def)
    have "fst (co_key c) \<in> set ids" using c(1) ids(2) by (metis image_eqI)
    then have "co_ID c \<in> co_ID ` set cs" using cs(2) by (metis co_key_def fst_conv list.set_map)
    then obtain c' where c': "c' \<in> set cs" "co_ID c = co_ID c'" by blast
    have "map_get (st_containers st) (co_ID c) = Some c'" using cs(3) c' by simp
    with c(2) c'(1) show "c \<in> set cs" by (metis option.inject)
  qed
  then show ?thesis using cs ids by (auto simp: GetContainers_def)
qed

lemma stored_after_delete:
  assumes "containers_ok rows st" "stored rows st con" "db_DeleteContainer M con st = (e, st')"
  shows "stored rows st' c \<longleftrightarrow> stored rows st c \<and> co_ID c \<noteq> co_ID con"
proof -
  note del = DeleteContainer_gone[OF assms]
  have k: "co_key con \<in> set (rows (st_db st) TContainer)" using assms(2) by (simp add: stored_def)
  have "co_key c = co_key con \<longleftrightarrow> co_ID c = co_ID con" if "co_key c \<in> set (rows (st_db st) TContainer)"
  proof
    assume "co_ID c = co_ID con"
    then show "co_key c = co_key con" by (intro container_unique[OF assms(1) k that]) (simp add: co_key_def)
  next
    assume "co_key c = co_key con"
    then show "co_ID c = co_ID con" unfolding co_key_def by (rule Pair_inject)
  qed
  then show ?thesis using del(3,4) by (auto simp: stored_def)
qed

lemma reap_containers_ok:
  assumes "containers_ok rows (w_store w)" "distinct (map co_ID cs)" "\<forall>c \<in> set cs. stored rows (w_store w) c"
  shows "\<exists>w'. reap_containers M C ns now keepMax cs w = (None, w') \<and> containers_ok rows (w_store w') \<and>
    (\<forall>c. stored rows (w_store w') c \<longleftrightarrow>
       stored rows (w_store w) c \<and> \<not> (\<exists>d \<in> set cs. co_ID d = co_ID c \<and> co_Created d < now - keepMax))"
  using assms
proof (induction cs arbitrary: w)
  case (Cons d cs)
  show ?case
  proof (cases "co_Created d < now - keepMax")
    case False
    with Cons.IH[of w] Cons.prems show ?thesis by auto
  next
    case True
    obtain e s where del: "db_DeleteContainer M d (w_store w) = (e, s)" by force
    have d: "stored rows (w_store w) d" using Cons.prems(3) by simp
    note g = DeleteContainer_gone[OF Cons.prems(1) d del]
    let ?w1 = "\<lparr>w_store = s, w_kube = snd (kub_DeleteContainer C ns d (w_kube w))\<rparr>"
    have st: "stored rows s c \<longleftrightarrow> stored rows (w_store w) c \<and> co_ID c \<noteq> co_ID d" for c
      by (rule stored_after_delete[OF Cons.prems(1) d del])
    have "stored rows s c" if "c \<in> set cs" for c
    proof -
      have "co_ID c \<noteq> co_ID d" using that Cons.prems(2) by (metis distinct.simps(2) image_eqI list.simps(9) list.set_map)
      then show ?thesis using st that Cons.prems(3) by simp
    qed
    then have "\<forall>c \<in> set cs. stored rows (w_store ?w1) c" by simp
    with Cons.IH[of ?w1] Cons.prems(2) g(2) obtain w' where
      "reap_containers M C ns now keepMax cs ?w1 = (None, w')" "containers_ok rows (w_store w')"
      "\<forall>c. stored rows (w_store w') c \<longleftrightarrow> stored rows s c \<and> \<not> (\<exists>d \<in> set cs. co_ID d = co_ID c \<and> co_Created d < now - keepMax)"
      by auto
    then show ?thesis using True del g(1) st by (auto simp: Let_def)
  qed
qed simp

lemma CleanContainers_ok:
  assumes "containers_ok rows (w_store w)"
  shows "\<exists>w'. CleanContainers M C ns now keepMax w = (None, w') \<and> containers_ok rows (w_store w') \<and>
    (\<forall>c. stored rows (w_store w') c \<longleftrightarrow> stored rows (w_store w) c \<and> now - keepMax \<le> co_Created c)"
proof -
  from GetContainers_ok[OF assms] obtain cs where cs: "GetContainers M (w_store w) = Inr cs" "distinct (map co_ID cs)"
    "set cs = {c. stored rows (w_store w) c}" by blast
  have same: "d = c" if "stored rows (w_store w) c" "stored rows (w_store w) d" "co_ID d = co_ID c" for c d
    using that by (simp add: stored_def)
  from reap_containers_ok[OF assms cs(2), of C ns now keepMax] cs(3) obtain w' where
    "reap_containers M C ns now keepMax cs w = (None, w')" "containers_ok rows (w_store w')"
    "\<forall>c. stored rows (w_store w') c \<longleftrightarrow>
       stored rows (w_store w) c \<and> \<not> (\<exists>d \<in> set cs. co_ID d = co_ID c \<and> co_Created d < now - keepMax)" by auto
  moreover have "(\<exists>d \<in> set cs. co_ID d = co_ID c \<and> co_Created d < now - keepMax) \<longleftrightarrow> co_Created c < now - keepMax"
    if "stored rows (w_store w) c" for c using that same cs(3) by blast
  ultimately have "CleanContainers M C ns now keepMax w = (None, w')" "containers_ok rows (w_store w')"
    "\<forall>c. stored rows (w_store w') c \<longleftrightarrow> stored rows (w_store w) c \<and> \<not> co_Created c < now - keepMax"
    using cs(1) by (simp_all add: CleanContainers_def cong: conj_cong)
  then show ?thesis unfolding not_less by blast
qed

end

context memdb_tables
begin

lemma reap_execs_containers:
  "st_containers (snd (reap_execs M now es s)) = st_containers s \<and>
   rows (st_db (snd (reap_execs M now es s))) TContainer = rows (st_db s) TContainer"
proof (induction es arbitrary: s)
  case (Cons x es)
  obtain e s1 where d: "DeleteExec M x s = (e, s1)" by force
  have "st_containers s1 = st_containers s \<and> rows (st_db s1) TContainer = rows (st_db s) TContainer"
    using d by (auto simp: DeleteExec_def db_delete_def split: sum.splits dest: delete_other[where t' = TContainer])
  then show ?case using Cons.IH d by (cases e) auto
qed simp

lemma CleanExecs_containers:
  "st_containers (w_store (snd (CleanExecs M now w))) = st_containers (w_store w) \<and>
   rows (st_db (w_store (snd (CleanExecs M now w)))) TContainer = rows (st_db (w_store w)) TContainer \<and>
   w_kube (snd (CleanExecs M now w)) = w_kube w"
proof (cases "GetExecs M (w_store w)")
  case (Inr excs)
  obtain e s where "reap_execs M now excs (w_store w) = (e, s)" by force
  then show ?thesis using Inr reap_execs_containers[of now excs "w_store w"] by (simp add: CleanExecs_def)
qed (simp add: CleanExecs_def)

lemma reaper_clean_containers:
  assumes "containers_ok rows (w_store w)"
  shows "containers_ok rows (w_store (reaper_clean M C ns now keepMax w)) \<and>
    (\<forall>c. stored rows (w_store (reaper_clean M C ns now keepMax w)) c \<longleftrightarrow>
       stored rows (w_store w) c \<and> (keepMax \<le> 0 \<or> now - keepMax \<le> co_Created c)) \<and>
    (keepMax \<le> 0 \<longrightarrow> w_kube (reaper_clean M C ns now keepMax w) = w_kube w)"
proof -
  define w1 where "w1 = snd (CleanExecs M now w)"
  have e: "st_containers (w_store w1) = st_containers (w_store w)" "w_kube w1 = w_kube w"
    "rows (st_db (w_store w1)) TContainer = rows (st_db (w_store w)) TContainer" using CleanExecs_containers[of now w] by (simp_all add: w1_def)
  have ok: "containers_ok rows (w_store w1)" "\<And>c. stored rows (w_store w1) c = stored rows (w_store w) c"
    using assms e by (simp_all add: containers_ok_def stored_def)
  show ?thesis
  proof (cases "keepMax \<le> 0")
    case False
    obtain w2 where w2: "CleanContainers M C ns now keepMax w1 = (None, w2)" "containers_ok rows (w_store w2)"
      "\<forall>c. stored rows (w_store w2) c \<longleftrightarrow> stored rows (w_store w1) c \<and> now - keepMax \<le> co_Created c"
      using CleanContainers_ok[OF ok(1)] by blast
    have "w_store (snd (CleanContainersKubernetes C ns now keepMax w2)) = w_store w2"
      by (simp add: CleanContainersKubernetes_def split: prod.split)
    then show ?thesis using False w2 ok(2) by (simp add: reaper_clean_def w1_def[symmetric])
  qed (use ok e in \<open>simp add: reaper_clean_def w1_def[symmetric]\<close>)
qed

end

text \<open>
  (C40) The reaper keeps exactly the young containers: a cleaning pass removes from the container table
  every container created more than \<open>keepMax\<close> ago and no other, and keeps the table consistent; with
  reaping disabled (a limit of zero or less) it keeps every stored container and leaves the cluster
  as it is. Cleaning the containers alone reports no error.
\<close>

theorem reaper_keeps_young:
  assumes "memdb_tables M rows" "containers_ok rows (w_store w)" "w' = reaper_clean M C ns now keepMax w"
  shows "containers_ok rows (w_store w') \<and>
    (\<forall>c. stored rows (w_store w') c \<longleftrightarrow> stored rows (w_store w) c \<and> (keepMax \<le> 0 \<or> now - keepMax \<le> co_Created c)) \<and>
    (keepMax \<le> 0 \<longrightarrow> w_kube w' = w_kube w) \<and> fst (CleanContainers M C ns now keepMax w) = None"
proof -
  have "memdb_table M rows" using assms(1) by (simp add: memdb_tables_def)
  from memdb_table.CleanContainers_ok[OF this assms(2), of C ns now keepMax]
  have "fst (CleanContainers M C ns now keepMax w) = None" by auto
  then show ?thesis using memdb_tables.reaper_clean_containers[OF assms(1,2), of C ns now keepMax] assms(3) by blast
qed

theorem reaper_keeps_young_witness:
  "\<exists>w con. w = \<lparr>w_store = snd (snd (SaveContainer list_memdb sample_id 7 sample_container empty_store)), w_kube = sample_cluster\<rparr> \<and>
     stored list_rows (w_store w) con \<and> stored list_rows (w_store (reaper_clean list_memdb list_client ''ci'' 100 0 w)) con \<and>
     (\<forall>c. \<not> stored list_rows (w_store (reaper_clean list_memdb list_client ''ci'' 100 5 w)) c)"
proof -
  obtain con e st where r: "SaveContainer list_memdb sample_id 7 sample_container empty_store = (con, e, st)"
    by (metis prod_cases3)
  let ?w = "\<lparr>w_store = st, w_kube = sample_cluster\<rparr>"
  note sv = listdb.SaveContainer_stored[OF empty_store_ok sample_saveable r]
  have "co_Created c = 7" if "stored list_rows st c" for c
    using sample_saved[OF r] that by (metis container.select_convs(32) container.surjective container.update_convs(32))
  moreover have "stored list_rows (w_store (reaper_clean list_memdb list_client ''ci'' 100 0 ?w)) con"
    using reaper_keeps_young[OF listtabs.memdb_tables_axioms, of ?w _ list_client "''ci''" 100 0] sv(2,3) by simp
  moreover have "\<forall>c. stored list_rows (w_store (reaper_clean list_memdb list_client ''ci'' 100 5 ?w)) c \<longrightarrow>
      stored list_rows st c \<and> 95 \<le> co_Created c"
    using reaper_keeps_young[OF listtabs.memdb_tables_axioms, of ?w _ list_client "''ci''" 100 5] sv(2) by simp
  ultimately show ?thesis using r sv(3) by fastforce
qed

end
