(* ===== verification/Tar.thy ===== *)
theory Tar
  imports Container
begin

text \<open>
  \<open>internal/util/tar\<close>: reading archives, and the pre-start archives of a container
  (\<open>GetPreArchiveFiles\<close> in \<open>internal/model/types/container.go\<close>).

  The decoders of the standard library (\<open>archive/tar\<close> over \<open>gzip\<close>, \<open>bzip2\<close>, \<open>xz\<close>) are a
  parameter: they turn the bytes they are given into the entries \<open>Next\<close> delivers and the error
  that ends them (\<^const>\<open>None\<close> is the end of the archive).
\<close>

section \<open>Lexical paths\<close>

text \<open>Package \<open>path\<close>: \<open>Clean\<close> element by element, \<open>Join\<close>, \<open>Base\<close>, \<open>Dir\<close>.\<close>

fun clean_elems :: "bool \<Rightarrow> string list \<Rightarrow> string list \<Rightarrow> string list" where
  "clean_elems rooted [] out = out"
| "clean_elems rooted (e # es) out =
     (if e = [] \<or> e = ''.'' then clean_elems rooted es out
      else if e = ''..'' then
        (if out \<noteq> [] \<and> last out \<noteq> ''..'' then clean_elems rooted es (butlast out)
         else if rooted then clean_elems rooted es out
         else clean_elems rooted es (out @ [''..'']))
      else clean_elems rooted es (out @ [e]))"

definition path_Clean :: "string \<Rightarrow> string" where
  "path_Clean p = (if p = [] then ''.''
     else let rooted = (hd p = CHR ''/''); out = clean_elems rooted (Split p (CHR ''/'')) []
          in if rooted then ''/'' @ Join out ''/'' else if out = [] then ''.'' else Join out ''/'')"

definition path_Join :: "string \<Rightarrow> string \<Rightarrow> string" where
  "path_Join a b = (let es = filter (\<lambda>e. e \<noteq> []) [a, b] in if es = [] then [] else path_Clean (Join es ''/''))"

definition path_Dir :: "string \<Rightarrow> string" where
  "path_Dir p = path_Clean (rev (dropWhile (\<lambda>c. c \<noteq> CHR ''/'') (rev p)))"

section \<open>Reading with a prefix\<close>

text \<open>
  An \<open>io.Reader\<close> as the bytes it still has and the bound of each call: \<open>rd_step n\<close> is how many
  bytes it is willing to return when it is asked for \<open>n\<close>.
\<close>

record reader =
  rd_data :: "byte list"
  rd_step :: "nat \<Rightarrow> nat"

text \<open>A read of at most \<open>n\<close> bytes: the bytes, whether the end was met, and the rest.\<close>

definition reader_Read :: "nat \<Rightarrow> reader \<Rightarrow> byte list \<times> bool \<times> reader" where
  "reader_Read n r =
     (if n = 0 then ([], False, r)
      else if rd_data r = [] then ([], True, r)
      else let k = max 1 (min n (rd_step r n)) in (take k (rd_data r), False, r\<lparr>rd_data := drop k (rd_data r)\<rparr>))"

record concat_reader =
  cc_data :: "byte list"
  cc_offset :: nat
  cc_reader :: reader

definition NewConcatReader :: "byte list \<Rightarrow> reader \<Rightarrow> concat_reader" where
  "NewConcatReader dat r = \<lparr>cc_data = dat, cc_offset = 0, cc_reader = r\<rparr>"

definition concat_Read :: "nat \<Rightarrow> concat_reader \<Rightarrow> byte list \<times> bool \<times> concat_reader" where
  "concat_Read n r =
     (if cc_offset r \<ge> length (cc_data r) then
        (case reader_Read n (cc_reader r) of (bs, eof, rd) \<Rightarrow>
           (bs, eof, r\<lparr>cc_reader := rd, cc_offset := cc_offset r + length bs\<rparr>))
      else
        (let bs = take n (drop (cc_offset r) (cc_data r)) in (bs, False, r\<lparr>cc_offset := cc_offset r + length bs\<rparr>)))"

definition ReadBytes :: "concat_reader \<Rightarrow> nat" where
  "ReadBytes r = cc_offset r"

text \<open>A series of reads, and what it delivered.\<close>

fun concat_reads :: "nat list \<Rightarrow> concat_reader \<Rightarrow> byte list \<times> concat_reader" where
  "concat_reads [] r = ([], r)"
| "concat_reads (n # ns) r = (case concat_Read n r of (bs, eof, r1) \<Rightarrow>
     (case concat_reads ns r1 of (bs', r2) \<Rightarrow> (bs @ bs', r2)))"

section \<open>Compression\<close>

datatype compression = Unknown | Gzip | Bzip2 | Xz

definition bytes_HasPrefix :: "byte list \<Rightarrow> byte list \<Rightarrow> bool" where
  "bytes_HasPrefix dat p = (take (length p) dat = p)"

definition detectCompressionType :: "byte list \<Rightarrow> compression" where
  "detectCompressionType dat =
     (if length dat < 3 then Unknown
      else if bytes_HasPrefix dat [0x1f, 0x8b] then Gzip
      else if bytes_HasPrefix dat [0xfd, 0x37, 0x7a, 0x58, 0x5a] then Xz
      else if bytes_HasPrefix dat [0x42, 0x5a, 0x68] then Bzip2
      else Unknown)"

definition IsCompressed :: "byte list \<Rightarrow> bool" where
  "IsCompressed dat = (detectCompressionType dat \<noteq> Unknown)"

section \<open>Archives\<close>

datatype typeflag = TypeReg | TypeDir | TypeOther

record tar_entry =
  te_Name :: string
  te_Typeflag :: typeflag
  te_Mode :: "32 word"
  te_Data :: "byte list"

type_synonym tar_stream = "tar_entry list \<times> error option"

text \<open>
  \<open>NewReader\<close> reads five bytes to find the compression, puts them in front of the rest again
  and hands both to the decoder. What the one \<open>Read\<close> does not fill stays zero.
\<close>

definition read_first5 :: "reader \<Rightarrow> byte list \<times> reader" where
  "read_first5 r = (case reader_Read 5 r of (bs, eof, r1) \<Rightarrow> (bs @ replicate (5 - length bs) 0, r1))"

definition tar_NewReader ::
  "(compression \<Rightarrow> byte list \<Rightarrow> tar_stream result) \<Rightarrow> reader \<Rightarrow> tar_stream result" where
  "tar_NewReader decode r = (case read_first5 r of (first5, r1) \<Rightarrow>
     decode (detectCompressionType first5) (first5 @ rd_data r1))"

text \<open>\<open>bytes.NewReader\<close>: returns as much as it is asked for.\<close>

definition bytes_NewReader :: "byte list \<Rightarrow> reader" where
  "bytes_NewReader dat = \<lparr>rd_data = dat, rd_step = (\<lambda>n. n)\<rparr>"

fun targets_loop :: "string \<Rightarrow> typeflag \<Rightarrow> tar_entry list \<Rightarrow> string list" where
  "targets_loop dst typ [] = []"
| "targets_loop dst typ (h # hs) =
     (if te_Typeflag h = typ then path_Join dst (te_Name h) # targets_loop dst typ hs else targets_loop dst typ hs)"

text \<open>The names read before an error are returned beside it.\<close>

definition getTargets :: "tar_stream result \<Rightarrow> string \<Rightarrow> typeflag \<Rightarrow> string list \<times> error option" where
  "getTargets ar dst typ = (case ar of
     Inl e \<Rightarrow> ([], Some e)
   | Inr (hs, e) \<Rightarrow> (targets_loop dst typ hs, e))"

definition GetTargetFolderNames :: "tar_stream result \<Rightarrow> string \<Rightarrow> string list \<times> error option" where
  "GetTargetFolderNames ar dst = getTargets ar dst TypeDir"

definition GetTargetFileNames :: "tar_stream result \<Rightarrow> string \<Rightarrow> string list \<times> error option" where
  "GetTargetFileNames ar dst = getTargets ar dst TypeReg"

fun find_entry :: "string \<Rightarrow> string \<Rightarrow> tar_entry list \<Rightarrow> error option \<Rightarrow> tar_entry result" where
  "find_entry dst fname [] e = Inl (case e of None \<Rightarrow> ExtError ''EOF'' | Some e' \<Rightarrow> e')"
| "find_entry dst fname (h # hs) e = (if path_Join dst (te_Name h) = fname then Inr h else find_entry dst fname hs e)"

definition UnpackFile :: "tar_stream result \<Rightarrow> string \<Rightarrow> string \<Rightarrow> byte list result" where
  "UnpackFile ar dst fname = bind_res ar (\<lambda>(hs, e). bind_res (find_entry dst fname hs e) (\<lambda>h. Inr (te_Data h)))"

definition GetFileMode :: "tar_stream result \<Rightarrow> string \<Rightarrow> string \<Rightarrow> 32 word result" where
  "GetFileMode ar dst fname = bind_res ar (\<lambda>(hs, e). bind_res (find_entry dst fname hs e) (\<lambda>h. Inr (te_Mode h)))"

fun single_loop :: "nat \<Rightarrow> tar_entry list \<Rightarrow> bool" where
  "single_loop n [] = (n = 1)"
| "single_loop n (h # hs) = (if n < 2 then single_loop (if te_Typeflag h = TypeReg then Suc n else n) hs else n = 1)"

definition IsSingleFileArchive :: "tar_stream result \<Rightarrow> bool" where
  "IsSingleFileArchive ar = (case ar of Inl e \<Rightarrow> False | Inr (hs, e) \<Rightarrow> single_loop 0 hs)"

section \<open>Pre-start archives\<close>

text \<open>\<open>arch\<close> is the archive reader applied to the stored bytes.\<close>

definition pre_archive_file ::
  "(byte list \<Rightarrow> tar_stream result) \<Rightarrow> prearchive \<Rightarrow> (string \<times> (byte list \<times> 32 word)) option" where
  "pre_archive_file arch pa = (case GetTargetFileNames (arch (pa_Archive pa)) (pa_Path pa) of
     ([f], None) \<Rightarrow>
       (case UnpackFile (arch (pa_Archive pa)) (pa_Path pa) f of
          Inl e \<Rightarrow> None
        | Inr dat \<Rightarrow> (case GetFileMode (arch (pa_Archive pa)) (pa_Path pa) f of Inl e \<Rightarrow> None | Inr mode \<Rightarrow> Some (f, dat, mode)))
   | _ \<Rightarrow> None)"

fun pre_archive_loop ::
  "(byte list \<Rightarrow> tar_stream result) \<Rightarrow> prearchive list \<Rightarrow> (string, (byte list \<times> 32 word) list) gomap \<Rightarrow>
   (string, (byte list \<times> 32 word) list) gomap" where
  "pre_archive_loop arch [] files = files"
| "pre_archive_loop arch (pa # pas) files = (case pre_archive_file arch pa of
     None \<Rightarrow> pre_archive_loop arch pas files
   | Some (f, dm) \<Rightarrow> pre_archive_loop arch pas (map_set f [dm] files))"

definition GetPreArchiveFiles ::
  "(byte list \<Rightarrow> tar_stream result) \<Rightarrow> container \<Rightarrow> (string, (byte list \<times> 32 word) list) gomap" where
  "GetPreArchiveFiles arch c = pre_archive_loop arch (co_PreArchives c) []"

section \<open>Reading through the prefix\<close>

text \<open>What a concatenated reader has not delivered yet.\<close>

definition concat_left :: "concat_reader \<Rightarrow> byte list" where
  "concat_left r = drop (cc_offset r) (cc_data r) @ rd_data (cc_reader r)"

lemma reader_Read_split: "reader_Read n r = (bs, eof, r') \<Longrightarrow> rd_data r = bs @ rd_data r'"
  by (auto simp: reader_Read_def Let_def split: if_splits)

lemma concat_Read_split:
  assumes "concat_Read n r = (bs, eof, r')"
  shows "concat_left r = bs @ concat_left r'" and "cc_offset r' = cc_offset r + length bs"
proof -
  show "cc_offset r' = cc_offset r + length bs"
    using assms by (auto simp: concat_Read_def Let_def split: if_splits prod.splits)
  show "concat_left r = bs @ concat_left r'"
  proof (cases "cc_offset r \<ge> length (cc_data r)")
    case True
    then show ?thesis using assms
      by (auto simp: concat_Read_def concat_left_def dest!: reader_Read_split split: prod.splits)
  next
    case False
    then have r': "bs = take n (drop (cc_offset r) (cc_data r))" "r' = r\<lparr>cc_offset := cc_offset r + length bs\<rparr>"
      using assms by (auto simp: concat_Read_def Let_def)
    let ?d = "drop (cc_offset r) (cc_data r)"
    have "drop (length bs) ?d = drop n ?d" by (auto simp: r'(1) min_def)
    then have "?d = bs @ drop (cc_offset r + length bs) (cc_data r)"
      by (metis add.commute append_take_drop_id drop_drop r'(1))
    then show ?thesis using r'(2) by (simp add: concat_left_def)
  qed
qed

text \<open>
  A concatenated reader delivers the prefix followed by what the wrapped reader has, in
  order and nothing twice, however the reads are sized and however few bytes the wrapped reader
  returns at a time; its counter is the number of bytes delivered.
\<close>

theorem concat_reads_stream:
  assumes "concat_reads ns (NewConcatReader dat r) = (bs, r')"
  shows "dat @ rd_data r = bs @ concat_left r' \<and> ReadBytes r' = length bs"
proof -
  have gen: "concat_reads ns q = (bs, q') \<Longrightarrow> concat_left q = bs @ concat_left q' \<and> cc_offset q' = cc_offset q + length bs" for q bs q'
  proof (induction ns arbitrary: q bs)
    case (Cons n ns)
    obtain b1 eof q1 b2 q2 where s: "concat_Read n q = (b1, eof, q1)" "concat_reads ns q1 = (b2, q2)"
      by (metis prod_cases3 surj_pair)
    then have "bs = b1 @ b2" "concat_reads ns q1 = (b2, q')" using Cons.prems by auto
    then show ?case using Cons.IH[of q1 b2] concat_Read_split[OF s(1)] by simp
  qed simp
  show ?thesis using gen[OF assms] by (simp add: NewConcatReader_def concat_left_def ReadBytes_def)
qed

theorem concat_reads_stream_witness:
  "\<exists>bs r'. concat_reads [1, 4, 4] (NewConcatReader [1, 2] \<lparr>rd_data = [3, 4, 5], rd_step = (\<lambda>n. 2)\<rparr>) = (bs, r') \<and>
     bs = [1, 2, 3, 4] \<and> [1, 2] @ [3, 4, 5] = bs @ concat_left r'"
proof -
  let ?q = "NewConcatReader [1, 2] \<lparr>rd_data = [3, 4, 5], rd_step = (\<lambda>n. 2)\<rparr>"
  obtain bs r' where r: "concat_reads [1, 4, 4] ?q = (bs, r')" by force
  moreover have "bs = [1, 2, 3, 4]"
    using r by (auto simp: NewConcatReader_def concat_Read_def reader_Read_def Let_def)
  ultimately show ?thesis using concat_reads_stream[OF r] by auto
qed

lemma read_first5_full:
  assumes "5 \<le> length dat"
  shows "fst (read_first5 (bytes_NewReader dat)) @ rd_data (snd (read_first5 (bytes_NewReader dat))) = dat"
  using assms by (auto simp: read_first5_def reader_Read_def bytes_NewReader_def)

section \<open>Single files\<close>

lemma single_loop_count:
  "single_loop n hs \<longleftrightarrow> (if n \<ge> 2 then False else n + length (filter (\<lambda>h. te_Typeflag h = TypeReg) hs) = 1)"
  by (induction hs arbitrary: n) auto

lemma targets_loop_filter:
  "targets_loop dst typ hs = map (\<lambda>h. path_Join dst (te_Name h)) (filter (\<lambda>h. te_Typeflag h = typ) hs)"
  by (induction hs) auto

lemma find_entry_unique:
  assumes "h \<in> set hs" "\<And>h'. h' \<in> set hs \<Longrightarrow> path_Join dst (te_Name h') = path_Join dst (te_Name h) \<Longrightarrow> h' = h"
  shows "find_entry dst (path_Join dst (te_Name h)) hs e = Inr h"
  using assms by (induction hs) auto

text \<open>
  A pre-start archive that is accepted is deployed: for a complete archive the test for a
  single file succeeds exactly when there is one regular file, and then that file, with its
  contents and mode, is the archive's contribution to the container (when no other entry has the
  same path); otherwise the archive contributes nothing.
\<close>

theorem pre_archive_single:
  assumes "arch (pa_Archive pa) = Inr (hs, None)"
    and "\<And>h h'. h \<in> set hs \<Longrightarrow> h' \<in> set hs \<Longrightarrow>
           path_Join (pa_Path pa) (te_Name h') = path_Join (pa_Path pa) (te_Name h) \<Longrightarrow> h' = h"
  shows "(IsSingleFileArchive (arch (pa_Archive pa)) \<longleftrightarrow> length (filter (\<lambda>h. te_Typeflag h = TypeReg) hs) = 1) \<and>
    (IsSingleFileArchive (arch (pa_Archive pa)) \<longrightarrow>
       (\<exists>h. filter (\<lambda>h. te_Typeflag h = TypeReg) hs = [h] \<and>
          pre_archive_file arch pa = Some (path_Join (pa_Path pa) (te_Name h), te_Data h, te_Mode h))) \<and>
    (\<not> IsSingleFileArchive (arch (pa_Archive pa)) \<longrightarrow> pre_archive_file arch pa = None)"
proof -
  let ?reg = "filter (\<lambda>h. te_Typeflag h = TypeReg) hs"
  have single: "IsSingleFileArchive (arch (pa_Archive pa)) \<longleftrightarrow> length ?reg = 1"
    by (simp add: IsSingleFileArchive_def assms(1) single_loop_count)
  have names: "GetTargetFileNames (Inr (hs, None)) (pa_Path pa) = (map (\<lambda>h. path_Join (pa_Path pa) (te_Name h)) ?reg, None)"
    by (simp add: GetTargetFileNames_def getTargets_def targets_loop_filter)
  have one: "pre_archive_file arch pa = Some (path_Join (pa_Path pa) (te_Name h), te_Data h, te_Mode h)" if "?reg = [h]" for h
  proof -
    have "h \<in> set hs" using that by (metis filter_is_subset list.set_intros(1) subsetD)
    then have "find_entry (pa_Path pa) (path_Join (pa_Path pa) (te_Name h)) hs None = Inr h"
      by (rule find_entry_unique) (rule assms(2)[OF \<open>h \<in> set hs\<close>])
    then show ?thesis using that by (simp add: pre_archive_file_def names UnpackFile_def GetFileMode_def assms(1))
  qed
  have none: "pre_archive_file arch pa = None" if "length ?reg \<noteq> 1"
    using that by (auto simp: pre_archive_file_def assms(1) names split: list.splits)
  have "\<exists>h. ?reg = [h]" if "length ?reg = 1" using that by (simp add: length_Suc_conv)
  then show ?thesis using single one none by blast
qed

theorem pre_archive_single_witness:
  "\<exists>m. pre_archive_file (\<lambda>b. Inr ([\<lparr>te_Name = ''d/'', te_Typeflag = TypeDir, te_Mode = 493, te_Data = []\<rparr>,
        \<lparr>te_Name = ''d/f'', te_Typeflag = TypeReg, te_Mode = 420, te_Data = b\<rparr>], None))
      \<lparr>pa_Path = ''/etc/'', pa_Archive = [7, 8]\<rparr> = Some (''/etc/d/f'', [7, 8], m)"
proof -
  let ?hs = "[\<lparr>te_Name = ''d/'', te_Typeflag = TypeDir, te_Mode = 493, te_Data = []\<rparr>,
        \<lparr>te_Name = ''d/f'', te_Typeflag = TypeReg, te_Mode = 420, te_Data = [7, 8]\<rparr>]"
  let ?arch = "\<lambda>b. Inr ([\<lparr>te_Name = ''d/'', te_Typeflag = TypeDir, te_Mode = 493, te_Data = []\<rparr>,
        \<lparr>te_Name = ''d/f'', te_Typeflag = TypeReg, te_Mode = 420, te_Data = b\<rparr>], None)"
  let ?pa = "\<lparr>pa_Path = ''/etc/'', pa_Archive = [7, 8]\<rparr>"
  have j: "path_Join ''/etc/'' ''d/'' = ''/etc/d''" "path_Join ''/etc/'' ''d/f'' = ''/etc/d/f''" by code_simp+
  have a: "?arch (pa_Archive ?pa) = Inr (?hs, None)" by simp
  have u: "h' = h" if "h \<in> set ?hs" "h' \<in> set ?hs" "path_Join (pa_Path ?pa) (te_Name h') = path_Join (pa_Path ?pa) (te_Name h)" for h h'
    using that j by auto
  have "IsSingleFileArchive (?arch (pa_Archive ?pa))" by (simp add: IsSingleFileArchive_def)
  with pre_archive_single[of ?arch ?pa ?hs, OF a u] j show ?thesis by auto
qed

end
