(* ===== verification/Deploy.thy ===== *)
theory Deploy
  imports SecretPolicy KubeNames Delete Tar
begin

text \<open>
  \<open>internal/backend/deploy.go\<close>: turning a container into a pod, config maps and services, and
  following the pod until the container runs, has completed or has failed.

  The Kubernetes client, the local file system, the hash of \<open>fileID\<close>, the decoding of the
  stored archives and \<open>resource.ParseQuantity\<close> are parameters (\<open>deploy_env\<close>). The cluster
  is a state \<open>'k\<close>; \<open>de_Sleep\<close> is what happens to it while the program sleeps for a second.
  A panic is an error value \<open>Panic\<close>: nothing of the function runs after it.
\<close>

section \<open>Parameters and state\<close>

datatype deploy_state = DeployPending | DeployFailed | DeployRunning | DeployCompleted

text \<open>What a receive from the channel of a watch gives: the type of an event, or the zero value of a closed channel.\<close>

datatype watch_turn = WatchEvent string | WatchClosed

record ('k, 'q) deploy_env =
  de_validators :: validators
  de_ParseQuantity :: "string \<Rightarrow> 'q result"
  de_resource_order :: "(string \<times> string) list"
  de_stat :: "string \<Rightarrow> bool option"
  de_readFile :: "string \<Rightarrow> byte list result"
  de_fileID :: "string \<Rightarrow> string"
  de_archive :: "byte list \<Rightarrow> tar_stream result"   \<comment> \<open>the archive decoders on stored bytes\<close>
  de_listen :: "nat \<Rightarrow> int result"
  de_CreatePod :: "'q pod \<Rightarrow> 'k \<Rightarrow> error option \<times> 'k"
  de_GetPod :: "string \<Rightarrow> string \<Rightarrow> 'k \<Rightarrow> 'q pod result"
  de_DeletePod :: "string \<Rightarrow> string \<Rightarrow> 'k \<Rightarrow> 'k"
  de_CreateService :: "service \<Rightarrow> 'k \<Rightarrow> error option \<times> 'k"
  de_CreateConfigMap :: "config_map \<Rightarrow> 'k \<Rightarrow> string result \<times> 'k"   \<comment> \<open>name of the created map\<close>
  de_RemoteCmd :: "'q pod \<Rightarrow> string \<Rightarrow> string list \<Rightarrow> string option \<Rightarrow> 'k \<Rightarrow> error option \<times> 'k"
     \<comment> \<open>container, command and the local folder packed to its standard input\<close>
  de_Sleep :: "'k \<Rightarrow> 'k"
  de_Watch :: "string \<Rightarrow> string \<Rightarrow> 'k \<Rightarrow> error option"        \<comment> \<open>namespace and selector: opening the watch\<close>
  de_WatchTurns :: "string \<Rightarrow> string \<Rightarrow> nat \<Rightarrow> 'k \<Rightarrow> (watch_turn \<times> 'k) list \<times> 'k"
     \<comment> \<open>what the watch gives before a timer of so many seconds fires, with the cluster then, and the cluster when it fires\<close>

record 'q backend =
  bk_podTemplate :: "'q pod"
  bk_containerTemplate :: "'q kcontainer"
  bk_initImage :: string
  bk_imagePullSecrets :: "string list"
  bk_secretPolicy :: "secret_policy option"
  bk_namespace :: string
  bk_timeOut :: nat
  bk_disableServices :: bool
  bk_DefaultLabels :: "(string, string) gomap"
  bk_DefaultAnnotations :: "(string, string) gomap"
  bk_InstanceID :: string

definition SetupInitContainerName :: string where "SetupInitContainerName = ''setup''"

definition SystemLabels :: "string \<Rightarrow> (string, string) gomap" where
  "SystemLabels instanceID = [(''testtender.io/managed'', ''true''), (''testtender.io/instance-id'', instanceID)]"

definition IsAlreadyExists :: "error \<Rightarrow> bool" where
  "IsAlreadyExists e = (e = ExtError ''AlreadyExists'')"

fun is_panic :: "error option \<Rightarrow> bool" where
  "is_panic (Some (Panic s)) = True"
| "is_panic _ = False"

text \<open>\<open>path.Base\<close>.\<close>

definition path_Base :: "string \<Rightarrow> string" where
  "path_Base p = (if p = [] then ''.''
     else let s = TrimRight p (CHR ''/'') in if s = [] then ''/'' else last (Split s (CHR ''/'')))"

section \<open>Labels and annotations\<close>

fun set_all :: "('a \<times> 'b) list \<Rightarrow> ('a, 'b) gomap \<Rightarrow> ('a, 'b) gomap" where
  "set_all [] m = m"
| "set_all ((k, v) # kvs) m = set_all kvs (map_set k v m)"

fun user_labels :: "(string \<times> string) list \<Rightarrow> (string, string) gomap \<Rightarrow> (string, string) gomap" where
  "user_labels [] labels = labels"
| "user_labels ((k, v) # kvs) labels =
     (let kk = toKubernetesKey k; kv = toKubernetesValue v
      in if kk = [] \<and> k \<noteq> [] then user_labels kvs labels
         else if kv = [] \<and> v \<noteq> [] then user_labels kvs labels
         else user_labels kvs (map_set kk kv labels))"

definition getLabels :: "'q backend \<Rightarrow> (string, string) gomap \<Rightarrow> container \<Rightarrow> (string, string) gomap" where
  "getLabels bk labels tainr =
     map_set ''testtender.io/container-id'' (co_ShortID tainr)
       (set_all (SystemLabels (bk_InstanceID bk))
         (user_labels (co_Labels tainr)
           (set_all (bk_DefaultLabels bk) labels)))"

definition getAnnotations :: "'q backend \<Rightarrow> (string, string) gomap \<Rightarrow> container \<Rightarrow> (string, string) gomap" where
  "getAnnotations bk annotations tainr =
     map_set ''testtender.io/container-name'' (co_Name tainr)
       (set_all (co_Labels tainr) (set_all (bk_DefaultAnnotations bk) annotations))"

definition getPodMatchLabels :: "container \<Rightarrow> (string, string) gomap" where
  "getPodMatchLabels tainr = [(''testtender.io/container-id'', co_ShortID tainr)]"

fun numbered :: "string \<Rightarrow> nat \<Rightarrow> string list \<Rightarrow> (string \<times> string) list" where
  "numbered pre i [] = []"
| "numbered pre i (x # xs) = (pre @ show_nat i, x) # numbered pre (Suc i) xs"

definition pod_annotations :: "'q backend \<Rightarrow> container \<Rightarrow> (string, string) gomap \<Rightarrow> (string, string) gomap" where
  "pod_annotations bk tainr template =
     set_all (numbered ''testtender.io/network-'' 0 (co_Networks tainr))
       (set_all (numbered ''testtender.io/hostalias-'' 1 (co_NetworkAliases tainr))
         (map_set ''testtender.io/hostalias-0'' (if co_Hostname tainr = [] then GetPodName tainr else co_Hostname tainr)
           (getAnnotations bk template tainr)))"

section \<open>Services\<close>

text \<open>\<open>^[a-z]([-a-z0-9]*[a-z0-9])?$\<close>\<close>

definition valid_alias :: "string \<Rightarrow> bool" where
  "valid_alias a = (a \<noteq> [] \<and> is_lower (hd a) \<and>
     list_all (\<lambda>c. is_lower c \<or> is_digit c \<or> c = CHR ''-'') a \<and> (is_lower (last a) \<or> is_digit (last a)))"

fun alias_set :: "string list \<Rightarrow> string list \<Rightarrow> string list" where
  "alias_set [] acc = acc"
| "alias_set (a # as) acc = alias_set as (key_add (ToLower a) acc)"

definition service_ports :: "(int, int) gomap \<Rightarrow> service_port list" where
  "service_ports ports = map (\<lambda>(src, dst). \<lparr>svp_Name = ''tcp-'' @ show_int src @ ''-'' @ show_int dst,
     svp_Port = of_int src, svp_TargetPort = of_int dst\<rparr>) ports"

definition service_for :: "'q backend \<Rightarrow> container \<Rightarrow> (int, int) gomap \<Rightarrow> string \<Rightarrow> service" where
  "service_for bk tainr ports name =
     \<lparr>svc_Meta = \<lparr>om_Name = name, om_Namespace = bk_namespace bk, om_Labels = getLabels bk [] tainr,
        om_Annotations = getAnnotations bk [] tainr, om_CreationTimestamp = 0, om_DeletionTimestamp = None\<rparr>,
      svc_Selector = getPodMatchLabels tainr, svc_Ports = service_ports ports,
      svc_ClusterIPNone = (length ports = 0), svc_PublishNotReadyAddresses = (length ports = 0)\<rparr>"

definition getServices :: "'q backend \<Rightarrow> container \<Rightarrow> service list" where
  "getServices bk tainr =
     (if bk_disableServices bk then []
      else
        (let ports = GetServicePorts tainr
         in if length ports = 0 \<and> length (co_NetworkAliases tainr) = 0 \<and> co_Hostname tainr = [] then []
            else map (service_for bk tainr ports)
                   (filter valid_alias
                     (alias_set (co_NetworkAliases tainr)
                       (if co_Hostname tainr \<noteq> [] then [ToLower (co_Hostname tainr)] else [])))))"

fun create_all_services ::
  "('k, 'q) deploy_env \<Rightarrow> service list \<Rightarrow> 'k \<Rightarrow> error option \<times> 'k" where
  "create_all_services E [] k = (None, k)"
| "create_all_services E (s # ss) k = (case de_CreateService E s k of
     (Some e, k') \<Rightarrow> (Some e, k')
   | (None, k') \<Rightarrow> create_all_services E ss k')"

definition createServices ::
  "('k, 'q) deploy_env \<Rightarrow> 'q backend \<Rightarrow> container \<Rightarrow> 'k \<Rightarrow> error option \<times> 'k" where
  "createServices E bk tainr k = create_all_services E (getServices bk tainr) k"

definition getContainerPorts :: "container \<Rightarrow> container_port list" where
  "getContainerPorts tainr =
     map (\<lambda>pp. \<lparr>cp_ContainerPort = of_int pp, cp_Name = ''kd-tcp-'' @ show_int pp\<rparr>) (GetContainerTCPPorts tainr)"

section \<open>Container status\<close>

definition updateTerminatedContainerState :: "container \<Rightarrow> container_terminated \<Rightarrow> container" where
  "updateTerminatedContainerState tainr term =
     (let t1 = tainr\<lparr>co_ExitCode := sint (ct_ExitCode term), co_OOMKilled := (ct_Reason term = ''OOMKilled''),
                     co_StateError := ct_Message term\<rparr>;
          t2 = (if ct_StartedAt term \<noteq> 0 then t1\<lparr>co_Started := ct_StartedAt term\<rparr> else t1)
      in if ct_FinishedAt term \<noteq> 0 then t2\<lparr>co_Finished := ct_FinishedAt term\<rparr> else t2)"

fun status_loop ::
  "container \<Rightarrow> container_status list \<Rightarrow> (deploy_state \<times> error option \<times> container) option" where
  "status_loop tainr [] = None"
| "status_loop tainr (s # ss) =
     (if cs_Name s \<noteq> ''main'' then status_loop tainr ss
      else case (case cs_Terminated s of None \<Rightarrow> cs_LastTerminated s | Some t \<Rightarrow> Some t) of
             Some term \<Rightarrow> Some (DeployCompleted, None, updateTerminatedContainerState tainr term)
           | None \<Rightarrow>
               if cs_RestartCount s > 0 then Some (DeployFailed, Some (Errorf ''failed to start container'' []), tainr)
               else if cs_WaitingReason s = Some ''ImagePullBackOff''
               then Some (DeployFailed, Some (Errorf ''failed to start container; error pulling image'' []), tainr)
               else case cs_Running s of
                      Some started \<Rightarrow>
                        Some (DeployRunning, None, if started \<noteq> 0 then tainr\<lparr>co_Started := started\<rparr> else tainr)
                    | None \<Rightarrow> status_loop tainr ss)"

definition pod_state :: "container \<Rightarrow> 'q pod \<Rightarrow> deploy_state \<times> error option \<times> container" where
  "pod_state tainr pd = (case status_loop tainr (pod_ContainerStatuses pd) of
     Some r \<Rightarrow> r
   | None \<Rightarrow> if pod_PhaseFailed pd then (DeployFailed, Some (Errorf ''failed to start container'' []), tainr)
             else (DeployPending, None, tainr))"

definition GetContainerStatus ::
  "('k, 'q) deploy_env \<Rightarrow> 'q backend \<Rightarrow> container \<Rightarrow> 'k \<Rightarrow> deploy_state \<times> error option \<times> container" where
  "GetContainerStatus E bk tainr k = (case de_GetPod E (bk_namespace bk) (GetPodName tainr) k of
     Inl e \<Rightarrow> (DeployFailed, Some e, tainr)
   | Inr pd \<Rightarrow> pod_state tainr pd)"

fun waitReadyState ::
  "('k, 'q) deploy_env \<Rightarrow> 'q backend \<Rightarrow> container \<Rightarrow> nat \<Rightarrow> 'k \<Rightarrow> deploy_state \<times> error option \<times> container \<times> 'k" where
  "waitReadyState E bk tainr 0 k = (DeployFailed, Some (Errorf ''timeout starting container'' []), tainr, k)"
| "waitReadyState E bk tainr (Suc wait) k =
     (case GetContainerStatus E bk tainr k of (status, err, tainr') \<Rightarrow>
        if status \<noteq> DeployPending \<or> err \<noteq> None then (status, err, tainr', k)
        else waitReadyState E bk tainr' wait (de_Sleep E k))"

definition init_running :: "string \<Rightarrow> container_status list \<Rightarrow> bool" where
  "init_running name ss = list_ex (\<lambda>s. cs_Name s = name \<and>
     (cs_Running s \<noteq> None \<or> (case cs_Terminated s of None \<Rightarrow> False | Some t \<Rightarrow> ct_ExitCode t = 0))) ss"

fun waitInitContainerRunning ::
  "('k, 'q) deploy_env \<Rightarrow> 'q backend \<Rightarrow> container \<Rightarrow> string \<Rightarrow> nat \<Rightarrow> 'k \<Rightarrow> error option \<times> 'k" where
  "waitInitContainerRunning E bk tainr name 0 k = (Some (Errorf ''timeout starting container'' []), k)"
| "waitInitContainerRunning E bk tainr name (Suc wait) k =
     (case de_GetPod E (bk_namespace bk) (GetPodName tainr) k of
        Inl e \<Rightarrow> (Some e, k)
      | Inr pd \<Rightarrow>
          if pod_PhaseFailed pd then (Some (Errorf ''failed to start container'' []), k)
          else if init_running name (pod_InitContainerStatuses pd) then (None, k)
          else waitInitContainerRunning E bk tainr name wait (de_Sleep E k))"

definition GetPodIP :: "('k, 'q) deploy_env \<Rightarrow> 'q backend \<Rightarrow> container \<Rightarrow> 'k \<Rightarrow> string result" where
  "GetPodIP E bk tainr k =
     bind_res (de_GetPod E (bk_namespace bk) (GetPodName tainr) k) (\<lambda>pd. Inr (pod_PodIP pd))"

section \<open>Volumes\<close>

text \<open>
  \<open>resources_shared res0 res\<close>: the template's resource maps after
  \<open>GetResourceRequirements\<close> was handed a copy of the template: a map that is not nil is shared
  and has been written to.
\<close>

definition resources_shared :: "'q resources \<Rightarrow> 'q resources \<Rightarrow> 'q resources" where
  "resources_shared res0 res =
     \<lparr>res_Requests = (case res_Requests res0 of None \<Rightarrow> None | Some _ \<Rightarrow> res_Requests res),
      res_Limits = (case res_Limits res0 of None \<Rightarrow> None | Some _ \<Rightarrow> res_Limits res)\<rparr>"

definition container_resources ::
  "('k, 'q) deploy_env \<Rightarrow> container \<Rightarrow> 'q backend \<Rightarrow> 'q resources \<times> error option \<times> 'q backend" where
  "container_resources E tainr bk =
     (let res0 = kc_Resources (bk_containerTemplate bk)
      in case GetResourceRequirements (de_ParseQuantity E) (de_resource_order E) tainr res0 of
           (res, err) \<Rightarrow> (res, err, bk\<lparr>bk_containerTemplate := (bk_containerTemplate bk)\<lparr>kc_Resources := resources_shared res0 res\<rparr>\<rparr>))"

definition createSetupInitContainer ::
  "('k, 'q) deploy_env \<Rightarrow> container \<Rightarrow> 'q backend \<Rightarrow> 'q kcontainer result \<times> 'q backend" where
  "createSetupInitContainer E tainr bk = (case GetImagePullPolicy tainr of
     (_, Some e) \<Rightarrow> (Inl e, bk)
   | (pulpol, None) \<Rightarrow>
       (case container_resources E tainr bk of
          (_, Some e, bk') \<Rightarrow> (Inl e, bk')
        | (res, None, bk') \<Rightarrow>
            (Inr ((bk_containerTemplate bk)\<lparr>kc_Name := SetupInitContainerName, kc_Image := bk_initImage bk,
               kc_ImagePullPolicy := pulpol,
               kc_Command := [''sh'', ''-c'', ''while [ ! -f /tmp/done ]; do sleep 0.1 ; done''],
               kc_Resources := res\<rparr>), bk')))"

definition addSetupInitContainer ::
  "('k, 'q) deploy_env \<Rightarrow> container \<Rightarrow> 'q pod \<Rightarrow> 'q backend \<Rightarrow> 'q kcontainer result \<times> 'q backend" where
  "addSetupInitContainer E tainr pd bk =
     (case find (\<lambda>c. kc_Name c = SetupInitContainerName) (pod_InitContainers pd) of
        Some c \<Rightarrow> (Inr c, bk)
      | None \<Rightarrow> createSetupInitContainer E tainr bk)"

fun read_files :: "('k, 'q) deploy_env \<Rightarrow> string list \<Rightarrow> (string, byte list) gomap \<Rightarrow> (string, byte list) gomap result" where
  "read_files E [] dat = Inr dat"
| "read_files E (f # fs) dat = bind_res (de_readFile E f) (\<lambda>d. read_files E fs (map_set (de_fileID E f) d dat))"

definition config_map_for :: "'q backend \<Rightarrow> container \<Rightarrow> string \<Rightarrow> (string, byte list) gomap \<Rightarrow> config_map" where
  "config_map_for bk tainr suffix dat =
     \<lparr>cm_Meta = \<lparr>om_Name = co_ShortID tainr @ suffix, om_Namespace = bk_namespace bk, om_Labels = getLabels bk [] tainr,
        om_Annotations = getAnnotations bk [] tainr, om_CreationTimestamp = 0, om_DeletionTimestamp = None\<rparr>,
      cm_BinaryData = dat\<rparr>"

definition createConfigMapFromFiles ::
  "('k, 'q) deploy_env \<Rightarrow> 'q backend \<Rightarrow> container \<Rightarrow> (string, string) gomap \<Rightarrow> 'k \<Rightarrow> string result \<times> 'k" where
  "createConfigMapFromFiles E bk tainr files k = (case read_files E (map snd files) [] of
     Inl e \<Rightarrow> (Inl e, k)
   | Inr dat \<Rightarrow> de_CreateConfigMap E (config_map_for bk tainr ''-vf'' dat) k)"

fun raw_data :: "('k, 'q) deploy_env \<Rightarrow> (string \<times> (byte list \<times> 32 word) list) list \<Rightarrow> (string, byte list) gomap \<Rightarrow> (string, byte list) gomap" where
  "raw_data E [] dat = dat"
| "raw_data E ((src, fs) # rest) dat = raw_data E rest (set_all (map (\<lambda>f. (de_fileID E src, fst f)) fs) dat)"

definition createConfigMapFromRaw ::
  "('k, 'q) deploy_env \<Rightarrow> 'q backend \<Rightarrow> container \<Rightarrow> (string, (byte list \<times> 32 word) list) gomap \<Rightarrow> 'k \<Rightarrow> string result \<times> 'k" where
  "createConfigMapFromRaw E bk tainr files k =
     de_CreateConfigMap E (config_map_for bk tainr ''-pf'' (raw_data E files [])) k"

text \<open>The end of \<open>addVolumes\<close> and \<open>addPreArchives\<close>: the pod has one container at this point.\<close>

definition with_volumes ::
  "'q pod \<Rightarrow> 'q kcontainer \<Rightarrow> volume list \<Rightarrow> volume_mount list \<Rightarrow> 'q pod" where
  "with_volumes pd initC volumes mounts =
     pd\<lparr>pod_InitContainers := [initC\<lparr>kc_VolumeMounts := kc_VolumeMounts initC @ mounts\<rparr>],
        pod_Volumes := pod_Volumes pd @ volumes,
        pod_Containers := (case pod_Containers pd of [] \<Rightarrow> []
           | c # cs \<Rightarrow> c\<lparr>kc_VolumeMounts := kc_VolumeMounts c @ mounts\<rparr> # cs)\<rparr>"

definition folder_volumes :: "(string, string) gomap \<Rightarrow> volume list" where
  "folder_volumes folders = map (\<lambda>(dst, src). \<lparr>vol_Name = toKubernetesName dst, vol_Source = EmptyDir\<rparr>) folders"

definition folder_mounts :: "(string, string) gomap \<Rightarrow> volume_mount list" where
  "folder_mounts folders =
     map (\<lambda>(dst, src). \<lparr>vm_Name = toKubernetesName dst, vm_MountPath = dst, vm_SubPath = [], vm_ReadOnly = False\<rparr>) folders"

definition addVolumes ::
  "('k, 'q) deploy_env \<Rightarrow> container \<Rightarrow> 'q pod \<Rightarrow> 'q backend \<Rightarrow> 'k \<Rightarrow> 'q pod result \<times> 'q backend \<times> 'k" where
  "addVolumes E tainr pd bk k = (case addSetupInitContainer E tainr pd bk of
     (Inl e, bk1) \<Rightarrow> (Inl e, bk1, k)
   | (Inr initC, bk1) \<Rightarrow>
       (case (GetVolumeFolders (de_stat E) tainr, GetVolumeFiles (de_stat E) tainr) of
          (Inr folders, Inr vfiles) \<Rightarrow>
            if length vfiles > 0 then
              (case createConfigMapFromFiles E bk1 tainr vfiles k of
                 (Inl e, k1) \<Rightarrow> (Inl e, bk1, k1)
               | (Inr cm, k1) \<Rightarrow>
                   (Inr (with_volumes pd initC
                      (folder_volumes folders @ [\<lparr>vol_Name = ''vfiles'', vol_Source = ConfigMapVolume cm []\<rparr>])
                      (folder_mounts folders @
                       map (\<lambda>(dst, src). \<lparr>vm_Name = ''vfiles'', vm_MountPath = dst, vm_SubPath = de_fileID E src, vm_ReadOnly = False\<rparr>) vfiles)),
                    bk1, k1))
            else (Inr (with_volumes pd initC (folder_volumes folders) (folder_mounts folders)), bk1, k)
        | (Inl e, _) \<Rightarrow> (Inl e, bk1, k)
        | (_, Inl e) \<Rightarrow> (Inl e, bk1, k)))"

definition addPreArchives ::
  "('k, 'q) deploy_env \<Rightarrow> container \<Rightarrow> 'q pod \<Rightarrow> 'q backend \<Rightarrow> 'k \<Rightarrow> 'q pod result \<times> 'q backend \<times> 'k" where
  "addPreArchives E tainr pd bk k = (case addSetupInitContainer E tainr pd bk of
     (Inl e, bk1) \<Rightarrow> (Inl e, bk1, k)
   | (Inr initC, bk1) \<Rightarrow>
       (let pfiles = GetPreArchiveFiles (de_archive E) tainr
        in if length pfiles > 0 then
             (case createConfigMapFromRaw E bk1 tainr pfiles k of
                (Inl e, k1) \<Rightarrow> (Inl e, bk1, k1)
              | (Inr cm, k1) \<Rightarrow>
                  (Inr (with_volumes pd initC
                     [\<lparr>vol_Name = ''pfiles'', vol_Source = ConfigMapVolume cm
                        (map (\<lambda>(file, info). \<lparr>kp_Key = de_fileID E file, kp_Path = path_Base file, kp_Mode = Some (snd (hd info))\<rparr>) pfiles)\<rparr>]
                     (map (\<lambda>(dst, info). \<lparr>vm_Name = ''pfiles'', vm_MountPath = dst, vm_SubPath = path_Base dst, vm_ReadOnly = False\<rparr>) pfiles)),
                   bk1, k1))
           else (Inr (with_volumes pd initC [] []), bk1, k)))"

definition touchFileInContainer ::
  "('k, 'q) deploy_env \<Rightarrow> 'q backend \<Rightarrow> container \<Rightarrow> string \<Rightarrow> string \<Rightarrow> 'k \<Rightarrow> error option \<times> 'k" where
  "touchFileInContainer E bk tainr cont filename k = (case de_GetPod E (bk_namespace bk) (GetPodName tainr) k of
     Inl e \<Rightarrow> (Some e, k)
   | Inr pd \<Rightarrow> de_RemoteCmd E pd cont [''touch'', filename] None k)"

fun copy_folders :: "('k, 'q) deploy_env \<Rightarrow> 'q pod \<Rightarrow> (string \<times> string) list \<Rightarrow> 'k \<Rightarrow> 'k" where
  "copy_folders E pd [] k = k"
| "copy_folders E pd ((dst, src) # vs) k =
     copy_folders E pd vs (snd (de_RemoteCmd E pd SetupInitContainerName [''tar'', ''-xf'', ''-'', ''-C'', dst] (Some src) k))"

definition setup_done :: "container_status list \<Rightarrow> bool" where
  "setup_done ss = list_ex (\<lambda>s. cs_Name s = SetupInitContainerName \<and>
     (case cs_Terminated s of None \<Rightarrow> False | Some t \<Rightarrow> ct_ExitCode t = 0)) ss"

definition copyVolumeFolders ::
  "('k, 'q) deploy_env \<Rightarrow> 'q backend \<Rightarrow> container \<Rightarrow> nat \<Rightarrow> 'k \<Rightarrow> error option \<times> 'k" where
  "copyVolumeFolders E bk tainr wait k =
     (case waitInitContainerRunning E bk tainr SetupInitContainerName wait k of
        (Some e, k1) \<Rightarrow> (Some e, k1)
      | (None, k1) \<Rightarrow>
          (case de_GetPod E (bk_namespace bk) (GetPodName tainr) k1 of
             Inl e \<Rightarrow> (Some e, k1)
           | Inr pd \<Rightarrow>
               if setup_done (pod_InitContainerStatuses pd) then (None, k1)
               else case GetVolumeFolders (de_stat E) tainr of
                      Inl e \<Rightarrow> (Some e, k1)
                    | Inr volumes \<Rightarrow>
                        touchFileInContainer E bk tainr SetupInitContainerName ''/tmp/done'' (copy_folders E pd volumes k1)))"

section \<open>Starting a container\<close>

text \<open>
  The first half of \<open>startContainer\<close>, up to line 159: the pod without its volumes. It does not
  touch the cluster.
\<close>

definition backend_policy :: "'q backend \<Rightarrow> secret_policy" where
  "backend_policy bk = (case bk_secretPolicy bk of Some p \<Rightarrow> p | None \<Rightarrow> \<lparr>allowed = []\<rparr>)"

definition main_env :: "('k, 'q) deploy_env \<Rightarrow> 'q backend \<Rightarrow> container \<Rightarrow> (envvar list \<times> volume list \<times> volume_mount list) result" where
  "main_env E bk tainr =
     (let policy = backend_policy bk;
          env = GetEnvVar tainr
      in bind_res (EnvVars (de_validators E) policy (co_Labels tainr) env) (\<lambda>secretEnv.
           bind_res (Files (de_validators E) policy (co_Labels tainr)) (\<lambda>(vols, mnts).
             if length vols > 0 \<and> list_ex (\<lambda>v. vol_Name v = VolumeName) (pod_Volumes (bk_podTemplate bk))
             then Inl (Errorf ''pod template volume name %q is reserved for Secret references'' [VolumeName])
             else Inr (env @ secretEnv, vols, mnts))))"

definition build_pod ::
  "('k, 'q) deploy_env \<Rightarrow> container \<Rightarrow> 'q backend \<Rightarrow> 'q pod result \<times> 'q backend" where
  "build_pod E tainr bk = (case GetImagePullPolicy tainr of
     (_, Some e) \<Rightarrow> (Inl e, bk)
   | (pulpol, None) \<Rightarrow>
       (case main_env E bk tainr of
          Inl e \<Rightarrow> (Inl e, bk)
        | Inr (env, vols, mnts) \<Rightarrow>
            (case container_resources E tainr bk of
               (_, Some e, bk1) \<Rightarrow> (Inl e, bk1)
             | (res, None, bk1) \<Rightarrow>
                 (let tmpl = bk_podTemplate bk;
                      ct = bk_containerTemplate bk
                  in case GetNodeSelector tainr (pod_NodeSelector tmpl) of
                       (_, Some e) \<Rightarrow> (Inl e, bk1)
                     | (nodeSel, None) \<Rightarrow>
                         (case GetActiveDeadlineSeconds tainr of
                            Inl e \<Rightarrow> (Inl e, bk1)
                          | Inr ads \<Rightarrow>
                              (case GetPodSecurityContext tainr (pod_SecurityContext tmpl) of
                                 (_, Some e) \<Rightarrow> (Inl e, bk1)
                               | (seccontext, None) \<Rightarrow>
                                   (Inr (tmpl\<lparr>
                                      pod_Meta := (pod_Meta tmpl)\<lparr>om_Name := GetPodName tainr, om_Namespace := bk_namespace bk,
                                         om_Labels := getLabels bk (om_Labels (pod_Meta tmpl)) tainr,
                                         om_Annotations := pod_annotations bk tainr (om_Annotations (pod_Meta tmpl))\<rparr>,
                                      pod_Containers := [ct\<lparr>kc_Name := ''main'', kc_Image := co_Image tainr,
                                         kc_Command := co_Entrypoint tainr, kc_Args := co_Cmd tainr, kc_Env := env,
                                         kc_VolumeMounts := kc_VolumeMounts ct @ mnts, kc_Ports := getContainerPorts tainr,
                                         kc_ImagePullPolicy := pulpol, kc_TTY := co_Tty tainr, kc_Stdin := co_OpenStdin tainr,
                                         kc_Resources := res\<rparr>],
                                      pod_Volumes := pod_Volumes tmpl @ vols,
                                      pod_NodeSelector := nodeSel,
                                      pod_Hostname := (if co_Hostname tainr \<noteq> [] then co_Hostname tainr else pod_Hostname tmpl),
                                      pod_ServiceAccountName := GetServiceAccountName tainr (pod_ServiceAccountName tmpl),
                                      pod_RestartPolicyNever := True,
                                      pod_ActiveDeadlineSeconds := (case ads of None \<Rightarrow> pod_ActiveDeadlineSeconds tmpl | Some s \<Rightarrow> Some s),
                                      pod_SecurityContext := seccontext,
                                      pod_ImagePullSecrets := pod_ImagePullSecrets tmpl @ bk_imagePullSecrets bk\<rparr>), bk1)))))))"

text \<open>The second half: volumes, creation, waiting, ports and services.\<close>

definition add_all_volumes ::
  "('k, 'q) deploy_env \<Rightarrow> container \<Rightarrow> 'q pod \<Rightarrow> 'q backend \<Rightarrow> 'k \<Rightarrow> 'q pod result \<times> 'q backend \<times> 'k" where
  "add_all_volumes E tainr pd bk k =
     (case (if HasVolumes tainr then addVolumes E tainr pd bk k else (Inr pd, bk, k)) of
        (Inl e, bk1, k1) \<Rightarrow> (Inl e, bk1, k1)
      | (Inr pd1, bk1, k1) \<Rightarrow>
          (if HasPreArchives tainr then addPreArchives E tainr pd1 bk1 k1 else (Inr pd1, bk1, k1)))"

definition follow_pod ::
  "('k, 'q) deploy_env \<Rightarrow> 'q backend \<Rightarrow> container \<Rightarrow> bool \<Rightarrow> 'k \<Rightarrow>
   deploy_state \<times> error option \<times> container \<times> 'k" where
  "follow_pod E bk tainr duplicateRequest k =
     (case (if HasVolumes tainr \<or> HasPreArchives tainr then copyVolumeFolders E bk tainr (bk_timeOut bk) k else (None, k)) of
        (Some e, k1) \<Rightarrow> (DeployFailed, Some e, tainr, k1)
      | (None, k1) \<Rightarrow>
          (case waitReadyState E bk tainr (bk_timeOut bk) k1 of
             (state, Some e, t1, k2) \<Rightarrow> (state, Some e, t1, k2)
           | (state, None, t1, k2) \<Rightarrow>
               (case MapContainerTCPPorts (de_listen E) t1 of
                  (t2, Some e, _) \<Rightarrow> (DeployFailed, Some e, t2, k2)
                | (t2, None, _) \<Rightarrow>
                    (case createServices E bk t2 k2 of
                       (Some e, k3) \<Rightarrow> (state, if duplicateRequest \<and> IsAlreadyExists e then None else Some e, t2, k3)
                     | (None, k3) \<Rightarrow> (state, None, t2, k3)))))"

definition startContainer ::
  "('k, 'q) deploy_env \<Rightarrow> container \<Rightarrow> 'q backend \<Rightarrow> 'k \<Rightarrow>
   deploy_state \<times> error option \<times> container \<times> 'q backend \<times> 'k" where
  "startContainer E tainr bk k = (case build_pod E tainr bk of
     (Inl e, bk1) \<Rightarrow> (DeployFailed, Some e, tainr, bk1, k)
   | (Inr pd, bk1) \<Rightarrow>
       (case add_all_volumes E tainr pd bk1 k of
          (Inl e, bk2, k1) \<Rightarrow> (DeployFailed, Some e, tainr, bk2, k1)
        | (Inr pd2, bk2, k1) \<Rightarrow>
            (case de_CreatePod E pd2 k1 of (err, k2) \<Rightarrow>
               if (case err of None \<Rightarrow> False | Some e \<Rightarrow> \<not> IsAlreadyExists e) then (DeployFailed, err, tainr, bk2, k2)
               else (case follow_pod E bk2 tainr (err \<noteq> None) k2 of
                       (state, e, tainr', k3) \<Rightarrow> (state, e, tainr', bk2, k3)))))"

definition StartContainer ::
  "('k, 'q) deploy_env \<Rightarrow> container \<Rightarrow> 'q backend \<Rightarrow> 'k \<Rightarrow>
   deploy_state \<times> error option \<times> container \<times> 'q backend \<times> 'k" where
  "StartContainer E tainr bk k = (case startContainer E tainr bk k of (state, err, tainr', bk', k') \<Rightarrow>
     (state, err, tainr', bk',
      if state = DeployFailed \<and> \<not> is_panic err then de_DeletePod E (bk_namespace bk) (GetPodName tainr') k' else k'))"

section \<open>A backend for the examples\<close>

definition blank_kcontainer :: "'q kcontainer" where
  "blank_kcontainer = \<lparr>kc_Name = [], kc_Image = [], kc_Command = [], kc_Args = [], kc_Env = [], kc_VolumeMounts = [],
     kc_Ports = [], kc_ImagePullPolicy = PullUnset, kc_TTY = False, kc_Stdin = False,
     kc_Resources = \<lparr>res_Requests = None, res_Limits = None\<rparr>\<rparr>"

definition blank_pod :: "'q pod" where
  "blank_pod = \<lparr>pod_Meta = \<lparr>om_Name = [], om_Namespace = [], om_Labels = [], om_Annotations = [],
       om_CreationTimestamp = 0, om_DeletionTimestamp = None\<rparr>,
     pod_Containers = [], pod_InitContainers = [], pod_Volumes = [], pod_NodeSelector = [], pod_Hostname = [],
     pod_ServiceAccountName = [], pod_RestartPolicyNever = False, pod_ActiveDeadlineSeconds = None,
     pod_SecurityContext = None, pod_ImagePullSecrets = [], pod_PodIP = [], pod_PhaseFailed = False,
     pod_ContainerStatuses = [], pod_InitContainerStatuses = []\<rparr>"

definition sample_backend :: "string backend" where
  "sample_backend = \<lparr>bk_podTemplate = blank_pod, bk_containerTemplate = blank_kcontainer, bk_initImage = ''busybox'',
     bk_imagePullSecrets = [], bk_secretPolicy = Some sample_policy, bk_namespace = ''ci'', bk_timeOut = 30,
     bk_disableServices = False, bk_DefaultLabels = [(''team'', ''qa'')], bk_DefaultAnnotations = [],
     bk_InstanceID = ''0123456789ab''\<rparr>"

text \<open>The sample cluster counts the seconds; the pod runs from the third one on.\<close>

definition sample_deploy :: "(nat, string) deploy_env" where
  "sample_deploy = \<lparr>de_validators = accept_all, de_ParseQuantity = Inr, de_resource_order = resource_labels,
     de_stat = (\<lambda>p. Some True), de_readFile = (\<lambda>p. Inr []), de_fileID = (\<lambda>p. p), de_archive = (\<lambda>b. Inr ([], None)),
     de_listen = (\<lambda>n. Inr (40000 + int n)), de_CreatePod = (\<lambda>p k. (None, k)),
     de_GetPod = (\<lambda>ns n k. Inr (blank_pod\<lparr>pod_ContainerStatuses :=
        [\<lparr>cs_Name = ''main'', cs_Terminated = None, cs_Running = (if k \<ge> 2 then Some 5 else None), cs_WaitingReason = None,
          cs_LastTerminated = None, cs_RestartCount = 0\<rparr>]\<rparr>)),
     de_DeletePod = (\<lambda>ns n k. k), de_CreateService = (\<lambda>s k. (None, k)), de_CreateConfigMap = (\<lambda>c k. (Inr ''cm'', k)),
     de_RemoteCmd = (\<lambda>p c cmd f k. (None, k)), de_Sleep = Suc,
     de_Watch = (\<lambda>ns sel k. None), de_WatchTurns = (\<lambda>ns sel n k. ([], k + n))\<rparr>"

definition secret_container :: container where
  "secret_container = sample_container\<lparr>co_Labels := sample_labels, co_Binds := []\<rparr>"

section \<open>Observed states\<close>

text \<open>What the \<open>n\<close>-th poll of \<open>waitReadyState\<close> sees.\<close>

definition observed :: "('k, 'q) deploy_env \<Rightarrow> 'q backend \<Rightarrow> container \<Rightarrow> 'k \<Rightarrow> nat \<Rightarrow> deploy_state \<times> error option \<times> container" where
  "observed E bk tainr k n = GetContainerStatus E bk tainr ((de_Sleep E ^^ n) k)"

definition still_pending :: "deploy_state \<times> error option \<times> container \<Rightarrow> bool" where
  "still_pending r = (fst r = DeployPending \<and> fst (snd r) = None)"

section \<open>Labels\<close>

lemma map_get_set_all:
  "map_get (set_all kvs m) k = (case map_get (rev kvs) k of Some v \<Rightarrow> Some v | None \<Rightarrow> map_get m k)"
  by (induction kvs m rule: set_all.induct) (auto simp: map_add_def split: option.splits)

lemma getLabels_fixed:
  "map_get (getLabels bk labels tainr) ''testtender.io/container-id'' = Some (co_ShortID tainr)"
  "map_get (getLabels bk labels tainr) ''testtender.io/managed'' = Some ''true''"
  "map_get (getLabels bk labels tainr) ''testtender.io/instance-id'' = Some (bk_InstanceID bk)"
  by (simp_all add: getLabels_def SystemLabels_def)

lemma kube_segment_mono: "\<forall>c. q c \<longrightarrow> p c \<Longrightarrow> kube_segment q s \<Longrightarrow> kube_segment p s"
  by (auto simp: kube_segment_def list_all_iff)

lemma user_labels_values:
  assumes "\<forall>c. value_class c \<longrightarrow> p c" "\<forall>k v. map_get m k = Some v \<longrightarrow> kube_segment p v" "map_get (user_labels kvs m) k = Some v"
  shows "kube_segment p v"
  using assms(2,3)
proof (induction kvs m rule: user_labels.induct)
  case (2 l w kvs m)
  have new: "\<forall>k v. map_get (map_set (toKubernetesKey l) (toKubernetesValue w) m) k = Some v \<longrightarrow> kube_segment p v"
    using 2(4) kube_segment_mono[OF assms(1) toKubernetesValue_segment] by auto
  show ?case using 2 new by (auto simp: Let_def split: if_splits)
qed simp

lemma set_all_values:
  "\<forall>k v. map_get m k = Some v \<longrightarrow> Q v \<Longrightarrow> \<forall>kv \<in> set kvs. Q (snd kv) \<Longrightarrow> map_get (set_all kvs m) k = Some v \<Longrightarrow> Q v"
  by (induction kvs m rule: set_all.induct) (auto split: if_splits)

text \<open>
  (C29) Labels cannot be forged: whatever labels the container, the pod template and the
  configuration bring, the object is labelled with this container's short ID, as managed and with
  this instance's ID; and if the template's and the configured label values are valid over a class of
  characters that contains the one the code maps values to (such as the class of Kubernetes, which
  allows the underscore besides), so are all values of the result.
\<close>

theorem getLabels_unforgeable:
  assumes "IsShortID (co_ShortID tainr)" "IsShortID (bk_InstanceID bk)" "\<forall>c. value_class c \<longrightarrow> p c"
    and "\<forall>k v. map_get labels k = Some v \<longrightarrow> kube_segment p v"
    and "\<forall>kv \<in> set (bk_DefaultLabels bk). kube_segment p (snd kv)"
  shows "map_get (getLabels bk labels tainr) ''testtender.io/container-id'' = Some (co_ShortID tainr) \<and>
    map_get (getLabels bk labels tainr) ''testtender.io/managed'' = Some ''true'' \<and>
    map_get (getLabels bk labels tainr) ''testtender.io/instance-id'' = Some (bk_InstanceID bk) \<and>
    (\<forall>k v. map_get (getLabels bk labels tainr) k = Some v \<longrightarrow> kube_segment p v)"
proof -
  have short: "kube_segment p s" if "IsShortID s" for s
  proof -
    from that have "s \<noteq> []" "\<forall>c \<in> set s. is_alnum c" "length s = 12"
      by (auto simp: IsShortID_def list_all_iff intro: is_hex_alnum)
    then show ?thesis using assms(3) by (auto simp: kube_segment_def list_all_iff intro: alnum_class(2))
  qed
  let ?base = "user_labels (co_Labels tainr) (set_all (bk_DefaultLabels bk) labels)"
  have b0: "kube_segment p v" if "map_get (set_all (bk_DefaultLabels bk) labels) k = Some v" for k v
    by (rule set_all_values[OF assms(4,5) that])
  have b1: "kube_segment p v" if "map_get ?base k = Some v" for k v
    by (rule user_labels_values[OF assms(3) _ that]) (use b0 in blast)
  have "kube_segment value_class ''true''" by code_simp
  then have sys: "\<forall>kv \<in> set (SystemLabels (bk_InstanceID bk)). kube_segment p (snd kv)"
    using short[OF assms(2)] kube_segment_mono[OF assms(3)] by (simp add: SystemLabels_def)
  have b2: "kube_segment p v" if "map_get (set_all (SystemLabels (bk_InstanceID bk)) ?base) k = Some v" for k v
    by (rule set_all_values[OF _ sys that]) (use b1 in blast)
  have "kube_segment p v" if "map_get (getLabels bk labels tainr) k = Some v" for k v
    using that b2 short[OF assms(1)] by (auto simp: getLabels_def split: if_splits)
  then show ?thesis using getLabels_fixed[of bk labels tainr] by blast
qed

theorem getLabels_unforgeable_witness:
  "map_get (getLabels sample_backend [(''testtender.io/managed'', ''no'')]
     (sample_container\<lparr>co_Labels := [(''testtender.io/instance-id'', ''evil'')]\<rparr>)) ''testtender.io/instance-id'' = Some ''0123456789ab''"
proof -
  have c1: "IsShortID (co_ShortID (sample_container\<lparr>co_Labels := [(''testtender.io/instance-id'', ''evil'')]\<rparr>))" by code_simp
  have c2: "IsShortID (bk_InstanceID sample_backend)" by code_simp
  let ?p = "\<lambda>c. value_class c \<or> c = CHR ''_''"
  have seg: "kube_segment ?p ''no''" "kube_segment ?p ''qa''" by code_simp+
  have c3: "\<forall>k v. map_get [(''testtender.io/managed'', ''no'')] k = Some v \<longrightarrow> kube_segment ?p v"
    using seg(1) by simp
  have c4: "\<forall>kv \<in> set (bk_DefaultLabels sample_backend). kube_segment ?p (snd kv)"
    using seg(2) by (simp add: sample_backend_def)
  have "\<forall>c. value_class c \<longrightarrow> ?p c" by simp
  from getLabels_unforgeable[OF c1 c2 this c3 c4] show ?thesis by (simp add: sample_backend_def)
qed

section \<open>Services\<close>

lemma set_alias_set: "set (alias_set as acc) = ToLower ` set as \<union> set acc"
  by (induction as arbitrary: acc) auto

lemma distinct_alias_set: "distinct acc \<Longrightarrow> distinct (alias_set as acc)"
  by (induction as arbitrary: acc) auto

text \<open>
  Services: unless services are disabled, there is exactly one service for every valid name
  among the lower-cased host name and network aliases; each selects this container's pod only,
  is labelled as this container's, offers the container's service ports and is headless exactly
  when there are none.
\<close>

theorem getServices_exact:
  assumes "\<not> bk_disableServices bk"
  shows "distinct (map (\<lambda>s. om_Name (svc_Meta s)) (getServices bk tainr)) \<and>
    (\<lambda>s. om_Name (svc_Meta s)) ` set (getServices bk tainr) =
      {a. valid_alias a \<and> (a \<in> ToLower ` set (co_NetworkAliases tainr) \<or> a = ToLower (co_Hostname tainr))} \<and>
    (\<forall>s \<in> set (getServices bk tainr). svc_Selector s = [(''testtender.io/container-id'', co_ShortID tainr)] \<and>
       map_get (om_Labels (svc_Meta s)) ''testtender.io/container-id'' = Some (co_ShortID tainr) \<and>
       svc_Ports s = service_ports (GetServicePorts tainr) \<and> (svc_ClusterIPNone s \<longleftrightarrow> GetServicePorts tainr = []))"
proof -
  let ?as = "filter valid_alias (alias_set (co_NetworkAliases tainr)
      (if co_Hostname tainr \<noteq> [] then [ToLower (co_Hostname tainr)] else []))"
  have "\<not> valid_alias (ToLower [])" by (simp add: valid_alias_def ToLower_def)
  then have set_as: "set ?as = {a. valid_alias a \<and> (a \<in> ToLower ` set (co_NetworkAliases tainr) \<or> a = ToLower (co_Hostname tainr))}"
    by (auto simp: set_alias_set)
  have sv: "getServices bk tainr = map (service_for bk tainr (GetServicePorts tainr)) ?as"
  proof (cases "length (GetServicePorts tainr) = 0 \<and> length (co_NetworkAliases tainr) = 0 \<and> co_Hostname tainr = []")
    case True
    then show ?thesis using assms by (simp add: getServices_def)
  next
    case False
    then show ?thesis using assms by (auto simp: getServices_def Let_def)
  qed
  have "map (\<lambda>s. om_Name (svc_Meta s)) (getServices bk tainr) = ?as"
    unfolding sv by (simp add: service_for_def comp_def)
  moreover have "distinct ?as" by (simp add: distinct_alias_set)
  moreover have "svc_Selector s = [(''testtender.io/container-id'', co_ShortID tainr)] \<and>
      map_get (om_Labels (svc_Meta s)) ''testtender.io/container-id'' = Some (co_ShortID tainr) \<and>
      svc_Ports s = service_ports (GetServicePorts tainr) \<and> (svc_ClusterIPNone s \<longleftrightarrow> GetServicePorts tainr = [])"
    if "s \<in> set (getServices bk tainr)" for s
    using that getLabels_fixed(1) unfolding sv by (auto simp: service_for_def getPodMatchLabels_def)
  ultimately show ?thesis using set_as by (metis (no_types, lifting) list.set_map)
qed

theorem getServices_exact_witness:
  "\<exists>s \<in> set (getServices sample_backend (sample_container\<lparr>co_Hostname := ''DB''\<rparr>)). om_Name (svc_Meta s) = ''db''"
proof -
  have "\<not> bk_disableServices sample_backend" by (simp add: sample_backend_def)
  note ex = getServices_exact[OF this, of "sample_container\<lparr>co_Hostname := ''DB''\<rparr>"]
  have "valid_alias ''db''" "ToLower ''DB'' = ''db''" by code_simp+
  then have "''db'' \<in> {a. valid_alias a \<and> (a \<in> ToLower ` set (co_NetworkAliases (sample_container\<lparr>co_Hostname := ''DB''\<rparr>)) \<or>
      a = ToLower (co_Hostname (sample_container\<lparr>co_Hostname := ''DB''\<rparr>)))}" by simp
  then have "''db'' \<in> (\<lambda>s. om_Name (svc_Meta s)) ` set (getServices sample_backend (sample_container\<lparr>co_Hostname := ''DB''\<rparr>))"
    using ex by blast
  then show ?thesis by (metis (no_types, lifting) imageE)
qed

section \<open>Waiting\<close>

lemma status_loop_not_pending: "status_loop tainr ss = Some r \<Longrightarrow> fst r \<noteq> DeployPending"
  by (induction ss) (auto split: if_splits option.splits)

lemma pending_keeps_container:
  assumes "still_pending (GetContainerStatus E bk tainr k)"
  shows "snd (snd (GetContainerStatus E bk tainr k)) = tainr"
proof -
  obtain pd where pd: "de_GetPod E (bk_namespace bk) (GetPodName tainr) k = Inr pd"
    using assms by (cases "de_GetPod E (bk_namespace bk) (GetPodName tainr) k") (auto simp: GetContainerStatus_def still_pending_def)
  have "status_loop tainr (pod_ContainerStatuses pd) = None"
  proof (rule ccontr)
    assume "status_loop tainr (pod_ContainerStatuses pd) \<noteq> None"
    then obtain r where "status_loop tainr (pod_ContainerStatuses pd) = Some r" by blast
    with status_loop_not_pending[OF this] assms pd show False
      by (simp add: GetContainerStatus_def pod_state_def still_pending_def)
  qed
  then show ?thesis using pd by (simp add: GetContainerStatus_def pod_state_def)
qed

text \<open>
  (C30) Waiting for a container ends: it polls at most once per second of the time-out and
  returns exactly the first observation that is not pending, at the moment it was made; if all
  are pending, it reports the time-out.
\<close>

theorem waitReadyState_first:
  assumes "\<And>m. m < n \<Longrightarrow> still_pending (observed E bk tainr k m)"
    and "n < wait \<Longrightarrow> \<not> still_pending (observed E bk tainr k n)" "n \<le> wait"
  shows "waitReadyState E bk tainr wait k =
    (if n < wait then (case observed E bk tainr k n of (state, err, tainr') \<Rightarrow> (state, err, tainr', (de_Sleep E ^^ n) k))
     else (DeployFailed, Some (Errorf ''timeout starting container'' []), tainr, (de_Sleep E ^^ n) k))"
  using assms
proof (induction n arbitrary: k wait)
  case 0
  show ?case
  proof (cases wait)
    case (Suc w)
    then show ?thesis using 0(2) by (auto simp: observed_def still_pending_def split: prod.splits)
  qed simp
next
  case (Suc n)
  obtain w where w: "wait = Suc w" using Suc.prems(3) by (cases wait) auto
  have p0: "still_pending (GetContainerStatus E bk tainr k)" using Suc.prems(1)[of 0] by (simp add: observed_def)
  have shift: "observed E bk tainr (de_Sleep E k) m = observed E bk tainr k (Suc m)" for m
    by (simp add: observed_def funpow_swap1)
  have "waitReadyState E bk tainr wait k = waitReadyState E bk tainr w (de_Sleep E k)"
    using p0 pending_keeps_container[OF p0] w by (auto simp: still_pending_def split: prod.splits)
  also have "\<dots> = (if n < w then (case observed E bk tainr (de_Sleep E k) n of (state, err, tainr') \<Rightarrow>
        (state, err, tainr', (de_Sleep E ^^ n) (de_Sleep E k)))
      else (DeployFailed, Some (Errorf ''timeout starting container'' []), tainr, (de_Sleep E ^^ n) (de_Sleep E k)))"
    by (rule Suc.IH) (use Suc.prems w shift in auto)
  finally show ?case using w by (simp add: shift funpow_swap1)
qed

theorem waitReadyState_first_witness:
  "waitReadyState sample_deploy sample_backend sample_container 30 0 =
     (DeployRunning, None, sample_container\<lparr>co_Started := 5\<rparr>, 2)"
proof -
  have iter: "(de_Sleep sample_deploy ^^ n) k = n + k" for n k
    by (induction n) (simp_all add: sample_deploy_def)
  have obs: "observed sample_deploy sample_backend sample_container 0 n =
      (if n \<ge> 2 then (DeployRunning, None, sample_container\<lparr>co_Started := 5\<rparr>) else (DeployPending, None, sample_container))" for n
    unfolding observed_def iter by (simp add: GetContainerStatus_def sample_deploy_def pod_state_def blank_pod_def)
  show ?thesis
    using waitReadyState_first[of 2 sample_deploy sample_backend sample_container 0 30]
    unfolding obs iter by (simp add: still_pending_def)
qed

section \<open>The pod\<close>

lemma projected_items_append: "projected_items (vs @ ws) = projected_items vs @ projected_items ws"
  by (induction vs) (auto split: volume_source.splits)

lemma projected_items_folders: "projected_items (folder_volumes fs) = []"
  by (induction fs) (auto simp: folder_volumes_def)

lemma env_vars_plain: "e \<in> set (env_vars es) \<Longrightarrow> ev_SecretKeyRef e = None"
  by (induction es) (auto split: prod.splits if_splits)

lemma main_env_Inr:
  assumes "main_env E bk tainr = Inr (env, vols, mnts)"
  shows "\<exists>secretEnv. EnvVars (de_validators E) (backend_policy bk) (co_Labels tainr) (GetEnvVar tainr) = Inr secretEnv \<and>
      env = GetEnvVar tainr @ secretEnv"
    and "Files (de_validators E) (backend_policy bk) (co_Labels tainr) = Inr (vols, mnts)"
  using assms by (auto simp: main_env_def Let_def bind_res_Inr split: if_splits)

lemma main_env_Inl:
  "secret_Validate (de_validators E) (backend_policy bk) (co_Labels tainr) (GetEnvVar tainr) = Inl e \<Longrightarrow>
   main_env E bk tainr = Inl e"
  by (auto simp: secret_Validate_def bind_res_Inl main_env_def)

lemma build_pod_Inr:
  assumes "build_pod E tainr bk = (Inr pd, bk1)"
  shows "\<exists>env vols mnts c. main_env E bk tainr = Inr (env, vols, mnts) \<and> pod_Containers pd = [c] \<and>
      kc_Name c = ''main'' \<and> kc_Image c = co_Image tainr \<and> kc_Command c = co_Entrypoint tainr \<and> kc_Args c = co_Cmd tainr \<and>
      kc_Env c = env \<and> pod_Volumes pd = pod_Volumes (bk_podTemplate bk) @ vols \<and>
      kc_VolumeMounts c = kc_VolumeMounts (bk_containerTemplate bk) @ mnts"
    and "om_Name (pod_Meta pd) = GetPodName tainr \<and> om_Namespace (pod_Meta pd) = bk_namespace bk \<and> pod_RestartPolicyNever pd \<and>
      om_Labels (pod_Meta pd) = getLabels bk (om_Labels (pod_Meta (bk_podTemplate bk))) tainr"
  using assms by (auto simp: build_pod_def Let_def split: prod.splits option.splits sum.splits)

text \<open>What adding volumes keeps of a pod: one main container, with the same image and environment,
  and no further Secret is projected.\<close>

definition same_core :: "'q pod \<Rightarrow> 'q pod \<Rightarrow> bool" where
  "same_core pd pd' =
     (pod_Meta pd' = pod_Meta pd \<and> pod_RestartPolicyNever pd' = pod_RestartPolicyNever pd \<and>
      map (\<lambda>c. (kc_Name c, kc_Image c, kc_Command c, kc_Args c, kc_Env c)) (pod_Containers pd') =
        map (\<lambda>c. (kc_Name c, kc_Image c, kc_Command c, kc_Args c, kc_Env c)) (pod_Containers pd) \<and>
      projected_items (pod_Volumes pd') = projected_items (pod_Volumes pd))"

lemma same_core_refl [simp]: "same_core pd pd"
  and same_core_trans: "same_core p1 p2 \<Longrightarrow> same_core p2 p3 \<Longrightarrow> same_core p1 p3"
  by (simp_all add: same_core_def)

lemma with_volumes_core: "projected_items vs = [] \<Longrightarrow> same_core pd (with_volumes pd initC vs ms)"
  by (auto simp: same_core_def with_volumes_def projected_items_append split: list.splits)

lemma addVolumes_core: "addVolumes E tainr pd bk k = (Inr pd', bk', k') \<Longrightarrow> same_core pd pd'"
  by (auto simp: addVolumes_def projected_items_append projected_items_folders
      intro!: with_volumes_core split: prod.splits sum.splits if_splits)

lemma addPreArchives_core: "addPreArchives E tainr pd bk k = (Inr pd', bk', k') \<Longrightarrow> same_core pd pd'"
  by (auto simp: addPreArchives_def Let_def intro!: with_volumes_core split: prod.splits sum.splits if_splits)

lemma add_all_volumes_core: "add_all_volumes E tainr pd bk k = (Inr pd', bk', k') \<Longrightarrow> same_core pd pd'"
  by (auto simp: add_all_volumes_def intro: addVolumes_core addPreArchives_core same_core_trans
      split: prod.splits sum.splits if_splits)

text \<open>
  (C19) The pod that is sent to Kubernetes is confined: it has one container, \<open>main\<close>, with the
  image, command and arguments of the request; every Secret its environment refers to and every
  Secret projected into it is on the allowlist, unless the pod template itself projects it; it
  is labelled as managed, with the container's and with the instance's ID, has the container's name
  in the configured namespace and is not restarted.
\<close>

theorem deployed_pod_confined:
  assumes "build_pod E tainr bk = (Inr pd0, bk1)" "add_all_volumes E tainr pd0 bk1 k = (Inr pd, bk2, k')"
  shows "(\<exists>c. pod_Containers pd = [c] \<and> kc_Name c = ''main'' \<and> kc_Image c = co_Image tainr \<and>
            kc_Command c = co_Entrypoint tainr \<and> kc_Args c = co_Cmd tainr \<and>
            (\<forall>e \<in> set (kc_Env c). \<forall>s key. ev_SecretKeyRef e = Some (s, key) \<longrightarrow> s \<in> set (allowed (backend_policy bk)))) \<and>
         (\<forall>(s, it) \<in> set (projected_items (pod_Volumes pd)).
            s \<in> set (allowed (backend_policy bk)) \<or> (s, it) \<in> set (projected_items (pod_Volumes (bk_podTemplate bk)))) \<and>
         map_get (om_Labels (pod_Meta pd)) ''testtender.io/container-id'' = Some (co_ShortID tainr) \<and>
         map_get (om_Labels (pod_Meta pd)) ''testtender.io/managed'' = Some ''true'' \<and>
         map_get (om_Labels (pod_Meta pd)) ''testtender.io/instance-id'' = Some (bk_InstanceID bk) \<and>
         om_Name (pod_Meta pd) = GetPodName tainr \<and> om_Namespace (pod_Meta pd) = bk_namespace bk \<and> pod_RestartPolicyNever pd"
proof -
  obtain env vols mnts c0 where me: "main_env E bk tainr = Inr (env, vols, mnts)"
    and c0: "pod_Containers pd0 = [c0]" "kc_Name c0 = ''main''" "kc_Image c0 = co_Image tainr"
      "kc_Command c0 = co_Entrypoint tainr" "kc_Args c0 = co_Cmd tainr" "kc_Env c0 = env"
    and v0: "pod_Volumes pd0 = pod_Volumes (bk_podTemplate bk) @ vols"
    using build_pod_Inr(1)[OF assms(1)] by blast
  have core: "same_core pd0 pd" by (rule add_all_volumes_core[OF assms(2)])
  then obtain c where c: "pod_Containers pd = [c]" "kc_Name c = ''main''" "kc_Image c = co_Image tainr"
      "kc_Command c = co_Entrypoint tainr" "kc_Args c = co_Cmd tainr" "kc_Env c = env"
    using c0 by (auto simp: same_core_def)
  obtain se where se: "EnvVars (de_validators E) (backend_policy bk) (co_Labels tainr) (GetEnvVar tainr) = Inr se"
    "env = GetEnvVar tainr @ se" using main_env_Inr(1)[OF me] by blast
  have env_ok: "s \<in> set (allowed (backend_policy bk))" if "e \<in> set env" "ev_SecretKeyRef e = Some (s, key)" for e s key
    using that EnvVars_allowed[OF se(1)] env_vars_plain se(2) unfolding GetEnvVar_def by fastforce
  have "s \<in> set (allowed (backend_policy bk)) \<or> (s, it) \<in> set (projected_items (pod_Volumes (bk_podTemplate bk)))"
    if "(s, it) \<in> set (projected_items (pod_Volumes pd))" for s it
    using that core v0 Files_allowed[OF main_env_Inr(2)[OF me]] by (auto simp: same_core_def projected_items_append)
  moreover have "pod_Meta pd = pod_Meta pd0" "pod_RestartPolicyNever pd = pod_RestartPolicyNever pd0"
    using core by (auto simp: same_core_def)
  ultimately show ?thesis
    using c env_ok build_pod_Inr(2)[OF assms(1)] getLabels_fixed[of bk _ tainr] by auto
qed

theorem deployed_pod_confined_witness:
  "\<exists>pd bk1 c. build_pod sample_deploy secret_container sample_backend = (Inr pd, bk1) \<and> pod_Containers pd = [c] \<and>
     (\<exists>e \<in> set (kc_Env c). ev_SecretKeyRef e = Some (''db'', ''password'')) \<and>
     (\<forall>e \<in> set (kc_Env c). \<forall>s key. ev_SecretKeyRef e = Some (s, key) \<longrightarrow> s = ''db'')"
proof -
  have pp: "GetImagePullPolicy secret_container = (PullIfNotPresent, None)" by code_simp
  have ns: "GetNodeSelector secret_container [] = ([], None)" by code_simp
  have ad: "GetActiveDeadlineSeconds secret_container = Inr None" by code_simp
  have sc: "GetPodSecurityContext secret_container None = (None, None)" by code_simp
  have re: "fst (snd (container_resources sample_deploy secret_container sample_backend)) = None" by code_simp
  obtain env vols mnts where me: "main_env sample_deploy sample_backend secret_container = Inr (env, vols, mnts)"
    and env: "env = [\<lparr>ev_Name = ''A'', ev_Value = ''1'', ev_SecretKeyRef = None\<rparr>,
      \<lparr>ev_Name = ''PW'', ev_Value = [], ev_SecretKeyRef = Some (''db'', ''password'')\<rparr>]"
  proof -
    have "EnvVars accept_all sample_policy (co_Labels secret_container) (GetEnvVar secret_container) =
       Inr [\<lparr>ev_Name = ''PW'', ev_Value = [], ev_SecretKeyRef = Some (''db'', ''password'')\<rparr>]" by code_simp
    moreover have "\<exists>r. Files accept_all sample_policy (co_Labels secret_container) = Inr r"
    proof -
      have "\<not> isl (Files accept_all sample_policy (co_Labels secret_container))" by code_simp
      then show ?thesis by (cases "Files accept_all sample_policy (co_Labels secret_container)") auto
    qed
    moreover have "GetEnvVar secret_container = [\<lparr>ev_Name = ''A'', ev_Value = ''1'', ev_SecretKeyRef = None\<rparr>]" by code_simp
    ultimately show ?thesis using that
      by (force simp: main_env_def backend_policy_def sample_backend_def sample_deploy_def blank_pod_def)
  qed
  obtain pd bk1 where b: "build_pod sample_deploy secret_container sample_backend = (Inr pd, bk1)"
    using pp me re ns ad sc by (cases "container_resources sample_deploy secret_container sample_backend")
      (auto simp: build_pod_def Let_def sample_backend_def blank_pod_def)
  have a: "add_all_volumes sample_deploy secret_container pd bk1 0 = (Inr pd, bk1, 0)"
    by (simp add: add_all_volumes_def HasVolumes_def HasPreArchives_def secret_container_def sample_container_def)
  obtain c where c: "pod_Containers pd = [c]" "kc_Env c = env" using build_pod_Inr(1)[OF b] me by auto
  have al: "set (allowed (backend_policy sample_backend)) = {''db''}"
    by (simp add: backend_policy_def sample_backend_def sample_policy_def)
  have "\<forall>e \<in> set (kc_Env c). \<forall>s key. ev_SecretKeyRef e = Some (s, key) \<longrightarrow> s = ''db''"
    using deployed_pod_confined[OF b a] c(1) unfolding al by simp
  moreover have "\<exists>e \<in> set (kc_Env c). ev_SecretKeyRef e = Some (''db'', ''password'')" using c(2) env by simp
  ultimately show ?thesis using b c(1) by blast
qed

text \<open>
  Starting fails closed: when the Secret policy rejects the container's labels, starting it
  reports the failure, changes neither the container nor the configuration, and creates nothing
  in the cluster; the only request it makes deletes the container's own pod.
\<close>

theorem StartContainer_fails_closed:
  assumes "secret_Validate (de_validators E) (backend_policy bk) (co_Labels tainr) (GetEnvVar tainr) = Inl e"
  shows "\<exists>e'. StartContainer E tainr bk k =
     (DeployFailed, Some e', tainr, bk, if is_panic (Some e') then k else de_DeletePod E (bk_namespace bk) (GetPodName tainr) k)"
  using main_env_Inl[OF assms] by (auto simp: StartContainer_def startContainer_def build_pod_def split: prod.splits option.splits)

theorem StartContainer_fails_closed_witness:
  "\<exists>e. StartContainer sample_deploy (sample_container\<lparr>co_Labels := [(EnvLabelPrefix @ ''PW'', ''root:key'')]\<rparr>) sample_backend 7 =
     (DeployFailed, Some e, sample_container\<lparr>co_Labels := [(EnvLabelPrefix @ ''PW'', ''root:key'')]\<rparr>, sample_backend, 7)"
proof -
  let ?t = "sample_container\<lparr>co_Labels := [(EnvLabelPrefix @ ''PW'', ''root:key'')]\<rparr>"
  have "secret_Validate accept_all sample_policy (co_Labels ?t) (GetEnvVar ?t) = Inl (SecretDenied ''root'')" by code_simp
  then have "secret_Validate (de_validators sample_deploy) (backend_policy sample_backend) (co_Labels ?t) (GetEnvVar ?t) =
      Inl (SecretDenied ''root'')" by (simp add: sample_deploy_def backend_policy_def sample_backend_def)
  from StartContainer_fails_closed[OF this, of 7] show ?thesis by (auto simp: sample_deploy_def)
qed

end
