(* ===== verification/BackendOps.thy ===== *)
theory BackendOps
  imports Deploy
begin

text \<open>
  The interface \<open>Backend\<close> of \<open>internal/backend/main.go\<close> as the request handlers use it: a
  record of operations over a state \<open>'w\<close>, with what the handlers rely on as the locale
  \<open>container_backend\<close>, and the implementation \<open>instance\<close>, made of the definitions of
  \<open>Deploy\<close> and \<open>Delete\<close>, as its interpretation. The port forwards and reverse proxies of
  \<open>deploy.go\<close> are modelled by the stop channels they register with the container; the traffic
  they carry is not.
\<close>

section \<open>The interface\<close>

record 'w backend_ops =
  bo_StartContainer :: "container \<Rightarrow> 'w \<Rightarrow> deploy_state \<times> error option \<times> container \<times> 'w"
  bo_GetContainerStatus :: "container \<Rightarrow> 'w \<Rightarrow> deploy_state \<times> error option \<times> container"
  bo_CreatePortForwards :: "container \<Rightarrow> 'w \<Rightarrow> container \<times> 'w"
  bo_CreateReverseProxies :: "container \<Rightarrow> 'w \<Rightarrow> container \<times> 'w"
  bo_GetPodIP :: "container \<Rightarrow> 'w \<Rightarrow> string result"
  bo_DeleteContainer :: "container \<Rightarrow> 'w \<Rightarrow> error option \<times> 'w"
  bo_WatchDeleteContainer :: "container \<Rightarrow> 'w \<Rightarrow> error option"  \<comment> \<open>the channel is nil when there is an error\<close>
  bo_AwaitDeleted :: "container \<Rightarrow> 'w \<Rightarrow> 'w"                    \<comment> \<open>receiving from the channel\<close>
  bo_GetImageExposedPorts :: "string \<Rightarrow> 'w \<Rightarrow> string list result"

section \<open>Port forwards and reverse proxies\<close>

text \<open>One stop channel for every port that is not negative; \<open>n\<close> is the next channel number.\<close>

fun add_stop_channels :: "(int \<times> int) list \<Rightarrow> container \<Rightarrow> nat \<Rightarrow> container \<times> nat" where
  "add_stop_channels [] tainr n = (tainr, n)"
| "add_stop_channels ((src, dst) # ports) tainr n =
     (if src < 0 then add_stop_channels ports tainr n
      else add_stop_channels ports (AddStopChannel tainr n) (Suc n))"

definition portForward ::
  "('k, 'q) deploy_env \<Rightarrow> 'q backend \<Rightarrow> container \<Rightarrow> (int, int) gomap \<Rightarrow> nat \<Rightarrow> 'k \<Rightarrow> error option \<times> container \<times> nat" where
  "portForward E bk tainr ports n k = (case de_GetPod E (bk_namespace bk) (GetPodName tainr) k of
     Inl e \<Rightarrow> (Some e, tainr, n)
   | Inr pd \<Rightarrow> (None, add_stop_channels ports tainr n))"

definition CreatePortForwards ::
  "('k, 'q) deploy_env \<Rightarrow> 'q backend \<Rightarrow> container \<Rightarrow> nat \<Rightarrow> 'k \<Rightarrow> container \<times> nat" where
  "CreatePortForwards E bk tainr n k =
     (case portForward E bk tainr (co_HostPorts tainr) n k of
        (_, t1, n1) \<Rightarrow> snd (portForward E bk t1 (co_MappedPorts t1) n1 k))"

definition CreateReverseProxies :: "container \<Rightarrow> nat \<Rightarrow> container \<times> nat" where
  "CreateReverseProxies tainr n =
     (case add_stop_channels (co_HostPorts tainr) tainr n of
        (t1, n1) \<Rightarrow> add_stop_channels (co_MappedPorts t1) t1 n1)"

definition WatchDeleteContainer :: "('k, 'q) deploy_env \<Rightarrow> 'q backend \<Rightarrow> container \<Rightarrow> 'k \<Rightarrow> error option" where
  "WatchDeleteContainer E bk tainr k =
     de_Watch E (bk_namespace bk) (''testtender.io/container-id='' @ co_ShortID tainr) k"

text \<open>
  The goroutine of \<open>WatchDeleteContainer\<close>, up to the closing of its channel: it selects between the
  watch and the timer. A closed watch gives zero events, and the type is all that is looked at.
\<close>

fun watch_loop :: "(watch_turn \<times> 'k) list \<Rightarrow> 'k \<Rightarrow> 'k" where
  "watch_loop [] fired = fired"
| "watch_loop ((t, k) # turns) fired = (if t = WatchEvent ''DELETED'' then k else watch_loop turns fired)"

definition await_deleted :: "('k, 'q) deploy_env \<Rightarrow> 'q backend \<Rightarrow> container \<Rightarrow> 'k \<Rightarrow> 'k" where
  "await_deleted E bk tainr k =
     (case de_WatchTurns E (bk_namespace bk) (''testtender.io/container-id='' @ co_ShortID tainr) (bk_timeOut bk) k of
        (turns, fired) \<Rightarrow> watch_loop turns fired)"

lemma watch_loop_deleted:
  "WatchEvent ''DELETED'' \<notin> fst ` set turns \<Longrightarrow> watch_loop (turns @ (WatchEvent ''DELETED'', k) # rest) fired = k"
  by (induction turns) auto

lemma watch_loop_timer: "WatchEvent ''DELETED'' \<notin> fst ` set turns \<Longrightarrow> watch_loop turns fired = fired"
  by (induction turns) auto

text \<open>
  A watch that the API server has closed is not noticed: the goroutine turns without pause until the
  timer fires, whatever happens to the pod meanwhile, and its reader cannot tell that from a deletion.
\<close>

lemma closed_watch_unnoticed:
  assumes "de_WatchTurns E (bk_namespace bk) (''testtender.io/container-id='' @ co_ShortID tainr) (bk_timeOut bk) k =
      (map (\<lambda>k'. (WatchClosed, k')) ks, fired)"
  shows "await_deleted E bk tainr k = fired"
  unfolding await_deleted_def assms prod.case by (rule watch_loop_timer) auto

section \<open>The implementation\<close>

record ('k, 'q) instance_state =
  is_cluster :: 'k
  is_backend :: "'q backend"
  is_channels :: nat

definition instance_ops ::
  "('k, 'q) deploy_env \<Rightarrow> 'k kube_client \<Rightarrow> (string \<Rightarrow> string list result) \<Rightarrow> ('k, 'q) instance_state backend_ops" where
  "instance_ops E C image_ports = \<lparr>
     bo_StartContainer = (\<lambda>t w. case StartContainer E t (is_backend w) (is_cluster w) of
        (state, err, t', bk, k) \<Rightarrow> (state, err, t', w\<lparr>is_cluster := k, is_backend := bk\<rparr>)),
     bo_GetContainerStatus = (\<lambda>t w. GetContainerStatus E (is_backend w) t (is_cluster w)),
     bo_CreatePortForwards = (\<lambda>t w. case CreatePortForwards E (is_backend w) t (is_channels w) (is_cluster w) of
        (t', n) \<Rightarrow> (t', w\<lparr>is_channels := n\<rparr>)),
     bo_CreateReverseProxies = (\<lambda>t w. case CreateReverseProxies t (is_channels w) of
        (t', n) \<Rightarrow> (t', w\<lparr>is_channels := n\<rparr>)),
     bo_GetPodIP = (\<lambda>t w. GetPodIP E (is_backend w) t (is_cluster w)),
     bo_DeleteContainer = (\<lambda>t w. case kub_DeleteContainer C (bk_namespace (is_backend w)) t (is_cluster w) of
        (e, k) \<Rightarrow> (e, w\<lparr>is_cluster := k\<rparr>)),
     bo_WatchDeleteContainer = (\<lambda>t w. WatchDeleteContainer E (is_backend w) t (is_cluster w)),
     bo_AwaitDeleted = (\<lambda>t w. w\<lparr>is_cluster := await_deleted E (is_backend w) t (is_cluster w)\<rparr>),
     bo_GetImageExposedPorts = (\<lambda>name w. image_ports name)\<rparr>"

section \<open>The contract\<close>

text \<open>
  What a backend leaves of a container: everything but the recorded termination, the mapped
  ports and the stop channels.
\<close>

definition spec_of :: "container \<Rightarrow> container" where
  "spec_of c = c\<lparr>co_ExitCode := 0, co_OOMKilled := False, co_StateError := [], co_Started := 0, co_Finished := 0,
     co_MappedPorts := [], co_StopChannels := []\<rparr>"

locale container_backend =
  fixes B :: "'w backend_ops"
  assumes start_spec: "bo_StartContainer B t w = (state, err, t', w') \<Longrightarrow> spec_of t' = spec_of t"
    and start_settled: "bo_StartContainer B t w = (state, None, t', w') \<Longrightarrow> state = DeployRunning \<or> state = DeployCompleted"
    and status_spec: "bo_GetContainerStatus B t w = (state, err, t') \<Longrightarrow> spec_of t' = spec_of t"
    and forwards_spec: "bo_CreatePortForwards B t w = (t', w') \<Longrightarrow> spec_of t' = spec_of t"
    and proxies_spec: "bo_CreateReverseProxies B t w = (t', w') \<Longrightarrow> spec_of t' = spec_of t"

lemma spec_of_idem [simp]: "spec_of (spec_of c) = spec_of c"
  by (simp add: spec_of_def)

lemma spec_of_fields [simp]:
  "spec_of (c\<lparr>co_ExitCode := a\<rparr>) = spec_of c" "spec_of (c\<lparr>co_OOMKilled := b\<rparr>) = spec_of c"
  "spec_of (c\<lparr>co_StateError := s\<rparr>) = spec_of c" "spec_of (c\<lparr>co_Started := i\<rparr>) = spec_of c"
  "spec_of (c\<lparr>co_Finished := i\<rparr>) = spec_of c" "spec_of (c\<lparr>co_MappedPorts := m\<rparr>) = spec_of c"
  "spec_of (c\<lparr>co_StopChannels := n\<rparr>) = spec_of c"
  by (simp_all add: spec_of_def)

lemma updateTerminated_spec: "spec_of (updateTerminatedContainerState t term) = spec_of t"
  by (simp add: updateTerminatedContainerState_def Let_def)

lemma status_loop_spec: "status_loop t ss = Some (state, err, t') \<Longrightarrow> spec_of t' = spec_of t"
  by (induction ss) (auto simp: updateTerminated_spec split: if_splits option.splits)

lemma status_loop_settled:
  "status_loop t ss = Some (state, None, t') \<Longrightarrow> state = DeployRunning \<or> state = DeployCompleted"
  by (induction ss) (auto split: if_splits option.splits)

lemma GetContainerStatus_spec: "GetContainerStatus E bk t k = (state, err, t') \<Longrightarrow> spec_of t' = spec_of t"
  by (auto simp: GetContainerStatus_def pod_state_def dest: status_loop_spec split: sum.splits option.splits if_splits)

lemma GetContainerStatus_settled:
  "GetContainerStatus E bk t k = (state, None, t') \<Longrightarrow> state \<noteq> DeployPending \<Longrightarrow> state = DeployRunning \<or> state = DeployCompleted"
  by (auto simp: GetContainerStatus_def pod_state_def dest: status_loop_settled split: sum.splits option.splits if_splits)

lemma waitReadyState_spec: "waitReadyState E bk t n k = (state, err, t', k') \<Longrightarrow> spec_of t' = spec_of t"
proof (induction n arbitrary: t k)
  case (Suc n)
  obtain s e t1 where g: "GetContainerStatus E bk t k = (s, e, t1)" by (metis prod_cases3)
  then have t1: "spec_of t1 = spec_of t" by (rule GetContainerStatus_spec)
  show ?case
  proof (cases "s \<noteq> DeployPending \<or> e \<noteq> None")
    case False
    then have "waitReadyState E bk t1 n (de_Sleep E k) = (state, err, t', k')" using Suc.prems g by simp
    from Suc.IH[OF this] t1 show ?thesis by simp
  qed (use Suc.prems g t1 in simp)
qed simp

lemma waitReadyState_settled:
  "waitReadyState E bk t n k = (state, None, t', k') \<Longrightarrow> state = DeployRunning \<or> state = DeployCompleted"
proof (induction n arbitrary: t k)
  case (Suc n)
  obtain s e t1 where g: "GetContainerStatus E bk t k = (s, e, t1)" by (metis prod_cases3)
  then show ?case using Suc GetContainerStatus_settled[of E bk t k s t1] by (auto split: if_splits)
qed simp

lemma map_ports_loop_spec: "map_ports_loop listen ps n t = (t', e, n') \<Longrightarrow> spec_of t' = spec_of t"
  by (induction listen ps n t arbitrary: t' e n' rule: map_ports_loop.induct)
    (auto simp: MapPort_def split: if_splits sum.splits)

lemma MapContainerTCPPorts_spec: "MapContainerTCPPorts listen t = (t', e, n) \<Longrightarrow> spec_of t' = spec_of t"
  by (auto simp: MapContainerTCPPorts_def dest: map_ports_loop_spec)

lemma follow_pod_spec:
  "follow_pod E bk t d k = (state, err, t', k') \<Longrightarrow> spec_of t' = spec_of t"
  by (auto simp: follow_pod_def split: prod.splits option.splits if_splits
      dest!: waitReadyState_spec MapContainerTCPPorts_spec)

lemma follow_pod_settled:
  "follow_pod E bk t d k = (state, None, t', k') \<Longrightarrow> state = DeployRunning \<or> state = DeployCompleted"
  by (auto simp: follow_pod_def split: prod.splits option.splits if_splits dest: waitReadyState_settled)

lemma startContainer_spec:
  assumes "startContainer E t bk k = (state, err, t', bk', k')"
  shows "spec_of t' = spec_of t" and "err = None \<Longrightarrow> state = DeployRunning \<or> state = DeployCompleted"
  using assms by (auto simp: startContainer_def split: prod.splits sum.splits option.splits if_splits
      dest: follow_pod_spec follow_pod_settled)

lemma add_stop_channels_spec: "spec_of (fst (add_stop_channels ps t n)) = spec_of t"
  by (induction ps t n rule: add_stop_channels.induct) (auto simp: AddStopChannel_def)

lemma portForward_spec: "spec_of (fst (snd (portForward E bk t ps n k))) = spec_of t"
  by (auto simp: portForward_def add_stop_channels_spec split: sum.splits)

interpretation inst: container_backend "instance_ops E C image_ports" for E C image_ports
proof unfold_locales
  fix t w state err t' w'
  assume "bo_StartContainer (instance_ops E C image_ports) t w = (state, err, t', w')"
  then show "spec_of t' = spec_of t"
    by (auto simp: instance_ops_def StartContainer_def dest: startContainer_spec(1) split: prod.splits)
next
  fix t w state t' w'
  assume "bo_StartContainer (instance_ops E C image_ports) t w = (state, None, t', w')"
  then show "state = DeployRunning \<or> state = DeployCompleted"
    by (auto simp: instance_ops_def StartContainer_def dest: startContainer_spec(2) split: prod.splits)
next
  fix t w state err t'
  assume "bo_GetContainerStatus (instance_ops E C image_ports) t w = (state, err, t')"
  then show "spec_of t' = spec_of t" by (auto simp: instance_ops_def dest: GetContainerStatus_spec)
next
  fix t w t' w'
  assume "bo_CreatePortForwards (instance_ops E C image_ports) t w = (t', w')"
  then show "spec_of t' = spec_of t"
    by (auto simp: instance_ops_def CreatePortForwards_def split: prod.splits) (metis portForward_spec fst_conv snd_conv)
next
  fix t w t' w'
  assume "bo_CreateReverseProxies (instance_ops E C image_ports) t w = (t', w')"
  then show "spec_of t' = spec_of t"
    by (auto simp: instance_ops_def CreateReverseProxies_def split: prod.splits) (metis add_stop_channels_spec fst_conv)
qed

end
