(* ===== verification/Filters.thy ===== *)
theory Filters
  imports Network
begin

text \<open>
  \<open>internal/server/filter/filter.go\<close>: the \<open>filters\<close> argument of the list and prune
  requests. The argument is a JSON value (the text has been read by the JSON parser;
  a syntax error is \<open>Inl\<close>), decoded here the way \<open>json.Unmarshal\<close> decodes it into the two Go
  types the code tries: a map of maps of booleans, and the older map of string lists.
\<close>

section \<open>JSON values\<close>

datatype json =
    JNull
  | JBool bool
  | JNum int
  | JStr string
  | JArr "json list"
  | JObj "(string \<times> json) list"

type_synonym request = "(string, (string, bool) gomap) gomap"

fun decode_bools :: "(string \<times> json) list \<Rightarrow> (string, bool) gomap \<Rightarrow> (string, bool) gomap result" where
  "decode_bools [] acc = Inr acc"
| "decode_bools ((k, v) # kvs) acc = (case v of
     JBool b \<Rightarrow> decode_bools kvs (map_set k b acc)
   | JNull \<Rightarrow> decode_bools kvs (map_set k False acc)
   | _ \<Rightarrow> Inl (ExtError ''json.UnmarshalTypeError''))"

fun decode_request :: "(string \<times> json) list \<Rightarrow> request \<Rightarrow> request result" where
  "decode_request [] acc = Inr acc"
| "decode_request ((k, v) # kvs) acc = (case v of
     JObj obj \<Rightarrow> bind_res (decode_bools obj []) (\<lambda>m. decode_request kvs (map_set k m acc))
   | JNull \<Rightarrow> decode_request kvs (map_set k [] acc)
   | _ \<Rightarrow> Inl (ExtError ''json.UnmarshalTypeError''))"

fun decode_strings :: "json list \<Rightarrow> string list result" where
  "decode_strings [] = Inr []"
| "decode_strings (v # vs) = (case v of
     JStr s \<Rightarrow> bind_res (decode_strings vs) (\<lambda>ss. Inr (s # ss))
   | JNull \<Rightarrow> bind_res (decode_strings vs) (\<lambda>ss. Inr ([] # ss))
   | _ \<Rightarrow> Inl (ExtError ''json.UnmarshalTypeError''))"

fun decode_legacy ::
  "(string \<times> json) list \<Rightarrow> (string, string list) gomap \<Rightarrow> (string, string list) gomap result" where
  "decode_legacy [] acc = Inr acc"
| "decode_legacy ((k, v) # kvs) acc = (case v of
     JArr xs \<Rightarrow> bind_res (decode_strings xs) (\<lambda>ss. decode_legacy kvs (map_set k ss acc))
   | JNull \<Rightarrow> decode_legacy kvs (map_set k [] acc)
   | _ \<Rightarrow> Inl (ExtError ''json.UnmarshalTypeError''))"

section \<open>Filters\<close>

record keyval =
  K :: string
  V :: string
  P :: bool

type_synonym filters = "(string, keyval list) gomap"

fun legacy_entry :: "string list \<Rightarrow> (string, bool) gomap \<Rightarrow> (string, bool) gomap" where
  "legacy_entry [] acc = acc"
| "legacy_entry (f # fs) acc = legacy_entry fs (map_set f True acc)"

fun legacy_request :: "(string, string list) gomap \<Rightarrow> request \<Rightarrow> request" where
  "legacy_request [] rq = rq"
| "legacy_request ((t, fs) # rest) rq = legacy_request rest (map_set t (legacy_entry fs []) rq)"

definition unmarshal :: "json result \<Rightarrow> request result" where
  "unmarshal dat = (case dat of
     Inl e \<Rightarrow> Inl e
   | Inr JNull \<Rightarrow> Inr []
   | Inr (JObj obj) \<Rightarrow>
       (case decode_request obj [] of
          Inr rq \<Rightarrow> Inr rq
        | Inl _ \<Rightarrow> bind_res (decode_legacy obj []) (\<lambda>rql. Inr (legacy_request rql [])))
   | Inr _ \<Rightarrow> Inl (ExtError ''json.UnmarshalTypeError''))"

definition to_keyval :: "string \<times> bool \<Rightarrow> keyval" where
  "to_keyval fp = (let flds = Split (fst fp) (CHR ''='')
     in if length flds \<noteq> 2 then \<lparr>K = flds ! 0, V = [], P = snd fp\<rparr>
        else \<lparr>K = flds ! 0, V = flds ! 1, P = snd fp\<rparr>)"

fun filters_loop :: "request \<Rightarrow> filters \<Rightarrow> filters" where
  "filters_loop [] acc = acc"
| "filters_loop ((t, fs) # rest) acc =
     filters_loop rest (map_set t ((case map_get acc t of None \<Rightarrow> [] | Some l \<Rightarrow> l) @ map to_keyval fs) acc)"

text \<open>The argument is absent (\<^const>\<open>None\<close>) or a JSON text; the empty filter comes with an error.\<close>

definition filter_New :: "json result option \<Rightarrow> filters \<times> error option" where
  "filter_New f = (case f of
     None \<Rightarrow> ([], None)
   | Some dat \<Rightarrow> (case unmarshal dat of
        Inl e \<Rightarrow> ([], Some e)
      | Inr rq \<Rightarrow> (filters_loop rq [], None)))"

fun match_entries :: "(string \<Rightarrow> string \<Rightarrow> string \<Rightarrow> bool result) \<Rightarrow> string \<Rightarrow> keyval list \<Rightarrow> bool" where
  "match_entries matcher t [] = True"
| "match_entries matcher t (f # fs) = (case matcher t (K f) (V f) of
     Inl e \<Rightarrow> match_entries matcher t fs
   | Inr isMatch \<Rightarrow> if isMatch \<noteq> P f then False else match_entries matcher t fs)"

fun filter_Match :: "filters \<Rightarrow> (string \<Rightarrow> string \<Rightarrow> string \<Rightarrow> bool result) \<Rightarrow> bool" where
  "filter_Match [] matcher = True"
| "filter_Match ((t, fs) # rest) matcher =
     (if match_entries matcher t fs then filter_Match rest matcher else False)"

text \<open>One entry, for the statements: the object gives no answer, or the wanted one.\<close>

definition entry_ok :: "(string \<Rightarrow> string \<Rightarrow> string \<Rightarrow> bool result) \<Rightarrow> string \<Rightarrow> keyval \<Rightarrow> bool" where
  "entry_ok matcher t f = (case matcher t (K f) (V f) of Inl e \<Rightarrow> True | Inr b \<Rightarrow> b = P f)"

section \<open>The meaning of a filter\<close>

lemma match_entries_iff: "match_entries matcher t fs \<longleftrightarrow> list_all (entry_ok matcher t) fs"
  by (induction fs) (auto simp: entry_ok_def split: sum.splits)

lemma filter_Match_iff:
  "filter_Match fl matcher \<longleftrightarrow> list_all (\<lambda>tf. list_all (entry_ok matcher (fst tf)) (snd tf)) fl"
  by (induction fl) (auto simp: match_entries_iff split: if_splits)

lemma filters_loop_fresh:
  "distinct (map fst rq) \<Longrightarrow> fst ` set rq \<inter> fst ` set acc = {} \<Longrightarrow>
   filters_loop rq acc = acc @ map (\<lambda>(t, fs). (t, map to_keyval fs)) rq"
proof (induction rq arbitrary: acc)
  case (Cons tf rq)
  obtain t fs where tf: "tf = (t, fs)" by force
  have none: "map_get acc t = None" using Cons.prems(2) tf by (auto simp: map_of_eq_None_iff)
  have "AList.update t (map to_keyval fs) acc = acc @ [(t, map to_keyval fs)]"
    using none by (induction acc) (auto split: if_splits)
  with Cons.IH[of "acc @ [(t, map to_keyval fs)]"] Cons.prems tf none show ?case by auto
qed simp

lemma go_map_decode_request: "go_map acc \<Longrightarrow> decode_request obj acc = Inr rq \<Longrightarrow> go_map rq"
  by (induction obj acc rule: decode_request.induct) (auto simp: bind_res_Inr split: json.splits)

lemma go_map_legacy_request: "go_map rq \<Longrightarrow> go_map (legacy_request rql rq)"
  by (induction rql rq rule: legacy_request.induct) auto

lemma go_map_unmarshal: "unmarshal dat = Inr rq \<Longrightarrow> go_map rq"
  by (auto simp: unmarshal_def bind_res_Inr go_map_legacy_request
      intro: go_map_decode_request[of "[]"] split: sum.splits json.splits)

text \<open>
  What a filter means: with a request that decodes, an object passes exactly when for every
  filter type and every entry the object's own answer (if it has one: an erroneous pattern is
  ignored) is the wanted one. The order in which the two maps are visited plays no part.
\<close>

theorem filter_meaning:
  assumes "unmarshal dat = Inr rq"
  shows "filter_Match (fst (filter_New (Some dat))) matcher \<longleftrightarrow>
    (\<forall>t fs f. (t, fs) \<in> set rq \<longrightarrow> f \<in> set fs \<longrightarrow> entry_ok matcher t (to_keyval f))"
proof -
  have "filters_loop rq [] = map (\<lambda>(t, fs). (t, map to_keyval fs)) rq"
    using filters_loop_fresh[of rq "[]"] go_map_unmarshal[OF assms] by (simp add: go_map_def)
  then show ?thesis
    using assms by (fastforce simp: filter_New_def filter_Match_iff list_all_iff)
qed

theorem filter_meaning_witness:
  "filter_Match (fst (filter_New (Some (Inr (JObj [(''label'', JArr [JStr ''a=1''])])))))
     (\<lambda>t k v. Inr (k = ''a'' \<and> v = ''1''))"
proof -
  have u: "unmarshal (Inr (JObj [(''label'', JArr [JStr ''a=1''])])) = Inr [(''label'', [(''a=1'', True)])]"
    by code_simp
  have k: "to_keyval (''a=1'', True) = \<lparr>K = ''a'', V = ''1'', P = True\<rparr>" by code_simp
  show ?thesis unfolding filter_meaning[OF u] by (simp add: k entry_ok_def)
qed

text \<open>
  Both request formats agree: the older map of lists filters like the map of maps in which
  every listed entry is wanted.
\<close>

theorem filter_legacy_equivalent:
  assumes "distinct (map fst rq)"
  shows "unmarshal (Inr (JObj (map (\<lambda>(t, xs). (t, JArr (map JStr xs))) rq))) =
    unmarshal (Inr (JObj (map (\<lambda>(t, xs). (t, JObj (map (\<lambda>f. (f, JBool True)) xs))) rq)))"
proof -
  have ds: "decode_strings (map JStr xs) = Inr xs" for xs by (induction xs) auto
  have db: "decode_bools (map (\<lambda>f. (f, JBool True)) xs) acc = Inr (legacy_entry xs acc)" for xs acc
    by (induction xs arbitrary: acc) auto
  have dl: "decode_legacy (map (\<lambda>(t, xs). (t, JArr (map JStr xs))) rql) acc =
      Inr (foldl (\<lambda>a (t, xs). map_set t xs a) acc rql)" for rql acc
    by (induction rql arbitrary: acc) (auto simp: ds)
  have fr: "foldl (\<lambda>a (t, xs). map_set t xs a) acc rql = acc @ rql"
    if "distinct (map fst rql)" "fst ` set rql \<inter> fst ` set acc = {}" for acc rql :: "(string \<times> string list) list"
    using that
  proof (induction rql arbitrary: acc)
    case (Cons x rql)
    obtain t xs where x: "x = (t, xs)" by force
    have "t \<notin> fst ` set acc" using Cons.prems x by auto
    then have "map_set t xs acc = acc @ [(t, xs)]" by (induction acc) auto
    then show ?case using Cons.IH[of "acc @ [(t, xs)]"] Cons.prems x by auto
  qed simp
  have dr: "decode_request (map (\<lambda>(t, xs). (t, JObj (map (\<lambda>f. (f, JBool True)) xs))) rql) acc =
      Inr (legacy_request rql acc)" for rql acc
    by (induction rql arbitrary: acc) (auto simp: db)
  show ?thesis
  proof (cases rq)
    case (Cons x rest)
    then have "decode_request (map (\<lambda>(t, xs). (t, JArr (map JStr xs))) rq) [] = Inl (ExtError ''json.UnmarshalTypeError'')"
      by (cases x) simp
    then show ?thesis using dl[of rq "[]"] fr[of rq "[]"] assms by (simp add: unmarshal_def dr)
  qed simp
qed

theorem filter_legacy_equivalent_witness:
  "unmarshal (Inr (JObj [(''label'', JArr [JStr ''a=1'', JStr ''b'']), (''name'', JArr [])])) =
   unmarshal (Inr (JObj [(''label'', JObj [(''a=1'', JBool True), (''b'', JBool True)]), (''name'', JObj [])]))"
  using filter_legacy_equivalent[of "[(''label'', [''a=1'', ''b'']), (''name'', [])]"] by simp

section \<open>The matcher interface\<close>

text \<open>What the list handlers rely on: an object answers for its own name and its labels.\<close>

locale matcher =
  fixes Match :: "'a \<Rightarrow> string \<Rightarrow> string \<Rightarrow> string \<Rightarrow> bool result"
    and obj_name :: "'a \<Rightarrow> string" and obj_labels :: "'a \<Rightarrow> (string, string) gomap"
  assumes own_name: "Match x ''name'' (obj_name x) v = Inr True"
    and other_type: "t \<noteq> ''name'' \<Longrightarrow> t \<noteq> ''label'' \<Longrightarrow> Match x t k v = Inr True"
    and label_value: "v \<noteq> [] \<Longrightarrow> Match x ''label'' k v = Inr (map_get (obj_labels x) k = Some v)"
begin

lemma label_filter_exact:
  assumes "v \<noteq> []" "CHR ''='' \<notin> set k" "CHR ''='' \<notin> set v"
  shows "filter_Match (fst (filter_New (Some (Inr (JObj [(''label'', JArr [JStr (k @ ''='' @ v)])]))))) (Match x)
    \<longleftrightarrow> map_get (obj_labels x) k = Some v"
proof -
  have u: "unmarshal (Inr (JObj [(''label'', JArr [JStr (k @ ''='' @ v)])])) = Inr [(''label'', [(k @ ''='' @ v, True)])]"
    by (simp add: unmarshal_def)
  have "Split (k @ ''='' @ v) (CHR ''='') = [k, v]" using assms by (simp add: Split_append_sep Split_single)
  then have kv: "to_keyval (k @ ''='' @ v, True) = \<lparr>K = k, V = v, P = True\<rparr>" by (simp add: to_keyval_def)
  show ?thesis using label_value[OF assms(1)] kv u by (simp add: filter_New_def)
qed

end

interpretation container_matcher: matcher "co_Match re" co_Name co_Labels
  by unfold_locales (auto simp: co_Match_def co_nameMatch_def split: option.splits)

interpretation network_matcher: matcher "nw_Match re" nw_Name nw_Labels
  by unfold_locales (auto simp: nw_Match_def nw_nameMatch_def split: option.splits)

text \<open>
  The label filter of the list requests selects, for containers and for networks, exactly
  the objects that carry the label with that value.
\<close>

theorem label_filter_selects:
  assumes "v \<noteq> []" "CHR ''='' \<notin> set k" "CHR ''='' \<notin> set v"
  defines "fl \<equiv> fst (filter_New (Some (Inr (JObj [(''label'', JArr [JStr (k @ ''='' @ v)])]))))"
  shows "(filter_Match fl (co_Match re co) \<longleftrightarrow> map_get (co_Labels co) k = Some v) \<and>
    (filter_Match fl (nw_Match re nw) \<longleftrightarrow> map_get (nw_Labels nw) k = Some v)"
  unfolding fl_def
  using container_matcher.label_filter_exact[OF assms(1-3)] network_matcher.label_filter_exact[OF assms(1-3)] by blast

theorem label_filter_selects_witness:
  "filter_Match (fst (filter_New (Some (Inr (JObj [(''label'', JArr [JStr ''app=db''])])))))
     (nw_Match (\<lambda>p t. Inr False) \<lparr>nw_ID = [], nw_ShortID = [], nw_Name = ''n'', nw_Driver = [], nw_Options = [],
        nw_Labels = [(''app'', ''db'')], nw_Created = 0\<rparr>)"
  using label_filter_selects[of "''db''" "''app''" "\<lambda>p t. Inr False" undefined
      "\<lparr>nw_ID = [], nw_ShortID = [], nw_Name = ''n'', nw_Driver = [], nw_Options = [],
        nw_Labels = [(''app'', ''db'')], nw_Created = 0\<rparr>"] by simp

end
