(* ===== verification/Routes.thy ===== *)
theory Routes
  imports BackendOps ImagePolicy Filters
begin

text \<open>
  \<open>internal/server/routes/common\<close>: the context the request handlers share, and the handlers
  both APIs have in common.

  A handler is a function of the router, of what the moment of the request brings (clock, fresh
  identifier, rate limiter, fresh channel), of its parameters and of the server state; it returns
  the outcome and the new state. The router's parts that are not of this repository (table
  library, image reference parser, name validators, time formatting) are parameters in it.
  Containers are pointers: a field that a handler sets is set in the database at once
  (\<open>put_container\<close>), saved or not.
\<close>

section \<open>Context\<close>

record rconfig =
  rc_ImageResolver :: resolver
  rc_Inspector :: bool
  rc_PortForward :: bool
  rc_ReverseProxy :: bool
  rc_RequestCPU :: string
  rc_RequestMemory :: string
  rc_RequestEphemeralStorage :: string
  rc_RunasUser :: string
  rc_PullPolicy :: string
  rc_PreArchive :: bool
  rc_ServiceAccount :: string
  rc_ActiveDeadlineSeconds :: int
  rc_NamePrefix :: string
  rc_NodeSelector :: string
  rc_IgnoreContainerMemory :: bool

record ('n, 'db, 'w) router =
  cr_Config :: rconfig
  cr_DB :: "'db memdb"
  cr_Backend :: "'w backend_ops"
  cr_SecretPolicy :: secret_policy
  cr_reference :: "'n reference_lib"
  cr_validators :: validators
  cr_regexp :: "string \<Rightarrow> string \<Rightarrow> bool result"
  cr_format :: "string \<Rightarrow> time \<Rightarrow> string"      \<comment> \<open>\<open>Time.Format\<close>, by layout\<close>
  cr_errtext :: "error \<Rightarrow> string"            \<comment> \<open>\<open>err.Error()\<close>\<close>

record moment =
  mo_now :: time
  mo_newid :: string
  mo_allow :: bool     \<comment> \<open>\<open>cr.Limiter.Allow()\<close>\<close>
  mo_chan :: nat

record ('db, 'w) server =
  sv_store :: "'db store"
  sv_backend :: 'w
  sv_events :: observers
  sv_signals :: "chan_op list"   \<comment> \<open>signals sent to the stop and attach channels so far\<close>

datatype body = NoBody | ErrorBody error | JsonBody json

text \<open>
  A handler answers, blocks for ever, or returns without having written an answer.
\<close>

datatype outcome = Reply nat body | Blocked | NoReply

text \<open>\<open>httputil.Error\<close>; a panic is answered by the recovery handler of the web framework.\<close>

definition httputil_Error :: "nat \<Rightarrow> error \<Rightarrow> outcome" where
  "httputil_Error status e = (if is_panic (Some e) then Reply 500 NoBody else Reply status (ErrorBody e))"

definition ResolveImage :: "('n, 'db, 'w) router \<Rightarrow> string \<Rightarrow> string result" where
  "ResolveImage cr requested = Resolve (cr_reference cr) (rc_ImageResolver (cr_Config cr)) requested"

definition ImageErrorStatus :: "error \<Rightarrow> nat" where
  "ImageErrorStatus e = (case err_root e of ImageDenied r \<Rightarrow> 403 | _ \<Rightarrow> 400)"

definition ContainerRequestErrorStatus :: "error \<Rightarrow> nat" where
  "ContainerRequestErrorStatus e = (case err_root e of SecretDenied s \<Rightarrow> 403 | _ \<Rightarrow> 400)"

text \<open>The function and the method \<open>ValidateContainerRequest\<close>.\<close>

definition validate_boundaries :: "container \<Rightarrow> unit result" where
  "validate_boundaries c = bind_res (HasDockerSockBinding c) (\<lambda>b.
     if b then Inl (Errorf ''mounting /var/run/docker.sock is unsupported: TestTender runs containers only as Kubernetes Pods'' [])
     else Inr ())"

definition ValidateContainerRequest :: "('n, 'db, 'w) router \<Rightarrow> container \<Rightarrow> unit result" where
  "ValidateContainerRequest cr c = bind_res (validate_boundaries c) (\<lambda>_.
     secret_Validate (cr_validators cr) (cr_SecretPolicy cr) (co_Labels c) (GetEnvVar c))"

section \<open>State\<close>

definition put_container :: "container \<Rightarrow> ('db, 'w) server \<Rightarrow> ('db, 'w) server" where
  "put_container c sv = sv\<lparr>sv_store := (sv_store sv)\<lparr>st_containers := map_set (co_ID c) c (st_containers (sv_store sv))\<rparr>\<rparr>"

definition save_container ::
  "('n, 'db, 'w) router \<Rightarrow> moment \<Rightarrow> container \<Rightarrow> ('db, 'w) server \<Rightarrow> container \<times> error option \<times> ('db, 'w) server" where
  "save_container cr mo c sv =
     (case SaveContainer (cr_DB cr) (mo_newid mo) (mo_now mo) c (sv_store sv) of
        (c', e, st) \<Rightarrow> (c', e, sv\<lparr>sv_store := st\<rparr>))"

text \<open>Publishing an event and going on, unless a subscriber that does not read blocks it.\<close>

definition publish_then ::
  "moment \<Rightarrow> string \<Rightarrow> string \<Rightarrow> string \<Rightarrow> (('db, 'w) server \<Rightarrow> outcome \<times> ('db, 'w) server) \<Rightarrow>
   ('db, 'w) server \<Rightarrow> outcome \<times> ('db, 'w) server" where
  "publish_then mo i kind action k sv =
     (case Publish (mo_now mo) i kind action (sv_events sv) of
        (obs, True) \<Rightarrow> k (sv\<lparr>sv_events := obs\<rparr>)
      | (obs, False) \<Rightarrow> (Blocked, sv\<lparr>sv_events := obs\<rparr>))"

definition signal_both :: "container \<Rightarrow> ('db, 'w) server \<Rightarrow> container \<times> ('db, 'w) server" where
  "signal_both c sv = (case SignalDetach c of (o1, c1) \<Rightarrow> (case SignalStop c1 of (o2, c2) \<Rightarrow>
     (c2, put_container c2 (sv\<lparr>sv_signals := sv_signals sv @ o1 @ o2\<rparr>))))"

definition backend_delete ::
  "('n, 'db, 'w) router \<Rightarrow> container \<Rightarrow> ('db, 'w) server \<Rightarrow> ('db, 'w) server" where
  "backend_delete cr c sv = sv\<lparr>sv_backend := snd (bo_DeleteContainer (cr_Backend cr) c (sv_backend sv))\<rparr>"

section \<open>Starting and status\<close>

definition settle :: "deploy_state \<Rightarrow> time \<Rightarrow> container \<Rightarrow> container" where
  "settle state now c =
     (let c1 = c\<lparr>co_Stopped := False, co_Killed := False, co_Failed := (state = DeployFailed),
                 co_Completed := (state = DeployCompleted), co_Running := (state = DeployRunning)\<rparr>;
          c2 = (if (co_Running c1 \<or> co_Completed c1) \<and> co_Started c1 = 0 then c1\<lparr>co_Started := now\<rparr> else c1)
      in if co_Completed c2 \<and> co_Finished c2 = 0 then c2\<lparr>co_Finished := now\<rparr> else c2)"

text \<open>The host address and the forwards; an error leaves the container as it is then.\<close>

definition expose_ports ::
  "('n, 'db, 'w) router \<Rightarrow> container \<Rightarrow> 'w \<Rightarrow> error option \<times> container \<times> 'w" where
  "expose_ports cr c0 w =
     (let c = c0\<lparr>co_HostIP := ''0.0.0.0''\<rparr>; B = cr_Backend cr
      in if rc_PortForward (cr_Config cr) then (None, bo_CreatePortForwards B c w)
         else if length (GetServicePorts c) > 0 then
           (case bo_GetPodIP B c w of
              Inl e \<Rightarrow> (Some e, c, w)
            | Inr ip \<Rightarrow>
                (let c1 = c\<lparr>co_HostIP := ip\<rparr>
                 in if rc_ReverseProxy (cr_Config cr) then (None, bo_CreateReverseProxies B c1 w) else (None, c1, w)))
         else (None, c, w))"

definition common_StartContainer ::
  "('n, 'db, 'w) router \<Rightarrow> moment \<Rightarrow> container \<Rightarrow> ('db, 'w) server \<Rightarrow> container \<times> error option \<times> ('db, 'w) server" where
  "common_StartContainer cr mo c sv =
     (case bo_StartContainer (cr_Backend cr) c (sv_backend sv) of
        (state, Some e, c1, w1) \<Rightarrow> (c1, Some e, put_container c1 (sv\<lparr>sv_backend := w1\<rparr>))
      | (state, None, c1, w1) \<Rightarrow>
          (case expose_ports cr c1 w1 of
             (Some e, c2, w2) \<Rightarrow> (c2, Some e, put_container c2 (sv\<lparr>sv_backend := w2\<rparr>))
           | (None, c2, w2) \<Rightarrow> save_container cr mo (settle state (mo_now mo) c2) (sv\<lparr>sv_backend := w2\<rparr>)))"

definition mark_status :: "deploy_state \<Rightarrow> error option \<Rightarrow> time \<Rightarrow> container \<Rightarrow> container" where
  "mark_status status err now c =
     (let c1 = (if err \<noteq> None then c\<lparr>co_Failed := True\<rparr> else c)
      in if status = DeployCompleted then
           (let c2 = (if co_Finished c1 = 0 then c1\<lparr>co_Finished := now\<rparr> else c1)
            in c2\<lparr>co_Completed := True, co_Running := False\<rparr>)
         else c1)"

definition UpdateContainerStatus ::
  "('n, 'db, 'w) router \<Rightarrow> moment \<Rightarrow> container \<Rightarrow> ('db, 'w) server \<Rightarrow> container \<times> ('db, 'w) server" where
  "UpdateContainerStatus cr mo c sv =
     (if co_Completed c then (c, sv)
      else if \<not> mo_allow mo then (c, sv)
      else case bo_GetContainerStatus (cr_Backend cr) c (sv_backend sv) of
             (status, err, c1) \<Rightarrow> (let c2 = mark_status status err (mo_now mo) c1 in (c2, put_container c2 sv)))"

definition ContainerStateResponse :: "('n, 'db, 'w) router \<Rightarrow> container \<Rightarrow> string \<Rightarrow> json" where
  "ContainerStateResponse cr c relatedError =
     JObj [(''Health'', JObj [(''Status'', JStr (StatusString c))]), (''Running'', JBool (co_Running c)),
           (''Status'', JStr (StateString c)), (''Paused'', JBool False), (''Restarting'', JBool False),
           (''OOMKilled'', JBool (co_OOMKilled c)), (''Dead'', JBool (co_Failed c)),
           (''StartedAt'', JStr (cr_format cr ''RFC3339Nano'' (co_Started c))),
           (''FinishedAt'', JStr (cr_format cr ''RFC3339Nano'' (co_Finished c))),
           (''ExitCode'', JNum (co_ExitCode c)),
           (''Error'', JStr (Join (filter (\<lambda>s. s \<noteq> []) [TrimSpace relatedError, TrimSpace (co_StateError c)]) ''; ''))]"

section \<open>Container handlers\<close>

definition ContainerStart ::
  "('n, 'db, 'w) router \<Rightarrow> moment \<Rightarrow> string \<Rightarrow> ('db, 'w) server \<Rightarrow> outcome \<times> ('db, 'w) server" where
  "ContainerStart cr mo i sv = (case GetContainer (cr_DB cr) (sv_store sv) i of
     Inl e \<Rightarrow> (httputil_Error 404 e, sv)
   | Inr c \<Rightarrow>
       (case (if \<not> co_Running c \<and> \<not> co_Completed c then common_StartContainer cr mo c sv else (c, None, sv)) of
          (c1, Some e, sv1) \<Rightarrow> (httputil_Error 500 e, sv1)
        | (c1, None, sv1) \<Rightarrow> publish_then mo (co_ID c1) ''container'' ''start'' (\<lambda>sv2. (Reply 204 NoBody, sv2)) sv1))"

text \<open>\<open><-deleted\<close> blocks for ever when the watch could not be opened: the channel is nil.\<close>

definition ContainerRestart ::
  "('n, 'db, 'w) router \<Rightarrow> moment \<Rightarrow> string \<Rightarrow> ('db, 'w) server \<Rightarrow> outcome \<times> ('db, 'w) server" where
  "ContainerRestart cr mo i sv = (case GetContainer (cr_DB cr) (sv_store sv) i of
     Inl e \<Rightarrow> (httputil_Error 404 e, sv)
   | Inr c \<Rightarrow>
       (let watch = bo_WatchDeleteContainer (cr_Backend cr) c (sv_backend sv);
            sv1 = backend_delete cr c sv
        in case signal_both c sv1 of (c1, sv2) \<Rightarrow>
          (case save_container cr mo (c1\<lparr>co_Running := False, co_Completed := False, co_Stopped := True\<rparr>) sv2 of
             (c2, Some e, sv3) \<Rightarrow> (httputil_Error 500 e, sv3)
           | (c2, None, sv3) \<Rightarrow>
               (case watch of
                  Some e \<Rightarrow> (Blocked, sv3)
                | None \<Rightarrow>
                    (case common_StartContainer cr mo c2 (sv3\<lparr>sv_backend := bo_AwaitDeleted (cr_Backend cr) c2 (sv_backend sv3)\<rparr>) of
                       (c3, Some e, sv4) \<Rightarrow> (httputil_Error 500 e, sv4)
                     | (c3, None, sv4) \<Rightarrow> (Reply 204 NoBody, sv4))))))"

definition ContainerStop ::
  "('n, 'db, 'w) router \<Rightarrow> moment \<Rightarrow> string \<Rightarrow> ('db, 'w) server \<Rightarrow> outcome \<times> ('db, 'w) server" where
  "ContainerStop cr mo i sv = (case GetContainer (cr_DB cr) (sv_store sv) i of
     Inl e \<Rightarrow> (httputil_Error 404 e, sv)
   | Inr c \<Rightarrow>
       (case signal_both c sv of (c1, sv1) \<Rightarrow>
          (let sv2 = (if \<not> co_Stopped c1 \<and> \<not> co_Killed c1 then backend_delete cr c1 sv1 else sv1)
           in case save_container cr mo (c1\<lparr>co_Running := False, co_Completed := False, co_Stopped := True\<rparr>) sv2 of
                (c2, Some e, sv3) \<Rightarrow> (httputil_Error 500 e, sv3)
              | (c2, None, sv3) \<Rightarrow> publish_then mo (co_ID c2) ''container'' ''die'' (\<lambda>sv4. (Reply 204 NoBody, sv4)) sv3)))"

definition valid_signals :: "string list" where
  "valid_signals = [''kil'', ''term'', ''quit'', ''int'']"

definition ContainerKill ::
  "('n, 'db, 'w) router \<Rightarrow> moment \<Rightarrow> string \<Rightarrow> string \<Rightarrow> ('db, 'w) server \<Rightarrow> outcome \<times> ('db, 'w) server" where
  "ContainerKill cr mo i sgnl sv = (case GetContainerByNameOrID (cr_DB cr) (sv_store sv) i of
     Inl e \<Rightarrow> (httputil_Error 404 e, sv)
   | Inr c \<Rightarrow>
       if ToLower sgnl \<noteq> [] \<and> ToLower sgnl \<notin> set valid_signals then (Reply 204 NoBody, sv)
       else (case signal_both c sv of (c1, sv1) \<Rightarrow>
          (let sv2 = (if \<not> co_Stopped c1 \<and> \<not> co_Killed c1 then backend_delete cr c1 sv1 else sv1)
           in case save_container cr mo (c1\<lparr>co_Killed := True, co_Running := False, co_Completed := False\<rparr>) sv2 of
                (c2, Some e, sv3) \<Rightarrow> (httputil_Error 500 e, sv3)
              | (c2, None, sv3) \<Rightarrow> publish_then mo (co_ID c2) ''container'' ''die'' (\<lambda>sv4. (Reply 204 NoBody, sv4)) sv3)))"

text \<open>
  Attaching, less the bytes that are streamed: \<open>hijack\<close> tells whether the connection could be
  taken over. On return the deferred calls run in reverse order.
\<close>

definition ContainerAttach ::
  "('n, 'db, 'w) router \<Rightarrow> moment \<Rightarrow> string \<Rightarrow> bool \<Rightarrow> bool \<Rightarrow> ('db, 'w) server \<Rightarrow> outcome \<times> ('db, 'w) server" where
  "ContainerAttach cr mo i stream hijack sv = (case GetContainerByNameOrID (cr_DB cr) (sv_store sv) i of
     Inl e \<Rightarrow> (httputil_Error 404 e, sv)
   | Inr c \<Rightarrow>
       if \<not> stream then (Reply 204 NoBody, sv)
       else (case (if \<not> co_Running c \<and> \<not> co_Completed c then common_StartContainer cr mo c sv else (c, None, sv)) of
          (c1, Some e, sv1) \<Rightarrow> (httputil_Error 500 e, sv1)
        | (c1, None, sv1) \<Rightarrow>
            if \<not> hijack then (Reply 200 NoBody, sv1)
            else (let c2 = AddAttachChannel c1 (mo_chan mo)
                  in publish_then mo (co_ID c2) ''container'' ''detach''
                       (\<lambda>sv2. case SignalDetach c2 of (ops, c3) \<Rightarrow>
                          (Reply 200 NoBody, put_container c3 (sv2\<lparr>sv_signals := sv_signals sv2 @ ops\<rparr>)))
                       (put_container c2 sv1))))"

definition ContainerResize ::
  "('n, 'db, 'w) router \<Rightarrow> string \<Rightarrow> ('db, 'w) server \<Rightarrow> outcome \<times> ('db, 'w) server" where
  "ContainerResize cr i sv = (case GetContainerByNameOrID (cr_DB cr) (sv_store sv) i of
     Inl e \<Rightarrow> (httputil_Error 404 e, sv)
   | Inr c \<Rightarrow> (Reply 200 (JsonBody (JObj [])), sv))"

definition ContainerRename ::
  "('n, 'db, 'w) router \<Rightarrow> moment \<Rightarrow> string \<Rightarrow> string \<Rightarrow> ('db, 'w) server \<Rightarrow> outcome \<times> ('db, 'w) server" where
  "ContainerRename cr mo i name sv = (case GetContainerByNameOrID (cr_DB cr) (sv_store sv) i of
     Inl e \<Rightarrow> (httputil_Error 404 e, sv)
   | Inr c \<Rightarrow>
       (case GetContainerByName (cr_DB cr) (sv_store sv) name of
          Inr _ \<Rightarrow> (httputil_Error 409 (Errorf ''name `%s` already in used'' [name]), sv)
        | Inl _ \<Rightarrow>
            (case save_container cr mo (c\<lparr>co_Name := name\<rparr>) sv of
               (c1, Some e, sv1) \<Rightarrow> (httputil_Error 500 e, sv1)
             | (c1, None, sv1) \<Rightarrow> (Reply 204 NoBody, sv1))))"

end
