(* ===== verification/DockerRoutes.thy ===== *)
theory DockerRoutes
  imports Routes
begin

text \<open>
  \<open>internal/server/routes/docker\<close>: the Docker API. Request bodies are the decoded values
  (\<open>Inl\<close> when the JSON decoder rejects the body); a nil map or slice is the empty one.
\<close>

section \<open>Requests\<close>

record endpoint_config =
  ep_Aliases :: "string list"
  ep_NetworkID :: string

record host_config =
  hc_Binds :: "string list"
  hc_Mounts :: "mount list"
  hc_PortBindings :: "(string, string list) gomap"   \<comment> \<open>container port to the \<open>HostPort\<close>s\<close>
  hc_Memory :: int
  hc_NanoCpus :: int
  hc_NetworkMode :: string

record create_request =
  rq_Name :: string
  rq_Hostname :: string
  rq_Image :: string
  rq_ExposedPorts :: "string list"
  rq_Labels :: "(string, string) gomap"
  rq_Entrypoint :: "string list"
  rq_Cmd :: "string list"
  rq_Env :: "string list"
  rq_User :: string
  rq_HostConfig :: host_config
  rq_Endpoints :: "(string, endpoint_config) gomap"
  rq_TTY :: bool
  rq_OpenStdin :: bool

record network_create_request =
  nc_Name :: string
  nc_Driver :: string
  nc_Options :: "(string, string) gomap"
  nc_Labels :: "(string, string) gomap"

section \<open>Creating a container\<close>

text \<open>\<open>done\<close> is tested with the alias as given and filled with the alias in lower case.\<close>

fun alias_loop :: "string list \<Rightarrow> string list \<Rightarrow> string list \<Rightarrow> string list" where
  "alias_loop [] seen acc = acc"
| "alias_loop (a # as) seen acc =
     (if a \<in> set seen then alias_loop as seen acc
      else alias_loop as (key_add (ToLower a) seen) (acc @ [ToLower a]))"

definition docker_addNetworkAliases :: "container \<Rightarrow> endpoint_config \<Rightarrow> container" where
  "docker_addNetworkAliases c endp =
     c\<lparr>co_NetworkAliases := alias_loop (co_NetworkAliases c @ ep_Aliases endp) [co_ShortID c] []\<rparr>"

text \<open>A label that is set from the configuration when the request does not carry it.\<close>

definition default_label :: "string \<Rightarrow> string \<Rightarrow> (string, string) gomap \<Rightarrow> (string, string) gomap" where
  "default_label l v labels = (if \<not> has_key labels l \<and> v \<noteq> [] then map_set l v labels else labels)"

text \<open>The labels both create handlers derive from the configuration, up to the deadline.\<close>

definition config_labels :: "rconfig \<Rightarrow> string \<Rightarrow> (string, string) gomap \<Rightarrow> (string, string) gomap" where
  "config_labels cfg user labels =
     (let l1 = default_label LabelRunasUser (rc_RunasUser cfg) labels;
          l2 = (if user \<noteq> [] then map_set LabelRunasUser user l1 else l1);
          l3 = default_label LabelNamePrefix (rc_NamePrefix cfg) l2;
          l4 = default_label LabelRequestCPU (rc_RequestCPU cfg) l3;
          l5 = default_label LabelRequestMemory (rc_RequestMemory cfg) l4;
          l6 = default_label LabelRequestEphemeralStorage (rc_RequestEphemeralStorage cfg) l5;
          l7 = default_label LabelPullPolicy (rc_PullPolicy cfg) l6;
          l8 = default_label LabelNodeSelector (rc_NodeSelector cfg) l7
      in if \<not> has_key l8 LabelActiveDeadlineSeconds \<and> rc_ActiveDeadlineSeconds cfg \<ge> 0
         then map_set LabelActiveDeadlineSeconds (show_int (rc_ActiveDeadlineSeconds cfg)) l8 else l8)"

definition request_labels :: "rconfig \<Rightarrow> create_request \<Rightarrow> (string, string) gomap" where
  "request_labels cfg rq =
     (let l1 = config_labels cfg (rq_User rq) (rq_Labels rq); hc = rq_HostConfig rq;
          l2 = (if hc_Memory hc \<noteq> 0 \<and> \<not> rc_IgnoreContainerMemory cfg then map_set LabelRequestMemory (show_int (hc_Memory hc)) l1 else l1);
          l3 = (if hc_NanoCpus hc \<noteq> 0 then map_set LabelRequestCPU (show_int (hc_NanoCpus hc) @ ''n'') l2 else l2)
      in map_set LabelServiceAccount (rc_ServiceAccount cfg) l3)"

definition getContainerCreateRequest ::
  "('n, 'db, 'w) router \<Rightarrow> create_request result \<Rightarrow> string \<Rightarrow> create_request result" where
  "getContainerCreateRequest cr dat qname = bind_res dat (\<lambda>rq.
     let rq1 = (if rq_Name rq = [] then rq\<lparr>rq_Name := qname\<rparr> else rq)
     in Inr (rq1\<lparr>rq_Labels := request_labels (cr_Config cr) rq1\<rparr>))"

definition new_container :: "string \<Rightarrow> container" where
  "new_container img = \<lparr>co_ID = [], co_ShortID = [], co_Name = [], co_Hostname = [], co_Image = img, co_Labels = [],
     co_Entrypoint = [], co_Cmd = [], co_Env = [], co_Binds = [], co_Mounts = [], co_PreArchives = [], co_HostIP = [],
     co_ExposedPorts = [], co_ImagePorts = [], co_HostPorts = [], co_MappedPorts = [], co_Networks = [],
     co_NetworkAliases = [], co_StopChannels = [], co_AttachChannels = [], co_Running = False, co_Completed = False,
     co_Failed = False, co_Stopped = False, co_Killed = False, co_OOMKilled = False, co_ExitCode = 0, co_StateError = [],
     co_Tty = False, co_OpenStdin = False, co_Created = 0, co_Started = 0, co_Finished = 0\<rparr>"

definition requested_container :: "create_request \<Rightarrow> string \<Rightarrow> container" where
  "requested_container rq img = (new_container img)\<lparr>co_Name := rq_Name rq, co_Hostname := rq_Hostname rq,
     co_Entrypoint := rq_Entrypoint rq, co_Cmd := rq_Cmd rq, co_Env := rq_Env rq, co_ExposedPorts := rq_ExposedPorts rq,
     co_Labels := rq_Labels rq, co_Binds := hc_Binds (rq_HostConfig rq),
     co_Mounts := filter (\<lambda>m. m_Type m = ''bind'') (hc_Mounts (rq_HostConfig rq)),
     co_Tty := rq_TTY rq, co_OpenStdin := rq_OpenStdin rq\<rparr>"

text \<open>The exposed ports of a known image; not knowing the image is not an error.\<close>

definition with_image_ports :: "('n, 'db, 'w) router \<Rightarrow> 'db store \<Rightarrow> string \<Rightarrow> container \<Rightarrow> container" where
  "with_image_ports cr st requested c = (case GetImageByNameOrID (cr_DB cr) st requested of
     Inl e \<Rightarrow> c
   | Inr im \<Rightarrow> c\<lparr>co_ImagePorts := im_ExposedPorts im\<rparr>)"

fun add_host_ports :: "(string \<times> string) list \<Rightarrow> container \<Rightarrow> container result" where
  "add_host_ports [] c = Inr c"
| "add_host_ports ((src, dst) # ps) c = bind_res (AddHostPort c src dst) (add_host_ports ps)"

definition port_bindings :: "(string, string list) gomap \<Rightarrow> (string \<times> string) list" where
  "port_bindings pbs = concat (map (\<lambda>(dst, srcs). map (\<lambda>src. (src, dst)) srcs) pbs)"

fun connect_endpoints :: "('n, 'db, 'w) router \<Rightarrow> 'db store \<Rightarrow> endpoint_config list \<Rightarrow> container \<Rightarrow> container result" where
  "connect_endpoints cr st [] c = Inr c"
| "connect_endpoints cr st (endp # eps) c =
     (let c1 = docker_addNetworkAliases c endp
      in if ep_NetworkID endp \<noteq> [] then
           bind_res (GetNetworkByNameOrID (cr_DB cr) st (ep_NetworkID endp)) (\<lambda>netw.
             connect_endpoints cr st eps (ConnectNetwork c1 (nw_ID netw)))
         else connect_endpoints cr st eps c1)"

definition connect_bridge :: "('n, 'db, 'w) router \<Rightarrow> 'db store \<Rightarrow> container \<Rightarrow> container result" where
  "connect_bridge cr st c = bind_res (GetNetworkByName (cr_DB cr) st ''bridge'') (\<lambda>netw. Inr (ConnectNetwork c (nw_ID netw)))"

definition connect_networks ::
  "('n, 'db, 'w) router \<Rightarrow> 'db store \<Rightarrow> create_request \<Rightarrow> container \<Rightarrow> container result" where
  "connect_networks cr st rq c =
     (let net = hc_NetworkMode (rq_HostConfig rq)
      in bind_res (if net \<noteq> [] \<and> net \<noteq> ''default''
                   then bind_res (GetNetworkByNameOrID (cr_DB cr) st net) (\<lambda>netw. Inr (ConnectNetwork c (nw_ID netw)))
                   else Inr c) (\<lambda>c1.
           bind_res (connect_endpoints cr st (map snd (rq_Endpoints rq)) c1) (\<lambda>c2.
             if length (co_Networks c2) = 0 then connect_bridge cr st c2 else Inr c2)))"

text \<open>The end both create handlers share: save, publish, answer.\<close>

definition created_body :: "string \<Rightarrow> body" where
  "created_body i = JsonBody (JObj [(''Id'', JStr i), (''Warnings'', JArr [])])"

definition store_created ::
  "('n, 'db, 'w) router \<Rightarrow> moment \<Rightarrow> container \<Rightarrow> ('db, 'w) server \<Rightarrow> outcome \<times> ('db, 'w) server" where
  "store_created cr mo c sv = (case save_container cr mo c sv of
     (c1, Some e, sv1) \<Rightarrow> (httputil_Error 500 e, sv1)
   | (c1, None, sv1) \<Rightarrow>
       publish_then mo (co_ID c1) ''container'' ''create'' (\<lambda>sv2. (Reply 201 (created_body (co_ID c1)), sv2)) sv1)"

definition docker_ContainerCreate ::
  "('n, 'db, 'w) router \<Rightarrow> moment \<Rightarrow> create_request result \<Rightarrow> string \<Rightarrow> ('db, 'w) server \<Rightarrow> outcome \<times> ('db, 'w) server" where
  "docker_ContainerCreate cr mo dat qname sv = (case getContainerCreateRequest cr dat qname of
     Inl e \<Rightarrow> (httputil_Error 500 e, sv)
   | Inr rq \<Rightarrow>
       (case ResolveImage cr (rq_Image rq) of
          Inl e \<Rightarrow> (httputil_Error (ImageErrorStatus e) e, sv)
        | Inr resolved \<Rightarrow>
            (let c0 = requested_container rq resolved
             in case ValidateContainerRequest cr c0 of
                  Inl e \<Rightarrow> (httputil_Error (ContainerRequestErrorStatus e) e, sv)
                | Inr _ \<Rightarrow>
                    (case bind_res (add_host_ports (port_bindings (hc_PortBindings (rq_HostConfig rq)))
                                     (with_image_ports cr (sv_store sv) (rq_Image rq) c0))
                            (connect_networks cr (sv_store sv) rq) of
                       Inl e \<Rightarrow> (httputil_Error 500 e, sv)
                     | Inr c \<Rightarrow> store_created cr mo c sv))))"

section \<open>Deleting and waiting\<close>

text \<open>The part of the two delete handlers before the database: signals, backend, event.\<close>

definition delete_then ::
  "('n, 'db, 'w) router \<Rightarrow> moment \<Rightarrow> container \<Rightarrow> (container \<Rightarrow> ('db, 'w) server \<Rightarrow> outcome \<times> ('db, 'w) server) \<Rightarrow>
   ('db, 'w) server \<Rightarrow> outcome \<times> ('db, 'w) server" where
  "delete_then cr mo c k sv = (case signal_both c sv of (c1, sv1) \<Rightarrow>
     if \<not> co_Stopped c1 \<and> \<not> co_Killed c1
     then publish_then mo (co_ID c1) ''container'' ''die'' (k c1) (backend_delete cr c1 sv1)
     else k c1 sv1)"

definition docker_ContainerDelete ::
  "('n, 'db, 'w) router \<Rightarrow> moment \<Rightarrow> string \<Rightarrow> ('db, 'w) server \<Rightarrow> outcome \<times> ('db, 'w) server" where
  "docker_ContainerDelete cr mo i sv = (case GetContainerByNameOrID (cr_DB cr) (sv_store sv) i of
     Inl e \<Rightarrow> (httputil_Error 404 e, sv)
   | Inr c \<Rightarrow> delete_then cr mo c (\<lambda>c1 sv1. case db_DeleteContainer (cr_DB cr) c1 (sv_store sv1) of
        (Some e, st) \<Rightarrow> (httputil_Error 404 e, sv1\<lparr>sv_store := st\<rparr>)
      | (None, st) \<Rightarrow> (Reply 204 NoBody, sv1\<lparr>sv_store := st\<rparr>)) sv)"

text \<open>
  One tick of \<open>ContainerWait\<close>: \<^const>\<open>None\<close> goes on waiting. The loop runs over the ticks until
  the client goes away; \<open>others\<close> is what happened to the server since the last tick.
\<close>

definition docker_wait_tick ::
  "('n, 'db, 'w) router \<Rightarrow> moment \<Rightarrow> string \<Rightarrow> ('db, 'w) server \<Rightarrow> outcome option \<times> ('db, 'w) server" where
  "docker_wait_tick cr mo i sv = (case GetContainer (cr_DB cr) (sv_store sv) i of
     Inl e \<Rightarrow> (Some (httputil_Error 404 e), sv)
   | Inr c \<Rightarrow>
       (case UpdateContainerStatus cr mo c sv of (c1, sv1) \<Rightarrow>
          (if co_Stopped c1 \<or> co_Killed c1 \<or> co_Completed c1
           then Some (Reply 200 (JsonBody (JObj [(''StatusCode'', JNum (co_ExitCode c1))]))) else None, sv1)))"

fun docker_ContainerWait ::
  "('n, 'db, 'w) router \<Rightarrow> string \<Rightarrow> (moment \<times> (('db, 'w) server \<Rightarrow> ('db, 'w) server)) list \<Rightarrow> ('db, 'w) server \<Rightarrow>
   outcome \<times> ('db, 'w) server" where
  "docker_ContainerWait cr i [] sv = (NoReply, sv)"
| "docker_ContainerWait cr i ((mo, others) # ticks) sv = (case docker_wait_tick cr mo i (others sv) of
     (Some out, sv1) \<Rightarrow> (out, sv1)
   | (None, sv1) \<Rightarrow> docker_ContainerWait cr i ticks sv1)"

end
