(* ===== verification/Inspect.thy ===== *)
theory Inspect
  imports DockerRoutes
begin

text \<open>
  What the two APIs report of a container: names, ports, state and configuration
  (\<open>getContainerInfo\<close> and its helpers in \<open>docker/containers.go\<close> and \<open>libpod/containers.go\<close>),
  and the inspect, list and exists handlers.
\<close>

section \<open>Ports\<close>

fun add_ports :: "(int \<times> int) list \<Rightarrow> (int, int list) gomap \<Rightarrow> (int, int list) gomap" where
  "add_ports [] ports = ports"
| "add_ports ((src, dst) # prts) ports =
     (if src < 0 then add_ports prts ports
      else add_ports prts (map_set dst ((case map_get ports dst of None \<Rightarrow> [] | Some l \<Rightarrow> l) @ [src]) ports))"

definition getAvailablePorts :: "rconfig \<Rightarrow> container \<Rightarrow> (int, int list) gomap" where
  "getAvailablePorts cfg c =
     (if rc_PortForward cfg \<or> rc_ReverseProxy cfg
      then add_ports (co_MappedPorts c) (add_ports (co_HostPorts c) [])
      else add_ports (GetServicePorts c) [])"

text \<open>The inner loop: every source once, in order.\<close>

fun once :: "int list \<Rightarrow> int list \<Rightarrow> int list" where
  "once [] seen = []"
| "once (src # prts) seen = (if src \<in> set seen then once prts seen else src # once prts (src # seen))"

definition port_label :: "int \<Rightarrow> string" where
  "port_label dst = show_int dst @ ''/tcp''"

definition settings_ports :: "rconfig \<Rightarrow> container \<Rightarrow> (string \<times> int list) list" where
  "settings_ports cfg c =
     (if co_HostIP c = [] then [] else map (\<lambda>(dst, prts). (port_label dst, once prts [])) (getAvailablePorts cfg c))"

definition getNetworkSettingsPorts :: "rconfig \<Rightarrow> container \<Rightarrow> json" where
  "getNetworkSettingsPorts cfg c =
     JObj (map (\<lambda>(k, srcs). (k, JArr (map (\<lambda>src. JObj [(''HostIp'', JStr (co_HostIP c)), (''HostPort'', JStr (show_int src))]) srcs)))
            (settings_ports cfg c))"

definition getConfigExposedPorts :: "rconfig \<Rightarrow> container \<Rightarrow> json" where
  "getConfigExposedPorts cfg c =
     JObj (if co_HostIP c = [] then [] else map (\<lambda>(dst, prts). (port_label dst, JObj [])) (getAvailablePorts cfg c))"

definition docker_getContainerPorts :: "rconfig \<Rightarrow> container \<Rightarrow> json" where
  "docker_getContainerPorts cfg c =
     JArr (if co_HostIP c = [] then []
           else concat (map (\<lambda>(dst, prts). map (\<lambda>src.
             JObj ([(''IP'', JStr (co_HostIP c)), (''PrivatePort'', JNum dst), (''Type'', JStr ''tcp'')] @
                   (if src > 0 then [(''PublicPort'', JNum src)] else []))) (once prts [])) (getAvailablePorts cfg c)))"

text \<open>The libpod API has its own copies of two of these.\<close>

definition libpod_getAvailablePorts :: "rconfig \<Rightarrow> container \<Rightarrow> (int, int list) gomap" where
  "libpod_getAvailablePorts cfg c =
     (if rc_PortForward cfg \<or> rc_ReverseProxy cfg
      then add_ports (co_MappedPorts c) (add_ports (co_HostPorts c) [])
      else add_ports (GetServicePorts c) [])"

definition libpod_getNetworkSettingsPorts :: "rconfig \<Rightarrow> container \<Rightarrow> json" where
  "libpod_getNetworkSettingsPorts cfg c =
     JObj (if co_HostIP c = [] then []
           else map (\<lambda>(dst, prts). (port_label dst, JArr (map (\<lambda>src.
             JObj [(''HostIp'', JStr (co_HostIP c)), (''HostPort'', JStr (show_int src))]) (once prts []))))
             (libpod_getAvailablePorts cfg c))"

lemma libpod_ports_agree: "libpod_getNetworkSettingsPorts = getNetworkSettingsPorts"
  by (intro ext) (auto simp: libpod_getNetworkSettingsPorts_def getNetworkSettingsPorts_def settings_ports_def
      libpod_getAvailablePorts_def getAvailablePorts_def)

definition getContainerInfoPorts :: "rconfig \<Rightarrow> container \<Rightarrow> json" where
  "getContainerInfoPorts cfg c =
     JArr (if co_HostIP c = [] then []
           else concat (map (\<lambda>(dst, prts). map (\<lambda>src.
             JObj [(''host_ip'', JStr (co_HostIP c)), (''host_port'', JNum src), (''container_port'', JNum dst),
                   (''protocol'', JStr ''TCP'')]) (once prts [])) (libpod_getAvailablePorts cfg c)))"

section \<open>Names and networks\<close>

definition container_names :: "string \<Rightarrow> container \<Rightarrow> string list" where
  "container_names pre c =
     map ((@) pre) ((if co_Name c \<noteq> [] then [co_Name c] else []) @ [co_ID c, co_ShortID c] @
                    filter (\<lambda>a. a \<noteq> co_Name c) (co_NetworkAliases c))"

definition docker_getContainerNames :: "container \<Rightarrow> string list" where
  "docker_getContainerNames c = container_names ''/'' c"

definition libpod_getContainerNames :: "container \<Rightarrow> string list" where
  "libpod_getContainerNames c = container_names [] c"

definition strings_json :: "string list \<Rightarrow> json" where
  "strings_json ss = JArr (map JStr ss)"

definition labels_json :: "(string, string) gomap \<Rightarrow> json" where
  "labels_json m = JObj (map (\<lambda>(k, v). (k, JStr v)) m)"

definition network_details :: "container \<Rightarrow> network list \<Rightarrow> (string \<times> json) list" where
  "network_details c netws = set_all (map (\<lambda>n. (nw_Name n,
     JObj [(''NetworkID'', JStr (nw_ID n)), (''Aliases'', strings_json (co_NetworkAliases c)), (''IPAddress'', JStr ''127.0.0.1'')])) netws) []"

definition networks_of :: "('n, 'db, 'w) router \<Rightarrow> container \<Rightarrow> ('db, 'w) server \<Rightarrow> string \<times> network list" where
  "networks_of cr c sv = (case GetNetworksByIDs (cr_DB cr) (sv_store sv) (co_Networks c) of
     Inl e \<Rightarrow> (cr_errtext cr e, [])
   | Inr netws \<Rightarrow> ([], netws))"

definition network_settings :: "json \<Rightarrow> container \<Rightarrow> network list \<Rightarrow> json" where
  "network_settings prts c netws =
     JObj [(''IPAddress'', JStr ''127.0.0.1''), (''Networks'', JObj (network_details c netws)), (''Ports'', prts)]"

section \<open>Docker\<close>

definition docker_getContainerInfo ::
  "('n, 'db, 'w) router \<Rightarrow> moment \<Rightarrow> container \<Rightarrow> bool \<Rightarrow> ('db, 'w) server \<Rightarrow> json \<times> ('db, 'w) server" where
  "docker_getContainerInfo cr mo c detail sv =
     (let cfg = cr_Config cr; names = docker_getContainerNames c
      in case networks_of cr c sv of (errstr, netws) \<Rightarrow>
           (let res = [(''Id'', JStr (co_ID c)), (''Name'', JStr (hd names)), (''Image'', JStr (co_Image c)), (''Names'', strings_json names),
                  (''NetworkSettings'', network_settings (getNetworkSettingsPorts cfg c) c netws),
                  (''HostConfig'', JObj [(''NetworkMode'', JStr ''bridge''),
                     (''LogConfig'', JObj [(''Type'', JStr ''json-file''), (''Config'', JObj [])]),
                     (''Mounts'', JArr (map (\<lambda>m. JObj [(''Source'', JStr (m_Source m)), (''Target'', JStr (m_Target m)),
                        (''Type'', JStr (m_Type m)), (''ReadOnly'', JBool (m_ReadOnly m))]) (co_Mounts c)))])]
            in if detail then
                 (case UpdateContainerStatus cr mo c sv of (c1, sv1) \<Rightarrow>
                    (JObj (res @ [(''State'', ContainerStateResponse cr c1 errstr),
                       (''Config'', JObj [(''Image'', JStr (co_Image c1)), (''Labels'', labels_json (co_Labels c1)),
                          (''Env'', strings_json (co_Env c1)), (''Cmd'', strings_json (co_Cmd c1)), (''Hostname'', JStr ''localhost''),
                          (''ExposedPorts'', getConfigExposedPorts cfg c1), (''Tty'', JBool False)]),
                       (''Created'', JStr (cr_format cr ''2006-01-02T15:04:05Z'' (co_Created c1)))]), sv1))
               else
                 (JObj (res @ [(''Labels'', labels_json (co_Labels c)), (''State'', JStr (StatusString c)), (''Status'', JStr (StateString c)),
                    (''Created'', JNum (co_Created c div second)), (''Ports'', docker_getContainerPorts cfg c)]), sv)))"

definition docker_ContainerInfo ::
  "('n, 'db, 'w) router \<Rightarrow> moment \<Rightarrow> string \<Rightarrow> ('db, 'w) server \<Rightarrow> outcome \<times> ('db, 'w) server" where
  "docker_ContainerInfo cr mo i sv = (case GetContainerByNameOrID (cr_DB cr) (sv_store sv) i of
     Inl e \<Rightarrow> (httputil_Error 404 e, sv)
   | Inr c \<Rightarrow> (case docker_getContainerInfo cr mo c True sv of (js, sv1) \<Rightarrow> (Reply 200 (JsonBody js), sv1)))"

text \<open>The loop of the list handlers; each container is read where its pointer leads at its turn.\<close>

definition current :: "container \<Rightarrow> ('db, 'w) server \<Rightarrow> container" where
  "current c sv = (case map_get (st_containers (sv_store sv)) (co_ID c) of Some d \<Rightarrow> d | None \<Rightarrow> c)"

fun list_infos ::
  "(moment \<Rightarrow> container \<Rightarrow> ('db, 'w) server \<Rightarrow> json \<times> ('db, 'w) server) \<Rightarrow> (nat \<Rightarrow> moment) \<Rightarrow> nat \<Rightarrow> container list \<Rightarrow>
   ('db, 'w) server \<Rightarrow> json list \<times> ('db, 'w) server" where
  "list_infos info mos n [] sv = ([], sv)"
| "list_infos info mos n (c # cs) sv = (case info (mos n) (current c sv) sv of (js, sv1) \<Rightarrow>
     (case list_infos info mos (Suc n) cs sv1 of (jss, sv2) \<Rightarrow> (js # jss, sv2)))"

definition list_containers ::
  "('n, 'db, 'w) router \<Rightarrow> (moment \<Rightarrow> container \<Rightarrow> ('db, 'w) server \<Rightarrow> json \<times> ('db, 'w) server) \<Rightarrow> (nat \<Rightarrow> moment) \<Rightarrow>
   json result option \<Rightarrow> ('db, 'w) server \<Rightarrow> outcome \<times> ('db, 'w) server" where
  "list_containers cr info mos filtr sv = (case GetContainers (cr_DB cr) (sv_store sv) of
     Inl e \<Rightarrow> (httputil_Error 500 e, sv)
   | Inr tainrs \<Rightarrow>
       (case list_infos info mos 0 (filter (\<lambda>c. filter_Match (fst (filter_New filtr)) (co_Match (cr_regexp cr) c)) tainrs) sv of
          (jss, sv1) \<Rightarrow> (Reply 200 (JsonBody (JArr jss)), sv1)))"

definition docker_ContainerList ::
  "('n, 'db, 'w) router \<Rightarrow> (nat \<Rightarrow> moment) \<Rightarrow> json result option \<Rightarrow> ('db, 'w) server \<Rightarrow> outcome \<times> ('db, 'w) server" where
  "docker_ContainerList cr mos filtr sv =
     list_containers cr (\<lambda>mo c sv. docker_getContainerInfo cr mo c False sv) mos filtr sv"

section \<open>Libpod\<close>

definition libpod_getContainerInfo ::
  "('n, 'db, 'w) router \<Rightarrow> moment \<Rightarrow> container \<Rightarrow> bool \<Rightarrow> ('db, 'w) server \<Rightarrow> json \<times> ('db, 'w) server" where
  "libpod_getContainerInfo cr mo c detail sv =
     (let cfg = cr_Config cr; names = libpod_getContainerNames c
      in case networks_of cr c sv of (errstr, netws) \<Rightarrow>
           (let res = [(''Id'', JStr (co_ID c)), (''Name'', JStr (hd names)), (''Image'', JStr (co_Image c)),
                  (''NetworkSettings'', network_settings (libpod_getNetworkSettingsPorts cfg c) c netws),
                  (''HostConfig'', JObj [(''PortBindings'', libpod_getNetworkSettingsPorts cfg c)]),
                  (''Ports'', getContainerInfoPorts cfg c), (''Names'', strings_json names)]
            in case UpdateContainerStatus cr mo c sv of (c1, sv1) \<Rightarrow>
                 (JObj (res @ (if detail then
                    [(''State'', ContainerStateResponse cr c1 errstr),
                     (''Config'', JObj [(''Image'', JStr (co_Image c1)), (''Labels'', labels_json (co_Labels c1)),
                        (''Env'', strings_json (co_Env c1)), (''Cmd'', strings_json (co_Cmd c1)), (''Tty'', JBool False)])]
                  else
                    [(''Created'', JStr (cr_format cr ''2006-01-02T15:04:05Z'' (co_Created c1))), (''Labels'', labels_json (co_Labels c1)),
                     (''State'', JStr (StatusString c1)), (''Status'', JStr (StateString c1))])), sv1)))"

definition libpod_ContainerInfo ::
  "('n, 'db, 'w) router \<Rightarrow> moment \<Rightarrow> string \<Rightarrow> ('db, 'w) server \<Rightarrow> outcome \<times> ('db, 'w) server" where
  "libpod_ContainerInfo cr mo i sv = (case GetContainerByNameOrID (cr_DB cr) (sv_store sv) i of
     Inl e \<Rightarrow> (httputil_Error 404 e, sv)
   | Inr c \<Rightarrow> (case libpod_getContainerInfo cr mo c True sv of (js, sv1) \<Rightarrow> (Reply 200 (JsonBody js), sv1)))"

definition libpod_ContainerList ::
  "('n, 'db, 'w) router \<Rightarrow> (nat \<Rightarrow> moment) \<Rightarrow> json result option \<Rightarrow> ('db, 'w) server \<Rightarrow> outcome \<times> ('db, 'w) server" where
  "libpod_ContainerList cr mos filtr sv =
     list_containers cr (\<lambda>mo c sv. libpod_getContainerInfo cr mo c False sv) mos filtr sv"

definition libpod_ContainerExists :: "('n, 'db, 'w) router \<Rightarrow> string \<Rightarrow> ('db, 'w) server \<Rightarrow> outcome \<times> ('db, 'w) server" where
  "libpod_ContainerExists cr i sv = (case GetContainerByNameOrID (cr_DB cr) (sv_store sv) i of
     Inl e \<Rightarrow> (httputil_Error 404 e, sv)
   | Inr c \<Rightarrow> (Reply 204 NoBody, sv))"

end
