(* ===== verification/NetworkRoutes.thy ===== *)
theory NetworkRoutes
  imports Inspect
begin

text \<open>
  The network handlers (\<open>docker/networks.go\<close>), the image handlers (\<open>common/images.go\<close>,
  \<open>docker/images.go\<close>, \<open>libpod/images.go\<close>), and the libpod handlers that change state
  (\<open>libpod/containers.go\<close>).
\<close>

section \<open>Networks\<close>

text \<open>The containers of a network; an error of the database counts as none.\<close>

definition getContainersInNetwork ::
  "('n, 'db, 'w) router \<Rightarrow> network \<Rightarrow> ('db, 'w) server \<Rightarrow> (string, string) gomap" where
  "getContainersInNetwork cr netw sv = (case GetContainers (cr_DB cr) (sv_store sv) of
     Inl e \<Rightarrow> []
   | Inr tainrs \<Rightarrow> set_all (map (\<lambda>c. (co_ID c, co_Name c)) (filter (\<lambda>c. nw_ID netw \<in> set (co_Networks c)) tainrs)) [])"

definition network_json :: "('n, 'db, 'w) router \<Rightarrow> ('db, 'w) server \<Rightarrow> network \<Rightarrow> json" where
  "network_json cr sv netw =
     JObj [(''Name'', JStr (nw_Name netw)), (''ID'', JStr (nw_ID netw)), (''Driver'', JStr (DriverName netw)),
           (''Scope'', JStr ''local''), (''Attachable'', JBool True),
           (''Containers'', JObj (map (\<lambda>(i, n). (i, JObj [(''Name'', JStr n)])) (getContainersInNetwork cr netw sv))),
           (''Labels'', labels_json (nw_Labels netw)), (''Options'', labels_json (nw_Options netw))]"

definition NetworksList ::
  "('n, 'db, 'w) router \<Rightarrow> json result option \<Rightarrow> ('db, 'w) server \<Rightarrow> outcome \<times> ('db, 'w) server" where
  "NetworksList cr filtr sv = (case GetNetworks (cr_DB cr) (sv_store sv) of
     Inl e \<Rightarrow> (httputil_Error 500 e, sv)
   | Inr netws \<Rightarrow>
       (Reply 200 (JsonBody (JArr (map (network_json cr sv)
          (filter (\<lambda>n. filter_Match (fst (filter_New filtr)) (nw_Match (cr_regexp cr) n)) netws)))), sv))"

definition NetworksInfo :: "('n, 'db, 'w) router \<Rightarrow> string \<Rightarrow> ('db, 'w) server \<Rightarrow> outcome \<times> ('db, 'w) server" where
  "NetworksInfo cr i sv = (case GetNetworkByNameOrID (cr_DB cr) (sv_store sv) i of
     Inl e \<Rightarrow> (httputil_Error 404 e, sv)
   | Inr netw \<Rightarrow> (Reply 200 (JsonBody (network_json cr sv netw)), sv))"

definition NetworksCreate ::
  "('n, 'db, 'w) router \<Rightarrow> moment \<Rightarrow> network_create_request result \<Rightarrow> ('db, 'w) server \<Rightarrow> outcome \<times> ('db, 'w) server" where
  "NetworksCreate cr mo dat sv = (case dat of
     Inl e \<Rightarrow> (httputil_Error 500 e, sv)
   | Inr rq \<Rightarrow>
       (case SaveNetwork (cr_DB cr) (mo_newid mo) (mo_now mo)
               \<lparr>nw_ID = [], nw_ShortID = [], nw_Name = nc_Name rq, nw_Driver = nc_Driver rq, nw_Options = nc_Options rq,
                nw_Labels = nc_Labels rq, nw_Created = 0\<rparr> (sv_store sv) of
          (netw, Some e, st) \<Rightarrow> (httputil_Error 500 e, sv\<lparr>sv_store := st\<rparr>)
        | (netw, None, st) \<Rightarrow> (Reply 201 (JsonBody (JObj [(''Id'', JStr (nw_ID netw))])), sv\<lparr>sv_store := st\<rparr>)))"

definition NetworksDelete :: "('n, 'db, 'w) router \<Rightarrow> string \<Rightarrow> ('db, 'w) server \<Rightarrow> outcome \<times> ('db, 'w) server" where
  "NetworksDelete cr i sv = (case GetNetworkByNameOrID (cr_DB cr) (sv_store sv) i of
     Inl e \<Rightarrow> (httputil_Error 404 e, sv)
   | Inr netw \<Rightarrow>
       if IsPredefined netw
       then (httputil_Error 403 (Errorf ''%s is a pre-defined network and cannot be removed'' [nw_Name netw]), sv)
       else if length (getContainersInNetwork cr netw sv) \<noteq> 0
       then (httputil_Error 403 (Errorf ''cannot delete network, containers attachd'' []), sv)
       else (case DeleteNetwork (cr_DB cr) netw (sv_store sv) of
               (Some e, st) \<Rightarrow> (httputil_Error 404 e, sv\<lparr>sv_store := st\<rparr>)
             | (None, st) \<Rightarrow> (Reply 204 NoBody, sv\<lparr>sv_store := st\<rparr>)))"

definition NetworksConnect ::
  "('n, 'db, 'w) router \<Rightarrow> moment \<Rightarrow> string \<Rightarrow> (string \<times> endpoint_config) result \<Rightarrow> ('db, 'w) server \<Rightarrow> outcome \<times> ('db, 'w) server" where
  "NetworksConnect cr mo i dat sv = (case dat of
     Inl e \<Rightarrow> (httputil_Error 500 e, sv)
   | Inr (cont, endp) \<Rightarrow>
       (case GetNetworkByNameOrID (cr_DB cr) (sv_store sv) i of
          Inl e \<Rightarrow> (httputil_Error 404 e, sv)
        | Inr netw \<Rightarrow>
            (case GetContainer (cr_DB cr) (sv_store sv) cont of
               Inl e \<Rightarrow> (httputil_Error 404 e, sv)
             | Inr c \<Rightarrow>
                 (case save_container cr mo (docker_addNetworkAliases (ConnectNetwork c (nw_ID netw)) endp) sv of
                    (c1, Some e, sv1) \<Rightarrow> (httputil_Error 500 e, sv1)
                  | (c1, None, sv1) \<Rightarrow> (Reply 201 (JsonBody (JObj [(''ID'', JStr (nw_ID netw))])), sv1)))))"

definition NetworksDisconnect ::
  "('n, 'db, 'w) router \<Rightarrow> moment \<Rightarrow> string \<Rightarrow> string result \<Rightarrow> ('db, 'w) server \<Rightarrow> outcome \<times> ('db, 'w) server" where
  "NetworksDisconnect cr mo i dat sv = (case dat of
     Inl e \<Rightarrow> (httputil_Error 500 e, sv)
   | Inr cont \<Rightarrow>
       (case GetNetworkByNameOrID (cr_DB cr) (sv_store sv) i of
          Inl e \<Rightarrow> (httputil_Error 404 e, sv)
        | Inr netw \<Rightarrow>
            (case GetContainer (cr_DB cr) (sv_store sv) cont of
               Inl e \<Rightarrow> (httputil_Error 404 e, sv)
             | Inr c \<Rightarrow>
                 if IsPredefined netw then (httputil_Error 500 (Errorf ''can not disconnect from predefined network'' []), sv)
                 else (case DisconnectNetwork c (nw_ID netw) of
                         Inl e \<Rightarrow> (httputil_Error 404 e, sv)
                       | Inr c1 \<Rightarrow>
                           (case save_container cr mo c1 sv of
                              (c2, Some e, sv1) \<Rightarrow> (httputil_Error 500 e, sv1)
                            | (c2, None, sv1) \<Rightarrow> (Reply 204 NoBody, sv1))))))"

fun prune_loop ::
  "('n, 'db, 'w) router \<Rightarrow> network list \<Rightarrow> string list \<Rightarrow> ('db, 'w) server \<Rightarrow> outcome \<times> ('db, 'w) server" where
  "prune_loop cr [] names sv = (Reply 201 (JsonBody (JObj [(''NetworksDeleted'', strings_json names)])), sv)"
| "prune_loop cr (netw # netws) names sv =
     (if IsPredefined netw \<or> length (getContainersInNetwork cr netw sv) \<noteq> 0 then prune_loop cr netws names sv
      else case DeleteNetwork (cr_DB cr) netw (sv_store sv) of
             (Some e, st) \<Rightarrow> (httputil_Error 404 e, sv\<lparr>sv_store := st\<rparr>)
           | (None, st) \<Rightarrow> prune_loop cr netws (names @ [nw_Name netw]) (sv\<lparr>sv_store := st\<rparr>))"

definition NetworksPrune :: "('n, 'db, 'w) router \<Rightarrow> ('db, 'w) server \<Rightarrow> outcome \<times> ('db, 'w) server" where
  "NetworksPrune cr sv = (case GetNetworks (cr_DB cr) (sv_store sv) of
     Inl e \<Rightarrow> (httputil_Error 500 e, sv)
   | Inr netws \<Rightarrow> prune_loop cr netws [] sv)"

section \<open>Images\<close>

definition new_image :: "string \<Rightarrow> string list \<Rightarrow> img" where
  "new_image name pts = \<lparr>im_ID = [], im_ShortID = [], im_Name = name, im_ExposedPorts = pts, im_Created = 0\<rparr>"

text \<open>The exposed ports the inspector finds; none when it is switched off.\<close>

definition inspect_ports :: "('n, 'db, 'w) router \<Rightarrow> string \<Rightarrow> ('db, 'w) server \<Rightarrow> string list result" where
  "inspect_ports cr name sv =
     (if rc_Inspector (cr_Config cr) then bo_GetImageExposedPorts (cr_Backend cr) name (sv_backend sv) else Inr [])"

definition pull_image ::
  "('n, 'db, 'w) router \<Rightarrow> moment \<Rightarrow> string \<Rightarrow> (img \<Rightarrow> json) \<Rightarrow> ('db, 'w) server \<Rightarrow> outcome \<times> ('db, 'w) server" where
  "pull_image cr mo frm answer sv = (case ResolveImage cr frm of
     Inl e \<Rightarrow> (httputil_Error (ImageErrorStatus e) e, sv)
   | Inr resolved \<Rightarrow>
       (case inspect_ports cr resolved sv of
          Inl e \<Rightarrow> (httputil_Error 500 e, sv)
        | Inr pts \<Rightarrow>
            (case SaveImage (cr_DB cr) (mo_newid mo) (mo_now mo) (new_image frm pts) (sv_store sv) of
               (im, Some e, st) \<Rightarrow> (httputil_Error 500 e, sv\<lparr>sv_store := st\<rparr>)
             | (im, None, st) \<Rightarrow>
                 publish_then mo frm ''image'' ''pull'' (\<lambda>sv1. (Reply 200 (JsonBody (answer im)), sv1)) (sv\<lparr>sv_store := st\<rparr>))))"

definition docker_ImageCreate ::
  "('n, 'db, 'w) router \<Rightarrow> moment \<Rightarrow> string \<Rightarrow> string \<Rightarrow> ('db, 'w) server \<Rightarrow> outcome \<times> ('db, 'w) server" where
  "docker_ImageCreate cr mo fromImage tag sv =
     pull_image cr mo (if tag \<noteq> [] then fromImage @ '':'' @ tag else fromImage)
       (\<lambda>im. JObj [(''status'', JStr ''Download complete'')]) sv"

definition libpod_ImagePull ::
  "('n, 'db, 'w) router \<Rightarrow> moment \<Rightarrow> string \<Rightarrow> ('db, 'w) server \<Rightarrow> outcome \<times> ('db, 'w) server" where
  "libpod_ImagePull cr mo reference sv = pull_image cr mo reference (\<lambda>im. JObj [(''Id'', JStr (im_ID im))]) sv"

definition ImageList :: "('n, 'db, 'w) router \<Rightarrow> ('db, 'w) server \<Rightarrow> outcome \<times> ('db, 'w) server" where
  "ImageList cr sv = (case GetImages (cr_DB cr) (sv_store sv) of
     Inl e \<Rightarrow> (httputil_Error 500 e, sv)
   | Inr imgs \<Rightarrow>
       (Reply 200 (JsonBody (JArr (map (\<lambda>im. JObj [(''Id'', JStr (im_ID im)), (''Size'', JNum 0), (''Created'', JNum (im_Created im div second)),
          (''RepoTags'', strings_json [if CHR '':'' \<notin> set (im_Name im) then im_Name im @ '':latest'' else im_Name im])]) imgs))), sv))"

definition image_json :: "('n, 'db, 'w) router \<Rightarrow> string \<Rightarrow> img \<Rightarrow> json" where
  "image_json cr arch im =
     JObj [(''Id'', JStr (im_Name im)), (''Architecture'', JStr arch),
           (''Created'', JStr (cr_format cr ''2006-01-02T15:04:05Z'' (im_Created im))), (''Size'', JNum 0),
           (''ContainerConfig'', JObj [(''Image'', JStr (im_Name im))]), (''Config'', JObj [(''Env'', JArr [])])]"

definition ImageJSON ::
  "('n, 'db, 'w) router \<Rightarrow> moment \<Rightarrow> string \<Rightarrow> string \<Rightarrow> ('db, 'w) server \<Rightarrow> outcome \<times> ('db, 'w) server" where
  "ImageJSON cr mo arch path sv =
     (let i = TrimSuffix path ''/json''
      in case GetImageByNameOrID (cr_DB cr) (sv_store sv) i of
           Inr im \<Rightarrow> (Reply 200 (JsonBody (image_json cr arch im)), sv)
         | Inl _ \<Rightarrow>
             (case inspect_ports cr i sv of
                Inl e \<Rightarrow> (httputil_Error 500 e, sv)
              | Inr pts \<Rightarrow>
                  (case SaveImage (cr_DB cr) (mo_newid mo) (mo_now mo) (new_image i pts) (sv_store sv) of
                     (im, Some e, st) \<Rightarrow> (httputil_Error 404 e, sv\<lparr>sv_store := st\<rparr>)
                   | (im, None, st) \<Rightarrow> (Reply 200 (JsonBody (image_json cr arch im)), sv\<lparr>sv_store := st\<rparr>))))"

section \<open>Libpod containers\<close>

record pod_create_request =
  pr_Name :: string
  pr_Image :: string
  pr_Labels :: "(string, string) gomap"
  pr_Entrypoint :: "string list"
  pr_Command :: "string list"
  pr_Env :: "(string, string) gomap"
  pr_User :: string
  pr_PortMappings :: "(int \<times> int) list"           \<comment> \<open>host port and container port\<close>
  pr_Network :: "(string, string list) gomap"     \<comment> \<open>network to its aliases\<close>
  pr_Mounts :: "(string \<times> string) list"           \<comment> \<open>source and destination\<close>
  pr_Terminal :: bool
  pr_Stdin :: bool

definition libpod_addNetworkAliases :: "container \<Rightarrow> (string, string list) gomap \<Rightarrow> container" where
  "libpod_addNetworkAliases c networks =
     c\<lparr>co_NetworkAliases := alias_loop (concat (map snd networks)) [co_ShortID c] []\<rparr>"

fun add_mappings :: "(int \<times> int) list \<Rightarrow> container \<Rightarrow> container result" where
  "add_mappings [] c = Inr c"
| "add_mappings ((hp, cp) # ms) c =
     bind_res (AddHostPort c (show_int hp) (show_int cp)) (\<lambda>c1.
       add_mappings ms (c1\<lparr>co_ExposedPorts := key_add (show_int cp) (co_ExposedPorts c1)\<rparr>))"

definition libpod_container :: "rconfig \<Rightarrow> pod_create_request \<Rightarrow> string \<Rightarrow> string \<Rightarrow> container" where
  "libpod_container cfg rq qname resolved = (new_container resolved)\<lparr>
     co_Name := (if pr_Name rq = [] then qname else pr_Name rq),
     co_Entrypoint := pr_Entrypoint rq, co_Cmd := pr_Command rq,
     co_Env := map (\<lambda>(k, v). k @ ''='' @ v) (pr_Env rq),
     co_Labels := map_set LabelServiceAccount (rc_ServiceAccount cfg) (config_labels cfg (pr_User rq) (pr_Labels rq)),
     co_Tty := pr_Terminal rq, co_OpenStdin := pr_Stdin rq\<rparr>"

definition libpod_ContainerCreate ::
  "('n, 'db, 'w) router \<Rightarrow> moment \<Rightarrow> pod_create_request result \<Rightarrow> string \<Rightarrow> ('db, 'w) server \<Rightarrow> outcome \<times> ('db, 'w) server" where
  "libpod_ContainerCreate cr mo dat qname sv = (case dat of
     Inl e \<Rightarrow> (httputil_Error 500 e, sv)
   | Inr rq \<Rightarrow>
       (case ResolveImage cr (pr_Image rq) of
          Inl e \<Rightarrow> (httputil_Error (ImageErrorStatus e) e, sv)
        | Inr resolved \<Rightarrow>
            (case add_mappings (pr_PortMappings rq)
                    (with_image_ports cr (sv_store sv) (pr_Image rq) (libpod_container (cr_Config cr) rq qname resolved)) of
               Inl e \<Rightarrow> (httputil_Error 500 e, sv)
             | Inr c1 \<Rightarrow>
                 (let c2 = libpod_addNetworkAliases c1 (pr_Network rq);
                      c3 = c2\<lparr>co_Binds := map (\<lambda>(src, dst). src @ '':'' @ dst) (pr_Mounts rq)\<rparr>
                  in case ValidateContainerRequest cr c3 of
                       Inl e \<Rightarrow> (httputil_Error (ContainerRequestErrorStatus e) e, sv)
                     | Inr _ \<Rightarrow>
                         (case connect_bridge cr (sv_store sv) c3 of
                            Inl e \<Rightarrow> (httputil_Error 500 e, sv)
                          | Inr c4 \<Rightarrow> store_created cr mo c4 sv)))))"

definition libpod_ContainerDelete ::
  "('n, 'db, 'w) router \<Rightarrow> moment \<Rightarrow> string \<Rightarrow> ('db, 'w) server \<Rightarrow> outcome \<times> ('db, 'w) server" where
  "libpod_ContainerDelete cr mo i sv = (case GetContainerByNameOrID (cr_DB cr) (sv_store sv) i of
     Inl e \<Rightarrow> (httputil_Error 404 e, sv)
   | Inr c \<Rightarrow> delete_then cr mo c (\<lambda>c1 sv1. case db_DeleteContainer (cr_DB cr) c1 (sv_store sv1) of
        (Some e, st) \<Rightarrow> (Reply 404 (ErrorBody e), sv1\<lparr>sv_store := st\<rparr>)
      | (None, st) \<Rightarrow> (Reply 200 (JsonBody (JArr [])), sv1\<lparr>sv_store := st\<rparr>)) sv)"

definition libpod_wait_tick ::
  "('n, 'db, 'w) router \<Rightarrow> moment \<Rightarrow> string \<Rightarrow> ('db, 'w) server \<Rightarrow> outcome option \<times> ('db, 'w) server" where
  "libpod_wait_tick cr mo i sv = (case GetContainerByNameOrID (cr_DB cr) (sv_store sv) i of
     Inl e \<Rightarrow> (Some (httputil_Error 404 e), sv)
   | Inr c \<Rightarrow>
       (case UpdateContainerStatus cr mo c sv of (c1, sv1) \<Rightarrow>
          (if co_Stopped c1 \<or> co_Killed c1 \<or> co_Completed c1 then Some (Reply 200 (JsonBody (JNum (co_ExitCode c1)))) else None, sv1)))"

fun libpod_ContainerWait ::
  "('n, 'db, 'w) router \<Rightarrow> string \<Rightarrow> (moment \<times> (('db, 'w) server \<Rightarrow> ('db, 'w) server)) list \<Rightarrow> ('db, 'w) server \<Rightarrow>
   outcome \<times> ('db, 'w) server" where
  "libpod_ContainerWait cr i [] sv = (NoReply, sv)"
| "libpod_ContainerWait cr i ((mo, others) # ticks) sv = (case libpod_wait_tick cr mo i (others sv) of
     (Some out, sv1) \<Rightarrow> (out, sv1)
   | (None, sv1) \<Rightarrow> libpod_ContainerWait cr i ticks sv1)"

end
