(* ===== verification/Exec.thy ===== *)
theory Exec
  imports BackendOps
begin

text \<open>
  \<open>internal/backend/exec.go\<close>, \<open>copy.go\<close> and \<open>logs.go\<close>: commands, file copies and logs of a
  running container.

  \<open>exec.RemoteCmd\<close> opens a stream to the pod through the Kubernetes client library; it is a
  parameter that gets the request and returns its error and what the command wrote.
\<close>

section \<open>Commands\<close>

record remote_request =
  rr_Container :: string
  rr_Cmd :: "string list"
  rr_Stdin :: bool
  rr_Stdout :: bool
  rr_Stderr :: bool
  rr_TTY :: bool

type_synonym ('k, 'q) remote = "'q pod \<Rightarrow> remote_request \<Rightarrow> 'k \<Rightarrow> error option \<times> string \<times> 'k"

definition main_request :: "string list \<Rightarrow> remote_request" where
  "main_request cmd = \<lparr>rr_Container = ''main'', rr_Cmd = cmd, rr_Stdin = False, rr_Stdout = False, rr_Stderr = False, rr_TTY = False\<rparr>"

text \<open>\<open>^[A-Za-z_][A-Za-z0-9_]*$\<close>\<close>

definition execEnvName :: "string \<Rightarrow> bool" where
  "execEnvName s = (s \<noteq> [] \<and> \<not> is_digit (hd s) \<and> list_all (\<lambda>c. is_alnum c \<or> c = CHR ''_'') s)"

text \<open>One part of \<open>^[A-Za-z0-9_][A-Za-z0-9_.-]*(:[A-Za-z0-9_][A-Za-z0-9_.-]*)?$\<close>\<close>

definition user_part :: "string \<Rightarrow> bool" where
  "user_part s = (s \<noteq> [] \<and> (is_alnum (hd s) \<or> hd s = CHR ''_'') \<and>
     list_all (\<lambda>c. is_alnum c \<or> c \<in> {CHR ''_'', CHR ''.'', CHR ''-''}) s)"

definition execUser :: "string \<Rightarrow> bool" where
  "execUser s = (case Split s (CHR '':'') of [u] \<Rightarrow> user_part u | [u, g] \<Rightarrow> user_part u \<and> user_part g | _ \<Rightarrow> False)"

text \<open>The script that enters the working directory and changes to the user, line by line.\<close>

definition execContextScript :: string where
  \<open>execContextScript = Join [
    ''user=$1'',
    ''workdir=$2'',
    ''shift 2'',
    ''if [ -n "$workdir" ]; then'',
    ''  cd "$workdir" || exit 126'',
    ''fi'',
    ''if [ -n "$user" ]; then'',
    ''  for helper in gosu su-exec; do'',
    ''    if command -v "$helper" >/dev/null 2>&1; then'',
    ''      exec "$helper" "$user" "$@"'',
    ''    fi'',
    ''  done'',
    ''  if command -v setpriv >/dev/null 2>&1; then'',
    ''    run_user=${user%%:*}'',
    ''    if [ "$run_user" != "$user" ]; then'',
    ''      run_group=${user#*:}'',
    ''    else'',
    ''      run_group=$(id -g "$run_user") || exit 126'',
    ''    fi'',
    ''    exec setpriv --reuid "$run_user" --regid "$run_group" --init-groups "$@"'',
    ''  fi'',
    ''  if command -v runuser >/dev/null 2>&1; then'',
    ''    exec runuser -u "$user" -- "$@"'',
    ''  fi'',
    ''  echo "cannot execute as user $user: image has no supported user-switch helper" >&2'',
    ''  exit 126'',
    ''fi'',
    ''exec "$@"''] [CHR 0x0A]\<close>

fun exec_env :: "string list \<Rightarrow> string list result" where
  "exec_env [] = Inr []"
| "exec_env (v # vs) = (case Cut v (CHR ''='') of (name, _, found) \<Rightarrow>
     if \<not> found \<or> \<not> execEnvName name \<or> CHR 0x00 \<in> set v
     then Inl (Errorf ''invalid exec environment entry %q'' [v])
     else bind_res (exec_env vs) (\<lambda>es. Inr (v # es)))"

definition prepareExecCommand :: "exec \<Rightarrow> string list result" where
  "prepareExecCommand ex =
     (if length (ex_Cmd ex) = 0 then Inl (Errorf ''exec command is empty'' [])
      else if CHR 0x00 \<in> set (ex_WorkingDir ex) then Inl (Errorf ''exec working directory contains a null byte'' [])
      else if ex_User ex \<noteq> [] \<and> \<not> execUser (ex_User ex) then Inl (Errorf ''invalid exec user %q'' [ex_User ex])
      else
        (let cmd = (if ex_User ex \<noteq> [] \<or> ex_WorkingDir ex \<noteq> []
                    then [''/bin/sh'', ''-c'', execContextScript, ''testtender-exec'', ex_User ex, ex_WorkingDir ex] @ ex_Cmd ex
                    else ex_Cmd ex)
         in if length (ex_Env ex) = 0 then Inr cmd
            else bind_res (exec_env (ex_Env ex)) (\<lambda>env. Inr ([''env''] @ env @ cmd))))"

definition eterm :: string where "eterm = ''command terminated with exit code''"

text \<open>\<open>txt\<close> renders an error.\<close>

definition parseExecResponse :: "(error \<Rightarrow> string) \<Rightarrow> error option \<Rightarrow> int \<times> error option" where
  "parseExecResponse txt err = (case err of
     None \<Rightarrow> (0, None)
   | Some e \<Rightarrow>
       if \<not> Contains (txt e) eterm then (0, Some e)
       else (case Atoi (TrimPrefix (txt e) (eterm @ '' '')) of None \<Rightarrow> (0, Some e) | Some cod \<Rightarrow> (cod, None)))"

definition ExecContainer ::
  "('k, 'q) deploy_env \<Rightarrow> ('k, 'q) remote \<Rightarrow> (error \<Rightarrow> string) \<Rightarrow> 'q backend \<Rightarrow> container \<Rightarrow> exec \<Rightarrow> 'k \<Rightarrow>
   int \<times> error option \<times> 'k" where
  "ExecContainer E R txt bk tainr ex k = (case de_GetPod E (bk_namespace bk) (GetPodName tainr) k of
     Inl e \<Rightarrow> (0, Some e, k)
   | Inr pd \<Rightarrow>
       (case prepareExecCommand ex of
          Inl e \<Rightarrow> (0, Some e, k)
        | Inr cmd \<Rightarrow>
            (case R pd \<lparr>rr_Container = ''main'', rr_Cmd = cmd, rr_Stdin = ex_Stdin ex, rr_Stdout = ex_TTY ex \<or> ex_Stdout ex,
                    rr_Stderr = ex_TTY ex \<or> ex_Stderr ex, rr_TTY = ex_TTY ex\<rparr> k of
               (err, out, k1) \<Rightarrow> (case parseExecResponse txt err of (cod, e) \<Rightarrow> (cod, e, k1)))))"

section \<open>Files\<close>

definition trim_target :: "string \<Rightarrow> string result" where
  "trim_target target =
     (if target \<noteq> ''/'' then
        (if target = [] then Inl (Panic ''index out of range [-1]'')
         else if last target = CHR ''/'' then Inr (butlast target) else Inr target)
      else Inr target)"

definition CopyToContainer ::
  "('k, 'q) deploy_env \<Rightarrow> ('k, 'q) remote \<Rightarrow> 'q backend \<Rightarrow> container \<Rightarrow> string \<Rightarrow> bool \<Rightarrow> 'k \<Rightarrow> error option \<times> 'k" where
  "CopyToContainer E R bk tainr target compressed k = (case de_GetPod E (bk_namespace bk) (GetPodName tainr) k of
     Inl e \<Rightarrow> (Some e, k)
   | Inr pd \<Rightarrow>
       (case trim_target target of
          Inl e \<Rightarrow> (Some e, k)
        | Inr dst \<Rightarrow>
            (case R pd ((main_request [''tar'', ''-x'' @ (if compressed then ''z'' else []) @ ''f'', ''-'', ''-C'', dst])\<lparr>rr_Stdin := True\<rparr>) k of
               (err, out, k1) \<Rightarrow> (err, k1))))"

definition CopyFromContainer ::
  "('k, 'q) deploy_env \<Rightarrow> ('k, 'q) remote \<Rightarrow> 'q backend \<Rightarrow> container \<Rightarrow> string \<Rightarrow> 'k \<Rightarrow> string result \<times> 'k" where
  "CopyFromContainer E R bk tainr target k = (case de_GetPod E (bk_namespace bk) (GetPodName tainr) k of
     Inl e \<Rightarrow> (Inl e, k)
   | Inr pd \<Rightarrow>
       (case R pd ((main_request [''tar'', ''-cf'', ''-'', ''-C'', path_Dir target, path_Base target])\<lparr>rr_Stdout := True\<rparr>) k of
          (Some e, out, k1) \<Rightarrow> (Inl e, k1)
        | (None, out, k1) \<Rightarrow> (Inr out, k1)))"

definition sanitizeFilename :: "string \<Rightarrow> string" where
  "sanitizeFilename file =
     ReplaceAll (ReplaceAll (ReplaceAll file ''`'' []) ''$'' []) [CHR 0x22] [CHR 0x5C, CHR 0x22]"

text \<open>The shell commands: a test of the file between double quotes.\<close>

definition test_command :: "string \<Rightarrow> string \<Rightarrow> string \<Rightarrow> string" where
  "test_command opt target rest = ''if [ '' @ opt @ '' '' @ [CHR 0x22] @ sanitizeFilename target @ [CHR 0x22] @ rest"

definition remote_test ::
  "('k, 'q) deploy_env \<Rightarrow> ('k, 'q) remote \<Rightarrow> 'q backend \<Rightarrow> container \<Rightarrow> string \<Rightarrow> 'k \<Rightarrow> string result \<times> 'k" where
  "remote_test E R bk tainr command k = (case de_GetPod E (bk_namespace bk) (GetPodName tainr) k of
     Inl e \<Rightarrow> (Inl e, k)
   | Inr pd \<Rightarrow>
       (case R pd ((main_request [''sh'', ''-c'', command])\<lparr>rr_Stdout := True\<rparr>) k of
          (Some e, out, k1) \<Rightarrow> (Inl e, k1)
        | (None, out, k1) \<Rightarrow> (Inr out, k1)))"

text \<open>File modes: \<open>ModePerm\<close> is 0777, \<open>ModeDir\<close> the top bit.\<close>

definition GetFileModeInContainer ::
  "('k, 'q) deploy_env \<Rightarrow> ('k, 'q) remote \<Rightarrow> 'q backend \<Rightarrow> container \<Rightarrow> string \<Rightarrow> 'k \<Rightarrow> 32 word result \<times> 'k" where
  "GetFileModeInContainer E R bk tainr target k =
     (case remote_test E R bk tainr (test_command ''-d'' target '' ]; then echo folder; else echo file; fi'') k of
        (Inl e, k1) \<Rightarrow> (Inl e, k1)
      | (Inr out, k1) \<Rightarrow> (Inr (if Contains out ''folder'' then 0x800001FF else 0x1FF), k1))"

definition FileExistsInContainer ::
  "('k, 'q) deploy_env \<Rightarrow> ('k, 'q) remote \<Rightarrow> 'q backend \<Rightarrow> container \<Rightarrow> string \<Rightarrow> 'k \<Rightarrow> bool result \<times> 'k" where
  "FileExistsInContainer E R bk tainr target k =
     (case remote_test E R bk tainr (test_command ''-e'' target '' ]; then echo true; else echo false; fi'') k of
        (Inl e, k1) \<Rightarrow> (Inl e, k1)
      | (Inr out, k1) \<Rightarrow> (Inr (Contains out ''true''), k1))"

section \<open>Logs\<close>

record log_options =
  lo_Follow :: bool
  lo_SinceTime :: "time option"
  lo_Timestamps :: bool
  lo_TailLines :: "64 word option"

record pod_log_options =
  pl_Container :: string
  pl_Follow :: bool
  pl_TailLines :: "int option"
  pl_SinceTime :: "time option"
  pl_Timestamps :: bool

definition newPodLogOptions :: "log_options \<Rightarrow> pod_log_options" where
  "newPodLogOptions opts = \<lparr>pl_Container = ''main'', pl_Follow = lo_Follow opts,
     pl_TailLines = map_option sint (lo_TailLines opts), pl_SinceTime = lo_SinceTime opts, pl_Timestamps = lo_Timestamps opts\<rparr>"

text \<open>
  One pass of the loop that copies the log: whether the stop signal has arrived, what the read
  returned, and whether the writer took the bytes.
\<close>

datatype log_read = LogData "byte list" | LogEOF | LogErr error

record log_pass =
  lp_stopped :: bool
  lp_read :: log_read
  lp_written :: bool

text \<open>The error and the bytes written; \<^const>\<open>None\<close> when the loop is still waiting for the log.\<close>

fun logs_loop :: "bool \<Rightarrow> log_pass list \<Rightarrow> byte list list \<Rightarrow> (error option \<times> byte list list) option" where
  "logs_loop follow [] out = None"
| "logs_loop follow (p # ps) out =
     (if lp_stopped p then Some (None, out)
      else case lp_read p of
             LogEOF \<Rightarrow> Some (None, out)
           | LogErr e \<Rightarrow> Some (Some e, out)
           | LogData bs \<Rightarrow>
               if length bs = 0 then (if follow then logs_loop follow ps out else Some (None, out))
               else if lp_written p then logs_loop follow ps (out @ [bs]) else Some (None, out))"

definition getLogs ::
  "('k, 'q) deploy_env \<Rightarrow> 'q backend \<Rightarrow> container \<Rightarrow> log_options \<Rightarrow> (pod_log_options \<Rightarrow> log_pass list result) \<Rightarrow> 'k \<Rightarrow>
   (error option \<times> byte list list) option" where
  "getLogs E bk tainr opts open_stream k = (case de_GetPod E (bk_namespace bk) (GetPodName tainr) k of
     Inl e \<Rightarrow> Some (Some e, [])
   | Inr pd \<Rightarrow>
       (case open_stream (newPodLogOptions opts) of
          Inl e \<Rightarrow> Some (Some e, [])
        | Inr passes \<Rightarrow> logs_loop (lo_Follow opts) passes []))"

section \<open>What the shell reads\<close>

text \<open>
  The rest of a double-quoted word of the POSIX shell: characters stand for themselves up to the
  closing quote; a backslash takes the meaning from a quote, a backslash, a dollar sign, a
  backquote; \<^const>\<open>None\<close> if an expansion starts inside or the quote is not closed.
\<close>

fun dq_word :: "string \<Rightarrow> (string \<times> string) option" where
  "dq_word [] = None"
| "dq_word (c # cs) =
     (if c = CHR 0x22 then Some ([], cs)
      else if c = CHR ''$'' \<or> c = CHR ''`'' then None
      else if c = CHR 0x5C then
        (case cs of [] \<Rightarrow> None
         | d # ds \<Rightarrow>
             (case dq_word ds of None \<Rightarrow> None
              | Some (w, rest) \<Rightarrow>
                  Some (if d \<in> {CHR 0x22, CHR 0x5C, CHR ''$'', CHR ''`''} then (d # w, rest) else (c # d # w, rest))))
      else (case dq_word cs of None \<Rightarrow> None | Some (w, rest) \<Rightarrow> Some (c # w, rest)))"

section \<open>File names in the shell\<close>

lemma ReplaceAll_drop: "ReplaceAll s [c] [] = filter (\<lambda>d. d \<noteq> c) s"
  by (induction s) (auto simp: HasPrefix_def)

lemma sanitizeFilename_eq:
  "sanitizeFilename f = concat (map (\<lambda>d. if d = CHR 0x22 then [CHR 0x5C, CHR 0x22] else [d])
     (filter (\<lambda>d. d \<noteq> CHR ''$'' \<and> d \<noteq> CHR ''`'') f))"
  unfolding sanitizeFilename_def ReplaceAll_drop ReplaceAll_single[of _ "CHR 0x22"] by (simp add: conj_commute)

lemma dq_word_escaped:
  "CHR 0x5C \<notin> set f \<Longrightarrow> CHR ''$'' \<notin> set f \<Longrightarrow> CHR ''`'' \<notin> set f \<Longrightarrow>
   dq_word (concat (map (\<lambda>d. if d = CHR 0x22 then [CHR 0x5C, CHR 0x22] else [d]) f) @ CHR 0x22 # rest) = Some (f, rest)"
  by (induction f) auto

text \<open>
  File names cannot leave their quotes: for a name without backslashes, the shell that runs
  the file test reads exactly the name, less dollar signs and backquotes, as one word, and
  continues with the test command the program wrote.
\<close>

theorem sanitizeFilename_confined:
  assumes "CHR 0x5C \<notin> set f"
  shows "dq_word (sanitizeFilename f @ CHR 0x22 # rest) = Some (filter (\<lambda>d. d \<noteq> CHR ''$'' \<and> d \<noteq> CHR ''`'') f, rest)"
  unfolding sanitizeFilename_eq by (rule dq_word_escaped) (use assms in auto)

theorem sanitizeFilename_confined_witness:
  "dq_word (sanitizeFilename [CHR ''a'', CHR 0x22, CHR '';'', CHR ''$'', CHR ''b''] @ CHR 0x22 # '' ]'') =
     Some ([CHR ''a'', CHR 0x22, CHR '';'', CHR ''b''], '' ]'')"
  using sanitizeFilename_confined[of "[CHR ''a'', CHR 0x22, CHR '';'', CHR ''$'', CHR ''b'']" "'' ]''"] by simp

text \<open>
  A backslash escapes the confinement: when the name has a backslash in front of a quote, the
  quote is closed there, and what follows in the name is read as shell source.
\<close>

theorem sanitizeFilename_escape:
  assumes "CHR 0x5C \<notin> set f" "CHR ''$'' \<notin> set f" "CHR ''`'' \<notin> set f"
    and "CHR ''$'' \<notin> set g" "CHR ''`'' \<notin> set g" "CHR 0x22 \<notin> set g"
  shows "dq_word (sanitizeFilename (f @ [CHR 0x5C, CHR 0x22] @ g) @ CHR 0x22 # rest) = Some (f @ [CHR 0x5C], g @ CHR 0x22 # rest)"
proof -
  have g: "concat (map (\<lambda>d. if d = CHR 0x22 then [CHR 0x5C, CHR 0x22] else [d]) g) = g"
    using assms(6) by (induction g) auto
  have flt: "filter (\<lambda>d. d \<noteq> CHR ''$'' \<and> d \<noteq> CHR ''`'') (f @ [CHR 0x5C, CHR 0x22] @ g) = f @ [CHR 0x5C, CHR 0x22] @ g"
    by (rule filter_True) (use assms(2-5) in auto)
  have step: "dq_word (concat (map (\<lambda>d. if d = CHR 0x22 then [CHR 0x5C, CHR 0x22] else [d]) f) @ [CHR 0x5C, CHR 0x5C, CHR 0x22] @ t) =
      Some (f @ [CHR 0x5C], t)" for t
    using assms(1-3) by (induction f) auto
  show ?thesis unfolding sanitizeFilename_eq flt using step[of "g @ CHR 0x22 # rest"] g by simp
qed

theorem sanitizeFilename_escape_witness:
  "dq_word (sanitizeFilename (''x'' @ [CHR 0x5C, CHR 0x22] @ '' ]; reboot; '') @ CHR 0x22 # '' ]'') =
     Some (''x'' @ [CHR 0x5C], '' ]; reboot; '' @ CHR 0x22 # '' ]'')"
  by (rule sanitizeFilename_escape) simp_all

section \<open>Exec commands\<close>

lemma exec_env_Inr: "exec_env vs = Inr es \<Longrightarrow>
   es = vs \<and> (\<forall>v \<in> set vs. CHR 0x00 \<notin> set v \<and> (\<exists>n x. v = n @ CHR ''='' # x \<and> execEnvName n))"
  by (induction vs arbitrary: es) (auto simp: bind_res_Inr Cut_True split: prod.splits if_splits)

lemma execEnvName_hd: "execEnvName n \<Longrightarrow> n \<noteq> [] \<and> hd n \<noteq> CHR ''-'' \<and> CHR ''='' \<notin> set n"
  by (auto simp: execEnvName_def list_all_iff byte_class_defs code_def dest: hd_in_set)

lemma user_part_chars: "user_part u \<Longrightarrow> u \<noteq> [] \<and> hd u \<noteq> CHR ''-'' \<and> (\<forall>c \<in> set u. is_alnum c \<or> c \<in> {CHR ''_'', CHR ''.'', CHR ''-''})"
  by (auto simp: user_part_def list_all_iff byte_class_defs code_def)

lemma execUser_chars:
  assumes "execUser s"
  shows "hd s \<noteq> CHR ''-''" and "\<forall>c \<in> set s. is_alnum c \<or> c \<in> {CHR ''_'', CHR ''.'', CHR ''-'', CHR '':''}"
proof -
  consider u where "Split s (CHR '':'') = [u]" "user_part u"
    | u g where "Split s (CHR '':'') = [u, g]" "user_part u" "user_part g"
    using assms by (auto simp: execUser_def split: list.splits)
  then have "hd s \<noteq> CHR ''-'' \<and> (\<forall>c \<in> set s. is_alnum c \<or> c \<in> {CHR ''_'', CHR ''.'', CHR ''-'', CHR '':''})"
  proof cases
    case 1
    then have "s = u" using Join_Split[of s "CHR '':''"] by simp
    with user_part_chars[OF 1(2)] show ?thesis by auto
  next
    case 2
    then have s: "s = u @ CHR '':'' # g" by (simp add: Split_pair)
    with user_part_chars[OF 2(2)] user_part_chars[OF 2(3)] show ?thesis by (auto simp: hd_append)
  qed
  then show "hd s \<noteq> CHR ''-''" and "\<forall>c \<in> set s. is_alnum c \<or> c \<in> {CHR ''_'', CHR ''.'', CHR ''-'', CHR '':''}" by blast+
qed

text \<open>
  (C20) Exec requests cannot inject: an accepted request runs exactly the given command words, at
  most preceded by the program's own script, which gets user and directory as arguments, and by
  \<open>env\<close> with the given entries. The user consists of harmless characters and is no option, every
  entry is an assignment to a proper name (so \<open>env\<close> reads it as one), and no string has a null byte.
\<close>

theorem prepareExecCommand_safe:
  assumes "prepareExecCommand ex = Inr cmd"
  shows "\<exists>envp ctx. cmd = envp @ ctx @ ex_Cmd ex \<and> ex_Cmd ex \<noteq> [] \<and>
    envp = (if ex_Env ex = [] then [] else ''env'' # ex_Env ex) \<and>
    ctx = (if ex_User ex = [] \<and> ex_WorkingDir ex = [] then []
           else [''/bin/sh'', ''-c'', execContextScript, ''testtender-exec'', ex_User ex, ex_WorkingDir ex]) \<and>
    (ex_User ex \<noteq> [] \<longrightarrow> hd (ex_User ex) \<noteq> CHR ''-'' \<and>
       (\<forall>c \<in> set (ex_User ex). is_alnum c \<or> c \<in> {CHR ''_'', CHR ''.'', CHR ''-'', CHR '':''})) \<and>
    CHR 0x00 \<notin> set (ex_WorkingDir ex) \<and>
    (\<forall>v \<in> set (ex_Env ex). CHR 0x00 \<notin> set v \<and> (\<exists>n x. v = n @ CHR ''='' # x \<and> execEnvName n \<and> n \<noteq> [] \<and> hd n \<noteq> CHR ''-''))"
proof -
  let ?ctx = "if ex_User ex = [] \<and> ex_WorkingDir ex = [] then []
           else [''/bin/sh'', ''-c'', execContextScript, ''testtender-exec'', ex_User ex, ex_WorkingDir ex]"
  have c: "ex_Cmd ex \<noteq> []" "CHR 0x00 \<notin> set (ex_WorkingDir ex)" "ex_User ex \<noteq> [] \<Longrightarrow> execUser (ex_User ex)"
    using assms by (auto simp: prepareExecCommand_def split: if_splits)
  have env: "cmd = (if ex_Env ex = [] then [] else ''env'' # ex_Env ex) @ ?ctx @ ex_Cmd ex \<and>
      (\<forall>v \<in> set (ex_Env ex). CHR 0x00 \<notin> set v \<and> (\<exists>n x. v = n @ CHR ''='' # x \<and> execEnvName n))"
  proof (cases "ex_Env ex = []")
    case True
    then show ?thesis using assms by (auto simp: prepareExecCommand_def Let_def split: if_splits)
  next
    case False
    then obtain env where "exec_env (ex_Env ex) = Inr env" "cmd = ''env'' # env @ ?ctx @ ex_Cmd ex"
      using assms by (auto simp: prepareExecCommand_def Let_def bind_res_Inr split: if_splits)
    with exec_env_Inr[OF this(1)] False show ?thesis by simp
  qed
  then show ?thesis using c execUser_chars execEnvName_hd by (intro exI[of _ "if ex_Env ex = [] then [] else ''env'' # ex_Env ex"] exI[of _ ?ctx]) fast
qed

theorem prepareExecCommand_safe_witness:
  "\<exists>cmd ex. prepareExecCommand ex = Inr cmd \<and> ex_User ex = ''app:app'' \<and> cmd = [''env'', ''A=1''] @
     [''/bin/sh'', ''-c'', execContextScript, ''testtender-exec'', ''app:app'', ''/srv''] @ [''ls'', ''-l'']"
proof -
  let ?ex = "\<lparr>ex_ID = [], ex_ContainerID = [], ex_Cmd = [''ls'', ''-l''], ex_Env = [''A=1''], ex_User = ''app:app'',
     ex_WorkingDir = ''/srv'', ex_TTY = False, ex_Stdin = False, ex_Stdout = True, ex_Stderr = True, ex_ExitCode = 0, ex_Created = 0\<rparr>"
  have u: "execUser ''app:app''" by code_simp
  have e: "exec_env [''A=1''] = Inr [''A=1'']" by code_simp
  obtain cmd where "prepareExecCommand ?ex = Inr cmd" using u e by (simp add: prepareExecCommand_def)
  from prepareExecCommand_safe[OF this] this show ?thesis by (intro exI[of _ cmd] exI[of _ ?ex]) simp
qed

text \<open>
  Exit codes come back: the error with which the API server reports a failed command is
  turned into that command's exit code and no error; every other error is passed on with code 0,
  and success is code 0.
\<close>

theorem parseExecResponse_codes:
  assumes "- (2 ^ 63) \<le> n" "n < 2 ^ 63" "txt e = eterm @ '' '' @ show_int n" "\<not> Contains (txt e') eterm"
  shows "parseExecResponse txt (Some e) = (n, None) \<and> parseExecResponse txt (Some e') = (0, Some e') \<and>
     parseExecResponse txt None = (0, None)"
proof -
  have "Contains (p @ s) p" for p s :: string
  proof (cases "p @ s")
    case (Cons c cs)
    then show ?thesis using HasPrefix_append[of p s] by simp
  qed simp
  then have "Contains (txt e) eterm" using assms(3) by (metis append.assoc)
  moreover have "TrimPrefix (txt e) (eterm @ '' '') = show_int n"
    using TrimPrefix_append[of "eterm @ '' ''" "show_int n"] assms(3) by simp
  ultimately show ?thesis using assms(4) Atoi_show_int[OF assms(1,2)] by (simp add: parseExecResponse_def)
qed

theorem parseExecResponse_codes_witness:
  "parseExecResponse (\<lambda>e. case e of ExtError s \<Rightarrow> s | _ \<Rightarrow> ''other'') (Some (ExtError (eterm @ '' '' @ show_int 137))) = (137, None)"
proof -
  have "\<not> Contains ''other'' eterm" by code_simp
  then show ?thesis
    using parseExecResponse_codes[of 137 "\<lambda>e. case e of ExtError s \<Rightarrow> s | _ \<Rightarrow> ''other''" "ExtError (eterm @ '' '' @ show_int 137)" "Panic []"]
    by simp
qed

end
