(* ===== verification/ExecRoutes.thy ===== *)
theory ExecRoutes
  imports NetworkRoutes Exec
begin

text \<open>
  The handlers for commands, files and logs (\<open>common/exec.go\<close>, \<open>common/archive.go\<close>,
  \<open>common/logs.go\<close>), over the part of the \<open>Backend\<close> interface that \<open>Exec\<close> implements.
  The bytes that are streamed between the client and the pod are not part of the model; \<open>hijack\<close>
  tells whether the connection could be taken over.
\<close>

section \<open>The rest of the interface\<close>

record 'w file_ops =
  fo_ExecContainer :: "container \<Rightarrow> exec \<Rightarrow> 'w \<Rightarrow> int \<times> error option \<times> 'w"
  fo_CopyToContainer :: "container \<Rightarrow> string \<Rightarrow> bool \<Rightarrow> 'w \<Rightarrow> error option \<times> 'w"
  fo_CopyFromContainer :: "container \<Rightarrow> string \<Rightarrow> 'w \<Rightarrow> string result \<times> 'w"
  fo_FileExistsInContainer :: "container \<Rightarrow> string \<Rightarrow> 'w \<Rightarrow> bool result \<times> 'w"
  fo_GetFileModeInContainer :: "container \<Rightarrow> string \<Rightarrow> 'w \<Rightarrow> 32 word result \<times> 'w"
  fo_GetLogs :: "container \<Rightarrow> log_options \<Rightarrow> 'w \<Rightarrow> error option"

text \<open>The implementation, over the state of the instance.\<close>

definition on_cluster :: "('k \<Rightarrow> 'a \<times> 'k) \<Rightarrow> ('k, 'q) instance_state \<Rightarrow> 'a \<times> ('k, 'q) instance_state" where
  "on_cluster f w = (case f (is_cluster w) of (a, k) \<Rightarrow> (a, w\<lparr>is_cluster := k\<rparr>))"

definition instance_files ::
  "('k, 'q) deploy_env \<Rightarrow> ('k, 'q) remote \<Rightarrow> (error \<Rightarrow> string) \<Rightarrow> (pod_log_options \<Rightarrow> log_pass list result) \<Rightarrow>
   ('k, 'q) instance_state file_ops" where
  "instance_files E R txt open_stream = \<lparr>
     fo_ExecContainer = (\<lambda>t ex w. case ExecContainer E R txt (is_backend w) t ex (is_cluster w) of
        (cod, e, k) \<Rightarrow> (cod, e, w\<lparr>is_cluster := k\<rparr>)),
     fo_CopyToContainer = (\<lambda>t p z w. on_cluster (CopyToContainer E R (is_backend w) t p z) w),
     fo_CopyFromContainer = (\<lambda>t p w. on_cluster (CopyFromContainer E R (is_backend w) t p) w),
     fo_FileExistsInContainer = (\<lambda>t p w. on_cluster (FileExistsInContainer E R (is_backend w) t p) w),
     fo_GetFileModeInContainer = (\<lambda>t p w. on_cluster (GetFileModeInContainer E R (is_backend w) t p) w),
     fo_GetLogs = (\<lambda>t opts w. case getLogs E (is_backend w) t opts open_stream (is_cluster w) of
        None \<Rightarrow> None | Some (e, out) \<Rightarrow> e)\<rparr>"

section \<open>Execs\<close>

record exec_request =
  er_Cmd :: "string list"
  er_Stdin :: bool
  er_Stdout :: bool
  er_Stderr :: bool
  er_Tty :: bool
  er_Env :: "string list"
  er_User :: string
  er_WorkingDir :: string

definition requested_exec :: "string \<Rightarrow> exec_request \<Rightarrow> exec" where
  "requested_exec i rq = \<lparr>ex_ID = [], ex_ContainerID = i, ex_Cmd = er_Cmd rq, ex_Env = er_Env rq, ex_User = er_User rq,
     ex_WorkingDir = er_WorkingDir rq, ex_TTY = er_Tty rq, ex_Stdin = er_Stdin rq,
     ex_Stdout = (er_Stdout rq \<or> \<not> er_Stdout rq \<and> \<not> er_Stderr rq), ex_Stderr = er_Stderr rq, ex_ExitCode = 0, ex_Created = 0\<rparr>"

definition ContainerExec ::
  "('n, 'db, 'w) router \<Rightarrow> moment \<Rightarrow> string \<Rightarrow> exec_request result \<Rightarrow> ('db, 'w) server \<Rightarrow> outcome \<times> ('db, 'w) server" where
  "ContainerExec cr mo i dat sv = (case dat of
     Inl e \<Rightarrow> (httputil_Error 500 e, sv)
   | Inr rq \<Rightarrow>
       (case GetContainer (cr_DB cr) (sv_store sv) i of
          Inl e \<Rightarrow> (httputil_Error 404 e, sv)
        | Inr c \<Rightarrow>
            (case SaveExec (cr_DB cr) (mo_newid mo) (mo_now mo) (requested_exec i rq) (sv_store sv) of
               (ex, Some e, st) \<Rightarrow> (httputil_Error 500 e, sv\<lparr>sv_store := st\<rparr>)
             | (ex, None, st) \<Rightarrow> (Reply 201 (JsonBody (JObj [(''Id'', JStr (ex_ID ex))])), sv\<lparr>sv_store := st\<rparr>))))"

definition ExecInfo :: "('n, 'db, 'w) router \<Rightarrow> string \<Rightarrow> ('db, 'w) server \<Rightarrow> outcome \<times> ('db, 'w) server" where
  "ExecInfo cr i sv = (case GetExec (cr_DB cr) (sv_store sv) i of
     Inl e \<Rightarrow> (httputil_Error 404 e, sv)
   | Inr ex \<Rightarrow> (Reply 200 (JsonBody (JObj [(''ID'', JStr i), (''OpenStderr'', JBool (ex_Stderr ex)), (''OpenStdin'', JBool (ex_Stdin ex)),
        (''OpenStdout'', JBool (ex_Stdout ex)), (''Running'', JBool False), (''ExitCode'', JNum (ex_ExitCode ex)),
        (''ProcessConfig'', JObj [(''tty'', JBool (ex_TTY ex)), (''arguments'', strings_json (ex_Cmd ex)), (''entrypoint'', JStr []),
           (''user'', JStr (ex_User ex))])])), sv))"

text \<open>
  Running the command and recording its exit code. The detached command runs after the answer
  (its effect is shown here at once); an attached one has answered 200 before it runs.
\<close>

definition run_exec ::
  "('n, 'db, 'w) router \<Rightarrow> 'w file_ops \<Rightarrow> moment \<Rightarrow> container \<Rightarrow> exec \<Rightarrow> ('db, 'w) server \<Rightarrow> error option \<times> ('db, 'w) server" where
  "run_exec cr F mo c ex sv = (case fo_ExecContainer F c ex (sv_backend sv) of
     (cod, Some e, w) \<Rightarrow> (None, sv\<lparr>sv_backend := w\<rparr>)
   | (cod, None, w) \<Rightarrow>
       (case SaveExec (cr_DB cr) (mo_newid mo) (mo_now mo) (ex\<lparr>ex_ExitCode := cod\<rparr>) (sv_store sv) of
          (ex', e, st) \<Rightarrow> (e, sv\<lparr>sv_backend := w, sv_store := st\<rparr>)))"

definition ExecStart ::
  "('n, 'db, 'w) router \<Rightarrow> 'w file_ops \<Rightarrow> moment \<Rightarrow> string \<Rightarrow> bool result \<Rightarrow> bool \<Rightarrow> ('db, 'w) server \<Rightarrow> outcome \<times> ('db, 'w) server" where
  "ExecStart cr F mo i detach hijack sv = (case detach of
     Inl e \<Rightarrow> (httputil_Error 500 e, sv)
   | Inr det \<Rightarrow>
       (case GetExec (cr_DB cr) (sv_store sv) i of
          Inl e \<Rightarrow> (httputil_Error 404 e, sv)
        | Inr ex \<Rightarrow>
            (case GetContainer (cr_DB cr) (sv_store sv) (ex_ContainerID ex) of
               Inl e \<Rightarrow> (httputil_Error 404 e, sv)
             | Inr c \<Rightarrow>
                 if det then (Reply 200 (JsonBody (JObj [])), snd (run_exec cr F mo c ex sv))
                 else if \<not> hijack then (Reply 200 NoBody, sv)
                 else (Reply 200 NoBody, snd (run_exec cr F mo c ex sv)))))"

definition ExecResize :: "('n, 'db, 'w) router \<Rightarrow> string \<Rightarrow> ('db, 'w) server \<Rightarrow> outcome \<times> ('db, 'w) server" where
  "ExecResize cr i sv = (case GetExec (cr_DB cr) (sv_store sv) i of
     Inl e \<Rightarrow> (httputil_Error 404 e, sv)
   | Inr ex \<Rightarrow> (Reply 200 (JsonBody (JObj [])), sv))"

section \<open>Archives\<close>

text \<open>The end of \<open>PutArchive\<close>: the first five bytes tell whether the stream is compressed.\<close>

definition copy_archive ::
  "'w file_ops \<Rightarrow> container \<Rightarrow> string \<Rightarrow> byte list result \<Rightarrow> ('db, 'w) server \<Rightarrow> outcome \<times> ('db, 'w) server" where
  "copy_archive F c path dat sv = (case dat of
     Inl e \<Rightarrow> (httputil_Error 400 e, sv)
   | Inr bs \<Rightarrow>
       (case fo_CopyToContainer F c path (IsCompressed (take 5 bs)) (sv_backend sv) of
          (Some e, w) \<Rightarrow> (httputil_Error 500 e, sv\<lparr>sv_backend := w\<rparr>)
        | (None, w) \<Rightarrow> (Reply 200 NoBody, sv\<lparr>sv_backend := w\<rparr>)))"

definition start_if_needed ::
  "('n, 'db, 'w) router \<Rightarrow> moment \<Rightarrow> container \<Rightarrow> ('db, 'w) server \<Rightarrow> container \<times> error option \<times> ('db, 'w) server" where
  "start_if_needed cr mo c sv =
     (if \<not> co_Running c \<and> \<not> co_Completed c then common_StartContainer cr mo c sv else (c, None, sv))"

definition start_and_copy ::
  "('n, 'db, 'w) router \<Rightarrow> 'w file_ops \<Rightarrow> moment \<Rightarrow> container \<Rightarrow> string \<Rightarrow> byte list result \<Rightarrow> ('db, 'w) server \<Rightarrow> outcome \<times> ('db, 'w) server" where
  "start_and_copy cr F mo c path dat sv = (case start_if_needed cr mo c sv of
     (c1, Some e, sv1) \<Rightarrow> (httputil_Error 500 e, sv1)
   | (c1, None, sv1) \<Rightarrow> copy_archive F c1 path dat sv1)"

definition PutArchive ::
  "('n, 'db, 'w) router \<Rightarrow> 'w file_ops \<Rightarrow> (byte list \<Rightarrow> tar_stream result) \<Rightarrow> moment \<Rightarrow> string \<Rightarrow> string \<Rightarrow> byte list result \<Rightarrow>
   ('db, 'w) server \<Rightarrow> outcome \<times> ('db, 'w) server" where
  "PutArchive cr F arch mo i path dat sv =
     (if path = [] then (httputil_Error 400 (Errorf ''missing required path parameter'' []), sv)
      else case GetContainer (cr_DB cr) (sv_store sv) i of
        Inl e \<Rightarrow> (httputil_Error 404 e, sv)
      | Inr c \<Rightarrow>
          if \<not> co_Running c \<and> \<not> co_Completed c \<and> rc_PreArchive (cr_Config cr) then
            (case dat of
               Inl e \<Rightarrow> (httputil_Error 400 e, sv)
             | Inr bs \<Rightarrow>
                 if IsSingleFileArchive (arch bs) then
                   (case save_container cr mo (c\<lparr>co_PreArchives := co_PreArchives c @ [\<lparr>pa_Path = path, pa_Archive = bs\<rparr>]\<rparr>) sv of
                      (c1, Some e, sv1) \<Rightarrow> (httputil_Error 500 e, sv1)
                    | (c1, None, sv1) \<Rightarrow> (Reply 200 (JsonBody (JObj [(''message'', JStr ''planned archive to be copied to container'')])), sv1))
                 else start_and_copy cr F mo c path dat sv)
          else start_and_copy cr F mo c path dat sv)"

text \<open>
  The checks \<open>HeadArchive\<close> and \<open>GetArchive\<close> begin with. The information about the file is sent
  as a header of the answer; it is shown as its body.
\<close>

definition with_existing_file ::
  "('n, 'db, 'w) router \<Rightarrow> 'w file_ops \<Rightarrow> string \<Rightarrow> string \<Rightarrow> (container \<Rightarrow> ('db, 'w) server \<Rightarrow> outcome \<times> ('db, 'w) server) \<Rightarrow>
   ('db, 'w) server \<Rightarrow> outcome \<times> ('db, 'w) server" where
  "with_existing_file cr F i path k sv = (case GetContainer (cr_DB cr) (sv_store sv) i of
     Inl e \<Rightarrow> (httputil_Error 404 e, sv)
   | Inr c \<Rightarrow>
       if path = [] then (httputil_Error 400 (Errorf ''missing required path parameter'' []), sv)
       else (case fo_FileExistsInContainer F c path (sv_backend sv) of
               (Inl e, w) \<Rightarrow> (httputil_Error 500 e, sv\<lparr>sv_backend := w\<rparr>)
             | (Inr exists, w) \<Rightarrow>
                 if \<not> exists then (httputil_Error 404 (Errorf ''file not found'' []), sv\<lparr>sv_backend := w\<rparr>)
                 else k c (sv\<lparr>sv_backend := w\<rparr>)))"

definition HeadArchive ::
  "('n, 'db, 'w) router \<Rightarrow> 'w file_ops \<Rightarrow> string \<Rightarrow> string \<Rightarrow> ('db, 'w) server \<Rightarrow> outcome \<times> ('db, 'w) server" where
  "HeadArchive cr F i path sv = with_existing_file cr F i path (\<lambda>c sv1.
     case fo_GetFileModeInContainer F c path (sv_backend sv1) of
       (Inl e, w) \<Rightarrow> (httputil_Error 500 e, sv1\<lparr>sv_backend := w\<rparr>)
     | (Inr mode, w) \<Rightarrow>
         (Reply 200 (JsonBody (JObj [(''name'', JStr path), (''linkTarget'', JStr path), (''mode'', JNum (uint mode))])), sv1\<lparr>sv_backend := w\<rparr>)) sv"

definition GetArchive ::
  "('n, 'db, 'w) router \<Rightarrow> 'w file_ops \<Rightarrow> (string \<Rightarrow> nat result) \<Rightarrow> string \<Rightarrow> string \<Rightarrow> ('db, 'w) server \<Rightarrow> outcome \<times> ('db, 'w) server" where
  "GetArchive cr F tar_size i path sv = with_existing_file cr F i path (\<lambda>c sv1.
     case fo_CopyFromContainer F c path (sv_backend sv1) of
       (Inl e, w) \<Rightarrow> (httputil_Error 500 e, sv1\<lparr>sv_backend := w\<rparr>)
     | (Inr dat, w) \<Rightarrow>
         (case tar_size dat of
            Inl e \<Rightarrow> (httputil_Error 500 e, sv1\<lparr>sv_backend := w\<rparr>)
          | Inr sz \<Rightarrow> (Reply 200 (JsonBody (JObj [(''name'', JStr path), (''size'', JNum (int sz)), (''mode'', JNum 511),
               (''linkTarget'', JStr path), (''mtime'', JStr ''2021-01-01T20:00:00Z''), (''data'', JStr (take sz dat))])), sv1\<lparr>sv_backend := w\<rparr>))) sv"

section \<open>Logs\<close>

definition parseUint64 :: "string \<Rightarrow> 64 word option" where
  "parseUint64 s = map_option of_int (ParseUint 32 s)"

definition parseUnix :: "string \<Rightarrow> time option" where
  "parseUnix s = map_option (\<lambda>n. n * second) (ParseInt 32 s)"

definition log_query :: "string \<Rightarrow> string \<Rightarrow> string \<Rightarrow> string \<Rightarrow> log_options" where
  "log_query follow tail since timestamps = \<lparr>lo_Follow = (ParseBool follow = Some True), lo_SinceTime = parseUnix since,
     lo_Timestamps = (ParseBool timestamps = Some True), lo_TailLines = parseUint64 tail\<rparr>"

text \<open>The answer 200 is written before the logs are fetched; a later error is only appended to it.\<close>

definition ContainerLogs ::
  "('n, 'db, 'w) router \<Rightarrow> 'w file_ops \<Rightarrow> moment \<Rightarrow> string \<Rightarrow> log_options \<Rightarrow> bool \<Rightarrow> ('db, 'w) server \<Rightarrow> outcome \<times> ('db, 'w) server" where
  "ContainerLogs cr F mo i opts hijack sv = (case GetContainer (cr_DB cr) (sv_store sv) i of
     Inl e \<Rightarrow> (httputil_Error 404 e, sv)
   | Inr c \<Rightarrow>
       if \<not> co_Running c \<and> \<not> co_Completed c
       then (httputil_Error 404 (Errorf ''container %s is not running'' [co_ShortID c]), sv)
       else if \<not> lo_Follow opts then
         (case fo_GetLogs F c opts (sv_backend sv) of Some e \<Rightarrow> (Reply 200 (ErrorBody e), sv) | None \<Rightarrow> (Reply 200 NoBody, sv))
       else if \<not> hijack then (Reply 200 NoBody, sv)
       else (Reply 200 NoBody, put_container (AddStopChannel c (mo_chan mo)) sv))"

end
