(* ===== verification/Lifecycle.thy ===== *)
theory Lifecycle
  imports ExecRoutes
begin

text \<open>
  How the handlers change the containers the server knows: every change is a growth of the
  container (its specification stays, its life cycle goes forward), whatever the table library and
  the cluster do. One lemma per handler, on top of rules for the primitive state changes.
\<close>

section \<open>Life cycle\<close>

text \<open>What a container is created with, and what no handler changes.\<close>

type_synonym core = "string \<times> string \<times> string \<times> (string, string) gomap \<times> string list \<times> string list \<times> string list \<times> string list \<times> mount list"

definition core_of :: "container \<Rightarrow> core" where
  "core_of c = (co_ID c, co_ShortID c, co_Image c, co_Labels c, co_Entrypoint c, co_Cmd c, co_Env c, co_Binds c, co_Mounts c)"

definition started :: "container \<Rightarrow> bool" where
  "started c = (co_Running c \<or> co_Completed c \<or> co_Stopped c \<or> co_Killed c \<or> co_Failed c)"

definition lifecycle_ok :: "container \<Rightarrow> bool" where
  "lifecycle_ok c = (\<not> (co_Running c \<and> co_Completed c) \<and> (co_Running c \<longrightarrow> \<not> co_Stopped c \<and> \<not> co_Killed c) \<and>
     (co_Completed c \<longrightarrow> co_Finished c \<noteq> 0))"

definition grows :: "container \<Rightarrow> container \<Rightarrow> bool" where
  "grows c c' = (core_of c' = core_of c \<and> (lifecycle_ok c \<longrightarrow> lifecycle_ok c') \<and> (started c \<longrightarrow> started c'))"

definition hp :: "('db, 'w) server \<Rightarrow> string \<Rightarrow> container option" where
  "hp sv = map_get (st_containers (sv_store sv))"

text \<open>The same containers, each grown.\<close>

definition keeps :: "('db, 'w) server \<Rightarrow> ('db, 'w) server \<Rightarrow> bool" where
  "keeps sv sv' = (\<forall>i. rel_option grows (hp sv i) (hp sv' i))"

definition heap_ok :: "('db, 'w) server \<Rightarrow> bool" where
  "heap_ok sv = (\<forall>i c. hp sv i = Some c \<longrightarrow> co_ID c = i \<and> i \<noteq> [])"

lemma grows_refl [simp]: "grows c c"
  by (simp add: grows_def)

lemma grows_trans: "grows a b \<Longrightarrow> grows b c \<Longrightarrow> grows a c"
  by (auto simp: grows_def)

lemma grows_ID: "grows c c' \<Longrightarrow> co_ID c' = co_ID c"
  by (simp add: grows_def core_of_def)

lemma keeps_refl [simp]: "keeps sv sv"
  by (simp add: keeps_def option.rel_refl)

lemma keeps_trans: "keeps a b \<Longrightarrow> keeps b c \<Longrightarrow> keeps a c"
  unfolding keeps_def by (metis (mono_tags, lifting) grows_trans option.rel_sel)

lemma keeps_heap_ok: "heap_ok sv \<Longrightarrow> keeps sv sv' \<Longrightarrow> heap_ok sv'"
  unfolding heap_ok_def keeps_def by (metis grows_ID option_rel_Some2)

lemma same_heap_keeps: "hp sv' = hp sv \<Longrightarrow> keeps sv sv'"
  by (simp add: keeps_def option.rel_refl)

section \<open>Primitive changes\<close>

lemma hp_simps [simp]:
  "hp (sv\<lparr>sv_backend := w\<rparr>) = hp sv" "hp (sv\<lparr>sv_events := obs\<rparr>) = hp sv" "hp (sv\<lparr>sv_signals := sg\<rparr>) = hp sv"
  "hp (backend_delete cr c sv) = hp sv"
  "hp (put_container c sv) = (hp sv)(co_ID c \<mapsto> c)"
  by (auto simp: hp_def backend_delete_def put_container_def fun_eq_iff)

lemma db_heaps:
  "st_containers (snd (db_save M t k st)) = st_containers st" "st_containers (snd (db_delete M t k st)) = st_containers st"
  by (auto simp: db_save_def db_delete_def split: sum.splits)

lemma save_heaps:
  "st_containers (snd (snd (SaveNetwork M i n netw st))) = st_containers st"
  "st_containers (snd (snd (SaveImage M i n im st))) = st_containers st"
  "st_containers (snd (snd (SaveExec M i n ex st))) = st_containers st"
  by (auto simp: SaveNetwork_def SaveImage_def SaveExec_def Let_def db_heaps)

lemma keeps_put:
  assumes "hp sv (co_ID c) = Some c" "grows c c'"
  shows "keeps sv (put_container c' sv)" and "hp (put_container c' sv) (co_ID c') = Some c'"
  using assms grows_ID[OF assms(2)] by (auto simp: keeps_def option.rel_refl)

lemma save_container_hp:
  assumes "save_container cr mo c sv = (c', e, sv')" "co_ID c \<noteq> []"
  shows "c' = c" and "hp sv' = (hp sv)(co_ID c \<mapsto> c)"
proof -
  obtain s where s: "SaveContainer (cr_DB cr) (mo_newid mo) (mo_now mo) c (sv_store sv) = (c', e, s)" "sv' = sv\<lparr>sv_store := s\<rparr>"
    using assms(1) by (auto simp: save_container_def split: prod.splits)
  then show "c' = c" using assms(2) by (auto simp: SaveContainer_def init_container_def)
  have "st_containers s = map_set (co_ID c) c (st_containers (sv_store sv))"
    using s(1) assms(2) db_heaps(1)[of "cr_DB cr" TContainer "co_key c" "(sv_store sv)\<lparr>st_containers := map_set (co_ID c) c (st_containers (sv_store sv))\<rparr>"]
    by (auto simp: SaveContainer_def init_container_def)
  then show "hp sv' = (hp sv)(co_ID c \<mapsto> c)" using s(2) by (auto simp: hp_def fun_eq_iff)
qed

lemma keeps_save:
  assumes "hp sv (co_ID c) = Some c" "co_ID c \<noteq> []" "grows c c1" "save_container cr mo c1 sv = (c2, e, sv')"
  shows "keeps sv sv'" and "c2 = c1" and "hp sv' (co_ID c1) = Some c1"
proof -
  have i: "co_ID c1 = co_ID c" by (rule grows_ID[OF assms(3)])
  note sc = save_container_hp[OF assms(4)]
  show "c2 = c1" "hp sv' (co_ID c1) = Some c1" using sc assms(2) i by auto
  show "keeps sv sv'" using sc(2) assms(1-3) i by (auto simp: keeps_def option.rel_refl)
qed

lemma publish_then_keeps:
  assumes "\<And>sv1. hp sv1 = hp sv \<Longrightarrow> keeps sv1 (snd (k sv1))"
  shows "keeps sv (snd (publish_then mo i kind action k sv))"
proof -
  obtain obs ok where p: "Publish (mo_now mo) i kind action (sv_events sv) = (obs, ok)" by force
  have "keeps sv (sv\<lparr>sv_events := obs\<rparr>)" by (rule same_heap_keeps) simp
  then show ?thesis using p assms[of "sv\<lparr>sv_events := obs\<rparr>"] by (cases ok) (auto simp: publish_then_def intro: keeps_trans)
qed

lemma publish_then_reply [simp]: "keeps sv (snd (publish_then mo i kind action (\<lambda>sv1. (r, sv1)) sv))"
  by (rule publish_then_keeps) simp

section \<open>Lookups\<close>

lemma found_heap:
  assumes "heap_ok sv" "found_or msg i (st_containers (sv_store sv)) r = Inr c"
  shows "hp sv (co_ID c) = Some c \<and> co_ID c \<noteq> []"
  using assms by (auto simp: found_or_def bind_res_Inr deref_def heap_ok_def hp_def split: option.splits)

lemma GetContainer_heap:
  "heap_ok sv \<Longrightarrow> GetContainer M (sv_store sv) i = Inr c \<Longrightarrow> hp sv (co_ID c) = Some c \<and> co_ID c \<noteq> []"
  unfolding GetContainer_def by (rule found_heap)

lemma GetContainerByName_heap:
  "heap_ok sv \<Longrightarrow> GetContainerByName M (sv_store sv) i = Inr c \<Longrightarrow> hp sv (co_ID c) = Some c \<and> co_ID c \<noteq> []"
  by (auto simp: GetContainerByName_def getContainerByName_def dest: found_heap GetContainer_heap split: sum.splits if_splits)

lemma GetContainerByNameOrID_heap:
  "heap_ok sv \<Longrightarrow> GetContainerByNameOrID M (sv_store sv) i = Inr c \<Longrightarrow> hp sv (co_ID c) = Some c \<and> co_ID c \<noteq> []"
  by (auto simp: GetContainerByNameOrID_def dest: GetContainer_heap GetContainerByName_heap split: sum.splits)

lemma deref_all_mem: "deref_all heap ids = Inr cs \<Longrightarrow> c \<in> set cs \<Longrightarrow> \<exists>i. map_get heap i = Some c"
  by (induction ids arbitrary: cs) (auto simp: bind_res_Inr deref_def split: option.splits)

lemma GetContainers_heap:
  "heap_ok sv \<Longrightarrow> GetContainers M (sv_store sv) = Inr cs \<Longrightarrow> c \<in> set cs \<Longrightarrow> hp sv (co_ID c) = Some c \<and> co_ID c \<noteq> []"
  by (auto simp: GetContainers_def bind_res_Inr heap_ok_def hp_def dest!: deref_all_mem)

section \<open>Growth\<close>

lemma spec_of_sel:
  assumes "spec_of c' = spec_of c"
  shows "core_of c' = core_of c" "co_Running c' = co_Running c" "co_Completed c' = co_Completed c"
    "co_Stopped c' = co_Stopped c" "co_Killed c' = co_Killed c" "co_Failed c' = co_Failed c" "started c' = started c"
proof -
  have sel: "core_of c = core_of (spec_of c)" "co_Running c = co_Running (spec_of c)" "co_Completed c = co_Completed (spec_of c)"
    "co_Stopped c = co_Stopped (spec_of c)" "co_Killed c = co_Killed (spec_of c)" "co_Failed c = co_Failed (spec_of c)"
    "started c = started (spec_of c)" for c
    by (simp_all add: core_of_def spec_of_def started_def)
  show "core_of c' = core_of c" "co_Running c' = co_Running c" "co_Completed c' = co_Completed c"
    "co_Stopped c' = co_Stopped c" "co_Killed c' = co_Killed c" "co_Failed c' = co_Failed c" "started c' = started c"
    by (simp_all only: sel[of c] sel[of c'] assms)
qed

lemma grows_spec:
  assumes "spec_of c' = spec_of c" "\<not> co_Completed c"
  shows "grows c c'"
  using assms(2) spec_of_sel[OF assms(1)] by (simp add: grows_def lifecycle_ok_def)

lemma grows_fields:
  "grows c (c\<lparr>co_StopChannels := a\<rparr>)" "grows c (c\<lparr>co_AttachChannels := a\<rparr>)" "grows c (c\<lparr>co_Name := n\<rparr>)"
  "grows c (c\<lparr>co_HostIP := ip\<rparr>)" "grows c (c\<lparr>co_PreArchives := pa\<rparr>)" "grows c (c\<lparr>co_Networks := ns\<rparr>)"
  "grows c (c\<lparr>co_NetworkAliases := as\<rparr>)"
  by (simp_all add: grows_def core_of_def lifecycle_ok_def started_def)

lemma grows_stop: "grows c (c\<lparr>co_Running := False, co_Completed := False, co_Stopped := True\<rparr>)"
  and grows_kill: "grows c (c\<lparr>co_Killed := True, co_Running := False, co_Completed := False\<rparr>)"
  by (simp_all add: grows_def core_of_def lifecycle_ok_def started_def)

lemma grows_settle: "state = DeployRunning \<or> state = DeployCompleted \<Longrightarrow> now \<noteq> 0 \<Longrightarrow> grows c (settle state now c)"
  by (auto simp: grows_def settle_def core_of_def lifecycle_ok_def started_def Let_def)

lemma grows_mark: "now \<noteq> 0 \<Longrightarrow> grows c (mark_status status err now c)"
  by (auto simp: grows_def mark_status_def core_of_def lifecycle_ok_def started_def Let_def)

section \<open>Shared parts of the handlers\<close>

lemma signal_both_keeps:
  assumes "hp sv (co_ID c) = Some c" "signal_both c sv = (c1, sv1)"
  shows "keeps sv sv1" and "hp sv1 (co_ID c1) = Some c1" and "grows c c1"
    and "co_Stopped c1 = co_Stopped c" and "co_Killed c1 = co_Killed c"
proof -
  have c1: "c1 = c\<lparr>co_AttachChannels := [], co_StopChannels := []\<rparr>"
    and sv1: "\<exists>sg. sv1 = put_container c1 (sv\<lparr>sv_signals := sg\<rparr>)"
    using assms(2) by (auto simp: signal_both_def SignalDetach_def SignalStop_def)
  show g: "grows c c1" unfolding c1 by (rule grows_trans[OF grows_fields(2) grows_fields(1)])
  show "co_Stopped c1 = co_Stopped c" "co_Killed c1 = co_Killed c" by (simp_all add: c1)
  obtain sg where sg: "sv1 = put_container c1 (sv\<lparr>sv_signals := sg\<rparr>)" using sv1 by blast
  have at: "hp (sv\<lparr>sv_signals := sg\<rparr>) (co_ID c) = Some c" using assms(1) by simp
  have "keeps sv (sv\<lparr>sv_signals := sg\<rparr>)" by (rule same_heap_keeps) simp
  then show "keeps sv sv1" using keeps_put(1)[OF at g] keeps_trans unfolding sg by blast
  show "hp sv1 (co_ID c1) = Some c1" using keeps_put(2)[OF at g] unfolding sg .
qed

lemma expose_ports_grows:
  assumes "container_backend (cr_Backend cr)" "expose_ports cr c w = (e, c1, w1)" "\<not> co_Completed c"
  shows "grows c c1"
proof -
  have fw: "grows c c1" if "bo_CreatePortForwards (cr_Backend cr) (c\<lparr>co_HostIP := x\<rparr>) w = (c1, w1)" for x
    using container_backend.forwards_spec[OF assms(1) that] assms(3)
    by (intro grows_trans[OF grows_fields(4) grows_spec]) auto
  have px: "grows c c1" if "bo_CreateReverseProxies (cr_Backend cr) (c\<lparr>co_HostIP := x\<rparr>) w = (c1, w1)" for x
    using container_backend.proxies_spec[OF assms(1) that] assms(3)
    by (intro grows_trans[OF grows_fields(4) grows_spec]) auto
  show ?thesis using assms(2) fw px grows_fields(4)
    by (auto simp: expose_ports_def Let_def split: if_splits sum.splits)
qed

lemma keeps_set_backend: "keeps sv (sv\<lparr>sv_backend := w\<rparr>)"
  by (rule same_heap_keeps) simp

lemma settle_runs: "state = DeployRunning \<or> state = DeployCompleted \<Longrightarrow> co_Running (settle state now c) \<noteq> co_Completed (settle state now c)"
  by (auto simp: settle_def Let_def)

lemma common_StartContainer_keeps:
  assumes be: "container_backend (cr_Backend cr)" and now: "mo_now mo \<noteq> 0"
    and at: "hp sv (co_ID c) = Some c" "co_ID c \<noteq> []" "\<not> co_Completed c"
    and run: "common_StartContainer cr mo c sv = (c', e, sv')"
  shows "keeps sv sv'" and "hp sv' (co_ID c') = Some c'" and "grows c c'"
    and "e = None \<Longrightarrow> co_Running c' \<noteq> co_Completed c'"
proof -
  obtain state err c1 w1 where s: "bo_StartContainer (cr_Backend cr) c (sv_backend sv) = (state, err, c1, w1)" by (metis prod_cases4)
  have sp: "spec_of c1 = spec_of c" by (rule container_backend.start_spec[OF be s])
  have g1: "grows c c1" and nc: "\<not> co_Completed c1" using grows_spec[OF sp at(3)] spec_of_sel(3)[OF sp] at(3) by auto
  have at1: "hp (sv\<lparr>sv_backend := w\<rparr>) (co_ID c) = Some c" for w using at(1) by simp
  have "keeps sv sv' \<and> hp sv' (co_ID c') = Some c' \<and> grows c c' \<and> (e = None \<longrightarrow> co_Running c' \<noteq> co_Completed c')"
  proof (cases err)
    case (Some er)
    then have r: "c' = c1" "e = Some er" "sv' = put_container c1 (sv\<lparr>sv_backend := w1\<rparr>)" using run s by (auto simp: common_StartContainer_def)
    show ?thesis unfolding r using keeps_trans[OF keeps_set_backend keeps_put(1)[OF at1 g1]] keeps_put(2)[OF at1 g1] g1 by auto
  next
    case None
    have st: "state = DeployRunning \<or> state = DeployCompleted" by (rule container_backend.start_settled[OF be s[unfolded None]])
    obtain e2 c2 w2 where x: "expose_ports cr c1 w1 = (e2, c2, w2)" by (metis prod_cases3)
    have g2: "grows c c2" using grows_trans[OF g1 expose_ports_grows[OF be x nc]] .
    show ?thesis
    proof (cases e2)
      case (Some er)
      then have r: "c' = c2" "e = Some er" "sv' = put_container c2 (sv\<lparr>sv_backend := w2\<rparr>)"
        using run s None x by (auto simp: common_StartContainer_def)
      show ?thesis unfolding r using keeps_trans[OF keeps_set_backend keeps_put(1)[OF at1 g2]] keeps_put(2)[OF at1 g2] g2 by auto
    next
      case e2: None
      have g3: "grows c (settle state (mo_now mo) c2)" using grows_trans[OF g2 grows_settle[OF st now]] .
      have sv: "save_container cr mo (settle state (mo_now mo) c2) (sv\<lparr>sv_backend := w2\<rparr>) = (c', e, sv')"
        using run s None x e2 by (simp add: common_StartContainer_def)
      note k = keeps_save[OF at1 at(2) g3 sv]
      show ?thesis using k(2,3) g3 keeps_trans[OF keeps_set_backend k(1)] settle_runs[OF st] by simp
    qed
  qed
  then show "keeps sv sv'" "hp sv' (co_ID c') = Some c'" "grows c c'" "e = None \<Longrightarrow> co_Running c' \<noteq> co_Completed c'" by blast+
qed

lemma UpdateContainerStatus_keeps:
  assumes be: "container_backend (cr_Backend cr)" and now: "mo_now mo \<noteq> 0"
    and at: "hp sv (co_ID c) = Some c" and run: "UpdateContainerStatus cr mo c sv = (c', sv')"
  shows "keeps sv sv'" and "hp sv' (co_ID c') = Some c'"
proof -
  have "keeps sv sv' \<and> hp sv' (co_ID c') = Some c'"
  proof (cases "co_Completed c \<or> \<not> mo_allow mo")
    case True
    then show ?thesis using run at by (auto simp: UpdateContainerStatus_def split: if_splits)
  next
    case False
    obtain status err c1 where s: "bo_GetContainerStatus (cr_Backend cr) c (sv_backend sv) = (status, err, c1)" by (metis prod_cases3)
    have g: "grows c (mark_status status err (mo_now mo) c1)"
      using grows_trans[OF grows_spec grows_mark[OF now]] container_backend.status_spec[OF be s] False by blast
    show ?thesis using run s False keeps_put[OF at g] by (auto simp: UpdateContainerStatus_def Let_def)
  qed
  then show "keeps sv sv'" "hp sv' (co_ID c') = Some c'" by blast+
qed

section \<open>The handlers\<close>

lemma ContainerStart_keeps:
  assumes "container_backend (cr_Backend cr)" "mo_now mo \<noteq> 0" "heap_ok sv"
  shows "keeps sv (snd (ContainerStart cr mo i sv))"
proof (cases "GetContainer (cr_DB cr) (sv_store sv) i")
  case (Inr c)
  note at = GetContainer_heap[OF assms(3) Inr]
  obtain c1 e sv1 where s: "(if \<not> co_Running c \<and> \<not> co_Completed c then common_StartContainer cr mo c sv else (c, None, sv)) = (c1, e, sv1)"
    by (metis prod_cases3)
  have k: "keeps sv sv1"
    using s common_StartContainer_keeps(1)[OF assms(1,2)] at by (auto split: if_splits)
  show ?thesis using Inr s by (cases e) (auto simp: ContainerStart_def intro: k keeps_trans[OF k])
qed (simp add: ContainerStart_def)

lemma stop_part_keeps:
  assumes "hp sv (co_ID c) = Some c" "co_ID c \<noteq> []" "\<And>c. grows c (f c)"
    and "signal_both c sv = (c1, sv1)" "hp sv2 = hp sv1" "save_container cr mo (f c1) sv2 = (c2, e, sv3)"
  shows "keeps sv sv3" and "c2 = f c1" and "hp sv3 (co_ID c2) = Some c2" and "co_ID c2 \<noteq> []"
proof -
  note sg = signal_both_keeps[OF assms(1,4)]
  have i: "co_ID c1 = co_ID c" by (rule grows_ID[OF sg(3)])
  have at: "hp sv2 (co_ID c1) = Some c1" "co_ID c1 \<noteq> []" using sg(2) assms(2,5) i by auto
  note sv = keeps_save[OF at assms(3) assms(6)]
  show "c2 = f c1" "hp sv3 (co_ID c2) = Some c2" using sv by simp_all
  show "co_ID c2 \<noteq> []" using sv(2) grows_ID[OF assms(3)] at(2) by simp
  have "keeps sv sv2" using sg(1) assms(5) same_heap_keeps keeps_trans by blast
  then show "keeps sv sv3" using sv(1) keeps_trans by blast
qed

lemma ContainerStop_keeps:
  assumes "heap_ok sv"
  shows "keeps sv (snd (ContainerStop cr mo i sv))"
proof (cases "GetContainer (cr_DB cr) (sv_store sv) i")
  case (Inr c)
  note at = GetContainer_heap[OF assms Inr]
  obtain c1 sv1 where sg: "signal_both c sv = (c1, sv1)" by force
  let ?sv2 = "if \<not> co_Stopped c1 \<and> \<not> co_Killed c1 then backend_delete cr c1 sv1 else sv1"
  obtain c2 e sv3 where sc: "save_container cr mo (c1\<lparr>co_Running := False, co_Completed := False, co_Stopped := True\<rparr>) ?sv2 = (c2, e, sv3)"
    by (metis prod_cases3)
  have k: "keeps sv sv3" using stop_part_keeps(1)[OF _ _ grows_stop sg _ sc] at by simp
  show ?thesis using Inr sg sc by (cases e) (auto simp: ContainerStop_def Let_def intro: k keeps_trans[OF k])
qed (simp add: ContainerStop_def)

lemma ContainerKill_keeps:
  assumes "heap_ok sv"
  shows "keeps sv (snd (ContainerKill cr mo i sgnl sv))"
proof (cases "GetContainerByNameOrID (cr_DB cr) (sv_store sv) i")
  case (Inr c)
  note at = GetContainerByNameOrID_heap[OF assms Inr]
  obtain c1 sv1 where sg: "signal_both c sv = (c1, sv1)" by force
  let ?sv2 = "if \<not> co_Stopped c1 \<and> \<not> co_Killed c1 then backend_delete cr c1 sv1 else sv1"
  obtain c2 e sv3 where sc: "save_container cr mo (c1\<lparr>co_Killed := True, co_Running := False, co_Completed := False\<rparr>) ?sv2 = (c2, e, sv3)"
    by (metis prod_cases3)
  have k: "keeps sv sv3" using stop_part_keeps(1)[OF _ _ grows_kill sg _ sc] at by simp
  show ?thesis using Inr sg sc by (cases e) (auto simp: ContainerKill_def Let_def intro: k keeps_trans[OF k])
qed (simp add: ContainerKill_def)

lemma ContainerRestart_keeps:
  assumes be: "container_backend (cr_Backend cr)" "mo_now mo \<noteq> 0" "heap_ok sv"
  shows "keeps sv (snd (ContainerRestart cr mo i sv))"
proof (cases "GetContainer (cr_DB cr) (sv_store sv) i")
  case (Inr c)
  note at = GetContainer_heap[OF assms(3) Inr]
  obtain c1 sv2 where sg: "signal_both c (backend_delete cr c sv) = (c1, sv2)" by force
  obtain c2 e sv3 where sc: "save_container cr mo (c1\<lparr>co_Running := False, co_Completed := False, co_Stopped := True\<rparr>) sv2 = (c2, e, sv3)"
    by (metis prod_cases3)
  have at0: "hp (backend_delete cr c sv) (co_ID c) = Some c" using at by simp
  note k = stop_part_keeps[OF at0 conjunct2[OF at] grows_stop sg refl sc]
  have k3: "keeps sv sv3" using k(1) same_heap_keeps[of "backend_delete cr c sv" sv] keeps_trans by fastforce
  let ?sv4 = "sv3\<lparr>sv_backend := bo_AwaitDeleted (cr_Backend cr) c2 (sv_backend sv3)\<rparr>"
  obtain c3 e3 sv5 where st: "common_StartContainer cr mo c2 ?sv4 = (c3, e3, sv5)" by (metis prod_cases3)
  have "keeps ?sv4 sv5"
    by (rule common_StartContainer_keeps(1)[OF be(1,2) _ _ _ st]) (use k in simp_all)
  then have k5: "keeps sv sv5" using keeps_trans[OF k3 keeps_trans[OF keeps_set_backend]] by blast
  show ?thesis using Inr sg sc st k3 k5
    by (cases e; cases "bo_WatchDeleteContainer (cr_Backend cr) c (sv_backend sv)"; cases e3) (simp_all add: ContainerRestart_def Let_def)
qed (simp add: ContainerRestart_def)

lemma ContainerAttach_keeps:
  fixes sv :: "('db, 'w) server"
  assumes "container_backend (cr_Backend cr)" "mo_now mo \<noteq> 0" "heap_ok sv"
  shows "keeps sv (snd (ContainerAttach cr mo i stream hijack sv))"
proof (cases "GetContainerByNameOrID (cr_DB cr) (sv_store sv) i")
  case (Inr c)
  note at = GetContainerByNameOrID_heap[OF assms(3) Inr]
  obtain c1 e sv1 where s: "(if \<not> co_Running c \<and> \<not> co_Completed c then common_StartContainer cr mo c sv else (c, None, sv)) = (c1, e, sv1)"
    by (metis prod_cases3)
  have k: "keeps sv sv1" and at1: "hp sv1 (co_ID c1) = Some c1"
    using s common_StartContainer_keeps(1,2)[OF assms(1,2)] at by (auto split: if_splits)
  let ?c2 = "AddAttachChannel c1 (mo_chan mo)"
  have g: "grows c1 ?c2" unfolding AddAttachChannel_def by (rule grows_fields)
  note p = keeps_put[OF at1 g]
  have fin: "keeps sv2 (snd (case SignalDetach ?c2 of (ops, c3) \<Rightarrow>
      (Reply 200 NoBody, put_container c3 (sv2\<lparr>sv_signals := sv_signals sv2 @ ops\<rparr>))))" if "hp sv2 = hp (put_container ?c2 sv1)" for sv2 :: "('db, 'w) server"
  proof -
    have "hp (sv2\<lparr>sv_signals := sg\<rparr>) (co_ID ?c2) = Some ?c2" for sg using that p(2) by simp
    from keeps_trans[OF same_heap_keeps keeps_put(1)[OF this grows_fields(2)]] show ?thesis
      by (simp add: SignalDetach_def)
  qed
  have "keeps sv (snd (publish_then mo (co_ID ?c2) ''container'' ''detach'' (\<lambda>sv2. case SignalDetach ?c2 of (ops, c3) \<Rightarrow>
      (Reply 200 NoBody, put_container c3 (sv2\<lparr>sv_signals := sv_signals sv2 @ ops\<rparr>))) (put_container ?c2 sv1)))"
    by (rule keeps_trans[OF keeps_trans[OF k p(1)] publish_then_keeps[OF fin]])
  then show ?thesis using Inr s k by (cases e) (auto simp: ContainerAttach_def Let_def)
qed (simp add: ContainerAttach_def)

lemma ContainerRename_keeps:
  assumes "heap_ok sv"
  shows "keeps sv (snd (ContainerRename cr mo i name sv))"
proof (cases "GetContainerByNameOrID (cr_DB cr) (sv_store sv) i")
  case (Inr c)
  note at = GetContainerByNameOrID_heap[OF assms Inr]
  obtain c2 e sv1 where sc: "save_container cr mo (c\<lparr>co_Name := name\<rparr>) sv = (c2, e, sv1)" by (metis prod_cases3)
  have "keeps sv sv1" using keeps_save(1)[OF _ _ grows_fields(3) sc] at by blast
  then show ?thesis using Inr sc by (cases e) (auto simp: ContainerRename_def split: sum.splits)
qed (simp add: ContainerRename_def)

lemma keeps_store: "st_containers st = st_containers (sv_store sv) \<Longrightarrow> keeps sv (sv\<lparr>sv_store := st\<rparr>)"
  by (rule same_heap_keeps) (simp add: hp_def)

lemma delete_store:
  "db_DeleteContainer M c st = (e, st') \<Longrightarrow> st_containers st' = st_containers st"
  "DeleteNetwork M netw st = (e, st') \<Longrightarrow> st_containers st' = st_containers st"
  using db_heaps(2)[of M TContainer "co_key c" st] db_heaps(2)[of M TNetwork "nw_key netw" st]
  by (simp_all add: db_DeleteContainer_def DeleteNetwork_def)

lemma save_store:
  "SaveNetwork M i n netw st = (netw', e, st') \<Longrightarrow> st_containers st' = st_containers st"
  "SaveImage M i n im st = (im', e, st') \<Longrightarrow> st_containers st' = st_containers st"
  "SaveExec M i n ex st = (ex', e, st') \<Longrightarrow> st_containers st' = st_containers st"
  using save_heaps(1)[of M i n netw st] save_heaps(2)[of M i n im st] save_heaps(3)[of M i n ex st] by simp_all

lemma delete_then_keeps:
  assumes "hp sv (co_ID c) = Some c" "\<And>c1 sv1. keeps sv1 (snd (k c1 sv1))"
  shows "keeps sv (snd (delete_then cr mo c k sv))"
proof -
  obtain c1 sv1 where sg: "signal_both c sv = (c1, sv1)" by force
  note k1 = signal_both_keeps(1)[OF assms(1) sg]
  have "keeps sv1 (snd (publish_then mo (co_ID c1) ''container'' ''die'' (k c1) (backend_delete cr c1 sv1)))"
    by (rule keeps_trans[OF same_heap_keeps publish_then_keeps]) (simp_all add: assms(2))
  then show ?thesis using sg k1 assms(2)[of sv1 c1] by (auto simp: delete_then_def intro: keeps_trans)
qed

lemma docker_ContainerDelete_keeps: "heap_ok sv \<Longrightarrow> keeps sv (snd (docker_ContainerDelete cr mo i sv))"
  by (auto simp: docker_ContainerDelete_def dest: GetContainerByNameOrID_heap delete_store(1)
      intro!: delete_then_keeps keeps_store split: sum.splits prod.splits option.splits)

lemma libpod_ContainerDelete_keeps: "heap_ok sv \<Longrightarrow> keeps sv (snd (libpod_ContainerDelete cr mo i sv))"
  by (auto simp: libpod_ContainerDelete_def dest: GetContainerByNameOrID_heap delete_store(1)
      intro!: delete_then_keeps keeps_store split: sum.splits prod.splits option.splits)

lemma wait_tick_keeps:
  assumes "container_backend (cr_Backend cr)" "mo_now mo \<noteq> 0" "heap_ok sv"
  shows "keeps sv (snd (docker_wait_tick cr mo i sv))" and "keeps sv (snd (libpod_wait_tick cr mo i sv))"
proof -
  have u: "keeps sv (snd (UpdateContainerStatus cr mo c sv))" if "hp sv (co_ID c) = Some c \<and> co_ID c \<noteq> []" for c
    using UpdateContainerStatus_keeps(1)[OF assms(1,2) conjunct1[OF that]] by (metis prod.collapse)
  show "keeps sv (snd (docker_wait_tick cr mo i sv))"
    using u GetContainer_heap[OF assms(3)]
    by (cases "GetContainer (cr_DB cr) (sv_store sv) i") (fastforce simp: docker_wait_tick_def split: prod.splits)+
  show "keeps sv (snd (libpod_wait_tick cr mo i sv))"
    using u GetContainerByNameOrID_heap[OF assms(3)]
    by (cases "GetContainerByNameOrID (cr_DB cr) (sv_store sv) i") (fastforce simp: libpod_wait_tick_def split: prod.splits)+
qed

section \<open>Reports\<close>

lemma getContainerInfo_keeps:
  assumes "container_backend (cr_Backend cr)" "mo_now mo \<noteq> 0" "hp sv (co_ID c) = Some c"
  shows "keeps sv (snd (docker_getContainerInfo cr mo c detail sv))" and "keeps sv (snd (libpod_getContainerInfo cr mo c detail sv))"
  using UpdateContainerStatus_keeps(1)[OF assms]
  by (auto simp: docker_getContainerInfo_def libpod_getContainerInfo_def Let_def split: prod.splits)

lemma list_infos_keeps:
  assumes "\<And>mo c sv. hp sv (co_ID c) = Some c \<Longrightarrow> keeps sv (snd (info (mos mo) c sv))"
    and "heap_ok sv" "\<forall>c \<in> set cs. hp sv (co_ID c) \<noteq> None"
  shows "keeps sv (snd (list_infos info mos n cs sv))"
  using assms(2,3)
proof (induction cs arbitrary: n sv)
  case (Cons c cs)
  obtain d where d: "hp sv (co_ID c) = Some d" using Cons.prems(2) by auto
  then have cur: "current c sv = d" by (simp add: current_def hp_def)
  have "hp sv (co_ID d) = Some d" using d Cons.prems(1) by (auto simp: heap_ok_def)
  moreover obtain js sv1 where r: "info (mos n) d sv = (js, sv1)" by force
  ultimately have k: "keeps sv sv1" using assms(1)[of sv d n] by simp
  have "\<forall>c \<in> set cs. hp sv1 (co_ID c) \<noteq> None"
  proof
    fix x assume "x \<in> set cs"
    then have "hp sv (co_ID x) \<noteq> None" using Cons.prems(2) by simp
    moreover have "rel_option grows (hp sv (co_ID x)) (hp sv1 (co_ID x))" using k by (simp add: keeps_def)
    ultimately show "hp sv1 (co_ID x) \<noteq> None" by (auto simp: option.rel_sel)
  qed
  then have "keeps sv1 (snd (list_infos info mos (Suc n) cs sv1))"
    by (rule Cons.IH[OF keeps_heap_ok[OF Cons.prems(1) k]])
  then show ?case using r k cur by (auto intro: keeps_trans split: prod.splits)
qed simp

lemma list_containers_keeps:
  assumes "\<And>n c sv. hp sv (co_ID c) = Some c \<Longrightarrow> keeps sv (snd (info (mos n) c sv))" "heap_ok sv"
  shows "keeps sv (snd (list_containers cr info mos filtr sv))"
proof (cases "GetContainers (cr_DB cr) (sv_store sv)")
  case (Inr cs)
  have "keeps sv (snd (list_infos info mos 0 (filter f cs) sv))" for f
    by (rule list_infos_keeps) (use assms GetContainers_heap[OF assms(2) Inr] in auto)
  then show ?thesis using Inr by (simp add: list_containers_def case_prod_beta)
qed (simp add: list_containers_def)

lemma reports_keep:
  assumes "container_backend (cr_Backend cr)" "\<And>n. mo_now (mos n) \<noteq> 0" "heap_ok sv"
  shows "keeps sv (snd (docker_ContainerList cr mos filtr sv))" "keeps sv (snd (libpod_ContainerList cr mos filtr sv))"
    and "keeps sv (snd (docker_ContainerInfo cr (mos 0) i sv))" "keeps sv (snd (libpod_ContainerInfo cr (mos 0) i sv))"
proof -
  note info = getContainerInfo_keeps[OF assms(1,2)]
  show "keeps sv (snd (docker_ContainerList cr mos filtr sv))" "keeps sv (snd (libpod_ContainerList cr mos filtr sv))"
    unfolding docker_ContainerList_def libpod_ContainerList_def by (rule list_containers_keeps; simp add: info assms(3))+
  have at: "hp sv (co_ID c) = Some c" if "GetContainerByNameOrID (cr_DB cr) (sv_store sv) i = Inr c" for c
    using GetContainerByNameOrID_heap[OF assms(3) that] by blast
  show "keeps sv (snd (docker_ContainerInfo cr (mos 0) i sv))" "keeps sv (snd (libpod_ContainerInfo cr (mos 0) i sv))"
    using info at by (cases "GetContainerByNameOrID (cr_DB cr) (sv_store sv) i";
      simp add: docker_ContainerInfo_def libpod_ContainerInfo_def case_prod_beta)+
qed

section \<open>Networks, images, execs, files\<close>

lemma update_container_keeps:
  assumes "hp sv (co_ID c) = Some c \<and> co_ID c \<noteq> []" "grows c c1"
  shows "keeps sv (snd (snd (save_container cr mo c1 sv)))"
  using keeps_save(1)[OF conjunct1[OF assms(1)] conjunct2[OF assms(1)] assms(2)] by (metis prod.collapse)

lemma grows_networks:
  "grows c (docker_addNetworkAliases (ConnectNetwork c i) endp)" "DisconnectNetwork c i = Inr c1 \<Longrightarrow> grows c c1"
  by (auto simp: docker_addNetworkAliases_def ConnectNetwork_def DisconnectNetwork_def grows_def core_of_def lifecycle_ok_def
      started_def split: if_splits)

lemma save_found_keeps:
  "heap_ok sv \<Longrightarrow> GetContainer M (sv_store sv) i = Inr c \<Longrightarrow> grows c c1 \<Longrightarrow> save_container cr mo c1 sv = (c2, e, sv1) \<Longrightarrow> keeps sv sv1"
  using update_container_keeps[OF GetContainer_heap, of sv M i c c1 cr mo] by simp

lemma NetworksConnect_keeps: "heap_ok sv \<Longrightarrow> keeps sv (snd (NetworksConnect cr mo i dat sv))"
  by (auto simp: NetworksConnect_def intro: save_found_keeps[OF _ _ grows_networks(1)] split: sum.splits prod.splits option.splits)

lemma NetworksDisconnect_keeps: "heap_ok sv \<Longrightarrow> keeps sv (snd (NetworksDisconnect cr mo i dat sv))"
  by (auto simp: NetworksDisconnect_def intro: save_found_keeps[OF _ _ grows_networks(2)] split: sum.splits prod.splits option.splits)

lemma prune_loop_keeps: "keeps sv (snd (prune_loop cr netws names sv))"
proof (induction netws arbitrary: names sv)
  case (Cons netw netws)
  obtain e st where d: "DeleteNetwork (cr_DB cr) netw (sv_store sv) = (e, st)" by force
  have k: "keeps sv (sv\<lparr>sv_store := st\<rparr>)" by (rule keeps_store) (rule delete_store(2)[OF d])
  show ?case using Cons.IH d k by (cases e) (auto intro: keeps_trans[OF k])
qed simp

lemma networks_keep:
  "keeps sv (snd (NetworksCreate cr mo dat' sv))" "keeps sv (snd (NetworksDelete cr i sv))" "keeps sv (snd (NetworksPrune cr sv))"
  by (auto simp: NetworksCreate_def NetworksDelete_def NetworksPrune_def prune_loop_keeps intro!: keeps_store
      dest: save_store(1) delete_store(2) split: sum.splits prod.splits option.splits)

lemma images_keep:
  "keeps sv (snd (docker_ImageCreate cr mo frm tag sv))" "keeps sv (snd (libpod_ImagePull cr mo reference sv))"
  "keeps sv (snd (ImageJSON cr mo arch path sv))"
proof -
  have "keeps sv (snd (pull_image cr mo frm answer sv))" for frm answer
  proof -
    have "keeps sv (snd (publish_then mo i kd act (\<lambda>sv1. (r, sv1)) (sv\<lparr>sv_store := st\<rparr>)))"
      if "SaveImage (cr_DB cr) x n im (sv_store sv) = (im', e, st)" for i kd act r x n im im' e st
      by (rule keeps_trans[OF keeps_store[OF save_store(2)[OF that]] publish_then_reply])
    moreover have "keeps sv (sv\<lparr>sv_store := st\<rparr>)"
      if "SaveImage (cr_DB cr) x n im (sv_store sv) = (im', e, st)" for x n im im' e st
      by (rule keeps_store[OF save_store(2)[OF that]])
    ultimately show ?thesis by (auto simp: pull_image_def split: sum.splits prod.splits option.splits)
  qed
  then show "keeps sv (snd (docker_ImageCreate cr mo frm tag sv))" "keeps sv (snd (libpod_ImagePull cr mo reference sv))"
    by (simp_all add: docker_ImageCreate_def libpod_ImagePull_def)
  show "keeps sv (snd (ImageJSON cr mo arch path sv))"
    by (auto simp: ImageJSON_def Let_def intro!: keeps_store dest: save_store(2) split: sum.splits prod.splits option.splits)
qed

lemma execs_keep:
  "keeps sv (snd (ContainerExec cr mo i dat sv))" "keeps sv (snd (ExecStart cr F mo i det hijack sv))"
proof -
  show "keeps sv (snd (ContainerExec cr mo i dat sv))"
    by (auto simp: ContainerExec_def intro!: keeps_store dest: save_store(3) split: sum.splits prod.splits option.splits)
  have "hp (snd (run_exec cr F mo c ex sv)) = hp sv" for c ex
    by (auto simp: run_exec_def hp_def dest: save_store(3) split: prod.splits option.splits)
  then have "keeps sv (snd (run_exec cr F mo c ex sv))" for c ex by (rule same_heap_keeps)
  then show "keeps sv (snd (ExecStart cr F mo i det hijack sv))" by (auto simp: ExecStart_def split: sum.splits)
qed

lemma copy_archive_keeps: "keeps sv (snd (copy_archive F c path dat sv))"
  by (auto simp: copy_archive_def intro: keeps_set_backend split: sum.splits prod.splits option.splits)

lemma start_and_copy_keeps:
  assumes "container_backend (cr_Backend cr)" "mo_now mo \<noteq> 0" "hp sv (co_ID c) = Some c \<and> co_ID c \<noteq> []"
  shows "keeps sv (snd (start_and_copy cr F mo c path dat sv))"
proof -
  obtain c1 e sv1 where s: "start_if_needed cr mo c sv = (c1, e, sv1)" by (metis prod_cases3)
  have "keeps sv sv1"
    using s common_StartContainer_keeps(1)[OF assms(1,2)] assms(3) by (auto simp: start_if_needed_def split: if_splits)
  then show ?thesis using s by (cases e) (auto simp: start_and_copy_def intro: keeps_trans copy_archive_keeps)
qed

lemma PutArchive_keeps:
  assumes "container_backend (cr_Backend cr)" "mo_now mo \<noteq> 0" "heap_ok sv"
  shows "keeps sv (snd (PutArchive cr F arch mo i path dat sv))"
proof (cases "GetContainer (cr_DB cr) (sv_store sv) i")
  case (Inr c)
  note at = GetContainer_heap[OF assms(3) Inr]
  have sc: "keeps sv sv1" if "save_container cr mo (c\<lparr>co_PreArchives := pas\<rparr>) sv = (c1, e, sv1)" for pas c1 e sv1
    using update_container_keeps[OF at grows_fields(5), of cr mo pas] that by simp
  have cp: "keeps sv (snd (start_and_copy cr F mo c path d sv))" for d by (rule start_and_copy_keeps[OF assms(1,2) at])
  show ?thesis using Inr by (auto simp: PutArchive_def cp dest: sc split: sum.splits prod.splits option.splits)
qed (simp add: PutArchive_def)

lemma files_keep:
  "keeps sv (snd (HeadArchive cr F i path sv))" "keeps sv (snd (GetArchive cr F tar_size i path sv))"
  by (auto simp: HeadArchive_def GetArchive_def with_existing_file_def intro!: same_heap_keeps split: sum.splits prod.splits)

lemma ContainerLogs_keeps: "heap_ok sv \<Longrightarrow> keeps sv (snd (ContainerLogs cr F mo i opts hijack sv))"
  using keeps_put(1)[OF conjunct1[OF GetContainer_heap] grows_fields(1)]
  by (auto simp: ContainerLogs_def AddStopChannel_def split: sum.splits option.splits)

end
