(* ===== verification/Server.thy ===== *)
theory Server
  imports Lifecycle
begin

text \<open>
  The server as a state machine: a request is an action, \<open>serve\<close> answers it, and the reachable
  states are those that any sequence of requests, cluster changes and clean-ups leads to. The
  theorems speak about every container the server ever knows.
\<close>

section \<open>Actions\<close>

record ('n, 'db, 'w) api =
  ap_router :: "('n, 'db, 'w) router"
  ap_files :: "'w file_ops"
  ap_archive :: "byte list \<Rightarrow> tar_stream result"
  ap_tar_size :: "string \<Rightarrow> nat result"
  ap_arch :: string

datatype action =
    DockerCreate moment "create_request result" string
  | LibpodCreate moment "pod_create_request result" string
  | Start moment string
  | Restart moment string
  | Stop moment string
  | Kill moment string string
  | Attach moment string bool bool
  | Resize string
  | Rename moment string string
  | DockerDelete moment string
  | LibpodDelete moment string
  | DockerWait moment string
  | LibpodWait moment string
  | DockerInfo moment string
  | LibpodInfo moment string
  | DockerList "nat \<Rightarrow> moment" "json result option"
  | LibpodList "nat \<Rightarrow> moment" "json result option"
  | Exists string
  | NetList "json result option"
  | NetInfo string
  | NetCreate moment "network_create_request result"
  | NetDelete string
  | NetConnect moment string "(string \<times> endpoint_config) result"
  | NetDisconnect moment string "string result"
  | NetPrune
  | ImgCreate moment string string
  | ImgPull moment string
  | ImgList
  | ImgInfo moment string
  | ExecCreate moment string "exec_request result"
  | ExecInspect string
  | ExecRun moment string "bool result" bool
  | ExecSize string
  | Put moment string string "byte list result"
  | Head string string
  | Get string string
  | Logs moment string log_options bool

definition wait_outcome :: "outcome option \<times> 's \<Rightarrow> outcome \<times> 's" where
  "wait_outcome r = (case r of (Some out, sv) \<Rightarrow> (out, sv) | (None, sv) \<Rightarrow> (NoReply, sv))"

text \<open>The routes of \<open>RegisterDockerRoutes\<close> and \<open>RegisterLibpodRoutes\<close> that act on the state.\<close>

fun serve :: "('n, 'db, 'w) api \<Rightarrow> action \<Rightarrow> ('db, 'w) server \<Rightarrow> outcome \<times> ('db, 'w) server" where
  "serve ap (DockerCreate mo dat q) sv = docker_ContainerCreate (ap_router ap) mo dat q sv"
| "serve ap (LibpodCreate mo dat q) sv = libpod_ContainerCreate (ap_router ap) mo dat q sv"
| "serve ap (Start mo i) sv = ContainerStart (ap_router ap) mo i sv"
| "serve ap (Restart mo i) sv = ContainerRestart (ap_router ap) mo i sv"
| "serve ap (Stop mo i) sv = ContainerStop (ap_router ap) mo i sv"
| "serve ap (Kill mo i sg) sv = ContainerKill (ap_router ap) mo i sg sv"
| "serve ap (Attach mo i stream hijack) sv = ContainerAttach (ap_router ap) mo i stream hijack sv"
| "serve ap (Resize i) sv = ContainerResize (ap_router ap) i sv"
| "serve ap (Rename mo i name) sv = ContainerRename (ap_router ap) mo i name sv"
| "serve ap (DockerDelete mo i) sv = docker_ContainerDelete (ap_router ap) mo i sv"
| "serve ap (LibpodDelete mo i) sv = libpod_ContainerDelete (ap_router ap) mo i sv"
| "serve ap (DockerWait mo i) sv = wait_outcome (docker_wait_tick (ap_router ap) mo i sv)"
| "serve ap (LibpodWait mo i) sv = wait_outcome (libpod_wait_tick (ap_router ap) mo i sv)"
| "serve ap (DockerInfo mo i) sv = docker_ContainerInfo (ap_router ap) mo i sv"
| "serve ap (LibpodInfo mo i) sv = libpod_ContainerInfo (ap_router ap) mo i sv"
| "serve ap (DockerList mos f) sv = docker_ContainerList (ap_router ap) mos f sv"
| "serve ap (LibpodList mos f) sv = libpod_ContainerList (ap_router ap) mos f sv"
| "serve ap (Exists i) sv = libpod_ContainerExists (ap_router ap) i sv"
| "serve ap (NetList f) sv = NetworksList (ap_router ap) f sv"
| "serve ap (NetInfo i) sv = NetworksInfo (ap_router ap) i sv"
| "serve ap (NetCreate mo dat) sv = NetworksCreate (ap_router ap) mo dat sv"
| "serve ap (NetDelete i) sv = NetworksDelete (ap_router ap) i sv"
| "serve ap (NetConnect mo i dat) sv = NetworksConnect (ap_router ap) mo i dat sv"
| "serve ap (NetDisconnect mo i dat) sv = NetworksDisconnect (ap_router ap) mo i dat sv"
| "serve ap NetPrune sv = NetworksPrune (ap_router ap) sv"
| "serve ap (ImgCreate mo frm tag) sv = docker_ImageCreate (ap_router ap) mo frm tag sv"
| "serve ap (ImgPull mo ref) sv = libpod_ImagePull (ap_router ap) mo ref sv"
| "serve ap ImgList sv = ImageList (ap_router ap) sv"
| "serve ap (ImgInfo mo path) sv = ImageJSON (ap_router ap) mo (ap_arch ap) path sv"
| "serve ap (ExecCreate mo i dat) sv = ContainerExec (ap_router ap) mo i dat sv"
| "serve ap (ExecInspect i) sv = ExecInfo (ap_router ap) i sv"
| "serve ap (ExecRun mo i det hijack) sv = ExecStart (ap_router ap) (ap_files ap) mo i det hijack sv"
| "serve ap (ExecSize i) sv = ExecResize (ap_router ap) i sv"
| "serve ap (Put mo i path dat) sv = PutArchive (ap_router ap) (ap_files ap) (ap_archive ap) mo i path dat sv"
| "serve ap (Head i path) sv = HeadArchive (ap_router ap) (ap_files ap) i path sv"
| "serve ap (Get i path) sv = GetArchive (ap_router ap) (ap_files ap) (ap_tar_size ap) i path sv"
| "serve ap (Logs mo i opts hijack) sv = ContainerLogs (ap_router ap) (ap_files ap) mo i opts hijack sv"

text \<open>
  What is assumed of the moment of a request: the clock is not at Go's zero time, and the random
  identifier of a new container is not in use.
\<close>

fun timely :: "action \<Rightarrow> bool" where
  "timely (Start mo i) = (mo_now mo \<noteq> 0)"
| "timely (Restart mo i) = (mo_now mo \<noteq> 0)"
| "timely (Attach mo i s h) = (mo_now mo \<noteq> 0)"
| "timely (DockerWait mo i) = (mo_now mo \<noteq> 0)"
| "timely (LibpodWait mo i) = (mo_now mo \<noteq> 0)"
| "timely (DockerInfo mo i) = (mo_now mo \<noteq> 0)"
| "timely (LibpodInfo mo i) = (mo_now mo \<noteq> 0)"
| "timely (DockerList mos f) = (\<forall>n. mo_now (mos n) \<noteq> 0)"
| "timely (LibpodList mos f) = (\<forall>n. mo_now (mos n) \<noteq> 0)"
| "timely (Put mo i p d) = (mo_now mo \<noteq> 0)"
| "timely _ = True"

fun new_ids :: "action \<Rightarrow> string list" where
  "new_ids (DockerCreate mo dat q) = [mo_newid mo]"
| "new_ids (LibpodCreate mo dat q) = [mo_newid mo]"
| "new_ids _ = []"

definition action_ok :: "('db, 'w) server \<Rightarrow> action \<Rightarrow> bool" where
  "action_ok sv a = (timely a \<and> (\<forall>i \<in> set (new_ids a). i \<noteq> [] \<and> hp sv i = None))"

inductive reachable :: "('n, 'db, 'w) api \<Rightarrow> ('db, 'w) server \<Rightarrow> bool" for ap where
  start: "st_containers (sv_store sv) = [] \<Longrightarrow> reachable ap sv"
| request: "reachable ap sv \<Longrightarrow> action_ok sv a \<Longrightarrow> serve ap a sv = (out, sv') \<Longrightarrow> reachable ap sv'"
| cluster: "reachable ap sv \<Longrightarrow> reachable ap (sv\<lparr>sv_backend := w\<rparr>)"
| subscribers: "reachable ap sv \<Longrightarrow> reachable ap (sv\<lparr>sv_events := obs\<rparr>)"
| reap: "reachable ap sv \<Longrightarrow> db_DeleteContainer (cr_DB (ap_router ap)) c (sv_store sv) = (e, st) \<Longrightarrow>
    reachable ap (sv\<lparr>sv_store := st\<rparr>)"

end
