(* ===== verification/Admission.thy ===== *)
theory Admission
  imports Server
begin

text \<open>
  Every container the server ever knows was admitted: its image by the image policy, its
  environment and labels by the Secret policy, its service account by the configuration. The
  invariant over the reachable states, and the server as a refinement of an abstract register of
  containers.
\<close>

section \<open>Admission\<close>

definition admitted :: "('n, 'db, 'w) router \<Rightarrow> container \<Rightarrow> bool" where
  "admitted cr c =
     ((\<exists>requested. ResolveImage cr requested = Inr (co_Image c)) \<and> ValidateContainerRequest cr c = Inr () \<and>
      map_get (co_Labels c) LabelServiceAccount = Some (rc_ServiceAccount (cr_Config cr)))"

text \<open>A container as a create request leaves it.\<close>

definition newborn :: "('n, 'db, 'w) router \<Rightarrow> container \<Rightarrow> bool" where
  "newborn cr c = (admitted cr c \<and> \<not> started c \<and> lifecycle_ok c)"

lemma validate_cong:
  assumes "co_Labels c = co_Labels c'" "co_Env c = co_Env c'" "co_Binds c = co_Binds c'" "co_Mounts c = co_Mounts c'"
  shows "ValidateContainerRequest cr c = ValidateContainerRequest cr c'"
  using assms by (simp add: ValidateContainerRequest_def validate_boundaries_def HasDockerSockBinding_def GetVolumes_def GetEnvVar_def)

lemma admitted_core:
  assumes "core_of c = core_of c'"
  shows "admitted cr c = admitted cr c'"
  using assms validate_cong[of c c' cr] by (simp add: admitted_def core_of_def)

lemma admitted_grows:
  assumes "grows c c'" "admitted cr c"
  shows "admitted cr c'"
proof -
  have "core_of c' = core_of c" using assms(1) by (simp add: grows_def)
  then show ?thesis using assms(2) admitted_core[of c' c cr] by simp
qed

text \<open>The steps that complete a create request change neither specification nor life cycle.\<close>

definition same_request :: "container \<Rightarrow> container \<Rightarrow> bool" where
  "same_request c c' = (core_of c' = core_of c \<and> started c' = started c \<and> lifecycle_ok c' = lifecycle_ok c)"

lemma same_request_refl [simp]: "same_request c c"
  and same_request_trans: "same_request a b \<Longrightarrow> same_request b c \<Longrightarrow> same_request a c"
  by (simp_all add: same_request_def)

lemma same_request_fields:
  "same_request c (c\<lparr>co_ImagePorts := p\<rparr>)" "same_request c (c\<lparr>co_HostPorts := h\<rparr>)" "same_request c (c\<lparr>co_Networks := n\<rparr>)"
  "same_request c (c\<lparr>co_NetworkAliases := a\<rparr>)" "same_request c (c\<lparr>co_ExposedPorts := x\<rparr>)"
  by (simp_all add: same_request_def core_of_def started_def lifecycle_ok_def)

lemma AddHostPort_same: "AddHostPort c src dst = Inr c' \<Longrightarrow> same_request c c'"
  by (auto simp: AddHostPort_def bind_res_Inr intro: same_request_fields)

lemma with_image_ports_same: "same_request c (with_image_ports cr st requested c)"
  by (auto simp: with_image_ports_def intro: same_request_fields split: sum.splits)

lemma add_host_ports_same: "add_host_ports ps c = Inr c' \<Longrightarrow> same_request c c'"
  by (induction ps c rule: add_host_ports.induct) (auto simp: bind_res_Inr dest!: AddHostPort_same intro: same_request_trans)

lemma add_mappings_same: "add_mappings ms c = Inr c' \<Longrightarrow> same_request c c'"
proof (induction ms c rule: add_mappings.induct)
  case (2 h p ms c)
  then obtain c1 where "AddHostPort c (show_int h) (show_int p) = Inr c1"
    and "same_request (c1\<lparr>co_ExposedPorts := key_add (show_int p) (co_ExposedPorts c1)\<rparr>) c'" by (auto simp: bind_res_Inr)
  then show ?case using AddHostPort_same same_request_fields(5) same_request_trans by blast
qed simp

lemma connect_same: "same_request c (ConnectNetwork c i)" "same_request c (docker_addNetworkAliases c endp)"
  "same_request c (libpod_addNetworkAliases c nets)"
  by (simp_all add: ConnectNetwork_def docker_addNetworkAliases_def libpod_addNetworkAliases_def same_request_fields)

lemma connect_endpoints_same: "connect_endpoints cr st eps c = Inr c' \<Longrightarrow> same_request c c'"
proof (induction eps arbitrary: c)
  case (Cons endp eps)
  let ?c1 = "docker_addNetworkAliases c endp"
  obtain c2 where c2: "c2 = ?c1 \<or> (\<exists>i. c2 = ConnectNetwork ?c1 i)" "connect_endpoints cr st eps c2 = Inr c'"
    using Cons.prems by (auto simp: Let_def bind_res_Inr split: if_splits)
  have "same_request c c2" using c2(1) connect_same same_request_trans by blast
  then show ?case using Cons.IH[OF c2(2)] same_request_trans by blast
qed simp

lemma connect_bridge_same: "connect_bridge cr st c = Inr c' \<Longrightarrow> same_request c c'"
  by (auto simp: connect_bridge_def bind_res_Inr intro: connect_same)

lemma connect_networks_same: "connect_networks cr st rq c = Inr c' \<Longrightarrow> same_request c c'"
proof -
  assume "connect_networks cr st rq c = Inr c'"
  then obtain c1 c2 where c1: "c1 = c \<or> (\<exists>i. c1 = ConnectNetwork c i)"
    and c2: "connect_endpoints cr st (map snd (rq_Endpoints rq)) c1 = Inr c2"
    and c': "c' = c2 \<or> connect_bridge cr st c2 = Inr c'"
    by (auto simp: connect_networks_def Let_def bind_res_Inr split: if_splits)
  have "same_request c c1" using c1 connect_same(1) by auto
  then show ?thesis using connect_endpoints_same[OF c2] c' connect_bridge_same same_request_trans by blast
qed

lemma newborn_same:
  assumes "same_request c c'" "newborn cr c"
  shows "newborn cr c'"
proof -
  have "core_of c' = core_of c" using assms(1) by (simp add: same_request_def)
  then show ?thesis using assms admitted_core[of c' c cr] by (simp add: newborn_def same_request_def)
qed

section \<open>Creating\<close>

text \<open>The container object a create request adds to the heap.\<close>

definition stamped :: "moment \<Rightarrow> container \<Rightarrow> container" where
  "stamped mo c = c\<lparr>co_ID := mo_newid mo, co_ShortID := TruncateID (mo_newid mo), co_Created := mo_now mo\<rparr>"

lemma newborn_stamped: "newborn cr (stamped mo c) = newborn cr c"
proof -
  have "ValidateContainerRequest cr (stamped mo c) = ValidateContainerRequest cr c" by (rule validate_cong) (simp_all add: stamped_def)
  then show ?thesis by (simp add: newborn_def admitted_def started_def lifecycle_ok_def stamped_def)
qed

lemma publish_then_hp: "hp (snd (publish_then mo i kind action (\<lambda>sv1. (r, sv1)) sv)) = hp sv"
proof -
  obtain obs ok where "Publish (mo_now mo) i kind action (sv_events sv) = (obs, ok)" by force
  then show ?thesis by (cases ok) (simp_all add: publish_then_def)
qed

lemma store_created_hp:
  assumes "co_ID c = []"
  shows "hp (snd (store_created cr mo c sv)) = (hp sv)(mo_newid mo \<mapsto> stamped mo c)"
proof -
  let ?c = "stamped mo c" and ?st = "sv_store sv"
  let ?st1 = "?st\<lparr>st_containers := map_set (mo_newid mo) ?c (st_containers ?st)\<rparr>"
  obtain e st where d: "db_save (cr_DB cr) TContainer (co_key ?c) ?st1 = (e, st)" by force
  have "init_container (mo_newid mo) (mo_now mo) c = ?c" using assms by (simp add: init_container_def stamped_def)
  then have s: "save_container cr mo c sv = (?c, e, sv\<lparr>sv_store := st\<rparr>)"
    using d by (simp add: save_container_def SaveContainer_def Let_def stamped_def)
  have "st_containers st = st_containers ?st1" using db_heaps(1)[of "cr_DB cr" TContainer "co_key ?c" ?st1] d by simp
  then have h: "hp (sv\<lparr>sv_store := st\<rparr>) = (hp sv)(mo_newid mo \<mapsto> ?c)" by (auto simp: hp_def fun_eq_iff)
  show ?thesis by (cases e) (simp_all add: store_created_def s h publish_then_hp)
qed

text \<open>A create request leaves the containers alone or adds one that was admitted.\<close>

definition creates :: "('n, 'db, 'w) router \<Rightarrow> moment \<Rightarrow> ('db, 'w) server \<Rightarrow> ('db, 'w) server \<Rightarrow> bool" where
  "creates cr mo sv sv' =
     (hp sv' = hp sv \<or> (\<exists>c. newborn cr c \<and> co_ID c = mo_newid mo \<and> hp sv' = (hp sv)(mo_newid mo \<mapsto> c)))"

lemma creates_refl [simp]: "creates cr mo sv sv"
  by (simp add: creates_def)

lemma store_created_creates:
  assumes "newborn cr c" "co_ID c = []"
  shows "creates cr mo sv (snd (store_created cr mo c sv))"
proof -
  have "newborn cr (stamped mo c)" using assms(1) by (simp add: newborn_stamped)
  moreover have "co_ID (stamped mo c) = mo_newid mo" by (simp add: stamped_def)
  ultimately show ?thesis using store_created_hp[OF assms(2)] unfolding creates_def by blast
qed

lemma same_request_ID: "same_request c c' \<Longrightarrow> co_ID c' = co_ID c"
  by (simp add: same_request_def core_of_def)

lemma docker_create_newborn:
  assumes "ResolveImage cr i = Inr resolved" "ValidateContainerRequest cr (requested_container rq resolved) = Inr ()"
    and "getContainerCreateRequest cr dat qname = Inr rq"
  shows "newborn cr (requested_container rq resolved)"
proof -
  have "map_get (rq_Labels rq) LabelServiceAccount = Some (rc_ServiceAccount (cr_Config cr))"
    using assms(3) by (auto simp: getContainerCreateRequest_def bind_res_Inr Let_def request_labels_def)
  then show ?thesis using assms(1,2)
    by (auto simp: newborn_def admitted_def started_def lifecycle_ok_def requested_container_def new_container_def)
qed

lemma docker_ContainerCreate_creates: "creates cr mo sv (snd (docker_ContainerCreate cr mo dat qname sv))"
proof -
  have st: "creates cr mo sv (snd (store_created cr mo c sv))"
    if rq: "getContainerCreateRequest cr dat qname = Inr rq" and im: "ResolveImage cr (rq_Image rq) = Inr resolved"
      and ok: "ValidateContainerRequest cr (requested_container rq resolved) = Inr ()"
      and c: "bind_res (add_host_ports ps (with_image_ports cr (sv_store sv) (rq_Image rq) (requested_container rq resolved)))
                (connect_networks cr (sv_store sv) rq) = Inr c" for rq resolved ps c
  proof -
    have s: "same_request (requested_container rq resolved) c"
      using c by (auto simp: bind_res_Inr dest!: add_host_ports_same connect_networks_same
          intro: same_request_trans with_image_ports_same)
    have "co_ID c = []" using same_request_ID[OF s] by (simp add: requested_container_def new_container_def)
    then show ?thesis using newborn_same[OF s docker_create_newborn[OF im ok rq]] by (rule store_created_creates[rotated])
  qed
  show ?thesis by (auto simp: docker_ContainerCreate_def Let_def st split: sum.splits)
qed

lemma libpod_ContainerCreate_creates: "creates cr mo sv (snd (libpod_ContainerCreate cr mo dat qname sv))"
proof -
  have st: "creates cr mo sv (snd (store_created cr mo c4 sv))"
    if im: "ResolveImage cr (pr_Image rq) = Inr resolved"
      and c1: "add_mappings ms (with_image_ports cr (sv_store sv) (pr_Image rq) (libpod_container (cr_Config cr) rq qname resolved)) = Inr c1"
      and ok: "ValidateContainerRequest cr ((libpod_addNetworkAliases c1 ns)\<lparr>co_Binds := bs\<rparr>) = Inr ()"
      and c4: "connect_bridge cr (sv_store sv) ((libpod_addNetworkAliases c1 ns)\<lparr>co_Binds := bs\<rparr>) = Inr c4" for rq resolved ms c1 ns bs c4
  proof -
    let ?c0 = "libpod_container (cr_Config cr) rq qname resolved" and ?c3 = "(libpod_addNetworkAliases c1 ns)\<lparr>co_Binds := bs\<rparr>"
    have "same_request ?c0 c1"
      using add_mappings_same[OF c1] with_image_ports_same same_request_trans by blast
    then have s: "same_request ?c0 (libpod_addNetworkAliases c1 ns)" using connect_same(3) same_request_trans by blast
    then have "newborn cr ?c3" and i: "co_ID ?c3 = []" using im ok
      by (auto simp: same_request_def newborn_def admitted_def started_def lifecycle_ok_def core_of_def libpod_container_def new_container_def)
    then have "newborn cr c4" "co_ID c4 = []"
      using newborn_same same_request_ID connect_bridge_same[OF c4] by auto
    then show ?thesis by (rule store_created_creates)
  qed
  show ?thesis by (auto simp: libpod_ContainerCreate_def Let_def st split: sum.splits)
qed

section \<open>Every request\<close>

text \<open>What one request does to the containers: all grow, or one that was admitted is added.\<close>

definition fair_step :: "('n, 'db, 'w) router \<Rightarrow> ('db, 'w) server \<Rightarrow> ('db, 'w) server \<Rightarrow> bool" where
  "fair_step cr sv sv' = (keeps sv sv' \<or> (\<exists>i c. i \<noteq> [] \<and> hp sv i = None \<and> newborn cr c \<and> co_ID c = i \<and> hp sv' = (hp sv)(i \<mapsto> c)))"

lemma fair_keeps: "keeps sv sv' \<Longrightarrow> fair_step cr sv sv'"
  by (simp add: fair_step_def)

lemma fair_creates: "creates cr mo sv sv' \<Longrightarrow> mo_newid mo \<noteq> [] \<Longrightarrow> hp sv (mo_newid mo) = None \<Longrightarrow> fair_step cr sv sv'"
  by (auto simp: creates_def fair_step_def intro: same_heap_keeps)

lemma wait_outcome_state: "snd (wait_outcome r) = snd r"
  by (auto simp: wait_outcome_def split: prod.splits option.splits)

lemma same_state_keeps:
  "keeps sv (snd (ContainerResize cr i sv))" "keeps sv (snd (libpod_ContainerExists cr i sv))" "keeps sv (snd (NetworksList cr f sv))"
  "keeps sv (snd (NetworksInfo cr i sv))" "keeps sv (snd (ImageList cr sv))" "keeps sv (snd (ExecInfo cr i sv))"
  "keeps sv (snd (ExecResize cr i sv))"
  by (auto simp: ContainerResize_def libpod_ContainerExists_def NetworksList_def NetworksInfo_def ImageList_def ExecInfo_def
      ExecResize_def split: sum.splits)

lemmas handler_keeps =
  ContainerStart_keeps ContainerRestart_keeps ContainerStop_keeps ContainerKill_keeps ContainerAttach_keeps
  ContainerRename_keeps docker_ContainerDelete_keeps libpod_ContainerDelete_keeps wait_tick_keeps reports_keep
  NetworksConnect_keeps NetworksDisconnect_keeps networks_keep images_keep execs_keep PutArchive_keeps files_keep
  ContainerLogs_keeps same_state_keeps

fun creating :: "action \<Rightarrow> bool" where
  "creating (DockerCreate mo dat q) = True"
| "creating (LibpodCreate mo dat q) = True"
| "creating _ = False"

lemma serve_keeps:
  assumes "container_backend (cr_Backend (ap_router ap))" "heap_ok sv" "action_ok sv a" "\<not> creating a"
  shows "keeps sv (snd (serve ap a sv))"
  using assms
proof (cases a)
  case (DockerInfo mo i)
  then show ?thesis using assms reports_keep(3)[OF assms(1), of "\<lambda>_. mo"] by (auto simp: action_ok_def)
next
  case (LibpodInfo mo i)
  then show ?thesis using assms reports_keep(4)[OF assms(1), of "\<lambda>_. mo"] by (auto simp: action_ok_def)
qed (auto simp: action_ok_def wait_outcome_state intro!: handler_keeps)

lemma serve_fair:
  assumes be: "container_backend (cr_Backend (ap_router ap))" and ok: "heap_ok sv" "action_ok sv a"
  shows "fair_step (ap_router ap) sv (snd (serve ap a sv))"
proof (cases "creating a")
  case True
  then show ?thesis using ok(2)
    by (cases a) (auto simp: action_ok_def intro: fair_creates[OF docker_ContainerCreate_creates] fair_creates[OF libpod_ContainerCreate_creates])
qed (rule fair_keeps[OF serve_keeps[OF be ok]])

section \<open>Reachable states\<close>

lemma fair_heap_ok: "heap_ok sv \<Longrightarrow> fair_step cr sv sv' \<Longrightarrow> heap_ok sv'"
  by (auto simp: fair_step_def keeps_heap_ok) (auto simp: heap_ok_def)

definition all_admitted :: "('n, 'db, 'w) router \<Rightarrow> ('db, 'w) server \<Rightarrow> bool" where
  "all_admitted cr sv = (\<forall>i c. hp sv i = Some c \<longrightarrow> admitted cr c \<and> lifecycle_ok c)"

lemma keeps_from: "keeps sv sv' \<Longrightarrow> hp sv' i = Some c' \<Longrightarrow> \<exists>c. hp sv i = Some c \<and> grows c c'"
  unfolding keeps_def by (metis option_rel_Some2)

lemma fair_admitted:
  assumes "all_admitted cr sv" "fair_step cr sv sv'"
  shows "all_admitted cr sv'"
  using assms(2) unfolding fair_step_def
proof (elim disjE exE conjE)
  assume k: "keeps sv sv'"
  have "admitted cr c' \<and> lifecycle_ok c'" if c': "hp sv' i = Some c'" for i c'
  proof -
    obtain c where c: "hp sv i = Some c" "grows c c'" using keeps_from[OF k c'] by blast
    then have "admitted cr c \<and> lifecycle_ok c" using assms(1) by (simp add: all_admitted_def)
    then show ?thesis using c(2) admitted_grows by (auto simp: grows_def)
  qed
  then show ?thesis by (simp add: all_admitted_def)
next
  fix i c assume "newborn cr c" "hp sv' = (hp sv)(i \<mapsto> c)"
  then show ?thesis using assms(1) by (auto simp: all_admitted_def newborn_def)
qed

lemma reachable_invariant:
  assumes "reachable ap sv" "container_backend (cr_Backend (ap_router ap))"
  shows "heap_ok sv \<and> all_admitted (ap_router ap) sv"
  using assms
proof (induction rule: reachable.induct)
  case (start sv)
  then show ?case by (simp add: heap_ok_def all_admitted_def hp_def)
next
  case (request sv a out sv')
  then have "fair_step (ap_router ap) sv sv'" using serve_fair[of ap sv a] by simp
  then show ?case using request fair_heap_ok fair_admitted by blast
next
  case (reap sv c e st)
  then have "hp (sv\<lparr>sv_store := st\<rparr>) = hp sv" using delete_store(1)[OF reap(2)] by (simp add: hp_def)
  then show ?case using reap by (simp add: heap_ok_def all_admitted_def)
qed (simp_all add: heap_ok_def all_admitted_def)

section \<open>An example server\<close>

definition sample_client :: "nat kube_client" where
  "sample_client = \<lparr>ka_List = (\<lambda>k kd ns sel. Inr []), ka_Delete = (\<lambda>kd ns n k. Inr k)\<rparr>"

definition sample_rconfig :: rconfig where
  "sample_rconfig = \<lparr>rc_ImageResolver = \<lparr>enabled = True, allowUnmatched = False, rules = [(''redis:latest'', ''mirror/redis:7'')]\<rparr>,
     rc_Inspector = False, rc_PortForward = False, rc_ReverseProxy = False, rc_RequestCPU = [], rc_RequestMemory = [],
     rc_RequestEphemeralStorage = [], rc_RunasUser = [], rc_PullPolicy = [], rc_PreArchive = False, rc_ServiceAccount = ''runner'',
     rc_ActiveDeadlineSeconds = -1, rc_NamePrefix = [], rc_NodeSelector = [], rc_IgnoreContainerMemory = False\<rparr>"

definition sample_router :: "(string, list_db, (nat, string) instance_state) router" where
  "sample_router = \<lparr>cr_Config = sample_rconfig, cr_DB = list_memdb, cr_Backend = instance_ops sample_deploy sample_client (\<lambda>n. Inr []),
     cr_SecretPolicy = sample_policy, cr_reference = plain_lib, cr_validators = accept_all,
     cr_regexp = (\<lambda>p s. Inr (p = s)), cr_format = (\<lambda>l t. show_int t), cr_errtext = (\<lambda>e. [])\<rparr>"

definition sample_api :: "(string, list_db, (nat, string) instance_state) api" where
  "sample_api = \<lparr>ap_router = sample_router,
     ap_files = \<lparr>fo_ExecContainer = (\<lambda>c ex w. (0, None, w)), fo_CopyToContainer = (\<lambda>c p z w. (None, w)),
       fo_CopyFromContainer = (\<lambda>c p w. (Inr [], w)), fo_FileExistsInContainer = (\<lambda>c p w. (Inr True, w)),
       fo_GetFileModeInContainer = (\<lambda>c p w. (Inr 0, w)), fo_GetLogs = (\<lambda>c opts w. None)\<rparr>,
     ap_archive = (\<lambda>b. Inr ([], None)), ap_tar_size = (\<lambda>p. Inr 0), ap_arch = ''amd64''\<rparr>"

definition sample_bridge :: network where
  "sample_bridge = \<lparr>nw_ID = ''b1'', nw_ShortID = ''b'', nw_Name = ''bridge'', nw_Driver = ''bridge'', nw_Options = [],
     nw_Labels = [], nw_Created = 0\<rparr>"

definition sample_server :: "(list_db, (nat, string) instance_state) server" where
  "sample_server = \<lparr>sv_store = empty_store\<lparr>st_db := [(TNetwork, nw_key sample_bridge)], st_networks := [(''b1'', sample_bridge)]\<rparr>,
     sv_backend = \<lparr>is_cluster = 0, is_backend = sample_backend, is_channels = 0\<rparr>, sv_events = [], sv_signals = []\<rparr>"

definition sample_moment :: moment where
  "sample_moment = \<lparr>mo_now = 7, mo_newid = sample_id, mo_allow = True, mo_chan = 0\<rparr>"

definition sample_request :: create_request where
  "sample_request = \<lparr>rq_Name = ''cache'', rq_Hostname = [], rq_Image = ''redis'', rq_ExposedPorts = [''6379/tcp''], rq_Labels = [],
     rq_Entrypoint = [], rq_Cmd = [], rq_Env = [''A=1''], rq_User = [],
     rq_HostConfig = \<lparr>hc_Binds = [], hc_Mounts = [], hc_PortBindings = [], hc_Memory = 0, hc_NanoCpus = 0, hc_NetworkMode = []\<rparr>,
     rq_Endpoints = [], rq_TTY = False, rq_OpenStdin = False\<rparr>"

definition sample_create :: action where
  "sample_create = DockerCreate sample_moment (Inr sample_request) []"

lemma sample_created:
  "case docker_ContainerCreate sample_router sample_moment (Inr sample_request) [] sample_server of (out, sv) \<Rightarrow>
     out = Reply 201 (created_body sample_id) \<and> map_option co_Image (hp sv sample_id) = Some ''mirror/redis:7''"
  by code_simp

text \<open>
  (C3) Admission: in every state the server can reach, every container it knows runs an image that
  the image policy gave out for some requested name, passes the Docker-socket and Secret checks,
  carries the configured service account, and is never running and finished (or running and
  stopped) at once. No request, status poll, restart or clean-up gets around this.
\<close>

theorem reachable_admitted:
  assumes "container_backend (cr_Backend (ap_router ap))" "reachable ap sv" "hp sv i = Some c"
  shows "co_ID c = i \<and> admitted (ap_router ap) c \<and> lifecycle_ok c"
  using reachable_invariant[OF assms(2,1)] assms(3) by (auto simp: heap_ok_def all_admitted_def)

lemma sample_api_backend: "container_backend (cr_Backend (ap_router sample_api))"
  using inst.container_backend_axioms by (simp add: sample_api_def sample_router_def)

lemma sample_start: "reachable sample_api sample_server"
  by (rule reachable.start) (simp add: sample_server_def empty_store_def)

lemma sample_action_ok: "action_ok sample_server sample_create"
  by (simp add: action_ok_def sample_create_def sample_moment_def sample_id_def hp_def sample_server_def empty_store_def)

lemma sample_created_in:
  obtains c sv where "reachable sample_api sv" "hp sv sample_id = Some c" "co_Image c = ''mirror/redis:7''"
proof -
  let ?r = "serve sample_api sample_create sample_server"
  have "?r = docker_ContainerCreate sample_router sample_moment (Inr sample_request) [] sample_server"
    by (simp add: sample_create_def sample_api_def)
  then obtain c where "hp (snd ?r) sample_id = Some c" "co_Image c = ''mirror/redis:7''"
    using sample_created by (auto split: prod.splits)
  moreover have "reachable sample_api (snd ?r)"
    using reachable.request[OF sample_start sample_action_ok] by (metis prod.collapse)
  ultimately show ?thesis using that by blast
qed

theorem reachable_admitted_witness:
  "\<exists>sv c. reachable sample_api sv \<and> hp sv sample_id = Some c \<and> co_Image c = ''mirror/redis:7'' \<and> admitted sample_router c"
proof -
  obtain c sv where s: "reachable sample_api sv" "hp sv sample_id = Some c" "co_Image c = ''mirror/redis:7''"
    by (rule sample_created_in)
  from reachable_admitted[OF sample_api_backend s(1,2)] s show ?thesis by (auto simp: sample_api_def)
qed

section \<open>The abstract register\<close>

text \<open>
  What a client may rely on, without the handlers: a register of containers, each with its fixed
  specification and a phase. Only a create request adds an entry, of an admitted container in the
  first phase; any other request leaves the set of entries and their specifications alone, and no
  entry returns to the first phase.
\<close>

datatype phase = Fresh | Live | Over

definition phase_of :: "container \<Rightarrow> phase" where
  "phase_of c = (if \<not> started c then Fresh else if co_Running c then Live else Over)"

type_synonym register = "string \<Rightarrow> (core \<times> phase) option"

definition register_of :: "('db, 'w) server \<Rightarrow> register" where
  "register_of sv i = map_option (\<lambda>c. (core_of c, phase_of c)) (hp sv i)"

definition entry_step :: "core \<times> phase \<Rightarrow> core \<times> phase \<Rightarrow> bool" where
  "entry_step x y = (fst y = fst x \<and> (snd y = Fresh \<longrightarrow> snd x = Fresh))"

inductive register_step :: "('n, 'db, 'w) router \<Rightarrow> bool \<Rightarrow> register \<Rightarrow> register \<Rightarrow> bool" for cr where
  add: "reg i = None \<Longrightarrow> admitted cr c \<Longrightarrow> co_ID c = i \<Longrightarrow> i \<noteq> [] \<Longrightarrow>
    register_step cr True reg (reg(i \<mapsto> (core_of c, Fresh)))"
| progress: "(\<And>i. rel_option entry_step (reg i) (reg' i)) \<Longrightarrow> register_step cr b reg reg'"

lemma keeps_progress: "keeps sv sv' \<Longrightarrow> rel_option entry_step (register_of sv i) (register_of sv' i)"
proof -
  assume "keeps sv sv'"
  then have "rel_option grows (hp sv i) (hp sv' i)" by (simp add: keeps_def)
  moreover have "entry_step (core_of c, phase_of c) (core_of c', phase_of c')" if "grows c c'" for c c'
    using that by (auto simp: entry_step_def phase_of_def grows_def split: if_splits)
  ultimately show ?thesis by (auto simp: register_of_def rel_option_iff split: option.splits)
qed

text \<open>
  (C12) The server refines the register: every request on a reachable state is one step of the
  abstract register, and only a create request can be the step that adds an entry.
\<close>

theorem serve_refines_register:
  assumes "container_backend (cr_Backend (ap_router ap))" "reachable ap sv" "action_ok sv a" "serve ap a sv = (out, sv')"
  shows "register_step (ap_router ap) (creating a) (register_of sv) (register_of sv')"
proof -
  have ok: "heap_ok sv" using reachable_invariant[OF assms(2,1)] by blast
  have prog: "register_step (ap_router ap) b (register_of sv) (register_of sv')" if "keeps sv sv'" for b
    by (rule register_step.progress) (rule keeps_progress[OF that])
  show ?thesis
  proof (cases "creating a")
    case False
    then show ?thesis using serve_keeps[OF assms(1) ok assms(3)] assms(4) prog by simp
  next
    case True
    have "fair_step (ap_router ap) sv sv'" using serve_fair[OF assms(1) ok assms(3)] assms(4) by simp
    then show ?thesis unfolding fair_step_def
    proof (elim disjE exE conjE)
      fix i c assume c: "i \<noteq> []" "hp sv i = None" "newborn (ap_router ap) c" "co_ID c = i" "hp sv' = (hp sv)(i \<mapsto> c)"
      have "register_of sv' = (register_of sv)(i \<mapsto> (core_of c, Fresh))"
        using c by (auto simp: register_of_def fun_eq_iff phase_of_def newborn_def)
      moreover have "register_step (ap_router ap) True (register_of sv) ((register_of sv)(i \<mapsto> (core_of c, Fresh)))"
        using c by (intro register_step.add) (auto simp: newborn_def register_of_def)
      ultimately show ?thesis using True by simp
    qed (rule prog)
  qed
qed

theorem serve_refines_register_witness:
  "\<exists>out sv'. serve sample_api sample_create sample_server = (out, sv') \<and>
     register_step sample_router True (register_of sample_server) (register_of sv')"
proof -
  obtain out sv' where s: "serve sample_api sample_create sample_server = (out, sv')" by force
  from serve_refines_register[OF sample_api_backend sample_start sample_action_ok s] s show ?thesis
    by (simp add: sample_create_def sample_api_def)
qed

end
