(* ===== verification/RouteProps.thy ===== *)
theory RouteProps
  imports Admission
begin

text \<open>
  What single requests promise: a create request that is answered can be found again and is what
  was asked for, a denied one leaves no trace, networks in use survive deletion and pruning, and
  two places where the handlers do not do what a client expects.
\<close>

section \<open>Answers\<close>

lemma Error_not_201: "status \<noteq> 201 \<Longrightarrow> httputil_Error status e \<noteq> Reply 201 b"
  by (simp add: httputil_Error_def)

lemma request_status_not_201: "ImageErrorStatus e \<noteq> 201" "ContainerRequestErrorStatus e \<noteq> 201"
  by (simp_all add: ImageErrorStatus_def ContainerRequestErrorStatus_def split: error.splits)

lemma publish_then_Reply:
  assumes "publish_then mo i kind action (\<lambda>sv1. (Reply n b, sv1)) sv = (Reply m d, sv')"
  shows "sv_store sv' = sv_store sv" and "m = n" and "d = b"
  using assms by (auto simp: publish_then_def split: prod.splits bool.splits)

section \<open>Creating\<close>

lemma docker_create_made:
  assumes "docker_ContainerCreate cr mo (Inr rq) q sv = (Reply 201 b, sv')"
  obtains rq1 c where "getContainerCreateRequest cr (Inr rq) q = Inr rq1" "ResolveImage cr (rq_Image rq) = Inr (co_Image c)"
    "same_request (requested_container rq1 (co_Image c)) c" "newborn cr c" "co_ID c = []"
    "store_created cr mo c sv = (Reply 201 b, sv')"
proof -
  obtain rq1 where rq1: "getContainerCreateRequest cr (Inr rq) q = Inr rq1" "rq_Image rq1 = rq_Image rq"
    by (auto simp: getContainerCreateRequest_def Let_def)
  have ne: "httputil_Error (ImageErrorStatus e) e \<noteq> Reply 201 b" "httputil_Error (ContainerRequestErrorStatus e) e \<noteq> Reply 201 b"
    "httputil_Error 500 e \<noteq> Reply 201 b" for e
    by (rule Error_not_201, simp add: request_status_not_201)+
  obtain resolved c ps where r: "ResolveImage cr (rq_Image rq) = Inr resolved"
    and v: "ValidateContainerRequest cr (requested_container rq1 resolved) = Inr ()"
    and c: "bind_res (add_host_ports ps (with_image_ports cr (sv_store sv) (rq_Image rq1) (requested_container rq1 resolved)))
              (connect_networks cr (sv_store sv) rq1) = Inr c"
    and s: "store_created cr mo c sv = (Reply 201 b, sv')"
    using assms rq1 ne by (auto simp: docker_ContainerCreate_def Let_def split: sum.splits)
  have same: "same_request (requested_container rq1 resolved) c"
    using c by (auto simp: bind_res_Inr dest!: add_host_ports_same connect_networks_same intro: same_request_trans with_image_ports_same)
  then have "co_Image c = resolved" "co_ID c = []"
    by (auto simp: same_request_def core_of_def requested_container_def new_container_def)
  then show ?thesis
    using that[OF rq1(1)] r s same newborn_same[OF same docker_create_newborn[OF r v rq1(1)]] by blast
qed

lemma store_created_found:
  assumes db: "memdb_table (cr_DB cr) rows" "containers_ok rows (sv_store sv)"
    and fresh: "random_id (mo_newid mo)" "\<forall>k \<in> set (rows (st_db (sv_store sv)) TContainer). fst (snd k) \<noteq> TruncateID (mo_newid mo)"
    and run: "co_ID c = []" "store_created cr mo c sv = (Reply 201 b, sv')"
  shows "b = created_body (mo_newid mo) \<and> GetContainer (cr_DB cr) (sv_store sv') (mo_newid mo) = Inr (stamped mo c)"
proof -
  obtain c1 e st where s: "SaveContainer (cr_DB cr) (mo_newid mo) (mo_now mo) c (sv_store sv) = (c1, e, st)" by (metis prod_cases3)
  have sv: "saveable rows (mo_newid mo) (sv_store sv) c" using run(1) fresh by (simp add: saveable_def)
  have c1: "c1 = stamped mo c" using s run(1) by (simp add: SaveContainer_def Let_def init_container_def stamped_def)
  note d = memdb_table.SaveContainer_stored[OF db sv s]
  have "publish_then mo (co_ID c1) ''container'' ''create'' (\<lambda>sv2. (Reply 201 (created_body (co_ID c1)), sv2)) (sv\<lparr>sv_store := st\<rparr>) = (Reply 201 b, sv')"
    using run(2) s d(1) by (simp add: store_created_def save_container_def)
  from publish_then_Reply[OF this] have "sv_store sv' = st" "b = created_body (co_ID c1)" by simp_all
  moreover have "GetContainer (cr_DB cr) st (co_ID c1) = Inr c1" by (rule memdb_table.GetContainer_by_id[OF db(1) d(2,3)])
  moreover have "co_ID c1 = mo_newid mo" by (simp add: c1 stamped_def)
  ultimately show ?thesis using c1 by simp
qed

text \<open>
  (C22) A create request that is answered with 201: the answer carries the new identifier, and
  looking it up finds a container with the image the policy resolved the requested one to, with the
  requested command, entrypoint, environment and binds, that was admitted and has not been started.
\<close>

theorem docker_create_found:
  assumes "memdb_table (cr_DB cr) rows" "containers_ok rows (sv_store sv)" "random_id (mo_newid mo)"
    and "\<forall>k \<in> set (rows (st_db (sv_store sv)) TContainer). fst (snd k) \<noteq> TruncateID (mo_newid mo)"
    and "docker_ContainerCreate cr mo (Inr rq) q sv = (Reply 201 b, sv')"
  shows "b = created_body (mo_newid mo) \<and>
    (\<exists>c. GetContainer (cr_DB cr) (sv_store sv') (mo_newid mo) = Inr c \<and> ResolveImage cr (rq_Image rq) = Inr (co_Image c) \<and>
       co_Cmd c = rq_Cmd rq \<and> co_Entrypoint c = rq_Entrypoint rq \<and> co_Env c = rq_Env rq \<and> co_Binds c = hc_Binds (rq_HostConfig rq) \<and>
       newborn cr c)"
proof -
  obtain rq1 c where c: "getContainerCreateRequest cr (Inr rq) q = Inr rq1" "ResolveImage cr (rq_Image rq) = Inr (co_Image c)"
    "same_request (requested_container rq1 (co_Image c)) c" "newborn cr c" "co_ID c = []"
    "store_created cr mo c sv = (Reply 201 b, sv')" by (rule docker_create_made[OF assms(5)])
  have "core_of c = core_of (requested_container rq1 (co_Image c))" using c(3) by (simp add: same_request_def)
  then have req: "co_Cmd c = rq_Cmd rq1" "co_Entrypoint c = rq_Entrypoint rq1" "co_Env c = rq_Env rq1" "co_Binds c = hc_Binds (rq_HostConfig rq1)"
    by (simp_all add: core_of_def requested_container_def)
  have rq1: "rq_Cmd rq1 = rq_Cmd rq" "rq_Entrypoint rq1 = rq_Entrypoint rq" "rq_Env rq1 = rq_Env rq" "rq_HostConfig rq1 = rq_HostConfig rq"
    using c(1) by (auto simp: getContainerCreateRequest_def Let_def)
  note f = store_created_found[OF assms(1-4) c(5,6)]
  have "newborn cr (stamped mo c)" using c(4) by (simp add: newborn_stamped)
  moreover have "co_Image (stamped mo c) = co_Image c" "co_Cmd (stamped mo c) = co_Cmd c" "co_Entrypoint (stamped mo c) = co_Entrypoint c"
    "co_Env (stamped mo c) = co_Env c" "co_Binds (stamped mo c) = co_Binds c" by (simp_all add: stamped_def)
  ultimately show ?thesis using f c(2) req rq1 by auto
qed

theorem docker_create_found_witness:
  "\<exists>b sv' c. docker_ContainerCreate sample_router sample_moment (Inr sample_request) [] sample_server = (Reply 201 b, sv') \<and>
     GetContainer list_memdb (sv_store sv') sample_id = Inr c \<and> co_Env c = [''A=1'']"
proof -
  obtain b sv' where r: "docker_ContainerCreate sample_router sample_moment (Inr sample_request) [] sample_server = (Reply 201 b, sv')"
    using sample_created by (auto split: prod.splits)
  have db: "memdb_table (cr_DB sample_router) list_rows" using listdb.memdb_table_axioms by (simp add: sample_router_def)
  have rows: "list_rows (st_db (sv_store sample_server)) TContainer = []" by (simp add: sample_server_def list_rows_def)
  have "containers_ok list_rows (sv_store sample_server)" using rows by (simp add: containers_ok_def table_ok_def)
  moreover have "random_id (mo_newid sample_moment)" using sample_id_random by (simp add: sample_moment_def)
  ultimately show ?thesis using docker_create_found[OF db _ _ _ r] r rows
    by (auto simp: sample_router_def sample_moment_def sample_request_def)
qed

text \<open>
  (C17) A denied image leaves no trace: with a policy that is enabled and does not allow unmatched
  images, a create or pull request for an image without a rule is answered with 403 through every
  entry point, and the state of the server is the one before. A pull may give the image as one
  name, or as a name and a tag, which are resolved together.
\<close>

theorem denied_image_no_effect:
  assumes "enabled (rc_ImageResolver (cr_Config cr))" "\<not> allowUnmatched (rc_ImageResolver (cr_Config cr))"
    and "Normalize (cr_reference cr) name = Inr normalized" "map_get (rules (rc_ImageResolver (cr_Config cr))) normalized = None"
    and "rq_Image rq = name" "pr_Image pq = name" "name = (if tag = [] then frm else frm @ '':'' @ tag)"
  shows "let denied = (Reply 403 (ErrorBody (ImageDenied name)), sv)
    in docker_ContainerCreate cr mo (Inr rq) q sv = denied \<and> libpod_ContainerCreate cr mo (Inr pq) q sv = denied \<and>
       docker_ImageCreate cr mo frm tag sv = denied \<and> libpod_ImagePull cr mo name sv = denied"
proof -
  have r: "ResolveImage cr name = Inl (ImageDenied name)" using assms(1-4) by (simp add: ResolveImage_def Resolve_def)
  have e: "httputil_Error (ImageErrorStatus (ImageDenied name)) (ImageDenied name) = Reply 403 (ErrorBody (ImageDenied name))"
    by (simp add: httputil_Error_def ImageErrorStatus_def)
  obtain rq1 where rq1: "getContainerCreateRequest cr (Inr rq) q = Inr rq1" "rq_Image rq1 = name"
    using assms(5) by (auto simp: getContainerCreateRequest_def Let_def)
  have "docker_ImageCreate cr mo frm tag sv = (Reply 403 (ErrorBody (ImageDenied name)), sv)"
    using r e assms(7) by (cases "tag = []") (simp_all add: docker_ImageCreate_def pull_image_def)
  then show ?thesis using r e rq1 assms(6)
    by (simp add: docker_ContainerCreate_def libpod_ContainerCreate_def libpod_ImagePull_def pull_image_def)
qed

theorem denied_image_no_effect_witness:
  "docker_ContainerCreate sample_router sample_moment (Inr (sample_request\<lparr>rq_Image := ''miner:1''\<rparr>)) [] sample_server =
     (Reply 403 (ErrorBody (ImageDenied ''miner:1'')), sample_server) \<and>
   docker_ImageCreate sample_router sample_moment ''miner'' ''1'' sample_server =
     (Reply 403 (ErrorBody (ImageDenied ''miner:1'')), sample_server)"
proof -
  let ?pq = "\<lparr>pr_Name = [], pr_Image = ''miner:1'', pr_Labels = [], pr_Entrypoint = [], pr_Command = [], pr_Env = [], pr_User = [],
    pr_PortMappings = [], pr_Network = [], pr_Mounts = [], pr_Terminal = False, pr_Stdin = False\<rparr>"
  have "Normalize plain_lib ''miner:1'' = Inr ''miner:1''" by code_simp
  then have "Normalize (cr_reference sample_router) ''miner:1'' = Inr ''miner:1''" by (simp add: sample_router_def)
  then have n: "Normalize (cr_reference sample_router) ''miner:1'' = Inr ''miner:1''" .
  have p: "enabled (rc_ImageResolver (cr_Config sample_router))" "\<not> allowUnmatched (rc_ImageResolver (cr_Config sample_router))"
    "map_get (rules (rc_ImageResolver (cr_Config sample_router))) ''miner:1'' = None"
    by (simp_all add: sample_router_def sample_rconfig_def)
  have f: "rq_Image (sample_request\<lparr>rq_Image := ''miner:1''\<rparr>) = ''miner:1''" "pr_Image ?pq = ''miner:1''"
    "''miner:1'' = (if ''1'' = [] then ''miner'' else ''miner'' @ '':'' @ ''1'')" by simp_all
  show ?thesis
    using denied_image_no_effect[OF p(1,2) n p(3) f, of sample_server sample_moment "[]"] unfolding Let_def by blast
qed

section \<open>Networks in use\<close>

definition networks_ok :: "('db \<Rightarrow> table \<Rightarrow> dbkey list) \<Rightarrow> 'db store \<Rightarrow> bool" where
  "networks_ok rows st = table_ok TNetwork nw_key (rows (st_db st) TNetwork) (st_networks st)"

text \<open>A network that must stay: predefined, or with a container connected to it.\<close>

definition in_use :: "('n, 'db, 'w) router \<Rightarrow> ('db, 'w) server \<Rightarrow> network \<Rightarrow> bool" where
  "in_use cr sv netw = (IsPredefined netw \<or> getContainersInNetwork cr netw sv \<noteq> [])"

definition network_listed :: "('db \<Rightarrow> table \<Rightarrow> dbkey list) \<Rightarrow> 'db store \<Rightarrow> network \<Rightarrow> bool" where
  "network_listed rows st netw = (nw_key netw \<in> set (rows (st_db st) TNetwork) \<and> map_get (st_networks st) (nw_ID netw) = Some netw)"

lemma set_all_empty: "set_all xs m = [] \<longleftrightarrow> xs = [] \<and> m = []"
proof (induction xs arbitrary: m)
  case (Cons x xs)
  have "map_set k v m \<noteq> []" for k v by (induction m) auto
  then show ?case using Cons.IH by (cases x) simp
qed simp

lemma deref_all_Inr:
  "deref_all heap ids = Inr cs \<longleftrightarrow> (\<forall>i \<in> set ids. map_get heap i \<noteq> None) \<and> cs = map (\<lambda>i. the (map_get heap i)) ids"
  by (induction ids arbitrary: cs) (auto simp: bind_res_Inr deref_def split: option.splits)

lemma getContainersInNetwork_nonempty:
  assumes "md_Get (cr_DB cr) (st_db (sv_store sv)) TContainer = Inr ids"
  shows "getContainersInNetwork cr netw sv \<noteq> [] \<longleftrightarrow>
    (\<forall>i \<in> set ids. hp sv i \<noteq> None) \<and> (\<exists>i \<in> set ids. \<exists>c. hp sv i = Some c \<and> nw_ID netw \<in> set (co_Networks c))"
proof -
  have "getContainersInNetwork cr netw sv \<noteq> [] \<longleftrightarrow>
      (\<exists>cs. deref_all (st_containers (sv_store sv)) ids = Inr cs \<and> (\<exists>c \<in> set cs. nw_ID netw \<in> set (co_Networks c)))"
    using assms by (auto simp: getContainersInNetwork_def GetContainers_def set_all_empty filter_empty_conv split: sum.splits)
  then show ?thesis by (auto simp: deref_all_Inr hp_def) force+
qed

lemma table_ok_subset: "table_ok t keyf rs heap \<Longrightarrow> set rs' \<subseteq> set rs \<Longrightarrow> table_ok t keyf rs' heap"
  unfolding table_ok_def by blast

lemma delete_network_rows:
  assumes db: "memdb_table (cr_DB cr) rows" "networks_ok rows (sv_store sv)"
    and nw: "network_listed rows (sv_store sv) netw" and run: "DeleteNetwork (cr_DB cr) netw (sv_store sv) = (e, st)"
  shows "networks_ok rows st" and "network_listed rows (sv_store sv) n \<Longrightarrow> n \<noteq> netw \<Longrightarrow> network_listed rows st n"
    and "in_use cr (sv\<lparr>sv_store := st\<rparr>) n = in_use cr sv n"
proof -
  let ?k = "nw_key netw" and ?rs = "rows (st_db (sv_store sv)) TNetwork"
  have k: "?k \<in> set ?rs" using nw by (simp add: network_listed_def)
  have conf: "k' = ?k" if "k' \<in> set ?rs" "fst k' = fst ?k" for k'
  proof -
    have "key_conflict TNetwork k' ?k" using that(2) by (simp add: key_conflict_def)
    then show ?thesis using db(2) that(1) k unfolding networks_ok_def table_ok_def by blast
  qed
  obtain d where d: "md_Delete (cr_DB cr) TNetwork ?k (st_db (sv_store sv)) = Inr d" "set (rows d TNetwork) = set ?rs - {?k}"
    "\<And>t. t \<noteq> TNetwork \<Longrightarrow> rows d t = rows (st_db (sv_store sv)) t"
    using memdb_table.delete_row[OF db(1) k] conf by blast
  have st: "st = (sv_store sv)\<lparr>st_db := d\<rparr>" using run d(1) by (simp add: DeleteNetwork_def db_delete_def)
  have "set (rows (st_db st) TNetwork) \<subseteq> set ?rs" "st_networks st = st_networks (sv_store sv)" using d(2) by (auto simp: st)
  then show "networks_ok rows st" using db(2) table_ok_subset unfolding networks_ok_def by metis
  show "network_listed rows st n" if n: "network_listed rows (sv_store sv) n" "n \<noteq> netw"
  proof -
    have "nw_key n \<noteq> ?k"
    proof
      assume "nw_key n = ?k"
      then have "nw_ID n = nw_ID netw" by (simp add: nw_key_def)
      then show False using n nw by (simp add: network_listed_def)
    qed
    then have "nw_key n \<in> set (rows d TNetwork)" using n(1) d(2) by (simp add: network_listed_def)
    then show ?thesis using n(1) by (simp add: network_listed_def st)
  qed
  obtain ids where ids: "md_Get (cr_DB cr) (st_db (sv_store sv)) TContainer = Inr ids"
    "set ids = fst ` set (rows (st_db (sv_store sv)) TContainer)" using memdb_table.get_ids[OF db(1)] by blast
  obtain ids' where ids': "md_Get (cr_DB cr) d TContainer = Inr ids'" "set ids' = fst ` set (rows d TContainer)"
    using memdb_table.get_ids[OF db(1)] by blast
  have "set ids' = set ids" using ids(2) ids'(2) d(3) by simp
  moreover have "hp (sv\<lparr>sv_store := st\<rparr>) = hp sv" by (simp add: hp_def st)
  ultimately have "getContainersInNetwork cr n (sv\<lparr>sv_store := st\<rparr>) \<noteq> [] \<longleftrightarrow> getContainersInNetwork cr n sv \<noteq> []"
    using getContainersInNetwork_nonempty[OF ids(1)] getContainersInNetwork_nonempty[of cr "sv\<lparr>sv_store := st\<rparr>" ids'] ids'(1)
    by (simp add: st)
  then show "in_use cr (sv\<lparr>sv_store := st\<rparr>) n = in_use cr sv n" by (simp add: in_use_def)
qed

lemma listed_of_heap:
  assumes "networks_ok rows st" "k \<in> set (rows (st_db st) TNetwork)" "map_get (st_networks st) (fst k) = Some n"
  shows "network_listed rows st n"
  using assms unfolding networks_ok_def table_ok_def network_listed_def by (fastforce simp: nw_key_def)

lemma found_network_listed:
  assumes "memdb_table M rows" "networks_ok rows st" "GetNetworkByNameOrID M st i = Inr n"
  shows "network_listed rows st n"
proof -
  have f: "network_listed rows st n" if h: "found_or msg j (st_networks st) (md_First M (st_db st) TNetwork ix x) = Inr n" for msg j ix x
  proof -
    obtain y where y: "md_First M (st_db st) TNetwork ix x = Inr (Some y)" "map_get (st_networks st) y = Some n"
      using h by (auto simp: found_or_def bind_res_Inr deref_def split: option.splits)
    then obtain k where "k \<in> set (rows (st_db st) TNetwork)" "fst k = y"
      using memdb_table.first_Some[OF assms(1) _ y(1)] by auto
    then show ?thesis using listed_of_heap[OF assms(2)] y(2) by blast
  qed
  show ?thesis using assms(3) f by (auto simp: GetNetworkByNameOrID_def GetNetwork_def GetNetworkByName_def split: sum.splits)
qed

lemma GetNetworks_listed:
  assumes "memdb_table M rows" "networks_ok rows st" "GetNetworks M st = Inr ns" "n \<in> set ns"
  shows "network_listed rows st n"
proof -
  obtain ids where ids: "md_Get M (st_db st) TNetwork = Inr ids" "deref_all (st_networks st) ids = Inr ns"
    using assms(3) by (auto simp: GetNetworks_def bind_res_Inr)
  obtain i where i: "i \<in> set ids" "map_get (st_networks st) i = Some n" using ids(2) assms(4) by (auto simp: deref_all_Inr)
  have "set ids = fst ` set (rows (st_db st) TNetwork)" using memdb_table.get_ids[OF assms(1), of "st_db st" TNetwork] ids(1) by auto
  then show ?thesis using i listed_of_heap[OF assms(2)] by fastforce
qed

lemma prune_keeps_in_use:
  assumes db: "memdb_table (cr_DB cr) rows"
  shows "networks_ok rows (sv_store sv) \<Longrightarrow> (\<And>n. n \<in> set ns \<Longrightarrow> network_listed rows (sv_store sv) n) \<Longrightarrow> distinct ns \<Longrightarrow>
    network_listed rows (sv_store sv) netw \<Longrightarrow> in_use cr sv netw \<Longrightarrow>
    network_listed rows (sv_store (snd (prune_loop cr ns names sv))) netw"
proof (induction ns arbitrary: names sv)
  case (Cons n ns)
  show ?case
  proof (cases "in_use cr sv n")
    case True
    then show ?thesis using Cons.IH[OF Cons.prems(1)] Cons.prems by (simp add: in_use_def)
  next
    case False
    obtain e st where d: "DeleteNetwork (cr_DB cr) n (sv_store sv) = (e, st)" by force
    note del = delete_network_rows[OF db Cons.prems(1) Cons.prems(2)[of n, simplified] d]
    have ne: "netw \<noteq> n" using False Cons.prems(5) by auto
    have kept: "network_listed rows st netw" by (rule del(2)[OF Cons.prems(4) ne])
    have "network_listed rows (sv_store (sv\<lparr>sv_store := st\<rparr>)) m" if "m \<in> set ns" for m
    proof -
      have "m \<noteq> n" using that Cons.prems(3) by auto
      then show ?thesis using del(2)[OF Cons.prems(2)[of m]] that by simp
    qed
    then have "network_listed rows (sv_store (snd (prune_loop cr ns (names @ [nw_Name n]) (sv\<lparr>sv_store := st\<rparr>)))) netw"
      using Cons.IH[of "sv\<lparr>sv_store := st\<rparr>"] del(1,3) kept Cons.prems(3,5) by simp
    then show ?thesis using False d kept by (cases e) (simp_all add: in_use_def)
  qed
qed simp

lemma GetNetworks_distinct:
  assumes "memdb_table M rows" "networks_ok rows st" "GetNetworks M st = Inr ns"
  shows "distinct ns"
proof -
  obtain ids where ids: "md_Get M (st_db st) TNetwork = Inr ids" "set ids = fst ` set (rows (st_db st) TNetwork)" "distinct ids"
    using memdb_table.get_ids[OF assms(1)] by blast
  have ns: "ns = map (\<lambda>i. the (map_get (st_networks st) i)) ids"
    using assms(3) ids(1) by (simp add: GetNetworks_def bind_res_Inr deref_all_Inr)
  have "nw_ID (the (map_get (st_networks st) i)) = i" if "i \<in> set ids" for i
    using that ids(2) assms(2) unfolding networks_ok_def table_ok_def by (fastforce simp: nw_key_def)
  then have "map nw_ID ns = ids" by (simp add: ns map_idI)
  then show ?thesis using ids(3) by (metis distinct_map)
qed

text \<open>A network that a stored container is connected to is in use.\<close>

lemma connected_in_use:
  assumes "memdb_table (cr_DB cr) rows" "containers_ok rows (sv_store sv)"
    and "IsPredefined netw \<or> (\<exists>c. stored rows (sv_store sv) c \<and> nw_ID netw \<in> set (co_Networks c))"
  shows "in_use cr sv netw"
proof -
  obtain cs where "GetContainers (cr_DB cr) (sv_store sv) = Inr cs" "set cs = {c. stored rows (sv_store sv) c}"
    using memdb_table.GetContainers_ok[OF assms(1,2)] by blast
  then show ?thesis using assms(3) by (auto simp: in_use_def getContainersInNetwork_def set_all_empty filter_empty_conv)
qed

text \<open>
  (C27) Networks in use stay: neither deleting a network, whatever name or identifier the request
  gives, nor pruning removes a predefined network or one that a stored container is connected to.
\<close>

theorem networks_in_use_stay:
  assumes "memdb_table (cr_DB cr) rows" "networks_ok rows (sv_store sv)" "containers_ok rows (sv_store sv)"
    and "network_listed rows (sv_store sv) netw"
    and "IsPredefined netw \<or> (\<exists>c. stored rows (sv_store sv) c \<and> nw_ID netw \<in> set (co_Networks c))"
  shows "network_listed rows (sv_store (snd (NetworksDelete cr i sv))) netw \<and>
    network_listed rows (sv_store (snd (NetworksPrune cr sv))) netw"
proof
  have used: "in_use cr sv netw" by (rule connected_in_use[OF assms(1,3,5)])
  show "network_listed rows (sv_store (snd (NetworksDelete cr i sv))) netw"
  proof (cases "GetNetworkByNameOrID (cr_DB cr) (sv_store sv) i")
    case (Inr n)
    obtain e st where d: "DeleteNetwork (cr_DB cr) n (sv_store sv) = (e, st)" by force
    show ?thesis
    proof (cases "in_use cr sv n")
      case True
      then show ?thesis using Inr assms(4) by (auto simp: NetworksDelete_def in_use_def)
    next
      case False
      then have "netw \<noteq> n" using used by blast
      from delete_network_rows(2)[OF assms(1,2) found_network_listed[OF assms(1,2) Inr] d assms(4) this]
      show ?thesis using Inr d assms(4) by (cases e) (simp_all add: NetworksDelete_def)
    qed
  qed (use assms(4) in \<open>simp add: NetworksDelete_def\<close>)
  show "network_listed rows (sv_store (snd (NetworksPrune cr sv))) netw"
  proof (cases "GetNetworks (cr_DB cr) (sv_store sv)")
    case (Inr ns)
    then show ?thesis
      using prune_keeps_in_use[OF assms(1,2) GetNetworks_listed[OF assms(1,2) Inr] GetNetworks_distinct[OF assms(1,2) Inr] assms(4) used]
      by (simp add: NetworksPrune_def)
  qed (use assms(4) in \<open>simp add: NetworksPrune_def\<close>)
qed

theorem networks_in_use_stay_witness:
  "network_listed list_rows (sv_store (snd (NetworksDelete sample_router ''b1'' sample_server))) sample_bridge"
proof -
  have db: "memdb_table (cr_DB sample_router) list_rows" using listdb.memdb_table_axioms by (simp add: sample_router_def)
  have rows: "list_rows (st_db (sv_store sample_server)) TNetwork = [nw_key sample_bridge]"
    "st_networks (sv_store sample_server) = [(''b1'', sample_bridge)]" by (simp_all add: sample_server_def list_rows_def)
  have "containers_ok list_rows (sv_store sample_server)"
    by (simp add: containers_ok_def table_ok_def sample_server_def list_rows_def)
  moreover from rows have "networks_ok list_rows (sv_store sample_server)" "network_listed list_rows (sv_store sample_server) sample_bridge"
    by (simp_all add: networks_ok_def table_ok_def network_listed_def nw_key_def sample_bridge_def)
  moreover have "IsPredefined sample_bridge" by (simp add: IsPredefined_def sample_bridge_def)
  ultimately show ?thesis using networks_in_use_stay[OF db] by blast
qed

section \<open>Where the handlers surprise\<close>

lemma table_ok_set:
  assumes "table_ok t keyf rs heap" "map_get heap i = Some r" "keyf r' = keyf r"
  shows "table_ok t keyf rs (map_set i r' heap)"
proof -
  have "\<exists>q. map_get (map_set i r' heap) (fst k) = Some q \<and> keyf q = k" if k: "k \<in> set rs" for k
  proof -
    obtain q where "map_get heap (fst k) = Some q" "keyf q = k" using assms(1) k unfolding table_ok_def by blast
    then show ?thesis using assms(2,3) by (cases "fst k = i") auto
  qed
  then show ?thesis using assms(1) unfolding table_ok_def by blast
qed

text \<open>
  (C34) A restart whose watch cannot be opened never answers: the backend's deletion of the container
  has been carried out and nothing else in the cluster, the container is stored as stopped with its
  sessions signalled, and the request then waits on a channel nobody ever closes. The error of
  \<open>WatchDeleteContainer\<close> is logged only.
\<close>

theorem restart_without_watch_blocks:
  assumes "memdb_table (cr_DB cr) rows" "containers_ok rows (sv_store sv)" "stored rows (sv_store sv) c"
    and "bo_WatchDeleteContainer (cr_Backend cr) c (sv_backend sv) = Some e"
  shows "\<exists>sv' c'. ContainerRestart cr mo (co_ID c) sv = (Blocked, sv') \<and>
    sv_backend sv' = snd (bo_DeleteContainer (cr_Backend cr) c (sv_backend sv)) \<and>
    stored rows (sv_store sv') c' \<and> c' = c\<lparr>co_AttachChannels := [], co_StopChannels := [], co_Running := False, co_Completed := False, co_Stopped := True\<rparr> \<and>
    GetContainer (cr_DB cr) (sv_store sv') (co_ID c) = Inr c'"
proof -
  have g: "GetContainer (cr_DB cr) (sv_store sv) (co_ID c) = Inr c" by (rule memdb_table.GetContainer_by_id[OF assms(1-3)])
  let ?c1 = "c\<lparr>co_AttachChannels := [], co_StopChannels := []\<rparr>"
  let ?c2 = "?c1\<lparr>co_Running := False, co_Completed := False, co_Stopped := True\<rparr>"
  obtain sv2 where s: "signal_both c (backend_delete cr c sv) = (?c1, sv2)"
    "sv_store sv2 = (sv_store sv)\<lparr>st_containers := map_set (co_ID c) ?c1 (st_containers (sv_store sv))\<rparr>"
    "sv_backend sv2 = snd (bo_DeleteContainer (cr_Backend cr) c (sv_backend sv))"
    by (auto simp: signal_both_def SignalDetach_def SignalStop_def put_container_def backend_delete_def)
  have "table_ok TContainer co_key (rows (st_db (sv_store sv)) TContainer) (map_set (co_ID c) ?c1 (st_containers (sv_store sv)))"
    by (rule table_ok_set) (use assms(2,3) in \<open>simp_all add: containers_ok_def stored_def co_key_def\<close>)
  then have ok2: "containers_ok rows (sv_store sv2)" using assms(2) s(2) by (simp add: containers_ok_def)
  obtain c3 er st where sv3: "SaveContainer (cr_DB cr) (mo_newid mo) (mo_now mo) ?c2 (sv_store sv2) = (c3, er, st)" by (metis prod_cases3)
  have ne: "co_ID c \<noteq> []" using stored_row(1)[OF assms(2,3)] by (auto simp: random_id_def)
  have "saveable rows (mo_newid mo) (sv_store sv2) ?c2"
    using assms(3) s(2) ne by (simp add: saveable_def stored_def co_key_def)
  from memdb_table.SaveContainer_stored(1-3)[OF assms(1) ok2 this sv3] have er: "er = None" "stored rows st c3" "containers_ok rows st" by auto
  have "c3 = ?c2" using sv3 ne by (simp add: SaveContainer_def Let_def init_container_def)
  moreover have "GetContainer (cr_DB cr) st (co_ID c) = Inr c3"
    using memdb_table.GetContainer_by_id[OF assms(1) er(3,2)] calculation by simp
  moreover have "ContainerRestart cr mo (co_ID c) sv = (Blocked, sv2\<lparr>sv_store := st\<rparr>)"
    using g assms(4) s(1) sv3 er(1) by (simp add: ContainerRestart_def Let_def save_container_def)
  ultimately show ?thesis using er(2) s(3) by auto
qed

theorem restart_without_watch_blocks_witness:
  "\<exists>cr :: (string, list_db, (nat, string) instance_state) router. \<exists>mo sv sv' c'. ContainerRestart cr mo sample_id sv = (Blocked, sv') \<and>
     stored list_rows (sv_store sv') c' \<and> co_Stopped c'"
proof -
  let ?E = "sample_deploy\<lparr>de_Watch := (\<lambda>ns sel k. Some (ExtError ''watch''))\<rparr>"
  let ?cr = "sample_router\<lparr>cr_Backend := instance_ops ?E sample_client (\<lambda>n. Inr [])\<rparr>"
  have db: "memdb_table (cr_DB ?cr) list_rows" using listdb.memdb_table_axioms by (simp add: sample_router_def)
  obtain c e st where r: "SaveContainer list_memdb sample_id 7 sample_container empty_store = (c, e, st)" by (metis prod_cases3)
  note sv = listdb.SaveContainer_stored[OF empty_store_ok sample_saveable r]
  have w: "bo_WatchDeleteContainer (cr_Backend ?cr) c (sv_backend (sample_server\<lparr>sv_store := st\<rparr>)) = Some (ExtError ''watch'')"
    by (simp add: instance_ops_def WatchDeleteContainer_def)
  have "co_ID c = sample_id" using sample_saved(1)[OF r] by simp
  with restart_without_watch_blocks[OF db _ _ w, of sample_moment] sv(2,3) show ?thesis by fastforce
qed

text \<open>
  Inspecting a container that was created and not yet started reports it as dead: the pod is not
  there, the failed status request marks the container as failed, and both inspect handlers show
  \<open>StateString\<close>. A failed mark is only taken back by a start.
\<close>

theorem inspect_before_start_dead:
  assumes "\<not> started c" "mo_allow mo" "cr_Backend cr = instance_ops E C image_ports"
    and "de_GetPod E (bk_namespace (is_backend (sv_backend sv))) (GetPodName c) (is_cluster (sv_backend sv)) = Inl e"
  shows "StateString c = ''created'' \<and> StateString (fst (UpdateContainerStatus cr mo c sv)) = ''dead''"
  using assms by (simp add: UpdateContainerStatus_def started_def instance_ops_def GetContainerStatus_def mark_status_def StateString_def Let_def)

theorem inspect_before_start_dead_witness:
  "StateString (fst (UpdateContainerStatus
     (sample_router\<lparr>cr_Backend := instance_ops (sample_deploy\<lparr>de_GetPod := (\<lambda>ns n k. Inl (ExtError ''not found''))\<rparr>) sample_client (\<lambda>n. Inr [])\<rparr>)
     sample_moment (new_container ''redis'') sample_server)) = ''dead''"
  by (rule conjunct2[OF inspect_before_start_dead[where e = "ExtError ''not found''" and C = sample_client and image_ports = "\<lambda>n. Inr []"
        and E = "sample_deploy\<lparr>de_GetPod := (\<lambda>ns n k. Inl (ExtError ''not found''))\<rparr>"]])
    (simp_all add: started_def new_container_def sample_moment_def)

end
