(* ===== verification/Settings.thy ===== *)
theory Settings
  imports Auth RouteProps
begin

text \<open>
  How the settings reach the components: \<open>server.Run\<close> and \<open>getGinEngine\<close>
  (\<open>internal/server/main.go\<close>), \<open>NewContextRouter\<close> (\<open>routes/common/context.go\<close>),
  \<open>getBackend\<close> and \<open>getExitCode\<close> (\<open>internal/main.go\<close>), \<open>backend.New\<close> and the pod
  template (\<open>internal/backend/main.go\<close>, \<open>util/podtemplate\<close>), \<open>auth.New\<close>.

  The settings are a record with one field per key that is read. Durations are below four million
  seconds, where the conversion to seconds through a floating point number is exact.
\<close>

section \<open>Settings\<close>

record settings =
  vp_policy_file :: string              \<comment> \<open>\<open>registry.policy-file\<close>\<close>
  vp_inspector :: bool                  \<comment> \<open>\<open>registry.inspector\<close>\<close>
  vp_allowed_secrets :: string          \<comment> \<open>\<open>kubernetes.allowed-secrets\<close>\<close>
  vp_namespace :: string
  vp_initimage :: string
  vp_timeout :: duration
  vp_pod_template :: string
  vp_image_pull_secrets :: string
  vp_request_cpu :: string
  vp_request_memory :: string
  vp_request_ephemeral_storage :: string
  vp_runas_user :: string
  vp_node_selector :: string
  vp_pull_policy :: string
  vp_service_account :: string
  vp_pod_name_prefix :: string
  vp_active_deadline_seconds :: int
  vp_port_forward :: bool
  vp_reverse_proxy :: bool
  vp_pre_archive :: bool
  vp_ignore_container_memory :: bool
  vp_disable_services :: bool
  vp_oidc_required :: bool
  vp_oidc_issuer :: string
  vp_oidc_discovery_url :: string
  vp_oidc_audience :: string
  vp_oidc_allowed_subjects :: string
  vp_oidc_allowed_namespaces :: string
  vp_oidc_ca_file :: string
  vp_oidc_http_timeout :: duration
  vp_oidc_refresh_interval :: duration
  vp_oidc_clock_skew :: duration

text \<open>A comma-separated setting: blanks are dropped, the empty setting is the empty list.\<close>

definition split_setting :: "string \<Rightarrow> string list" where
  "split_setting raw0 = (let raw = ReplaceAll raw0 '' '' [] in if raw \<noteq> [] then Split raw (CHR '','') else [])"

section \<open>The backend\<close>

text \<open>The deserializer's answer: the kind, and the object if it is a pod.\<close>

definition PodFromFile :: "(string \<Rightarrow> (string \<times> 'q pod option) result) \<Rightarrow> string \<Rightarrow> 'q pod result" where
  "PodFromFile decode file = bind_res (decode file) (\<lambda>(kind, obj).
     if kind = ''Pod'' then (case obj of Some p \<Rightarrow> Inr p | None \<Rightarrow> Inl (Panic ''interface conversion''))
     else Inl (Errorf ''invalid podtemplate: %s'' [file]))"

definition ContainerFromPod :: "'q pod \<Rightarrow> 'q kcontainer" where
  "ContainerFromPod p = (if length (pod_Containers p) > 0 then pod_Containers p ! 0 else blank_kcontainer)"

record backend_config =
  bc_Namespace :: string
  bc_ImagePullSecrets :: "string list"
  bc_AllowedSecrets :: "string list"
  bc_InitImage :: string
  bc_TimeOut :: duration
  bc_PodTemplate :: string
  bc_DisableServices :: bool

text \<open>The package variables of \<open>internal/config\<close> that the backend reads.\<close>

record globals =
  gl_DefaultLabels :: "(string, string) gomap"
  gl_DefaultAnnotations :: "(string, string) gomap"
  gl_InstanceID :: string

definition AddDefaultLabel :: "string \<Rightarrow> string \<Rightarrow> globals \<Rightarrow> globals" where
  "AddDefaultLabel key v gl = gl\<lparr>gl_DefaultLabels := map_set key v (gl_DefaultLabels gl)\<rparr>"

definition AddDefaultAnnotation :: "string \<Rightarrow> string \<Rightarrow> globals \<Rightarrow> globals" where
  "AddDefaultAnnotation key v gl = gl\<lparr>gl_DefaultAnnotations := map_set key v (gl_DefaultAnnotations gl)\<rparr>"

text \<open>Labels and annotations from the environment and the command line (\<open>cmd/server.go\<close>).\<close>

definition getEnvVariables :: "string list \<Rightarrow> string \<Rightarrow> string list" where
  "getEnvVariables environ prefix =
     map (\<lambda>env. case Cut env (CHR ''='') of (key, v, _) \<Rightarrow> ToLower (TrimPrefix key prefix) @ ''='' @ v)
       (filter (\<lambda>env. HasPrefix env prefix) environ)"

fun add_pairs :: "(string \<Rightarrow> string \<Rightarrow> globals \<Rightarrow> globals) \<Rightarrow> string list \<Rightarrow> globals \<Rightarrow> globals" where
  "add_pairs add [] gl = gl"
| "add_pairs add (l # ls) gl = (case Cut l (CHR ''='') of (key, v, found) \<Rightarrow>
     add_pairs add ls (if found then add key v gl else gl))"

definition addDefaultLabels :: "string list \<Rightarrow> string list \<Rightarrow> globals \<Rightarrow> globals" where
  "addDefaultLabels environ labels gl = add_pairs AddDefaultLabel (getEnvVariables environ ''K8S_LABEL_'' @ labels) gl"

definition addDefaultAnnotations :: "string list \<Rightarrow> string list \<Rightarrow> globals \<Rightarrow> globals" where
  "addDefaultAnnotations environ annotations gl =
     add_pairs AddDefaultAnnotation (getEnvVariables environ ''K8S_ANNOTATION_'' @ annotations) gl"

text \<open>
  The namespace: the service account's file, else the current context of the client configuration
  (\<^const>\<open>None\<close>: there is none), else \<open>default\<close>.
\<close>

definition getContextNamespace :: "string result \<Rightarrow> string option result option \<Rightarrow> string" where
  "getContextNamespace ns_file kubecfg = (case ns_file of
     Inr ns \<Rightarrow> TrimSpace ns
   | Inl _ \<Rightarrow> (case kubecfg of Some (Inr (Some ns)) \<Rightarrow> if ns \<noteq> [] then ns else ''default'' | _ \<Rightarrow> ''default''))"

definition backend_New ::
  "validators \<Rightarrow> (string \<Rightarrow> (string \<times> 'q pod option) result) \<Rightarrow> globals \<Rightarrow> backend_config \<Rightarrow> 'q backend result" where
  "backend_New vs decode gl cfg =
     bind_res (if bc_PodTemplate cfg \<noteq> []
               then (case PodFromFile decode (bc_PodTemplate cfg) of
                       Inl e \<Rightarrow> Inl (Wrapf ''error opening podtemplate: %w'' [] e)
                     | Inr p \<Rightarrow> Inr p)
               else Inr blank_pod) (\<lambda>pd.
       case secret_New vs (bc_AllowedSecrets cfg) of
         Inl e \<Rightarrow> Inl (Wrapf ''configure Secret policy: %w'' [] e)
       | Inr policy \<Rightarrow>
           Inr \<lparr>bk_podTemplate = pd, bk_containerTemplate = ContainerFromPod pd, bk_initImage = bc_InitImage cfg,
                bk_imagePullSecrets = bc_ImagePullSecrets cfg, bk_secretPolicy = Some policy, bk_namespace = bc_Namespace cfg,
                bk_timeOut = nat (bc_TimeOut cfg div second), bk_disableServices = bc_DisableServices cfg,
                bk_DefaultLabels = gl_DefaultLabels gl, bk_DefaultAnnotations = gl_DefaultAnnotations gl,
                bk_InstanceID = gl_InstanceID gl\<rparr>)"

definition getBackend ::
  "validators \<Rightarrow> (string \<Rightarrow> (string \<times> 'q pod option) result) \<Rightarrow> globals \<Rightarrow> settings \<Rightarrow> 'q backend result" where
  "getBackend vs decode gl vp = backend_New vs decode gl
     \<lparr>bc_Namespace = vp_namespace vp, bc_ImagePullSecrets = split_setting (vp_image_pull_secrets vp),
      bc_AllowedSecrets = split_setting (vp_allowed_secrets vp), bc_InitImage = vp_initimage vp, bc_TimeOut = vp_timeout vp,
      bc_PodTemplate = vp_pod_template vp, bc_DisableServices = vp_disable_services vp\<rparr>"

section \<open>The server\<close>

text \<open>
  \<open>auth.New\<close>: the client is made of the normalised configuration (reading the CA file can fail),
  and the configuration is normalised once more when the verifier is made.
\<close>

definition auth_New :: "environment \<Rightarrow> (string \<Rightarrow> error option) \<Rightarrow> config \<Rightarrow> verifier option result" where
  "auth_New en newHTTPClient cfg =
     bind_res (normalizeConfig (en_url_Parse en) (en_IsDNS1123Label en) cfg) (\<lambda>n. case n of
       None \<Rightarrow> Inr None
     | Some normalized \<Rightarrow>
         (case newHTTPClient (cf_CAFile normalized) of
            Some e \<Rightarrow> Inl e
          | None \<Rightarrow> newWithHTTPClient en normalized))"

definition oidc_config :: "settings \<Rightarrow> config" where
  "oidc_config vp = \<lparr>cf_Required = vp_oidc_required vp, cf_Issuer = vp_oidc_issuer vp, cf_DiscoveryURL = vp_oidc_discovery_url vp,
     cf_Audience = vp_oidc_audience vp, cf_AllowedSubjects = split_setting (vp_oidc_allowed_subjects vp),
     cf_AllowedNamespaces = split_setting (vp_oidc_allowed_namespaces vp), cf_CAFile = vp_oidc_ca_file vp,
     cf_HTTPTimeout = vp_oidc_http_timeout vp, cf_RefreshInterval = vp_oidc_refresh_interval vp,
     cf_ClockSkew = vp_oidc_clock_skew vp\<rparr>"

text \<open>The libraries the handlers call, and the configuration of the handlers.\<close>

record 'n route_libs =
  rl_reference :: "'n reference_lib"
  rl_validators :: validators
  rl_regexp :: "string \<Rightarrow> string \<Rightarrow> bool result"
  rl_format :: "string \<Rightarrow> time \<Rightarrow> string"
  rl_errtext :: "error \<Rightarrow> string"

definition NewContextRouter ::
  "'n route_libs \<Rightarrow> 'db memdb result \<Rightarrow> 'w backend_ops \<Rightarrow> resolver option \<Rightarrow> secret_policy option \<Rightarrow> rconfig \<Rightarrow>
   ('n, 'db, 'w) router result" where
  "NewContextRouter L db kub imageResolver secretPolicy cfg =
     (let cfg1 = cfg\<lparr>rc_ImageResolver := (case imageResolver of None \<Rightarrow> Passthrough | Some r \<Rightarrow> r)\<rparr>
      in bind_res (case secretPolicy of Some p \<Rightarrow> Inr p | None \<Rightarrow> secret_New (rl_validators L) []) (\<lambda>p.
           bind_res db (\<lambda>M. Inr \<lparr>cr_Config = cfg1, cr_DB = M, cr_Backend = kub, cr_SecretPolicy = p,
             cr_reference = rl_reference L, cr_validators = rl_validators L, cr_regexp = rl_regexp L,
             cr_format = rl_format L, cr_errtext = rl_errtext L\<rparr>)))"

text \<open>The reverse proxy is ignored when ports are forwarded.\<close>

definition route_config :: "settings \<Rightarrow> rconfig" where
  "route_config vp = \<lparr>rc_ImageResolver = Passthrough, rc_Inspector = vp_inspector vp, rc_PortForward = vp_port_forward vp,
     rc_ReverseProxy = (vp_reverse_proxy vp \<and> \<not> vp_port_forward vp), rc_RequestCPU = vp_request_cpu vp,
     rc_RequestMemory = vp_request_memory vp, rc_RequestEphemeralStorage = vp_request_ephemeral_storage vp,
     rc_RunasUser = vp_runas_user vp, rc_PullPolicy = vp_pull_policy vp, rc_PreArchive = vp_pre_archive vp,
     rc_ServiceAccount = vp_service_account vp, rc_ActiveDeadlineSeconds = vp_active_deadline_seconds vp,
     rc_NamePrefix = vp_pod_name_prefix vp, rc_NodeSelector = vp_node_selector vp,
     rc_IgnoreContainerMemory = vp_ignore_container_memory vp\<rparr>"

record ('n, 'db, 'w) engine =
  eg_verifier :: "verifier option"                  \<comment> \<open>\<^const>\<open>None\<close>: no authentication\<close>
  eg_router :: "('n, 'db, 'w) router option"        \<comment> \<open>\<^const>\<open>None\<close>: nil, the handlers panic\<close>

definition getGinEngine ::
  "'n route_libs \<Rightarrow> 'db memdb result \<Rightarrow> 'w backend_ops \<Rightarrow> settings \<Rightarrow> resolver \<Rightarrow> secret_policy \<Rightarrow> verifier option \<Rightarrow>
   ('n, 'db, 'w) engine" where
  "getGinEngine L db kub vp imageResolver secretPolicy verif =
     \<lparr>eg_verifier = verif,
      eg_router = (case NewContextRouter L db kub (Some imageResolver) (Some secretPolicy) (route_config vp) of
                     Inl e \<Rightarrow> None | Inr cr \<Rightarrow> Some cr)\<rparr>"

text \<open>\<open>Run\<close> up to the listeners: an error ends it before anything listens.\<close>

definition server_Run ::
  "'n route_libs \<Rightarrow> environment \<Rightarrow> (string \<Rightarrow> error option) \<Rightarrow> (string \<Rightarrow> json_stream result) \<Rightarrow> 'db memdb result \<Rightarrow>
   'w backend_ops \<Rightarrow> settings \<Rightarrow> ('n, 'db, 'w) engine result" where
  "server_Run L en newHTTPClient open_file db kub vp =
     (case LoadFile (rl_reference L) open_file (vp_policy_file vp) of
        Inl e \<Rightarrow> Inl (Wrapf ''load image policy: %w'' [] e)
      | Inr resolver \<Rightarrow>
          (case secret_New (rl_validators L) (split_setting (vp_allowed_secrets vp)) of
             Inl e \<Rightarrow> Inl (Wrapf ''load Secret policy: %w'' [] e)
           | Inr policy \<Rightarrow>
               (case auth_New en newHTTPClient (oidc_config vp) of
                  Inl e \<Rightarrow> Inl (Wrapf ''initialize OIDC authentication: %w'' [] e)
                | Inr verif \<Rightarrow> Inr (getGinEngine L db kub vp resolver policy verif))))"

text \<open>The exit code after a signal (\<^const>\<open>None\<close>: not a signal of the operating system).\<close>

definition getExitCode :: "int option \<Rightarrow> int" where
  "getExitCode sig = (case sig of None \<Rightarrow> 0 | Some n \<Rightarrow> 128 + n)"

section \<open>Properties\<close>

text \<open>
  The two checks of Secret references agree: with the same settings, the policy of the request
  handlers and the policy of the backend are the same, so a container that was admitted passes the
  backend's Secret check when its pod is built (unless the pod template itself uses the reserved
  volume name), and its environment refers to Secrets of the setting only.
\<close>

lemma admitted_passes_backend:
  assumes "server_Run L en newHTTPClient open_file db kub vp = Inr eg" "eg_router eg = Some cr"
    and "getBackend (rl_validators L) decode gl vp = Inr bk" "de_validators E = rl_validators L"
    and "list_all (\<lambda>v. vol_Name v \<noteq> VolumeName) (pod_Volumes (bk_podTemplate bk))" "admitted cr c"
  shows "\<exists>env vols mnts. main_env E bk c = Inr (env, vols, mnts) \<and>
    (\<forall>v \<in> set env. \<forall>n k. ev_SecretKeyRef v = Some (n, k) \<longrightarrow> n \<in> TrimSpace ` set (split_setting (vp_allowed_secrets vp)))"
proof -
  obtain p where p: "secret_New (rl_validators L) (split_setting (vp_allowed_secrets vp)) = Inr p"
    "cr_SecretPolicy cr = p" "cr_validators cr = rl_validators L"
    using assms(1,2) by (auto simp: server_Run_def getGinEngine_def NewContextRouter_def Let_def bind_res_Inr split: sum.splits)
  have bk: "backend_policy bk = p"
    using assms(3) p(1) by (auto simp: getBackend_def backend_New_def bind_res_Inr backend_policy_def split: sum.splits if_splits)
  have "secret_Validate (rl_validators L) p (co_Labels c) (GetEnvVar c) = Inr ()"
    using assms(6) p(2,3) by (auto simp: admitted_def ValidateContainerRequest_def bind_res_Inr)
  then obtain env vols mnts where e: "EnvVars (rl_validators L) p (co_Labels c) (GetEnvVar c) = Inr env"
    "Files (rl_validators L) p (co_Labels c) = Inr (vols, mnts)" by (auto simp: secret_Validate_def bind_res_Inr)
  have "main_env E bk c = Inr (GetEnvVar c @ env, vols, mnts)"
    using e assms(4,5) bk by (auto simp: main_env_def list_all_iff list_ex_iff)
  moreover have "n \<in> TrimSpace ` set (split_setting (vp_allowed_secrets vp))"
    if v: "v \<in> set (GetEnvVar c @ env)" "ev_SecretKeyRef v = Some (n, k)" for v n k
  proof -
    have "v \<in> set env" using v env_vars_plain[of v "co_Env c"] by (auto simp: GetEnvVar_def)
    then have "n \<in> set (allowed p)" using EnvVars_allowed[OF e(1)] v(2) by blast
    then show ?thesis using secret_New_allowed(1)[OF p(1)] by blast
  qed
  ultimately show ?thesis by blast
qed

definition sample_settings :: settings where
  "sample_settings = \<lparr>vp_policy_file = [], vp_inspector = False, vp_allowed_secrets = ''db, tls'', vp_namespace = ''ci'',
     vp_initimage = ''busybox'', vp_timeout = 30000000000, vp_pod_template = [], vp_image_pull_secrets = [], vp_request_cpu = [],
     vp_request_memory = [], vp_request_ephemeral_storage = [], vp_runas_user = [], vp_node_selector = [], vp_pull_policy = [],
     vp_service_account = ''runner'', vp_pod_name_prefix = [], vp_active_deadline_seconds = -1, vp_port_forward = False,
     vp_reverse_proxy = False, vp_pre_archive = False, vp_ignore_container_memory = False, vp_disable_services = False,
     vp_oidc_required = False, vp_oidc_issuer = [], vp_oidc_discovery_url = [], vp_oidc_audience = [],
     vp_oidc_allowed_subjects = [], vp_oidc_allowed_namespaces = [], vp_oidc_ca_file = [], vp_oidc_http_timeout = 0,
     vp_oidc_refresh_interval = 0, vp_oidc_clock_skew = 0\<rparr>"

definition sample_libs :: "string route_libs" where
  "sample_libs = \<lparr>rl_reference = plain_lib, rl_validators = accept_all, rl_regexp = (\<lambda>p s. Inr (p = s)),
     rl_format = (\<lambda>l t. show_int t), rl_errtext = (\<lambda>e. [])\<rparr>"

lemma sample_secrets: "secret_New accept_all (split_setting (vp_allowed_secrets sample_settings)) = Inr \<lparr>allowed = [''db'', ''tls'']\<rparr>"
  by code_simp

lemma sample_open: "auth_New sample_env h (oidc_config sample_settings) = Inr None"
proof -
  have "normalizeConfig sample_url_Parse (\<lambda>n. []) (oidc_config sample_settings) = Inr None" by code_simp
  then show ?thesis by (simp add: auth_New_def sample_env_def)
qed

end
