(* ===== verification/Gateway.thy ===== *)
theory Gateway
  imports Settings
begin

text \<open>
  The way of a request through the web framework: \<open>VersionAliasMiddleware\<close>
  (\<open>internal/server/httputil/util.go\<close>), the authentication middleware behind it, and the
  registered routes (\<open>internal/server/routes/docker.go\<close>, \<open>libpod.go\<close>). The framework's
  \<open>HandleContext\<close> runs the whole chain of middleware again with the path as it is then, so
  handling a request is a recursion that need not end: it is a partial function. The routing of the
  framework is the parameter \<open>dispatch\<close>.
\<close>

section \<open>Regular expressions of the version prefix\<close>

text \<open>One character of a UTF-8 string; an invalid byte counts as one.\<close>

definition is_cont :: "char \<Rightarrow> bool" where
  "is_cont c = (128 \<le> code c \<and> code c \<le> 191)"

definition rune_len :: "string \<Rightarrow> nat" where
  "rune_len s = (case s of
     [] \<Rightarrow> 0
   | c # cs \<Rightarrow>
       (let b = code c;
            lo = (if b = 224 then 160 else if b = 240 then 144 else 128);
            hi = (if b = 237 then 159 else if b = 244 then 143 else 191);
            second_ok = (cs \<noteq> [] \<and> lo \<le> code (hd cs) \<and> code (hd cs) \<le> hi)
        in if 194 \<le> b \<and> b \<le> 223 \<and> second_ok then 2
           else if 224 \<le> b \<and> b \<le> 239 \<and> second_ok \<and> length cs \<ge> 2 \<and> is_cont (cs ! 1) then 3
           else if 240 \<le> b \<and> b \<le> 244 \<and> second_ok \<and> length cs \<ge> 3 \<and> is_cont (cs ! 1) \<and> is_cont (cs ! 2) then 4
           else 1))"

text \<open>\<open>.\<close>: any character but the line feed; the rest of the string.\<close>

definition any_char :: "string \<Rightarrow> string option" where
  "any_char s = (if s = [] \<or> hd s = CHR 0x0A then None else Some (drop (rune_len s) s))"

text \<open>\<open>[..]+\<close> followed by the rest of the expression: greedy, with backtracking.\<close>

fun plus_then :: "(char \<Rightarrow> bool) \<Rightarrow> (string \<Rightarrow> string option) \<Rightarrow> string \<Rightarrow> string option" where
  "plus_then cls k [] = None"
| "plus_then cls k (c # cs) =
     (if cls c then (case plus_then cls k cs of Some r \<Rightarrow> Some r | None \<Rightarrow> k cs) else None)"

definition is_one_nine :: "char \<Rightarrow> bool" where
  "is_one_nine c = (49 \<le> code c \<and> code c \<le> 57)"

text \<open>The rest of the path after a match of the two expressions.\<close>

definition match_docker :: "string \<Rightarrow> string option" where
  "match_docker s =
     (if HasPrefix s ''/v1'' then Option.bind (any_char (drop 3 s)) (plus_then is_digit Some) else None)"

definition match_libpod :: "string \<Rightarrow> string option" where
  "match_libpod s =
     (if HasPrefix s ''/v'' then
        plus_then is_one_nine (\<lambda>s1. Option.bind (any_char s1)
          (plus_then is_digit (\<lambda>s2. Option.bind (any_char s2) (plus_then is_digit Some)))) (drop 2 s)
      else None)"

section \<open>The chain of middleware\<close>

text \<open>Some path: the request is handled again with that path; None: it goes on to the next handler.\<close>

definition VersionAliasMiddleware :: "string \<Rightarrow> string option" where
  "VersionAliasMiddleware path =
     (if HasPrefix path ''/v1.'' then Some (case match_docker path of Some r \<Rightarrow> r | None \<Rightarrow> path)
      else match_libpod path)"

definition unauthorized :: outcome where
  "unauthorized = Reply 401 (JsonBody (JObj [(''message'', JStr ''unauthorized'')]))"

partial_function (option) engine_handle ::
  "environment \<Rightarrow> jwt_parser \<Rightarrow> (string \<Rightarrow> 's \<Rightarrow> outcome \<times> 's) \<Rightarrow> string list \<Rightarrow> string \<Rightarrow> verifier option \<Rightarrow> 's \<Rightarrow>
   (outcome \<times> verifier option \<times> 's) option" where
  [code]: "engine_handle en PWC dispatch authorization path verif s = (case VersionAliasMiddleware path of
     Some p \<Rightarrow> engine_handle en PWC dispatch authorization p verif s
   | None \<Rightarrow> Some (case verif of
        None \<Rightarrow> (case dispatch path s of (out, s') \<Rightarrow> (out, None, s'))
      | Some v \<Rightarrow> (case Middleware en PWC (Some v) authorization of
            (None, v') \<Rightarrow> (unauthorized, v', s)
          | (Some i, v') \<Rightarrow> (case dispatch path s of (out, s') \<Rightarrow> (out, v', s')))))"

text \<open>A sequence of requests, each with its authorization headers and its path.\<close>

fun engine_requests ::
  "environment \<Rightarrow> jwt_parser \<Rightarrow> (string \<Rightarrow> 's \<Rightarrow> outcome \<times> 's) \<Rightarrow> (string list \<times> string) list \<Rightarrow> verifier option \<Rightarrow> 's \<Rightarrow>
   (verifier option \<times> 's) option" where
  "engine_requests en PWC dispatch [] verif s = Some (verif, s)"
| "engine_requests en PWC dispatch ((authorization, path) # rs) verif s =
     (case engine_handle en PWC dispatch authorization path verif s of
        None \<Rightarrow> None
      | Some (out, verif', s') \<Rightarrow> engine_requests en PWC dispatch rs verif' s')"

section \<open>Version prefixes\<close>

lemma any_char_shorter: "any_char s = Some r \<Longrightarrow> length r < length s"
  by (cases s) (auto simp: any_char_def rune_len_def Let_def split: if_splits)

lemma plus_then_shorter:
  assumes "\<And>t u. k t = Some u \<Longrightarrow> length u \<le> length t"
  shows "plus_then cls k s = Some r \<Longrightarrow> length r < length s"
  by (induction s) (auto simp: less_Suc_eq_le split: if_splits option.splits dest: assms)

lemma bind_shorter:
  assumes "\<And>t u. k t = Some u \<Longrightarrow> length u \<le> length t" "Option.bind (any_char s) (plus_then cls k) = Some r"
  shows "length r \<le> length s"
proof -
  obtain t where t: "any_char s = Some t" "plus_then cls k t = Some r" using assms(2) by (cases "any_char s") auto
  have "length r < length t" by (rule plus_then_shorter[OF assms(1) t(2)])
  then show ?thesis using any_char_shorter[OF t(1)] by simp
qed

lemma match_docker_shorter:
  assumes "match_docker s = Some r"
  shows "length r < length s"
proof -
  have "HasPrefix s ''/v1''" "Option.bind (any_char (drop 3 s)) (plus_then is_digit Some) = Some r"
    using assms by (auto simp: match_docker_def split: if_splits)
  moreover from this(2) have "length r \<le> length (drop 3 s)" using bind_shorter[of Some "drop 3 s" is_digit r] by simp
  ultimately show ?thesis by (cases s) (auto simp: HasPrefix_iff)
qed

lemma match_libpod_shorter:
  assumes "match_libpod s = Some r"
  shows "length r < length s"
proof -
  let ?k2 = "\<lambda>s2. Option.bind (any_char s2) (plus_then is_digit Some)"
  let ?k1 = "\<lambda>s1. Option.bind (any_char s1) (plus_then is_digit ?k2)"
  have k2: "length u \<le> length t" if "?k2 t = Some u" for t u using bind_shorter[of Some t is_digit u] that by simp
  have k1: "length u \<le> length t" if "?k1 t = Some u" for t u using bind_shorter[OF k2 that] .
  have "plus_then is_one_nine ?k1 (drop 2 s) = Some r" using assms by (auto simp: match_libpod_def split: if_splits)
  from plus_then_shorter[OF k1 this] show ?thesis by simp
qed

text \<open>A path on which the middleware calls itself with the same path.\<close>

definition stuck :: "string \<Rightarrow> bool" where
  "stuck path = (HasPrefix path ''/v1.'' \<and> (drop 4 path = [] \<or> \<not> is_digit (hd (drop 4 path))))"

lemma plus_then_None: "s = [] \<or> \<not> cls (hd s) \<Longrightarrow> plus_then cls k s = None"
  by (cases s) auto

lemma plus_then_Some: "s \<noteq> [] \<Longrightarrow> cls (hd s) \<Longrightarrow> plus_then cls Some s = Some (dropWhile cls s)"
proof (induction s)
  case (Cons c s)
  show ?case
  proof (cases "s \<noteq> [] \<and> cls (hd s)")
    case True
    then show ?thesis using Cons by simp
  next
    case False
    then have "plus_then cls Some s = None" "dropWhile cls s = s" using plus_then_None by (auto simp: dropWhile_eq_self_iff)
    then show ?thesis using Cons.prems by simp
  qed
qed simp

lemma any_char_dot: "any_char (CHR ''.'' # s) = Some s"
  by (simp add: any_char_def rune_len_def code_def Let_def)

lemma match_docker_prefixed: "match_docker (''/v1.'' @ s) = plus_then is_digit Some s"
  by (simp add: match_docker_def HasPrefix_iff any_char_dot)

lemma VersionAlias_progress:
  assumes "VersionAliasMiddleware p = Some q"
  shows "if stuck p then q = p else length q < length p"
proof (cases "HasPrefix p ''/v1.''")
  case True
  then obtain s where p: "p = ''/v1.'' @ s" by (auto simp: HasPrefix_iff)
  show ?thesis
  proof (cases "stuck p")
    case True
    then have "match_docker p = None" using p match_docker_prefixed[of s] plus_then_None[of s is_digit Some] by (auto simp: stuck_def)
    then show ?thesis using assms True \<open>HasPrefix p ''/v1.''\<close> by (simp add: VersionAliasMiddleware_def)
  next
    case False
    then have "match_docker p = Some (dropWhile is_digit s)"
      using p match_docker_prefixed[of s] plus_then_Some[of s is_digit] \<open>HasPrefix p ''/v1.''\<close> by (auto simp: stuck_def)
    then show ?thesis using assms False match_docker_shorter \<open>HasPrefix p ''/v1.''\<close> by (auto simp: VersionAliasMiddleware_def)
  qed
next
  case False
  then show ?thesis using assms match_libpod_shorter by (simp add: VersionAliasMiddleware_def stuck_def)
qed

section \<open>Answering\<close>

definition alias_step :: "string \<Rightarrow> string \<Rightarrow> bool" where
  "alias_step p q = (VersionAliasMiddleware p = Some q)"

lemma engine_alias: "VersionAliasMiddleware path = Some p \<Longrightarrow>
  engine_handle en PWC dispatch authorization path verif s = engine_handle en PWC dispatch authorization p verif s"
  by (subst engine_handle.simps) simp

lemma stuck_alias: "stuck p \<Longrightarrow> VersionAliasMiddleware p = Some p"
  using VersionAlias_progress[of p] by (auto simp: VersionAliasMiddleware_def stuck_def split: option.splits)

lemma stuck_no_answer:
  assumes "stuck path"
  shows "engine_handle en PWC dispatch authorization path verif s = None"
proof -
  have "\<not> stuck path" if "engine_handle en PWC dispatch authorization path verif s = Some y" for y
  proof (rule engine_handle.raw_induct[OF _ that, where P = "\<lambda>en PWC dispatch authorization path verif s y. \<not> stuck path"])
    fix handle en PWC dispatch authorization path verif s y
    assume ih: "\<And>en PWC dispatch authorization path verif s y.
        handle en PWC dispatch authorization path verif s = Some y \<Longrightarrow> \<not> stuck path"
      and r: "(case VersionAliasMiddleware path of None \<Rightarrow> Some (case verif of
          None \<Rightarrow> case dispatch path s of (out, s') \<Rightarrow> (out, None, s')
        | Some v \<Rightarrow> (case Middleware en PWC (Some v) authorization of
            (None, v') \<Rightarrow> (unauthorized, v', s)
          | (Some i, v') \<Rightarrow> case dispatch path s of (out, s') \<Rightarrow> (out, v', s')))
        | Some p \<Rightarrow> handle en PWC dispatch authorization p verif s) = Some y"
    show "\<not> stuck path"
    proof
      assume st: "stuck path"
      then have "handle en PWC dispatch authorization path verif s = Some y" using r stuck_alias[OF st] by simp
      then show False using ih st by blast
    qed
  qed
  then show ?thesis using assms by (cases "engine_handle en PWC dispatch authorization path verif s") auto
qed

lemma no_answer_stuck: "engine_handle en PWC dispatch authorization path verif s = None \<Longrightarrow> \<exists>p. alias_step\<^sup>*\<^sup>* path p \<and> stuck p"
proof (induction "length path" arbitrary: path rule: less_induct)
  case less
  show ?case
  proof (cases "VersionAliasMiddleware path")
    case None
    then show ?thesis using less.prems by (subst (asm) engine_handle.simps) simp
  next
    case (Some p)
    show ?thesis
    proof (cases "stuck path")
      case False
      then have "length p < length path" using VersionAlias_progress[OF Some] by simp
      moreover have "engine_handle en PWC dispatch authorization p verif s = None" using less.prems engine_alias[OF Some, of en PWC dispatch authorization verif s] by simp
      ultimately obtain q where q: "alias_step\<^sup>*\<^sup>* p q" "stuck q" using less.hyps by blast
      have "alias_step\<^sup>*\<^sup>* path q" by (rule converse_rtranclp_into_rtranclp[OF _ q(1)]) (simp add: alias_step_def Some)
      then show ?thesis using q(2) by blast
    qed blast
  qed
qed

text \<open>
  (C32) When a request is answered: the engine answers a request, whatever its credentials, exactly
  when stripping version prefixes from its path never leads to a path that starts with \<open>/v1.\<close> and
  has no digit there. On such a path the middleware handles the request again with the same path,
  without end; since it runs before authentication, a single request without credentials suffices.
\<close>

theorem engine_answers_iff:
  "(\<exists>r. engine_handle en PWC dispatch authorization path verif s = Some r) \<longleftrightarrow> \<not> (\<exists>p. alias_step\<^sup>*\<^sup>* path p \<and> stuck p)"
proof -
  have "engine_handle en PWC dispatch authorization path verif s = None" if "alias_step\<^sup>*\<^sup>* path p" "stuck p" for p
    using that
  proof (induction rule: converse_rtranclp_induct)
    case base
    then show ?case by (rule stuck_no_answer)
  next
    case (step y z)
    then show ?case using engine_alias[of y z en PWC dispatch authorization verif s] by (simp add: alias_step_def)
  qed
  then show ?thesis using no_answer_stuck by (metis not_Some_eq)
qed

text \<open>
  (C26) Version prefixes are transparent: a Docker path \<open>/v1.<digits>\<close> or a libpod path
  \<open>/v<n>.<n>.<n>\<close> (other than version 1) in front of a path gets the answer of that path.
\<close>

theorem version_alias_transparent:
  assumes "rest = [] \<or> \<not> is_digit (hd rest)" "list_all is_digit minor" "minor \<noteq> []"
    and "list_all is_one_nine major" "major \<noteq> []" "major \<noteq> ''1''" "list_all is_digit patch" "patch \<noteq> []"
  shows "engine_handle en PWC dispatch authorization (''/v1.'' @ minor @ rest) verif s = engine_handle en PWC dispatch authorization rest verif s \<and>
    engine_handle en PWC dispatch authorization (''/v'' @ major @ ''.'' @ minor @ ''.'' @ patch @ rest) verif s =
      engine_handle en PWC dispatch authorization rest verif s"
proof -
  have dig: "dropWhile is_digit (ds @ t) = t" if "list_all is_digit ds" "t = [] \<or> \<not> is_digit (hd t)" for ds t
    using that by (auto simp: list_all_iff dropWhile_append dropWhile_eq_self_iff)
  have end_digits: "plus_then is_digit Some (ds @ t) = Some t" if "list_all is_digit ds" "ds \<noteq> []" "t = [] \<or> \<not> is_digit (hd t)" for ds t
    using plus_then_Some[of "ds @ t" is_digit] dig[OF that(1,3)] that(1,2) by (cases ds) auto
  have dot: "\<not> is_digit (CHR ''.'')" "\<not> is_one_nine (CHR ''.'')" by (simp_all add: is_digit_def is_one_nine_def code_def)
  have run: "plus_then cls k (ds @ CHR ''.'' # t) = Some u"
    if "list_all cls ds" "ds \<noteq> []" "\<not> cls (CHR ''.'')" "k (CHR ''.'' # t) = Some u" for cls k ds t u
  proof -
    have none: "plus_then cls k (CHR ''.'' # t) = None" using that(3) by simp
    show ?thesis using that(1,2)
    proof (induction ds)
      case (Cons d ds)
      then show ?case using none that(4) by (cases ds) auto
    qed simp
  qed
  have "VersionAliasMiddleware (''/v1.'' @ minor @ rest) = Some rest"
    using match_docker_prefixed[of "minor @ rest"] end_digits[OF assms(2,3,1)] by (simp add: VersionAliasMiddleware_def HasPrefix_iff)
  moreover have "VersionAliasMiddleware (''/v'' @ major @ ''.'' @ minor @ ''.'' @ patch @ rest) = Some rest"
  proof -
    let ?p = "''/v'' @ major @ ''.'' @ minor @ ''.'' @ patch @ rest"
    have np: "\<not> HasPrefix ?p ''/v1.''"
    proof
      assume "HasPrefix ?p ''/v1.''"
      then have "HasPrefix (major @ ''.'' @ minor @ ''.'' @ patch @ rest) ''1.''" by (auto simp: HasPrefix_iff)
      then show False using assms(4-6) dot(2) by (cases major; cases "tl major") (auto simp: HasPrefix_iff)
    qed
    have "match_libpod ?p = Some rest"
      unfolding match_libpod_def
      using run[OF assms(4,5) dot(2)] run[OF assms(2,3) dot(1)] end_digits[OF assms(7,8,1)]
      by (simp add: HasPrefix_iff any_char_dot)
    then show ?thesis using np by (simp add: VersionAliasMiddleware_def)
  qed
  ultimately show ?thesis using engine_alias by metis
qed

theorem version_alias_transparent_witness:
  "engine_handle sample_env sample_parser (\<lambda>p s. (Reply 200 (JsonBody (JStr p)), s)) [] (''/v1.41'' @ ''/containers/json'') None () =
     engine_handle sample_env sample_parser (\<lambda>p s. (Reply 200 (JsonBody (JStr p)), s)) [] ''/containers/json'' None ()"
proof -
  have d: "list_all is_digit ''41''" "list_all is_digit ''0''" "list_all is_one_nine ''4''" "\<not> is_digit (hd ''/containers/json'')"
    by (simp_all add: is_digit_def is_one_nine_def code_def)
  let ?dispatch = "\<lambda>p s. (Reply 200 (JsonBody (JStr p)), s)"
  show ?thesis
    using version_alias_transparent[OF disjI2[OF d(4)] d(1) _ d(3) _ _ d(2), of sample_env sample_parser ?dispatch "[]" None "()"] by simp
qed

section \<open>Authentication covers every path\<close>

lemma normalizeConfig_required:
  assumes "cf_Required cfg" "normalizeConfig U D cfg = Inr r"
  shows "\<exists>c. r = Some c \<and> cf_Required c"
proof (cases r)
  case None
  then show ?thesis using assms
    by (auto simp: normalizeConfig_def Let_def bind_res_Inr trim_config_def split: if_splits option.splits)
next
  case (Some c)
  obtain subjects namespaces where
    "c = default_durations ((default_discovery (trim_config cfg))\<lparr>cf_AllowedSubjects := subjects, cf_AllowedNamespaces := namespaces\<rparr>)"
    using normalizeConfig_Some[OF assms(2)[unfolded Some]] by blast
  then show ?thesis using assms(1) Some by (simp add: default_durations_def default_discovery_def trim_config_def)
qed

lemma required_verifier:
  assumes "server_Run L en h open_file db kub vp = Inr eg" "vp_oidc_required vp"
  obtains cfg v where "eg_verifier eg = Some v" "newWithHTTPClient en cfg = Inr (Some v)"
    "normalizeConfig (en_url_Parse en) (en_IsDNS1123Label en) (oidc_config vp) = Inr (Some cfg)"
proof -
  obtain r where r: "auth_New en h (oidc_config vp) = Inr r" "eg_verifier eg = r"
    using assms(1) by (auto simp: server_Run_def getGinEngine_def split: sum.splits)
  obtain n where n: "normalizeConfig (en_url_Parse en) (en_IsDNS1123Label en) (oidc_config vp) = Inr n"
    using r(1) by (auto simp: auth_New_def bind_res_Inr)
  have "cf_Required (oidc_config vp)" using assms(2) by (simp add: oidc_config_def)
  then obtain cfg where cfg: "n = Some cfg" "cf_Required cfg" using normalizeConfig_required[OF _ n] by blast
  have new: "newWithHTTPClient en cfg = Inr r" using r(1) n cfg(1) by (auto simp: auth_New_def split: option.splits)
  obtain m where m: "normalizeConfig (en_url_Parse en) (en_IsDNS1123Label en) cfg = Inr m"
    using new by (auto simp: newWithHTTPClient_def bind_res_Inr)
  obtain c where "m = Some c" using normalizeConfig_required[OF cfg(2) m] by blast
  moreover obtain e w where "refreshLocked en (new_verifier c) = (e, w)" by force
  ultimately have "r = Some w" using new m by (cases e) (auto simp: newWithHTTPClient_def)
  then show ?thesis using that r(2) new n cfg(1) by blast
qed

lemma Middleware_keeps_verifier: "Middleware en PWC (Some v) authorization = (res, w) \<Longrightarrow> \<exists>v'. w = Some v'"
  by (auto simp: Middleware_def Verify_def split: sum.splits prod.splits if_splits)

text \<open>What one answered request does to the verifier and to the state behind the handlers.\<close>

lemma engine_handle_auth:
  assumes "engine_handle en PWC dispatch authorization path (Some v) s = Some (out, w, s')"
  shows "\<exists>res. Middleware en PWC (Some v) authorization = (res, w) \<and> (res = None \<longrightarrow> out = unauthorized \<and> s' = s)"
  using assms
proof (induction "length path" arbitrary: path rule: less_induct)
  case less
  show ?case
  proof (cases "VersionAliasMiddleware path")
    case None
    then show ?thesis using less.prems
      by (subst (asm) engine_handle.simps) (auto split: prod.splits option.splits)
  next
    case (Some p)
    have "\<not> stuck path" using stuck_no_answer[of path en PWC dispatch authorization "Some v" s] less.prems by auto
    then have "length p < length path" using VersionAlias_progress[OF Some] by simp
    then show ?thesis using less.hyps less.prems engine_alias[OF Some, of en PWC dispatch authorization "Some v" s] by simp
  qed
qed

lemma engine_handle_open:
  assumes "engine_handle en PWC dispatch authorization path None s = Some (out, w, s')"
  shows "w = None"
  using assms
proof (induction "length path" arbitrary: path rule: less_induct)
  case less
  show ?case
  proof (cases "VersionAliasMiddleware path")
    case None
    then show ?thesis using less.prems by (subst (asm) engine_handle.simps) (auto split: prod.splits)
  next
    case (Some p)
    have "\<not> stuck path" using stuck_no_answer[of path en PWC dispatch authorization None s] less.prems by auto
    then have "length p < length path" using VersionAlias_progress[OF Some] by simp
    then show ?thesis using less.hyps less.prems engine_alias[OF Some, of en PWC dispatch authorization None s] by simp
  qed
qed

lemma engine_requests_auth:
  assumes "engine_requests en PWC dispatch rs (Some v) s = Some (w, s')" "vf_reachable en PWC cfg v" "s' \<noteq> s"
  shows "\<exists>authorization path v1 i v2. (authorization, path) \<in> set rs \<and> vf_reachable en PWC cfg v1 \<and>
    Middleware en PWC (Some v1) authorization = (Some i, Some v2)"
  using assms
proof (induction rs arbitrary: v s)
  case (Cons r rs)
  obtain authorization path where r: "r = (authorization, path)" by force
  obtain out w1 s1 where h: "engine_handle en PWC dispatch authorization path (Some v) s = Some (out, w1, s1)"
    "engine_requests en PWC dispatch rs w1 s1 = Some (w, s')" using Cons.prems(1) r by (auto split: option.splits prod.splits)
  obtain res where res: "Middleware en PWC (Some v) authorization = (res, w1)" "res = None \<longrightarrow> s1 = s"
    using engine_handle_auth[OF h(1)] by blast
  obtain v1 where v1: "w1 = Some v1" using Middleware_keeps_verifier[OF res(1)] by blast
  show ?case
  proof (cases res)
    case None
    have "vf_reachable en PWC cfg v1" using vf_reachable.request[OF Cons.prems(2)] res(1) v1 by blast
    then show ?thesis using Cons.IH[of v1 s1] h(2) v1 res(2) None Cons.prems(3) by fastforce
  next
    case (Some i)
    then show ?thesis using res(1) v1 r Cons.prems(2) by auto
  qed
qed simp

text \<open>
  (C2) Authentication covers every path: when the server was started with authentication required,
  then whatever sequence of requests changed anything behind the handlers, versioned paths
  included, contains a request whose token the verifier made from the settings accepted.
\<close>

theorem required_auth_enforced:
  assumes "server_Run L en h open_file db kub vp = Inr eg" "vp_oidc_required vp"
    and "engine_requests en PWC dispatch rs (eg_verifier eg) s = Some (w, s')" "s' \<noteq> s"
  shows "\<exists>cfg authorization path v i v'. normalizeConfig (en_url_Parse en) (en_IsDNS1123Label en) (oidc_config vp) = Inr (Some cfg) \<and>
    (authorization, path) \<in> set rs \<and> vf_reachable en PWC cfg v \<and> Middleware en PWC (Some v) authorization = (Some i, Some v')"
proof -
  obtain cfg v where v: "eg_verifier eg = Some v" "newWithHTTPClient en cfg = Inr (Some v)"
    "normalizeConfig (en_url_Parse en) (en_IsDNS1123Label en) (oidc_config vp) = Inr (Some cfg)"
    by (rule required_verifier[OF assms(1,2)])
  have "vf_reachable en PWC cfg v" by (rule vf_reachable.init[OF v(2)])
  then show ?thesis using engine_requests_auth[of en PWC dispatch rs v s w s' cfg] assms(3,4) v(1,3) by auto
qed

definition guarded_settings :: settings where
  "guarded_settings = sample_settings\<lparr>vp_oidc_required := True, vp_oidc_issuer := '' https://issuer/'',
     vp_oidc_audience := ''testtender'', vp_oidc_allowed_namespaces := ''ci, ci ''\<rparr>"

lemma guarded_auth: "auth_New sample_env (\<lambda>f. None) (oidc_config guarded_settings) = Inr (Some (sample_verifier 1))"
proof -
  have n: "normalizeConfig sample_url_Parse (\<lambda>n. []) (oidc_config guarded_settings) = Inr (Some sample_normal)"
    "normalizeConfig sample_url_Parse (\<lambda>n. []) sample_normal = Inr (Some sample_normal)" by code_simp+
  have "newWithHTTPClient sample_env sample_normal = newWithHTTPClient sample_env sample_config"
    using n(2) sample_config_normal by (simp add: newWithHTTPClient_def sample_env_def)
  then show ?thesis using n(1) sample_verifier_new by (simp add: auth_New_def sample_env_def)
qed

theorem required_auth_enforced_witness:
  "\<exists>cfg authorization path v i v'. normalizeConfig (en_url_Parse sample_env) (en_IsDNS1123Label sample_env) (oidc_config guarded_settings) = Inr (Some cfg) \<and>
     (authorization, path) \<in> set [([''bearer tok''], ''/v1.41/x'')] \<and> vf_reachable sample_env sample_parser cfg v \<and>
     Middleware sample_env sample_parser (Some v) authorization = (Some i, Some v')"
proof -
  let ?dispatch = "\<lambda>p s. (Reply 200 NoBody, Suc s)"
  let ?kub = "instance_ops sample_deploy sample_client (\<lambda>n. Inr [])"
  have p: "vp_policy_file guarded_settings = []" "vp_allowed_secrets guarded_settings = vp_allowed_secrets sample_settings"
    "vp_oidc_required guarded_settings" by (simp_all add: guarded_settings_def sample_settings_def)
  obtain eg where run: "server_Run sample_libs sample_env (\<lambda>f. None) (\<lambda>f. Inl (ExtError f)) (Inr list_memdb) ?kub guarded_settings = Inr eg"
    "eg_verifier eg = Some (sample_verifier 1)"
    by (simp add: server_Run_def LoadFile_def p(1,2) TrimSpace_def TrimRightFunc_def sample_libs_def sample_secrets guarded_auth getGinEngine_def)
  obtain i where m: "Middleware sample_env sample_parser (Some (sample_verifier 1)) [''bearer tok''] = (Some i, Some (sample_verifier 2))"
    using sample_accepted by blast
  have "VersionAliasMiddleware ''/v1.41/x'' = Some ''/x''" "VersionAliasMiddleware ''/x'' = None" by code_simp+
  then have "engine_handle sample_env sample_parser ?dispatch [''bearer tok''] ''/v1.41/x'' (Some (sample_verifier 1)) (0 :: nat) =
      Some (Reply 200 NoBody, Some (sample_verifier 2), 1)"
    using m by (subst engine_handle.simps, simp, subst engine_handle.simps, simp)
  then have "engine_requests sample_env sample_parser ?dispatch [([''bearer tok''], ''/v1.41/x'')] (eg_verifier eg) (0 :: nat) =
      Some (Some (sample_verifier 2), 1)" using run(2) by simp
  from required_auth_enforced[OF run(1) p(3) this] show ?thesis by simp
qed

text \<open>
  One request without credentials stops the server: for a path such as \<open>/v1.x\<close> the handling
  never ends, with authentication required as well.
\<close>

theorem unauthenticated_loop:
  "engine_handle en PWC dispatch [] ''/v1.x'' verif s = None"
  by (rule stuck_no_answer) (simp add: stuck_def HasPrefix_def is_digit_def code_def)

end
