(* ===== verification/Help.thy ===== *)
theory Help
  imports Gateway
begin

text \<open>
  A helper at the edge of the program: \<open>internal/util/md2text\<close>, which renders the built-in
  documentation for the terminal.
\<close>

section \<open>Reading lines\<close>

text \<open>
  \<open>bufio.Scanner\<close>: lines end in a line feed, with an optional carriage return before it; the last
  line needs none. A line that does not fit the buffer ends the scan.
\<close>

definition MaxScanTokenSize :: nat where "MaxScanTokenSize = 64 * 1024"

definition drop_cr :: "string \<Rightarrow> string" where
  "drop_cr l = (if l \<noteq> [] \<and> last l = CHR 0x0D then butlast l else l)"

definition scan_lines :: "string \<Rightarrow> string list" where
  "scan_lines text =
     (let ls = Split text (CHR 0x0A); all_lines = (if last ls = [] then butlast ls else ls)
      in map drop_cr (takeWhile (\<lambda>l. length l < MaxScanTokenSize) all_lines))"

section \<open>Markdown to text\<close>

function rune_count :: "string \<Rightarrow> nat" where
  "rune_count s = (if s = [] then 0 else Suc (rune_count (drop (rune_len s) s)))"
  by pat_completeness auto
termination
proof (relation "measure length")
  fix s :: string assume "s \<noteq> []"
  then show "(drop (rune_len s) s, s) \<in> measure length" by (cases s) (simp_all add: rune_len_def Let_def)
qed simp

declare rune_count.simps [simp del]

text \<open>\<open>%-*s\<close>: padded with blanks to a width counted in characters.\<close>

definition pad_right :: "nat \<Rightarrow> string \<Rightarrow> string" where
  "pad_right w s = s @ replicate (w - rune_count s) (CHR '' '')"

fun wrap_loop :: "nat \<Rightarrow> string list \<Rightarrow> string \<Rightarrow> string \<Rightarrow> string" where
  "wrap_loop cols [] res line = res @ line"
| "wrap_loop cols (w # ws) res line =
     (if length w + length line < cols
      then wrap_loop cols ws res ((if line \<noteq> [] then line @ '' '' else line) @ w)
      else wrap_loop cols ws (res @ line) (CHR 0x0A # w))"

definition wrapString :: "string \<Rightarrow> nat \<Rightarrow> string" where
  "wrapString text cols = wrap_loop cols (Split text (CHR '' '')) [] []"

text \<open>A header line: hashes, blanks, title. The title is underlined for the first two levels.\<close>

definition header_line :: "string \<Rightarrow> string" where
  "header_line text =
     (let hashes = takeWhile (\<lambda>c. c = CHR ''#'') text; more = dropWhile (\<lambda>c. c = CHR ''#'') text;
          title = dropWhile (\<lambda>c. c = CHR '' '') more
      in if hashes = [] \<or> more = [] \<or> hd more \<noteq> CHR '' '' then text
         else title @ (if length hashes = 1 then CHR 0x0A # replicate (length title) (CHR ''='')
                       else if length hashes = 2 then CHR 0x0A # replicate (length title) (CHR ''-'') else []))"

text \<open>Removing the targets of links, \<open>(http...)\<close>.\<close>

fun drop_links :: "string \<Rightarrow> nat \<Rightarrow> string" where
  "drop_links [] skip = []"
| "drop_links (c # cs) (Suc skip) = drop_links cs skip"
| "drop_links (c # cs) 0 =
     (if HasPrefix (c # cs) ''(http'' \<and> CHR '')'' \<in> set cs
      then drop_links cs (Suc (length (takeWhile (\<lambda>d. d \<noteq> CHR '')'') cs)))
      else c # drop_links cs 0)"

definition convertHeader :: "string \<Rightarrow> string" where
  "convertHeader text = drop_links (header_line text) 0"

definition renderLine :: "nat list \<Rightarrow> string" where
  "renderLine colWidths = concat (map (\<lambda>w. CHR ''+'' # replicate (w + 2) (CHR ''-'')) colWidths) @ ''+'' @ [CHR 0x0A]"

text \<open>More cells than columns are an index out of range.\<close>

definition renderRow :: "string list \<Rightarrow> nat list \<Rightarrow> string result" where
  "renderRow row colWidths =
     (if length row > length colWidths then Inl (Panic ''index out of range'')
      else Inr (concat (map (\<lambda>(w, cell). ''| '' @ pad_right w cell @ '' '') (zip colWidths row)) @ ''|'' @ [CHR 0x0A]))"

definition table_cells :: "string \<Rightarrow> string list" where
  "table_cells row = Split (Trim row (CHR ''|'')) (CHR ''|'')"

text \<open>A table of one row only, or a row with fewer cells than the header, is a panic as well.\<close>

definition renderTable :: "string list \<Rightarrow> string result" where
  "renderTable rows =
     (if length rows < 2 then Inl (Panic ''makeslice: len out of range'')
      else
        (let headers = table_cells (hd rows); cells = map table_cells (drop 2 rows)
         in if list_ex (\<lambda>row. length row < length headers) cells then Inl (Panic ''index out of range'')
            else
              (let widths = map (\<lambda>i. fold max (map (\<lambda>row. length (row ! i)) cells) (length (headers ! i))) [0..<length headers]
               in bind_res (renderRow headers widths) (\<lambda>h.
                    bind_res (fold (\<lambda>row acc. bind_res acc (\<lambda>out. bind_res (renderRow row widths) (\<lambda>r. Inr (out @ r)))) cells (Inr []))
                      (\<lambda>body. Inr (renderLine widths @ h @ renderLine widths @ body @ renderLine widths))))))"

record md_state =
  md_res :: string
  md_raw :: bool
  md_render :: bool
  md_table :: "string list"

definition text_line :: "nat \<Rightarrow> string \<Rightarrow> md_state \<Rightarrow> md_state result" where
  "text_line cols line st =
     (if HasPrefix line ''```'' then Inr (st\<lparr>md_raw := \<not> md_raw st\<rparr>)
      else if HasPrefix line ''[skip_render_start]'' then Inr (st\<lparr>md_render := False\<rparr>)
      else if HasPrefix line ''[skip_render_end]'' then Inr (st\<lparr>md_render := True\<rparr>)
      else if \<not> md_render st then Inr st
      else if HasPrefix line ''|'' then Inr (st\<lparr>md_table := md_table st @ [line]\<rparr>)
      else bind_res (if length (md_table st) > 0 then renderTable (md_table st) else Inr []) (\<lambda>t.
             Inr (st\<lparr>md_table := [], md_res := md_res st @ t @
               (if \<not> md_raw st then wrapString (convertHeader line) cols else ''  '' @ line) @ [CHR 0x0A]\<rparr>)))"

fun text_loop :: "nat \<Rightarrow> string list \<Rightarrow> md_state \<Rightarrow> md_state result" where
  "text_loop cols [] st = Inr st"
| "text_loop cols (l # ls) st = bind_res (text_line cols l st) (text_loop cols ls)"

definition ToText :: "string \<Rightarrow> nat \<Rightarrow> string result" where
  "ToText text cols =
     bind_res (text_loop cols (scan_lines text) \<lparr>md_res = [], md_raw = False, md_render = True, md_table = []\<rparr>) (\<lambda>st. Inr (md_res st))"

section \<open>Properties\<close>

text \<open>Wrapping a line changes nothing but blanks and line breaks.\<close>

definition visible :: "string \<Rightarrow> string" where
  "visible s = filter (\<lambda>c. c \<noteq> CHR '' '' \<and> c \<noteq> CHR 0x0A) s"

lemma visible_append: "visible (a @ b) = visible a @ visible b"
  by (simp add: visible_def)

lemma visible_Split: "visible (concat (Split s (CHR '' ''))) = visible s"
  by (induction s) (auto simp: visible_def split: list.splits)

lemma wrap_loop_visible: "visible (wrap_loop cols ws res line) = visible (res @ line @ concat ws)"
proof (induction cols ws res line rule: wrap_loop.induct)
  case (2 cols w ws res line)
  have "visible ((if line \<noteq> [] then line @ '' '' else line) @ w) = visible line @ visible w" by (simp add: visible_def)
  moreover have "visible (CHR 0x0A # v) = visible v" for v by (simp add: visible_def)
  ultimately show ?case using 2 by (simp add: visible_append)
qed simp

lemma wrapString_visible: "visible (wrapString text cols) = visible text"
  by (simp add: wrapString_def wrap_loop_visible visible_Split)

text \<open>A table at the end of the text is collected and never rendered.\<close>

lemma ToText_last_table: "ToText (''a'' @ [CHR 0x0A] @ ''|h|'' @ [CHR 0x0A] @ ''|-|'' @ [CHR 0x0A] @ ''|c|'' @ [CHR 0x0A]) 80 = Inr (''a'' @ [CHR 0x0A])"
  by (simp add: ToText_def scan_lines_def drop_cr_def MaxScanTokenSize_def text_line_def HasPrefix_def wrapString_def convertHeader_def header_line_def)

end
