(* ===== verification/System.thy ===== *)
theory System
  imports Gateway
begin

text \<open>
  The system endpoints (\<open>routes/docker/system.go\<close>, \<open>routes/libpod/system.go\<close>), the two
  prune requests without effect, the event stream, and the tables of routes
  (\<open>routes/docker.go\<close>, \<open>routes/libpod.go\<close>).
\<close>

section \<open>Constants\<close>

definition DockerAPIVersion :: string where "DockerAPIVersion = ''1.25''"
definition LibpodAPIVersion :: string where "LibpodAPIVersion = ''4.2.0''"

text \<open>What is set when the program is built, and the runtime's names of itself.\<close>

record build_info =
  bi_Version :: string
  bi_Build :: string
  bi_Date :: string
  bi_GoVersion :: string
  bi_GOOS :: string
  bi_GOARCH :: string

section \<open>System endpoints\<close>

definition docker_Info :: "build_info \<Rightarrow> globals \<Rightarrow> outcome" where
  "docker_Info bi gl = Reply 200 (JsonBody (JObj [(''ID'', JStr ''testtender.io''), (''Name'', JStr ''testtender''),
     (''ServerVersion'', JStr (bi_Version bi)), (''OperatingSystem'', JStr ''kubernetes''), (''MemTotal'', JNum 0),
     (''Labels'', strings_json (map (\<lambda>(k, v). k @ ''='' @ v) (gl_DefaultLabels gl)))]))"

definition docker_Version :: "build_info \<Rightarrow> outcome" where
  "docker_Version bi = Reply 200 (JsonBody (JObj [(''Version'', JStr ''1.25''), (''ApiVersion'', JStr DockerAPIVersion),
     (''MinAPIVersion'', JStr DockerAPIVersion), (''GitCommit'', JStr (bi_Build bi)), (''BuildTime'', JStr (bi_Date bi)),
     (''GoVersion'', JStr (bi_GoVersion bi)), (''Os'', JStr (bi_GOOS bi)), (''Arch'', JStr (bi_GOARCH bi))]))"

definition libpod_Version :: "build_info \<Rightarrow> outcome" where
  "libpod_Version bi = Reply 200 (JsonBody (JObj [(''GitCommit'', JStr (bi_Build bi)), (''Os'', JStr ''kubernetes''),
     (''Version'', JStr (bi_Version bi))]))"

definition docker_Ping :: outcome where "docker_Ping = Reply 200 (JsonBody (JStr ''OK''))"
definition libpod_Ping :: outcome where "libpod_Ping = Reply 200 (JsonBody (JStr ''OK''))"

definition ImagesPrune :: outcome where
  "ImagesPrune = Reply 201 (JsonBody (JObj [(''ImagesDeleted'', JArr []), (''SpaceReclaimed'', JNum 0)]))"

definition VolumesPrune :: outcome where
  "VolumesPrune = Reply 201 (JsonBody (JObj [(''VolumesDeleted'', JArr []), (''SpaceReclaimed'', JNum 0)]))"

definition NotImplemented :: outcome where "NotImplemented = Reply 501 NoBody"
definition NoContent :: outcome where "NoContent = Reply 204 NoBody"

section \<open>The event stream\<close>

definition event_json :: "message \<Rightarrow> json" where
  "event_json m = JObj [(''id'', JStr (ms_ID m)), (''Type'', JStr (ms_Type m)), (''Status'', JStr (ms_Action m)),
     (''Action'', JStr (ms_Action m)), (''Actor'', JObj [(''ID'', JStr (ms_ID m))]), (''scope'', JStr ''local''),
     (''time'', JNum (ms_Time m)), (''timeNano'', JNum (ms_TimeNano m))]"

text \<open>
  One turn of the loop of \<open>Events\<close>: the client has gone away, or a message may be received. The
  result is what is sent, the observers, and whether the loop goes on.
\<close>

definition events_turn :: "(string, keyval list) gomap \<Rightarrow> string \<Rightarrow> bool \<Rightarrow> observers \<Rightarrow> json list \<times> observers \<times> bool" where
  "events_turn filtr i gone obs =
     (if gone then ([], Unsubscribe i obs, False)
      else case map_get obs i of
             Some (m # q) \<Rightarrow> (if filter_Match filtr (ms_Match m) then [event_json m] else [], map_set i q obs, True)
           | _ \<Rightarrow> ([], obs, True))"

text \<open>The stream while other requests publish: each publication is followed by a turn.\<close>

fun events_stream ::
  "(string, keyval list) gomap \<Rightarrow> string \<Rightarrow> (int \<times> string \<times> string \<times> string) list \<Rightarrow> observers \<Rightarrow> json list \<times> observers \<times> bool" where
  "events_stream filtr i [] obs = ([], obs, True)"
| "events_stream filtr i ((now, res, kind, action) # ps) obs =
     (case Publish now res kind action obs of
        (obs1, False) \<Rightarrow> ([], obs1, False)
      | (obs1, True) \<Rightarrow>
          (case events_turn filtr i False obs1 of (out, obs2, _) \<Rightarrow>
             (case events_stream filtr i ps obs2 of (outs, obs3, ok) \<Rightarrow> (out @ outs, obs3, ok))))"

section \<open>Routes\<close>

datatype http_method = MGET | MPOST | MPUT | MDELETE | MHEAD

type_synonym route = "http_method \<times> string \<times> string"   \<comment> \<open>method, pattern, handler\<close>

definition docker_routes :: "route list" where
  "docker_routes = [
   (MGET, ''/info'', ''docker.Info''), (MGET, ''/events'', ''docker.Events''),
   (MGET, ''/version'', ''docker.Version''), (MGET, ''/_ping'', ''docker.Ping''),
   (MHEAD, ''/_ping'', ''docker.Ping''), (MPOST, ''/containers/create'', ''docker.ContainerCreate''),
   (MPOST, ''/containers/:id/start'', ''common.ContainerStart''), (MPOST, ''/containers/:id/attach'', ''common.ContainerAttach''),
   (MPOST, ''/containers/:id/stop'', ''common.ContainerStop''), (MPOST, ''/containers/:id/restart'', ''common.ContainerRestart''),
   (MPOST, ''/containers/:id/kill'', ''common.ContainerKill''), (MPOST, ''/containers/:id/wait'', ''docker.ContainerWait''),
   (MPOST, ''/containers/:id/rename'', ''common.ContainerRename''), (MPOST, ''/containers/:id/resize'', ''common.ContainerResize''),
   (MDELETE, ''/containers/:id'', ''docker.ContainerDelete''), (MGET, ''/containers/json'', ''docker.ContainerList''),
   (MGET, ''/containers/:id/json'', ''docker.ContainerInfo''), (MGET, ''/containers/:id/logs'', ''common.ContainerLogs''),
   (MHEAD, ''/containers/:id/archive'', ''common.HeadArchive''), (MGET, ''/containers/:id/archive'', ''common.GetArchive''),
   (MPUT, ''/containers/:id/archive'', ''common.PutArchive''), (MPOST, ''/containers/:id/exec'', ''common.ContainerExec''),
   (MPOST, ''/exec/:id/start'', ''common.ExecStart''), (MPOST, ''/exec/:id/resize'', ''common.ExecResize''),
   (MGET, ''/exec/:id/json'', ''common.ExecInfo''), (MPOST, ''/networks/create'', ''docker.NetworksCreate''),
   (MPOST, ''/networks/:id/connect'', ''docker.NetworksConnect''), (MPOST, ''/networks/:id/disconnect'', ''docker.NetworksDisconnect''),
   (MGET, ''/networks'', ''docker.NetworksList''), (MGET, ''/networks/:id'', ''docker.NetworksInfo''),
   (MDELETE, ''/networks/:id'', ''docker.NetworksDelete''), (MPOST, ''/networks/prune'', ''docker.NetworksPrune''),
   (MPOST, ''/images/create'', ''docker.ImageCreate''), (MGET, ''/images/json'', ''common.ImageList''),
   (MGET, ''/images/:image/*json'', ''common.ImageJSON''), (MPOST, ''/images/prune'', ''docker.ImagesPrune''),
   (MPOST, ''/volumes/prune'', ''docker.VolumesPrune''), (MGET, ''/containers/:id/top'', ''httputil.NotImplemented''),
   (MGET, ''/containers/:id/changes'', ''httputil.NotImplemented''), (MGET, ''/containers/:id/export'', ''httputil.NotImplemented''),
   (MGET, ''/containers/:id/stats'', ''httputil.NotImplemented''), (MPOST, ''/containers/:id/update'', ''httputil.NotImplemented''),
   (MPOST, ''/containers/:id/pause'', ''httputil.NotImplemented''), (MPOST, ''/containers/:id/unpause'', ''httputil.NotImplemented''),
   (MGET, ''/containers/:id/attach/ws'', ''httputil.NotImplemented''), (MPOST, ''/containers/prune'', ''httputil.NotImplemented''),
   (MPOST, ''/build'', ''httputil.NotImplemented''), (MGET, ''/volumes'', ''httputil.NotImplemented''),
   (MGET, ''/volumes/:id'', ''httputil.NotImplemented''), (MDELETE, ''/volumes/:id'', ''httputil.NotImplemented''),
   (MPOST, ''/volumes/create'', ''httputil.NotImplemented''), (MPOST, ''/images/load'', ''httputil.NotImplemented''),
   (MPOST, ''/images/:image/*tag'', ''httputil.NotImplemented'')]"

definition libpod_routes :: "route list" where
  "libpod_routes = [
   (MGET, ''/libpod/version'', ''libpod.Version''), (MGET, ''/libpod/_ping'', ''libpod.Ping''),
   (MHEAD, ''/libpod/_ping'', ''libpod.Ping''), (MPOST, ''/libpod/containers/create'', ''libpod.ContainerCreate''),
   (MPOST, ''/libpod/containers/:id/start'', ''common.ContainerStart''), (MGET, ''/libpod/containers/:id/exists'', ''libpod.ContainerExists''),
   (MPOST, ''/libpod/containers/:id/attach'', ''common.ContainerAttach''), (MPOST, ''/libpod/containers/:id/stop'', ''common.ContainerStop''),
   (MPOST, ''/libpod/containers/:id/restart'', ''common.ContainerRestart''), (MPOST, ''/libpod/containers/:id/kill'', ''common.ContainerKill''),
   (MPOST, ''/libpod/containers/:id/wait'', ''libpod.ContainerWait''), (MPOST, ''/libpod/containers/:id/rename'', ''common.ContainerRename''),
   (MPOST, ''/libpod/containers/:id/resize'', ''common.ContainerResize''), (MDELETE, ''/libpod/containers/:id'', ''libpod.ContainerDelete''),
   (MGET, ''/libpod/containers/json'', ''libpod.ContainerList''), (MGET, ''/libpod/containers/:id/json'', ''libpod.ContainerInfo''),
   (MGET, ''/libpod/containers/:id/logs'', ''common.ContainerLogs''), (MHEAD, ''/libpod/containers/:id/archive'', ''common.HeadArchive''),
   (MGET, ''/libpod/containers/:id/archive'', ''common.GetArchive''), (MPUT, ''/libpod/containers/:id/archive'', ''common.PutArchive''),
   (MPOST, ''/libpod/containers/:id/exec'', ''common.ContainerExec''), (MPOST, ''/libpod/exec/:id/start'', ''common.ExecStart''),
   (MGET, ''/libpod/exec/:id/json'', ''common.ExecInfo''), (MPOST, ''/libpod/exec/:id/resize'', ''common.ExecResize''),
   (MPOST, ''/libpod/images/pull'', ''libpod.ImagePull''), (MGET, ''/libpod/images/json'', ''common.ImageList''),
   (MGET, ''/libpod/images/:image/*json'', ''common.ImageJSON''), (MGET, ''/libpod/info'', ''httputil.NotImplemented''),
   (MPOST, ''/libpod/build'', ''httputil.NotImplemented''), (MPOST, ''/libpod/images/load'', ''httputil.NotImplemented'')]"

text \<open>The header that is added to the answers of the libpod routes.\<close>

definition LibpodHeadersMiddleware :: "string \<Rightarrow> (string, string) gomap \<Rightarrow> (string, string) gomap" where
  "LibpodHeadersMiddleware path hs =
     (if Contains path ''/libpod/'' then map_set ''Libpod-API-Version'' LibpodAPIVersion hs else hs)"

text \<open>Registering a route twice stops the program when it starts; the tables have no such pair.\<close>

lemma routes_distinct: "distinct (map (\<lambda>(m, p, h). (m, p)) (docker_routes @ libpod_routes))"
  by code_simp

lemma libpod_headers: "list_all (\<lambda>(m, p, h). map_get (LibpodHeadersMiddleware p []) ''Libpod-API-Version'' = Some ''4.2.0'') libpod_routes"
  by code_simp

text \<open>
  A subscriber that reads after every publication is sent exactly the events its filter matches, in
  the order of their publication, and never holds up a publisher.
\<close>

definition published :: "int \<times> string \<times> string \<times> string \<Rightarrow> message" where
  "published p = (case p of (now, res, kind, action) \<Rightarrow>
     \<lparr>ms_ID = res, ms_Type = kind, ms_Action = action, ms_Time = now div second, ms_TimeNano = now\<rparr>)"

lemma events_stream_exact:
  "events_stream filtr i ps [(i, [])] =
     (map event_json (filter (\<lambda>m. filter_Match filtr (ms_Match m)) (map published ps)), [(i, [])], True)"
proof (induction ps)
  case (Cons p ps)
  obtain now res kind action where p: "p = (now, res, kind, action)" by (cases p)
  have "Publish now res kind action [(i, [])] = ([(i, [published p])], True)" by (simp add: Publish_def published_def p)
  then show ?case using Cons by (simp add: p events_turn_def)
qed simp

end
