(* ===== verification/Commands.thy ===== *)
theory Commands
  imports ClientProxy Help System
begin

text \<open>
  The commands besides \<open>server\<close>: the local proxy (\<open>cmd/client_proxy.go\<close>) with its listener, the
  documentation and version commands (\<open>cmd/readm.go\<close>, \<open>cmd/version.go\<close>) and the exit status of the
  program (\<open>cmd/root.go\<close>). The command line library, which picks the command, is not modelled.
\<close>

section \<open>Documentation and version\<close>

text \<open>The embedded files; \<open>main.go\<close> hands them to the commands.\<close>

record documents =
  dc_README :: string
  dc_CONFIG :: string
  dc_LICENSE :: string

definition newline_char :: char where "newline_char = char_of (10 :: nat)"

definition Println :: "string \<Rightarrow> string" where
  "Println s = s @ [newline_char]"

definition readmeCmd :: "documents \<Rightarrow> string result" where
  "readmeCmd dc = bind_res (ToText (dc_README dc) 80) (\<lambda>t. Inr (Println t))"

definition configCmd :: "documents \<Rightarrow> string result" where
  "configCmd dc = bind_res (ToText (dc_CONFIG dc) 80) (\<lambda>t. Inr (Println t))"

definition licenseCmd :: "documents \<Rightarrow> string" where
  "licenseCmd dc = Println (dc_LICENSE dc)"

definition versionCmd :: "build_info \<Rightarrow> string" where
  "versionCmd bi = (let rule = Println (replicate 49 (CHR ''-''))
     in rule @ Println ''testtender'' @ rule @ Println (''version: '' @ bi_Version bi) @ Println (''date:    '' @ bi_Date bi) @
        Println (''build:   '' @ bi_Build bi) @ rule)"

text \<open>What is printed at the end and the exit status, from the error of the command.\<close>

definition Execute :: "(error \<Rightarrow> string) \<Rightarrow> error option \<Rightarrow> string \<times> int" where
  "Execute txt err = (case err of None \<Rightarrow> ([], 0) | Some e \<Rightarrow> (Println (txt e), 1))"

section \<open>The local proxy\<close>

record client_proxy_config =
  cc_listenAddress :: string
  cc_upstream :: string
  cc_tokenFile :: string
  cc_caFile :: string

text \<open>The defaults of the flags; \<open>upstream\<close> and \<open>token-file\<close> must be given.\<close>

definition client_proxy_defaults :: client_proxy_config where
  "client_proxy_defaults = \<lparr>cc_listenAddress = ''127.0.0.1:2475'', cc_upstream = [], cc_tokenFile = [], cc_caFile = []\<rparr>"

datatype serving_phase = Serves | ShutsDown | Returns "error option"

record serving =
  sg_address :: string
  sg_handler :: proxy
  sg_open :: bool          \<comment> \<open>the listener accepts requests\<close>
  sg_phase :: serving_phase

definition clientProxyCmd ::
  "(string \<Rightarrow> (string \<times> string) result) \<Rightarrow> (string \<Rightarrow> bool option) \<Rightarrow> (string \<Rightarrow> proxy_url result) \<Rightarrow> 'r cert_lib \<Rightarrow>
   client_proxy_config \<Rightarrow> serving result" where
  "clientProxyCmd SplitHostPort loopback url_Parse CL cc =
     bind_res (validateLoopbackListenAddress SplitHostPort loopback (cc_listenAddress cc)) (\<lambda>_.
       bind_res (clientproxy_New url_Parse CL \<lparr>px_Upstream = cc_upstream cc, px_TokenFile = cc_tokenFile cc, px_CAFile = cc_caFile cc\<rparr>) (\<lambda>p.
         Inr \<lparr>sg_address = cc_listenAddress cc, sg_handler = p, sg_open = True, sg_phase = Serves\<rparr>))"

definition ErrServerClosed :: error where "ErrServerClosed = ExtError ''http: Server closed''"

datatype 'a serving_event = Handled http_request "'a proxy_answer" | ServerEnds error | SignalSeen | ShutdownDone "error option"

text \<open>
  Requests are answered while the listener is open; the server may end by itself, or a signal starts
  the shutdown, which closes the listener first.
\<close>

inductive serving_step :: "token_file \<Rightarrow> (http_request \<Rightarrow> 'a result) \<Rightarrow> serving \<Rightarrow> 'a serving_event \<Rightarrow> serving \<Rightarrow> bool"
  for files round_trip where
  handled: "sg_open s \<Longrightarrow> serving_step files round_trip s (Handled r (ServeHTTP files round_trip (sg_handler s) r)) s"
| ends: "sg_phase s = Serves \<Longrightarrow>
    serving_step files round_trip s (ServerEnds e)
      (s\<lparr>sg_open := False, sg_phase := Returns (if e = ErrServerClosed then None else Some e)\<rparr>)"
| signalled: "sg_phase s = Serves \<Longrightarrow> serving_step files round_trip s SignalSeen (s\<lparr>sg_open := False, sg_phase := ShutsDown\<rparr>)"
| shut: "sg_phase s = ShutsDown \<Longrightarrow>
    serving_step files round_trip s (ShutdownDone r)
      (s\<lparr>sg_phase := Returns (map_option (Wrapf ''shutdown client proxy: %w'' []) r)\<rparr>)"

inductive serving_steps :: "token_file \<Rightarrow> (http_request \<Rightarrow> 'a result) \<Rightarrow> serving \<Rightarrow> 'a serving_event list \<Rightarrow> serving \<Rightarrow> bool"
  for files round_trip where
  nil: "serving_steps files round_trip s [] s"
| snoc: "serving_steps files round_trip s es s1 \<Longrightarrow> serving_step files round_trip s1 e s2 \<Longrightarrow> serving_steps files round_trip s (es @ [e]) s2"

inductive_simps serving_steps_nil [simp]: "serving_steps files round_trip s [] s'"

section \<open>Properties\<close>

lemma serving_step_fixed:
  assumes "serving_step files round_trip s e s'"
  shows "sg_address s' = sg_address s" and "sg_handler s' = sg_handler s"
    and "(sg_open s \<longleftrightarrow> sg_phase s = Serves) \<Longrightarrow> (sg_open s' \<longleftrightarrow> sg_phase s' = Serves)"
    and "sg_open s' \<Longrightarrow> sg_open s" and "e = SignalSeen \<Longrightarrow> \<not> sg_open s'"
    and "e = Handled r a \<Longrightarrow> a = ServeHTTP files round_trip (sg_handler s) r"
  using assms by (auto elim!: serving_step.cases)

lemma serving_steps_fixed:
  assumes "serving_steps files round_trip s es s'"
  shows "sg_address s' = sg_address s \<and> sg_handler s' = sg_handler s \<and>
    ((sg_open s \<longleftrightarrow> sg_phase s = Serves) \<longrightarrow> (sg_open s' \<longleftrightarrow> sg_phase s' = Serves)) \<and>
    (SignalSeen \<in> set es \<longrightarrow> \<not> sg_open s') \<and>
    (\<forall>r a. Handled r a \<in> set es \<longrightarrow> a = ServeHTTP files round_trip (sg_handler s) r)"
  using assms
proof (induction rule: serving_steps.induct)
  case (snoc s es s1 e s2)
  note st = serving_step_fixed[OF snoc.hyps(2)]
  show ?case using snoc.IH st(1-5) st(6) by auto
qed simp

text \<open>
  The local proxy is local and secure: it listens only when its address is a literal loopback
  address and the upstream is an absolute HTTPS URL, it answers every request as \<open>ServeHTTP\<close>
  does, with the token of the file, and it stops accepting requests when a signal arrives.
\<close>

theorem client_proxy_confined:
  assumes "clientProxyCmd SplitHostPort loopback url_Parse CL cc = Inr s0" "serving_steps files round_trip s0 es s"
  shows "(\<exists>host port. SplitHostPort (sg_address s) = Inr (host, port) \<and> loopback host = Some True) \<and>
    https_url (url.truncate (pr_target (sg_handler s))) \<and> (sg_open s \<longleftrightarrow> sg_phase s = Serves) \<and>
    (SignalSeen \<in> set es \<longrightarrow> \<not> sg_open s) \<and>
    (\<forall>r a. Handled r a \<in> set es \<longrightarrow> a = ServeHTTP files round_trip (sg_handler s) r)"
proof -
  have s0: "sg_address s0 = cc_listenAddress cc" "sg_open s0" "sg_phase s0 = Serves"
    "validateLoopbackListenAddress SplitHostPort loopback (cc_listenAddress cc) = Inr ()"
    "https_url (url.truncate (pr_target (sg_handler s0)))"
    using assms(1) validateConfig_secure(1)
    by (auto simp: clientProxyCmd_def bind_res_Inr clientproxy_New_def newWithRoundTripper_def split: option.splits)
  have "\<exists>host port. SplitHostPort (cc_listenAddress cc) = Inr (host, port) \<and> loopback host = Some True"
    using s0(4) by (auto simp: validateLoopbackListenAddress_def split: sum.splits if_splits)
  then show ?thesis using serving_steps_fixed[OF assms(2)] s0 by auto
qed

definition sample_split :: "string \<Rightarrow> (string \<times> string) result" where
  "sample_split a = Inr (takeWhile (\<lambda>c. c \<noteq> CHR '':'') a, tl (dropWhile (\<lambda>c. c \<noteq> CHR '':'') a))"

definition sample_commandline :: client_proxy_config where
  "sample_commandline = client_proxy_defaults\<lparr>cc_upstream := ''https://testtender'', cc_tokenFile := ''/token''\<rparr>"

theorem client_proxy_confined_witness:
  "\<exists>s0 s. clientProxyCmd sample_split (\<lambda>h. Some (h = ''127.0.0.1'')) sample_proxy_url
       \<lparr>cl_SystemCertPool = Inr (), cl_ReadFile = (\<lambda>f. Inl (ExtError f)), cl_Append = (\<lambda>r d. None)\<rparr> sample_commandline = Inr s0 \<and>
     serving_steps (\<lambda>f. Inr (''abc'', None)) (\<lambda>rq. Inr ()) s0 [SignalSeen] s \<and> \<not> sg_open s"
proof -
  let ?CL = "\<lparr>cl_SystemCertPool = Inr (), cl_ReadFile = (\<lambda>f. Inl (ExtError f)), cl_Append = (\<lambda>r d. None)\<rparr>"
  let ?run = "clientProxyCmd sample_split (\<lambda>h. Some (h = ''127.0.0.1'')) sample_proxy_url ?CL sample_commandline"
  have "case ?run of Inl e \<Rightarrow> False | Inr s \<Rightarrow> sg_phase s = Serves" by code_simp
  then obtain s0 where s0: "?run = Inr s0" "sg_phase s0 = Serves" by (auto split: sum.splits)
  have "serving_steps (\<lambda>f. Inr (''abc'', None)) (\<lambda>rq. Inr ()) s0 ([] @ [SignalSeen]) (s0\<lparr>sg_open := False, sg_phase := ShutsDown\<rparr>)"
    by (rule serving_steps.snoc[OF serving_steps.nil serving_step.signalled[OF s0(2)]])
  then have "serving_steps (\<lambda>f. Inr (''abc'', None)) (\<lambda>rq. Inr ()) s0 [SignalSeen] (s0\<lparr>sg_open := False, sg_phase := ShutsDown\<rparr>)" by simp
  with s0(1) client_proxy_confined[OF s0(1) this] show ?thesis by fastforce
qed

end
