(* ===== verification/Isolation.thy ===== *)
theory Isolation
  imports RouteProps
begin

text \<open>
  Which containers a request can change: every handler changes at most the container it looks up,
  in the database and, when it deletes, in the cluster. The lemmas follow the handlers in the order
  of \<open>internal/server/routes\<close>, on rules for the primitive state changes.
\<close>

section \<open>Frames\<close>

text \<open>Only the containers in \<open>X\<close> differ.\<close>

definition only :: "string set \<Rightarrow> ('db, 'w) server \<Rightarrow> ('db, 'w) server \<Rightarrow> bool" where
  "only X sv sv' = (\<forall>j. j \<notin> X \<longrightarrow> hp sv' j = hp sv j)"

lemma only_refl [simp]: "only X sv sv"
  by (simp add: only_def)

lemma only_trans: "only X a b \<Longrightarrow> only X b c \<Longrightarrow> only X a c"
  by (simp add: only_def)

lemma only_same: "hp sv' = hp sv \<Longrightarrow> only X sv sv'"
  by (simp add: only_def)

lemma only_after: "hp sv1 = hp sv \<Longrightarrow> only X sv1 sv' \<Longrightarrow> only X sv sv'"
  by (simp add: only_def)

lemma only_put: "co_ID c \<in> X \<Longrightarrow> hp sv1 = hp sv \<Longrightarrow> only X sv (put_container c sv1)"
  by (auto simp: only_def)

lemma only_save:
  assumes "save_container cr mo c sv = (c', e, sv')" "co_ID c \<in> X" "co_ID c \<noteq> []"
  shows "only X sv sv'" and "c' = c"
  using save_container_hp[OF assms(1,3)] assms(2) by (auto simp: only_def)

lemma only_store: "st_containers st = st_containers (sv_store sv) \<Longrightarrow> only X sv (sv\<lparr>sv_store := st\<rparr>)"
  by (rule only_same) (simp add: hp_def)

lemma publish_then_only:
  assumes "\<And>sv1. hp sv1 = hp sv \<Longrightarrow> only X sv1 (snd (k sv1))"
  shows "only X sv (snd (publish_then mo i kind action k sv))"
proof -
  obtain obs ok where p: "Publish (mo_now mo) i kind action (sv_events sv) = (obs, ok)" by force
  show ?thesis using p assms[of "sv\<lparr>sv_events := obs\<rparr>"] by (cases ok) (auto simp: publish_then_def only_def)
qed

lemma publish_reply_only [simp]: "only X sv (snd (publish_then mo i kind action (\<lambda>sv1. (r, sv1)) sv))"
  by (rule publish_then_only) simp

section \<open>Shared parts of the handlers\<close>

lemma spec_ID: "spec_of c' = spec_of c \<Longrightarrow> co_ID c' = co_ID c"
  using spec_of_sel(1)[of c' c] by (simp add: core_of_def)

lemma signal_both_only:
  assumes "signal_both c sv = (c1, sv1)" "co_ID c \<in> X"
  shows "only X sv sv1" and "co_ID c1 = co_ID c" and "co_ShortID c1 = co_ShortID c"
  using assms by (auto simp: signal_both_def SignalDetach_def SignalStop_def only_def)

lemma expose_ports_ID:
  assumes "container_backend (cr_Backend cr)" "expose_ports cr c w = (e, c1, w1)"
  shows "co_ID c1 = co_ID c"
proof -
  have "co_ID c1 = co_ID c" if "bo_CreatePortForwards (cr_Backend cr) (c\<lparr>co_HostIP := x\<rparr>) w = (c1, w1)" for x
    using spec_ID[OF container_backend.forwards_spec[OF assms(1) that]] by simp
  moreover have "co_ID c1 = co_ID c" if "bo_CreateReverseProxies (cr_Backend cr) (c\<lparr>co_HostIP := x\<rparr>) w = (c1, w1)" for x
    using spec_ID[OF container_backend.proxies_spec[OF assms(1) that]] by simp
  ultimately show ?thesis using assms(2) by (auto simp: expose_ports_def Let_def split: if_splits sum.splits)
qed

lemma settle_ID [simp]: "co_ID (settle state now c) = co_ID c"
  by (simp add: settle_def Let_def)

lemma mark_status_ID [simp]: "co_ID (mark_status status err now c) = co_ID c"
  by (simp add: mark_status_def Let_def)

lemma common_StartContainer_only:
  assumes be: "container_backend (cr_Backend cr)" and i: "co_ID c \<in> X" "co_ID c \<noteq> []"
    and run: "common_StartContainer cr mo c sv = (c', e, sv')"
  shows "only X sv sv'" and "co_ID c' = co_ID c"
proof -
  obtain state err c1 w1 where s: "bo_StartContainer (cr_Backend cr) c (sv_backend sv) = (state, err, c1, w1)" by (metis prod_cases4)
  obtain e2 c2 w2 where x: "expose_ports cr c1 w1 = (e2, c2, w2)" by (metis prod_cases3)
  have i1: "co_ID c1 = co_ID c" by (rule spec_ID[OF container_backend.start_spec[OF be s]])
  have i2: "co_ID c2 = co_ID c" using expose_ports_ID[OF be x] i1 by simp
  have sv: "only X sv sv' \<and> c' = settle state (mo_now mo) c2"
    if "save_container cr mo (settle state (mo_now mo) c2) (sv\<lparr>sv_backend := w2\<rparr>) = (c', e, sv')"
    using only_save[OF that, of X] only_after[of "sv\<lparr>sv_backend := w2\<rparr>" sv X sv'] i i2 by simp
  have "only X sv sv' \<and> co_ID c' = co_ID c"
    using run s x i i1 i2 sv by (cases err; cases e2) (auto simp: common_StartContainer_def intro: only_put)
  then show "only X sv sv'" "co_ID c' = co_ID c" by blast+
qed

lemma UpdateContainerStatus_only:
  assumes be: "container_backend (cr_Backend cr)" and i: "co_ID c \<in> X"
  shows "only X sv (snd (UpdateContainerStatus cr mo c sv))"
proof -
  obtain status err c1 where s: "bo_GetContainerStatus (cr_Backend cr) c (sv_backend sv) = (status, err, c1)" by (metis prod_cases3)
  have "co_ID c1 = co_ID c" by (rule spec_ID[OF container_backend.status_spec[OF be s]])
  then show ?thesis using s i by (auto simp: UpdateContainerStatus_def Let_def intro: only_put)
qed

section \<open>The containers a request names\<close>

definition by_id :: "('n, 'db, 'w) router \<Rightarrow> ('db, 'w) server \<Rightarrow> string \<Rightarrow> string set" where
  "by_id cr sv i = (case GetContainer (cr_DB cr) (sv_store sv) i of Inl e \<Rightarrow> {} | Inr c \<Rightarrow> {co_ID c})"

definition by_name :: "('n, 'db, 'w) router \<Rightarrow> ('db, 'w) server \<Rightarrow> string \<Rightarrow> string set" where
  "by_name cr sv i = (case GetContainerByNameOrID (cr_DB cr) (sv_store sv) i of Inl e \<Rightarrow> {} | Inr c \<Rightarrow> {co_ID c})"

definition listed :: "('n, 'db, 'w) router \<Rightarrow> ('db, 'w) server \<Rightarrow> string set" where
  "listed cr sv = (case GetContainers (cr_DB cr) (sv_store sv) of Inl e \<Rightarrow> {} | Inr cs \<Rightarrow> co_ID ` set cs)"

lemma by_id_found: "GetContainer (cr_DB cr) (sv_store sv) i = Inr c \<Longrightarrow> co_ID c \<in> by_id cr sv i"
  and by_name_found: "GetContainerByNameOrID (cr_DB cr) (sv_store sv) i = Inr c \<Longrightarrow> co_ID c \<in> by_name cr sv i"
  by (simp_all add: by_id_def by_name_def)

section \<open>The handlers\<close>

lemma start_step_only:
  assumes "container_backend (cr_Backend cr)" "co_ID c \<in> X" "co_ID c \<noteq> []"
    and "(if \<not> co_Running c \<and> \<not> co_Completed c then common_StartContainer cr mo c sv else (c, None, sv)) = (c1, e, sv1)"
  shows "only X sv sv1" and "co_ID c1 = co_ID c"
  using assms(4) common_StartContainer_only[OF assms(1-3)] by (auto split: if_splits)

lemma ContainerStart_only:
  assumes "container_backend (cr_Backend cr)" "heap_ok sv"
  shows "only (by_id cr sv i) sv (snd (ContainerStart cr mo i sv))"
proof (cases "GetContainer (cr_DB cr) (sv_store sv) i")
  case (Inr c)
  obtain c1 e sv1 where s: "(if \<not> co_Running c \<and> \<not> co_Completed c then common_StartContainer cr mo c sv else (c, None, sv)) = (c1, e, sv1)"
    by (metis prod_cases3)
  have k: "only (by_id cr sv i) sv sv1"
    using start_step_only(1)[OF assms(1) by_id_found[OF Inr] _ s] GetContainer_heap[OF assms(2) Inr] by blast
  show ?thesis using Inr s by (cases e) (auto simp: ContainerStart_def intro: k only_trans[OF k])
qed (simp add: ContainerStart_def)

text \<open>The common part of stopping, killing and restarting.\<close>

lemma stop_step_only:
  assumes "signal_both c sv = (c1, sv1)" "co_ID c \<in> X" "co_ID c \<noteq> []" "hp sv2 = hp sv1" "\<And>c. co_ID (f c) = co_ID c"
    and "save_container cr mo (f c1) sv2 = (c2, e, sv3)"
  shows "only X sv sv3" and "co_ID c2 = co_ID c"
proof -
  note sg = signal_both_only[OF assms(1,2)]
  note sa = only_save[OF assms(6), of X]
  show "co_ID c2 = co_ID c" using sa(2) sg(2) assms(2,3,5) by simp
  have "only X sv2 sv3" using sa(1) sg(2) assms(2,3,5) by simp
  then show "only X sv sv3" using sg(1) assms(4) by (simp add: only_def)
qed

lemma stop_kill_only:
  assumes "heap_ok sv"
  shows "only (by_id cr sv i) sv (snd (ContainerStop cr mo i sv))" and "only (by_name cr sv i) sv (snd (ContainerKill cr mo i sgnl sv))"
proof -
  have main: "only X sv (snd (case signal_both c sv of (c1, sv1) \<Rightarrow>
          (let sv2 = (if \<not> co_Stopped c1 \<and> \<not> co_Killed c1 then backend_delete cr c1 sv1 else sv1)
           in case save_container cr mo (f c1) sv2 of
                (c2, Some e, sv3) \<Rightarrow> (httputil_Error 500 e, sv3)
              | (c2, None, sv3) \<Rightarrow> publish_then mo (co_ID c2) ''container'' ''die'' (\<lambda>sv4. (Reply 204 NoBody, sv4)) sv3)))"
    if "co_ID c \<in> X" "co_ID c \<noteq> []" "\<And>c. co_ID (f c) = co_ID c" for X c f
  proof -
    obtain c1 sv1 where sg: "signal_both c sv = (c1, sv1)" by force
    let ?sv2 = "if \<not> co_Stopped c1 \<and> \<not> co_Killed c1 then backend_delete cr c1 sv1 else sv1"
    obtain c2 e sv3 where sc: "save_container cr mo (f c1) ?sv2 = (c2, e, sv3)" by (metis prod_cases3)
    have k: "only X sv sv3" by (rule stop_step_only(1)[OF sg that(1,2) _ that(3) sc]) simp
    show ?thesis using sg sc by (cases e) (auto simp: Let_def intro: k only_trans[OF k])
  qed
  show "only (by_id cr sv i) sv (snd (ContainerStop cr mo i sv))"
  proof (cases "GetContainer (cr_DB cr) (sv_store sv) i")
    case (Inr c)
    then show ?thesis using main[OF by_id_found[OF Inr], of "\<lambda>c. c\<lparr>co_Running := False, co_Completed := False, co_Stopped := True\<rparr>"]
        GetContainer_heap[OF assms Inr] by (simp add: ContainerStop_def)
  qed (simp add: ContainerStop_def)
  show "only (by_name cr sv i) sv (snd (ContainerKill cr mo i sgnl sv))"
  proof (cases "GetContainerByNameOrID (cr_DB cr) (sv_store sv) i")
    case (Inr c)
    then show ?thesis using main[OF by_name_found[OF Inr], of "\<lambda>c. c\<lparr>co_Killed := True, co_Running := False, co_Completed := False\<rparr>"]
        GetContainerByNameOrID_heap[OF assms Inr] by (simp add: ContainerKill_def)
  qed (simp add: ContainerKill_def)
qed

lemma ContainerRestart_only:
  assumes "container_backend (cr_Backend cr)" "heap_ok sv"
  shows "only (by_id cr sv i) sv (snd (ContainerRestart cr mo i sv))"
proof (cases "GetContainer (cr_DB cr) (sv_store sv) i")
  case (Inr c)
  let ?X = "by_id cr sv i"
  have i: "co_ID c \<in> ?X" "co_ID c \<noteq> []" using by_id_found[OF Inr] GetContainer_heap[OF assms(2) Inr] by auto
  obtain c1 sv2 where sg: "signal_both c (backend_delete cr c sv) = (c1, sv2)" by force
  obtain c2 e sv3 where sc: "save_container cr mo (c1\<lparr>co_Running := False, co_Completed := False, co_Stopped := True\<rparr>) sv2 = (c2, e, sv3)"
    by (metis prod_cases3)
  note k = stop_step_only[where f = "\<lambda>c. c\<lparr>co_Running := False, co_Completed := False, co_Stopped := True\<rparr>", OF sg i refl _ sc, simplified]
  have k3: "only ?X sv sv3" by (rule only_after[OF _ k(1)]) simp
  let ?sv4 = "sv3\<lparr>sv_backend := bo_AwaitDeleted (cr_Backend cr) c2 (sv_backend sv3)\<rparr>"
  obtain c3 e3 sv5 where st: "common_StartContainer cr mo c2 ?sv4 = (c3, e3, sv5)" by (metis prod_cases3)
  have "only ?X ?sv4 sv5" by (rule common_StartContainer_only(1)[OF assms(1) _ _ st]) (use k(2) i in simp_all)
  then have "only ?X sv3 sv5" by (rule only_after[rotated]) simp
  then have k5: "only ?X sv sv5" by (rule only_trans[OF k3])
  show ?thesis using Inr sg sc st k3 k5
    by (cases e; cases "bo_WatchDeleteContainer (cr_Backend cr) c (sv_backend sv)"; cases e3) (simp_all add: ContainerRestart_def Let_def)
qed (simp add: ContainerRestart_def)

lemma ContainerAttach_only:
  fixes sv :: "('db, 'w) server"
  assumes "container_backend (cr_Backend cr)" "heap_ok sv"
  shows "only (by_name cr sv i) sv (snd (ContainerAttach cr mo i stream hijack sv))"
proof (cases "GetContainerByNameOrID (cr_DB cr) (sv_store sv) i")
  case (Inr c)
  let ?X = "by_name cr sv i"
  have i: "co_ID c \<in> ?X" "co_ID c \<noteq> []" using by_name_found[OF Inr] GetContainerByNameOrID_heap[OF assms(2) Inr] by auto
  obtain c1 e sv1 where s: "(if \<not> co_Running c \<and> \<not> co_Completed c then common_StartContainer cr mo c sv else (c, None, sv)) = (c1, e, sv1)"
    by (metis prod_cases3)
  note k = start_step_only[OF assms(1) i s]
  let ?c2 = "AddAttachChannel c1 (mo_chan mo)"
  have "only ?X sv2 (snd (case SignalDetach ?c2 of (ops, c3) \<Rightarrow>
      (Reply 200 NoBody, put_container c3 (sv2\<lparr>sv_signals := sv_signals sv2 @ ops\<rparr>))))" for sv2 :: "('db, 'w) server"
    using k(2) i(1) by (auto simp: SignalDetach_def AddAttachChannel_def intro: only_put)
  then have "only ?X sv (snd (publish_then mo (co_ID ?c2) ''container'' ''detach'' (\<lambda>sv2. case SignalDetach ?c2 of (ops, c3) \<Rightarrow>
      (Reply 200 NoBody, put_container c3 (sv2\<lparr>sv_signals := sv_signals sv2 @ ops\<rparr>))) (put_container ?c2 sv1)))"
    using only_trans[OF only_trans[OF k(1) only_put] publish_then_only] k(2) i(1) by (simp add: AddAttachChannel_def)
  then show ?thesis using Inr s k(1) by (cases e) (auto simp: ContainerAttach_def Let_def)
qed (simp add: ContainerAttach_def)

lemma ContainerRename_only:
  assumes "heap_ok sv"
  shows "only (by_name cr sv i) sv (snd (ContainerRename cr mo i name sv))"
proof (cases "GetContainerByNameOrID (cr_DB cr) (sv_store sv) i")
  case (Inr c)
  obtain c2 e sv1 where sc: "save_container cr mo (c\<lparr>co_Name := name\<rparr>) sv = (c2, e, sv1)" by (metis prod_cases3)
  have "only (by_name cr sv i) sv sv1"
    using only_save(1)[OF sc] by_name_found[OF Inr] GetContainerByNameOrID_heap[OF assms Inr] by simp
  then show ?thesis using Inr sc by (cases e) (auto simp: ContainerRename_def split: sum.splits)
qed (simp add: ContainerRename_def)

lemma delete_then_only:
  assumes "co_ID c \<in> X" "\<And>c1 sv1. only X sv1 (snd (k c1 sv1))"
  shows "only X sv (snd (delete_then cr mo c k sv))"
proof -
  obtain c1 sv1 where sg: "signal_both c sv = (c1, sv1)" by force
  note k1 = signal_both_only(1)[OF sg assms(1)]
  have "only X sv1 (snd (publish_then mo (co_ID c1) ''container'' ''die'' (k c1) (backend_delete cr c1 sv1)))"
    by (rule only_after[OF _ publish_then_only]) (simp_all add: assms(2))
  then show ?thesis using sg k1 assms(2)[of sv1 c1] by (auto simp: delete_then_def intro: only_trans)
qed

lemma deletes_only:
  "only (by_name cr sv i) sv (snd (docker_ContainerDelete cr mo i sv))"
  "only (by_name cr sv i) sv (snd (libpod_ContainerDelete cr mo i sv))"
  by (auto simp: docker_ContainerDelete_def libpod_ContainerDelete_def intro!: delete_then_only only_store
      dest: by_name_found delete_store(1) split: sum.splits prod.splits option.splits)

lemma wait_tick_only:
  assumes "container_backend (cr_Backend cr)"
  shows "only (by_id cr sv i) sv (snd (docker_wait_tick cr mo i sv))" and "only (by_name cr sv i) sv (snd (libpod_wait_tick cr mo i sv))"
  using UpdateContainerStatus_only[OF assms] by_id_found[of cr sv i] by_name_found[of cr sv i]
  by (fastforce simp: docker_wait_tick_def libpod_wait_tick_def case_prod_beta split: sum.splits)+

section \<open>Reports\<close>

definition id_ok :: "('db, 'w) server \<Rightarrow> bool" where
  "id_ok sv = (\<forall>j c. hp sv j = Some c \<longrightarrow> co_ID c = j)"

lemma getContainerInfo_only:
  assumes "container_backend (cr_Backend cr)" "co_ID c \<in> X"
  shows "only X sv (snd (docker_getContainerInfo cr mo c detail sv))" and "only X sv (snd (libpod_getContainerInfo cr mo c detail sv))"
  using UpdateContainerStatus_only[OF assms, of sv mo]
  by (auto simp: docker_getContainerInfo_def libpod_getContainerInfo_def Let_def split: prod.splits)

lemma getContainerInfo_id_ok:
  assumes "id_ok sv"
  shows "id_ok (snd (docker_getContainerInfo cr mo c detail sv))" and "id_ok (snd (libpod_getContainerInfo cr mo c detail sv))"
proof -
  have "id_ok (snd (UpdateContainerStatus cr mo c sv))"
    using assms by (auto simp: UpdateContainerStatus_def Let_def id_ok_def split: prod.splits)
  then show "id_ok (snd (docker_getContainerInfo cr mo c detail sv))" "id_ok (snd (libpod_getContainerInfo cr mo c detail sv))"
    using assms by (auto simp: docker_getContainerInfo_def libpod_getContainerInfo_def Let_def split: prod.splits)
qed

lemma list_infos_only:
  assumes "\<And>mo c sv. co_ID c \<in> X \<Longrightarrow> only X sv (snd (info mo c sv))" "\<And>mo c sv. id_ok sv \<Longrightarrow> id_ok (snd (info mo c sv))"
    and "id_ok sv" "co_ID ` set cs \<subseteq> X"
  shows "only X sv (snd (list_infos info mos n cs sv))"
  using assms(3,4)
proof (induction cs arbitrary: n sv)
  case (Cons c cs)
  obtain js sv1 where r: "info (mos n) (current c sv) sv = (js, sv1)" by force
  have "co_ID (current c sv) = co_ID c" using Cons.prems(1) by (auto simp: current_def id_ok_def hp_def split: option.splits)
  then have "only X sv sv1" "id_ok sv1" using assms(1)[of "current c sv" sv "mos n"] assms(2)[of sv "mos n" "current c sv"] r Cons.prems by auto
  then show ?case using Cons.IH[of sv1 "Suc n"] Cons.prems(2) r by (auto intro: only_trans split: prod.splits)
qed simp

lemma reports_only:
  assumes "container_backend (cr_Backend cr)" "heap_ok sv"
  shows "only (listed cr sv) sv (snd (docker_ContainerList cr mos filtr sv))" "only (listed cr sv) sv (snd (libpod_ContainerList cr mos filtr sv))"
    and "only (by_name cr sv i) sv (snd (docker_ContainerInfo cr mo i sv))" "only (by_name cr sv i) sv (snd (libpod_ContainerInfo cr mo i sv))"
proof -
  note info = getContainerInfo_only[OF assms(1)]
  have ok: "id_ok sv" using assms(2) by (simp add: id_ok_def heap_ok_def)
  have ls: "only (listed cr sv) sv (snd (list_containers cr info mos filtr sv))"
    if "\<And>mo c X sv. co_ID c \<in> X \<Longrightarrow> only X sv (snd (info mo c sv))" "\<And>mo c sv. id_ok sv \<Longrightarrow> id_ok (snd (info mo c sv))" for info
  proof (cases "GetContainers (cr_DB cr) (sv_store sv)")
    case (Inr cs)
    have "only (listed cr sv) sv (snd (list_infos info mos 0 (filter f cs) sv))" for f
      by (rule list_infos_only) (use that ok Inr in \<open>auto simp: listed_def\<close>)
    then show ?thesis using Inr by (simp add: list_containers_def case_prod_beta)
  qed (simp add: list_containers_def)
  show "only (listed cr sv) sv (snd (docker_ContainerList cr mos filtr sv))" "only (listed cr sv) sv (snd (libpod_ContainerList cr mos filtr sv))"
    unfolding docker_ContainerList_def libpod_ContainerList_def by (rule ls; simp add: info getContainerInfo_id_ok)+
  show "only (by_name cr sv i) sv (snd (docker_ContainerInfo cr mo i sv))" "only (by_name cr sv i) sv (snd (libpod_ContainerInfo cr mo i sv))"
    using info by_name_found[of cr sv i] by (cases "GetContainerByNameOrID (cr_DB cr) (sv_store sv) i";
      simp add: docker_ContainerInfo_def libpod_ContainerInfo_def case_prod_beta)+
qed

section \<open>Networks, archives, logs\<close>

lemma network_ids [simp]:
  "co_ID (docker_addNetworkAliases (ConnectNetwork c i) endp) = co_ID c" "DisconnectNetwork c i = Inr c1 \<Longrightarrow> co_ID c1 = co_ID c"
  by (auto simp: docker_addNetworkAliases_def ConnectNetwork_def DisconnectNetwork_def split: if_splits)

lemma save_found_only:
  "heap_ok sv \<Longrightarrow> GetContainer (cr_DB cr) (sv_store sv) i = Inr c \<Longrightarrow> save_container cr mo c1 sv = (c2, e, sv1) \<Longrightarrow> co_ID c1 = co_ID c \<Longrightarrow>
    only (by_id cr sv i) sv sv1"
  using only_save(1)[of cr mo c1 sv c2 e sv1 "by_id cr sv i"] by_id_found[of cr sv i c] GetContainer_heap[of sv "cr_DB cr" i c] by auto

lemma NetworksConnect_only:
  assumes "heap_ok sv"
  shows "only (case dat of Inl e \<Rightarrow> {} | Inr (i, endp) \<Rightarrow> by_id cr sv i) sv (snd (NetworksConnect cr mo n dat sv))"
  using assms by (auto simp: NetworksConnect_def intro: save_found_only split: sum.splits prod.splits option.splits)

lemma NetworksDisconnect_only:
  assumes "heap_ok sv"
  shows "only (case dat of Inl e \<Rightarrow> {} | Inr i \<Rightarrow> by_id cr sv i) sv (snd (NetworksDisconnect cr mo n dat sv))"
  using assms by (auto simp: NetworksDisconnect_def intro: save_found_only split: sum.splits prod.splits option.splits)

lemma PutArchive_only:
  assumes "container_backend (cr_Backend cr)" "heap_ok sv"
  shows "only (by_id cr sv i) sv (snd (PutArchive cr F arch mo i path dat sv))"
proof (cases "GetContainer (cr_DB cr) (sv_store sv) i")
  case (Inr c)
  have i: "co_ID c \<in> by_id cr sv i" "co_ID c \<noteq> []" using by_id_found[OF Inr] GetContainer_heap[OF assms(2) Inr] by auto
  obtain c1 e sv1 where s: "start_if_needed cr mo c sv = (c1, e, sv1)" by (metis prod_cases3)
  have k: "only (by_id cr sv i) sv sv1" using s start_step_only(1)[OF assms(1) i] by (simp add: start_if_needed_def)
  have "hp (snd (copy_archive F c1 path d sv1)) = hp sv1" for d
    by (auto simp: copy_archive_def split: sum.splits prod.splits option.splits)
  then have cp: "only (by_id cr sv i) sv (snd (start_and_copy cr F mo c path d sv))" for d
    using s k by (cases e) (auto simp: start_and_copy_def only_def)
  show ?thesis using Inr cp
    by (auto simp: PutArchive_def intro: save_found_only[OF assms(2) Inr] split: sum.splits prod.splits option.splits)
qed (simp add: PutArchive_def)

lemma ContainerLogs_only: "only (by_id cr sv i) sv (snd (ContainerLogs cr F mo i opts hijack sv))"
  using by_id_found[of cr sv i] by (auto simp: ContainerLogs_def AddStopChannel_def intro: only_put split: sum.splits option.splits)

section \<open>Requests that change no container\<close>

lemma prune_loop_hp: "hp (snd (prune_loop cr netws names sv)) = hp sv"
proof (induction netws arbitrary: names sv)
  case (Cons netw netws)
  obtain e st where d: "DeleteNetwork (cr_DB cr) netw (sv_store sv) = (e, st)" by force
  have "hp (sv\<lparr>sv_store := st\<rparr>) = hp sv" using delete_store(2)[OF d] by (simp add: hp_def)
  then show ?case using Cons.IH d by (cases e) auto
qed simp

lemma pull_image_only: "only X sv (snd (pull_image cr mo frm answer sv))"
proof -
  have "only X sv (snd (publish_then mo i kd act (\<lambda>sv1. (r, sv1)) (sv\<lparr>sv_store := st\<rparr>))) \<and> only X sv (sv\<lparr>sv_store := st\<rparr>)"
    if "SaveImage (cr_DB cr) x n im (sv_store sv) = (im', e, st)" for i kd act r x n im im' e st
    using only_store[OF save_store(2)[OF that], of X] only_trans publish_reply_only by blast
  then show ?thesis by (auto simp: pull_image_def split: sum.splits prod.splits option.splits)
qed

lemma run_exec_hp: "hp (snd (run_exec cr F mo c ex sv)) = hp sv"
  by (auto simp: run_exec_def hp_def dest: save_store(3) split: prod.splits option.splits)

lemma others_only:
  "only X sv (snd (NetworksCreate cr mo dat1 sv))" "only X sv (snd (NetworksDelete cr i sv))" "only X sv (snd (NetworksPrune cr sv))"
  "only X sv (snd (docker_ImageCreate cr mo frm tag sv))" "only X sv (snd (libpod_ImagePull cr mo reference sv))"
  "only X sv (snd (ImageJSON cr mo arch path sv))" "only X sv (snd (ContainerExec cr mo i dat2 sv))"
  "only X sv (snd (ExecStart cr F mo i det hijack sv))" "only X sv (snd (HeadArchive cr F i path sv))"
  "only X sv (snd (GetArchive cr F tar_size i path sv))"
proof -
  show "only X sv (snd (NetworksCreate cr mo dat1 sv))" "only X sv (snd (NetworksDelete cr i sv))" "only X sv (snd (NetworksPrune cr sv))"
    "only X sv (snd (ImageJSON cr mo arch path sv))" "only X sv (snd (ContainerExec cr mo i dat2 sv))"
    by (auto simp: NetworksCreate_def NetworksDelete_def NetworksPrune_def ImageJSON_def ContainerExec_def Let_def prune_loop_hp
        intro!: only_store intro: only_same dest: save_store delete_store split: sum.splits prod.splits option.splits)
  show "only X sv (snd (docker_ImageCreate cr mo frm tag sv))" "only X sv (snd (libpod_ImagePull cr mo reference sv))"
    by (simp_all add: docker_ImageCreate_def libpod_ImagePull_def pull_image_only)
  show "only X sv (snd (ExecStart cr F mo i det hijack sv))"
    by (auto simp: ExecStart_def run_exec_hp intro!: only_same split: sum.splits)
  show "only X sv (snd (HeadArchive cr F i path sv))" "only X sv (snd (GetArchive cr F tar_size i path sv))"
    by (auto simp: HeadArchive_def GetArchive_def with_existing_file_def intro!: only_same split: sum.splits prod.splits)
qed

lemma readers_only:
  "only X sv (snd (ContainerResize cr i sv))" "only X sv (snd (libpod_ContainerExists cr i sv))" "only X sv (snd (NetworksList cr f sv))"
  "only X sv (snd (NetworksInfo cr i sv))" "only X sv (snd (ImageList cr sv))" "only X sv (snd (ExecInfo cr i sv))"
  "only X sv (snd (ExecResize cr i sv))"
  by (auto simp: ContainerResize_def libpod_ContainerExists_def NetworksList_def NetworksInfo_def ImageList_def ExecInfo_def
      ExecResize_def split: sum.splits)

section \<open>Every request\<close>

fun addressed :: "('n, 'db, 'w) router \<Rightarrow> ('db, 'w) server \<Rightarrow> action \<Rightarrow> string set" where
  "addressed cr sv (DockerCreate mo dat q) = {mo_newid mo}"
| "addressed cr sv (LibpodCreate mo dat q) = {mo_newid mo}"
| "addressed cr sv (Start mo i) = by_id cr sv i"
| "addressed cr sv (Restart mo i) = by_id cr sv i"
| "addressed cr sv (Stop mo i) = by_id cr sv i"
| "addressed cr sv (Kill mo i sg) = by_name cr sv i"
| "addressed cr sv (Attach mo i stream hijack) = by_name cr sv i"
| "addressed cr sv (Rename mo i name) = by_name cr sv i"
| "addressed cr sv (DockerDelete mo i) = by_name cr sv i"
| "addressed cr sv (LibpodDelete mo i) = by_name cr sv i"
| "addressed cr sv (DockerWait mo i) = by_id cr sv i"
| "addressed cr sv (LibpodWait mo i) = by_name cr sv i"
| "addressed cr sv (DockerInfo mo i) = by_name cr sv i"
| "addressed cr sv (LibpodInfo mo i) = by_name cr sv i"
| "addressed cr sv (DockerList mos f) = listed cr sv"
| "addressed cr sv (LibpodList mos f) = listed cr sv"
| "addressed cr sv (NetConnect mo n dat) = (case dat of Inl e \<Rightarrow> {} | Inr (i, endp) \<Rightarrow> by_id cr sv i)"
| "addressed cr sv (NetDisconnect mo n dat) = (case dat of Inl e \<Rightarrow> {} | Inr i \<Rightarrow> by_id cr sv i)"
| "addressed cr sv (Put mo i path dat) = by_id cr sv i"
| "addressed cr sv (Logs mo i opts hijack) = by_id cr sv i"
| "addressed cr sv _ = {}"

fun listing :: "action \<Rightarrow> bool" where
  "listing (DockerList mos f) = True"
| "listing (LibpodList mos f) = True"
| "listing _ = False"

lemmas handler_only =
  ContainerStart_only ContainerRestart_only stop_kill_only ContainerAttach_only ContainerRename_only deletes_only wait_tick_only
  reports_only NetworksConnect_only NetworksDisconnect_only PutArchive_only ContainerLogs_only others_only readers_only

lemma creates_only: "creates cr mo sv sv' \<Longrightarrow> only {mo_newid mo} sv sv'"
  by (auto simp: creates_def only_def)

lemma serve_only:
  assumes "container_backend (cr_Backend (ap_router ap))" "heap_ok sv"
  shows "only (addressed (ap_router ap) sv a) sv (snd (serve ap a sv))"
  using assms by (cases a) (simp_all add: wait_outcome_state handler_only
      creates_only[OF docker_ContainerCreate_creates] creates_only[OF libpod_ContainerCreate_creates])

lemma at_most_one: "\<exists>i. by_id cr sv n \<subseteq> {i}" "\<exists>i. by_name cr sv n \<subseteq> {i}"
  by (auto simp: by_id_def by_name_def split: sum.splits)

lemma addressed_one: "\<not> listing a \<Longrightarrow> \<exists>i. addressed cr sv a \<subseteq> {i}"
  by (cases a) (auto simp: at_most_one split: sum.splits)

text \<open>
  (C6) Requests do not interfere: in every reachable state a request changes nothing about any
  container but the one it creates or looks up by the name or identifier it carries, whether it
  succeeds, fails or blocks; only the two listings can update the status of several, and of listed
  containers only.
\<close>

theorem requests_isolated:
  assumes "container_backend (cr_Backend (ap_router ap))" "reachable ap sv" "serve ap a sv = (out, sv')"
  shows "(\<forall>j. j \<notin> addressed (ap_router ap) sv a \<longrightarrow> hp sv' j = hp sv j) \<and>
    (\<not> listing a \<longrightarrow> (\<exists>i. addressed (ap_router ap) sv a \<subseteq> {i}))"
proof -
  have "heap_ok sv" using reachable_invariant[OF assms(2,1)] by blast
  then have "only (addressed (ap_router ap) sv a) sv sv'" using serve_only[OF assms(1), of sv a] assms(3) by simp
  then show ?thesis using addressed_one by (auto simp: only_def)
qed

section \<open>Deleting in the cluster\<close>

text \<open>The container whose objects a request deletes: one that has been stopped or killed has none.\<close>

definition if_alive :: "container result \<Rightarrow> container option" where
  "if_alive r = (case r of Inl e \<Rightarrow> None | Inr c \<Rightarrow> if \<not> co_Stopped c \<and> \<not> co_Killed c then Some c else None)"

fun removal :: "('n, 'db, 'w) router \<Rightarrow> ('db, 'w) server \<Rightarrow> action \<Rightarrow> container option" where
  "removal cr sv (Stop mo i) = if_alive (GetContainer (cr_DB cr) (sv_store sv) i)"
| "removal cr sv (Kill mo i sgnl) =
     (if ToLower sgnl \<noteq> [] \<and> ToLower sgnl \<notin> set valid_signals then None
      else if_alive (GetContainerByNameOrID (cr_DB cr) (sv_store sv) i))"
| "removal cr sv (DockerDelete mo i) = if_alive (GetContainerByNameOrID (cr_DB cr) (sv_store sv) i)"
| "removal cr sv (LibpodDelete mo i) = if_alive (GetContainerByNameOrID (cr_DB cr) (sv_store sv) i)"
| "removal cr sv _ = None"

fun removing :: "action \<Rightarrow> bool" where
  "removing (Stop mo i) = True"
| "removing (Kill mo i sgnl) = True"
| "removing (DockerDelete mo i) = True"
| "removing (LibpodDelete mo i) = True"
| "removing _ = False"

definition removed :: "'w backend_ops \<Rightarrow> container option \<Rightarrow> 'w \<Rightarrow> 'w" where
  "removed B r w = (case r of None \<Rightarrow> w | Some c \<Rightarrow> snd (bo_DeleteContainer B c w))"

lemma backend_simps [simp]:
  "sv_backend (put_container c sv) = sv_backend sv" "sv_backend (snd (snd (save_container cr mo c sv))) = sv_backend sv"
  "sv_backend (snd (publish_then mo i kind action (\<lambda>sv1. (r, sv1)) sv)) = sv_backend sv"
  "sv_backend (backend_delete cr c sv) = snd (bo_DeleteContainer (cr_Backend cr) c (sv_backend sv))"
  by (auto simp: put_container_def save_container_def publish_then_def backend_delete_def split: prod.splits bool.splits)

lemma signal_both_backend:
  "signal_both c sv = (c1, sv1) \<Longrightarrow> sv_backend sv1 = sv_backend sv \<and> co_ShortID c1 = co_ShortID c \<and>
     co_Stopped c1 = co_Stopped c \<and> co_Killed c1 = co_Killed c"
  by (auto simp: signal_both_def SignalDetach_def SignalStop_def)

lemma delete_same_short:
  "co_ShortID c1 = co_ShortID c \<Longrightarrow> bo_DeleteContainer (instance_ops E C img) c1 w = bo_DeleteContainer (instance_ops E C img) c w"
  by (simp add: instance_ops_def kub_DeleteContainer_def)

lemma stop_removes:
  assumes "cr_Backend cr = instance_ops E C img"
  shows "sv_backend (snd (case signal_both c sv of (c1, sv1) \<Rightarrow>
          (let sv2 = (if \<not> co_Stopped c1 \<and> \<not> co_Killed c1 then backend_delete cr c1 sv1 else sv1)
           in case save_container cr mo (f c1) sv2 of
                (c2, Some e, sv3) \<Rightarrow> (httputil_Error 500 e, sv3)
              | (c2, None, sv3) \<Rightarrow> publish_then mo (co_ID c2) ''container'' ''die'' (\<lambda>sv4. (Reply 204 NoBody, sv4)) sv3))) =
    removed (cr_Backend cr) (if_alive (Inr c)) (sv_backend sv)"
proof -
  obtain c1 sv1 where sg: "signal_both c sv = (c1, sv1)" by force
  note b = signal_both_backend[OF sg]
  let ?sv2 = "if \<not> co_Stopped c1 \<and> \<not> co_Killed c1 then backend_delete cr c1 sv1 else sv1"
  obtain c2 e sv3 where sc: "save_container cr mo (f c1) ?sv2 = (c2, e, sv3)" by (metis prod_cases3)
  have "sv_backend sv3 = sv_backend ?sv2" using backend_simps(2)[of cr mo "f c1" ?sv2] sc by simp
  also have "\<dots> = removed (cr_Backend cr) (if_alive (Inr c)) (sv_backend sv)"
    using b delete_same_short[of c1 c E C img] assms by (simp add: removed_def if_alive_def)
  finally show ?thesis using sg sc by (cases e) (auto simp: Let_def)
qed

lemma delete_then_removes:
  assumes "cr_Backend cr = instance_ops E C img" "\<And>c1 sv1. sv_backend (snd (k c1 sv1)) = sv_backend sv1"
  shows "sv_backend (snd (delete_then cr mo c k sv)) = removed (cr_Backend cr) (if_alive (Inr c)) (sv_backend sv)"
proof -
  obtain c1 sv1 where sg: "signal_both c sv = (c1, sv1)" by force
  have "sv_backend (snd (publish_then mo i kind action (k c1) sv2)) = sv_backend sv2" for i kind action sv2
    using assms(2) by (auto simp: publish_then_def split: prod.splits bool.splits)
  then show ?thesis using sg signal_both_backend[OF sg] assms delete_same_short[of c1 c E C img]
    by (simp add: delete_then_def removed_def if_alive_def)
qed

lemma serve_removes:
  assumes "cr_Backend (ap_router ap) = instance_ops E C img" "removing a"
  shows "sv_backend (snd (serve ap a sv)) = removed (cr_Backend (ap_router ap)) (removal (ap_router ap) sv a) (sv_backend sv)"
proof (cases a)
  case (Stop mo i)
  then show ?thesis using stop_removes[OF assms(1), where f = "\<lambda>c. c\<lparr>co_Running := False, co_Completed := False, co_Stopped := True\<rparr>"]
    by (cases "GetContainer (cr_DB (ap_router ap)) (sv_store sv) i") (simp_all add: ContainerStop_def removed_def if_alive_def)
next
  case (Kill mo i sgnl)
  then show ?thesis using stop_removes[OF assms(1), where f = "\<lambda>c. c\<lparr>co_Killed := True, co_Running := False, co_Completed := False\<rparr>"]
    by (cases "GetContainerByNameOrID (cr_DB (ap_router ap)) (sv_store sv) i") (simp_all add: ContainerKill_def removed_def if_alive_def)
next
  case (DockerDelete mo i)
  show ?thesis unfolding DockerDelete
  proof (cases "GetContainerByNameOrID (cr_DB (ap_router ap)) (sv_store sv) i")
    case (Inr c)
    then show "sv_backend (snd (serve ap (DockerDelete mo i) sv)) =
        removed (cr_Backend (ap_router ap)) (removal (ap_router ap) sv (DockerDelete mo i)) (sv_backend sv)"
      by (simp add: docker_ContainerDelete_def delete_then_removes[OF assms(1)] split: prod.splits option.splits)
  qed (simp add: docker_ContainerDelete_def removed_def if_alive_def)
next
  case (LibpodDelete mo i)
  show ?thesis unfolding LibpodDelete
  proof (cases "GetContainerByNameOrID (cr_DB (ap_router ap)) (sv_store sv) i")
    case (Inr c)
    then show "sv_backend (snd (serve ap (LibpodDelete mo i) sv)) =
        removed (cr_Backend (ap_router ap)) (removal (ap_router ap) sv (LibpodDelete mo i)) (sv_backend sv)"
      by (simp add: libpod_ContainerDelete_def delete_then_removes[OF assms(1)] split: prod.splits option.splits)
  qed (simp add: libpod_ContainerDelete_def removed_def if_alive_def)
qed (use assms(2) in simp_all)

text \<open>
  (C11) Stopping, killing and deleting act on one container in the cluster too: with a reachable API
  server, a request that stops, kills or deletes a container that was neither stopped nor killed
  before leaves none of its services, config maps and pods that is not being deleted, whatever the
  answer, and touches no other object; otherwise it leaves the cluster as it is.
\<close>

theorem removal_isolated:
  assumes "kube_api C objs good" "cr_Backend (ap_router ap) = instance_ops E C img" "removing a" "serve ap a sv = (out, sv')"
    and "w = sv_backend sv" "w' = sv_backend sv'" "good (is_cluster w)"
  shows "(removal (ap_router ap) sv a = None \<longrightarrow> w' = w) \<and>
    (\<forall>c. removal (ap_router ap) sv a = Some c \<longrightarrow> IsShortID (co_ShortID c) \<longrightarrow>
      (\<forall>kd x. x \<in> set (objs (is_cluster w') kd) \<longrightarrow>
         labelled (bk_namespace (is_backend w)) ''testtender.io/container-id'' (co_ShortID c) x \<longrightarrow> terminating x) \<and>
      (\<forall>kd x. \<not> labelled (bk_namespace (is_backend w)) ''testtender.io/container-id'' (co_ShortID c) x \<longrightarrow>
         x \<in> set (objs (is_cluster w) kd) \<longrightarrow> x \<in> set (objs (is_cluster w') kd)))"
proof -
  have r: "w' = removed (cr_Backend (ap_router ap)) (removal (ap_router ap) sv a) w"
    using serve_removes[OF assms(2,3), of sv] assms(4-6) by simp
  have "is_cluster w' = k'" if "removal (ap_router ap) sv a = Some c"
      "kub_DeleteContainer C (bk_namespace (is_backend w)) c (is_cluster w) = (None, k')" for c k'
    using that r assms(2) by (simp add: removed_def instance_ops_def)
  then show ?thesis using r kub_DeleteContainer_exact[OF assms(1,7)] by (fastforce simp: removed_def)
qed

section \<open>Examples\<close>

definition cluster_deploy :: "(list_cluster, string) deploy_env" where
  "cluster_deploy = \<lparr>de_validators = accept_all, de_ParseQuantity = Inr, de_resource_order = resource_labels,
     de_stat = (\<lambda>p. Some True), de_readFile = (\<lambda>p. Inr []), de_fileID = (\<lambda>p. p), de_archive = (\<lambda>b. Inr ([], None)),
     de_listen = (\<lambda>n. Inr (40000 + int n)), de_CreatePod = (\<lambda>p k. (None, (KPod, pod_Meta p) # k)),
     de_GetPod = (\<lambda>ns n k. Inl (ExtError n)), de_DeletePod = (\<lambda>ns n k. k), de_CreateService = (\<lambda>s k. (None, k)),
     de_CreateConfigMap = (\<lambda>c k. (Inr ''cm'', k)), de_RemoteCmd = (\<lambda>p c cmd f k. (None, k)), de_Sleep = (\<lambda>k. k),
     de_Watch = (\<lambda>ns sel k. None), de_WatchTurns = (\<lambda>ns sel n k. ([], k))\<rparr>"

definition sample_world :: "(list_db, (list_cluster, string) instance_state) server" where
  "sample_world = \<lparr>sv_store = empty_store, sv_backend = \<lparr>is_cluster = sample_cluster, is_backend = sample_backend, is_channels = 0\<rparr>,
     sv_events = [], sv_signals = []\<rparr>"

definition cluster_api :: "(string, list_db, (list_cluster, string) instance_state) api" where
  "cluster_api = \<lparr>ap_router = \<lparr>cr_Config = sample_rconfig, cr_DB = list_memdb,
       cr_Backend = instance_ops cluster_deploy list_client (\<lambda>n. Inr []), cr_SecretPolicy = sample_policy, cr_reference = plain_lib,
       cr_validators = accept_all, cr_regexp = (\<lambda>p s. Inr (p = s)), cr_format = (\<lambda>l t. show_int t), cr_errtext = (\<lambda>e. [])\<rparr>,
     ap_files = instance_files cluster_deploy (\<lambda>p rq k. (None, [], k)) (\<lambda>e. []) (\<lambda>opts. Inr []),
     ap_archive = (\<lambda>b. Inr ([], None)), ap_tar_size = (\<lambda>s. Inr 0), ap_arch = []\<rparr>"

definition stored_container :: container where
  "stored_container = sample_container\<lparr>co_ID := sample_id, co_Running := True\<rparr>"

definition stored_world :: "(list_db, (list_cluster, string) instance_state) server" where
  "stored_world = sample_world\<lparr>sv_store := empty_store\<lparr>st_db := [(TContainer, co_key stored_container)],
     st_containers := [(sample_id, stored_container)]\<rparr>\<rparr>"

lemma stored_found: "GetContainer list_memdb (sv_store stored_world) sample_id = Inr stored_container"
  by code_simp

theorem removal_isolated_witness:
  "\<exists>out sv'. serve cluster_api (Stop sample_moment sample_id) stored_world = (out, sv') \<and>
     sample_meta ''p2'' ''f00f00f00f00'' 9000000000000 \<in> set (cluster_objs (is_cluster (sv_backend sv')) KPod)"
proof -
  let ?p = "sample_meta ''p2'' ''f00f00f00f00'' 9000000000000" and ?a = "Stop sample_moment sample_id"
  obtain out sv' where s: "serve cluster_api ?a stored_world = (out, sv')" by force
  have w: "is_cluster (sv_backend stored_world) = sample_cluster" by (simp add: stored_world_def sample_world_def)
  have b: "cr_Backend (ap_router cluster_api) = instance_ops cluster_deploy list_client (\<lambda>n. Inr [])"
    and d: "cr_DB (ap_router cluster_api) = list_memdb" by (simp_all add: cluster_api_def)
  have r: "removal (ap_router cluster_api) stored_world ?a = Some stored_container"
    using stored_found d by (simp add: if_alive_def stored_container_def sample_container_def)
  have i: "IsShortID (co_ShortID stored_container)" using sample_ShortID by (simp add: stored_container_def)
  have "\<not> labelled ns ''testtender.io/container-id'' (co_ShortID stored_container) ?p" for ns
    by (simp add: labelled_def sample_meta_def stored_container_def sample_container_def)
  moreover have "?p \<in> set (cluster_objs sample_cluster KPod)" by (simp add: in_cluster_objs sample_cluster_def)
  ultimately have "?p \<in> set (cluster_objs (is_cluster (sv_backend sv')) KPod)"
    using removal_isolated[OF cluster.kube_api_axioms b _ s refl refl] r i w sample_cluster_good by auto
  with s show ?thesis by blast
qed

text \<open>A second container is created; the first one stays as it is.\<close>

theorem requests_isolated_witness:
  "\<exists>c sv out sv'. reachable sample_api sv \<and> hp sv sample_id = Some c \<and>
     serve sample_api (DockerCreate (sample_moment\<lparr>mo_newid := rev sample_id\<rparr>) (Inr sample_request) []) sv = (out, sv') \<and>
     hp sv' sample_id = Some c"
proof -
  let ?a = "DockerCreate (sample_moment\<lparr>mo_newid := rev sample_id\<rparr>) (Inr sample_request) []"
  obtain c sv where s: "reachable sample_api sv" "hp sv sample_id = Some c" by (rule sample_created_in)
  obtain out sv' where r: "serve sample_api ?a sv = (out, sv')" by force
  have "sample_id \<noteq> rev sample_id" by code_simp
  then have "sample_id \<notin> addressed (ap_router sample_api) sv ?a" by simp
  then have "hp sv' sample_id = hp sv sample_id" using requests_isolated[OF sample_api_backend s(1) r] by blast
  with s r show ?thesis by auto
qed

end
