(* ===== verification/Process.thy ===== *)
theory Process
  imports Gateway Isolation
begin

text \<open>
  The life of the process: \<open>Main\<close>, \<open>run\<close>, \<open>lockTimeoutHandler\<close> and \<open>exitHandler\<close>
  (\<open>internal/main.go\<close>), the listeners of \<open>server.Run\<close> (\<open>internal/server/main.go\<close>), the
  timer loop and the singleton of the reaper (\<open>internal/reaper/main.go\<close>), the singletons of the
  database and of the event bus, and \<open>GetKubernetes\<close> (\<open>internal/config/kubernetes.go\<close>).

  The process is a labelled transition system. The goroutines (the one that calls \<open>run\<close>, the lock
  time-out, the signal handler, the reaper loop, the requests) interleave in any order; leader
  election is the library's, of which the model has what its documentation says: it calls
  \<open>OnStartedLeading\<close> when the lease is acquired and cancels the context it gave to it when the
  lease is lost. Time is not modelled: a timer may fire whenever its goroutine waits for it.
\<close>

section \<open>Singletons\<close>

text \<open>
  \<open>sync.Once\<close> around the making of a package variable: the first call makes it and returns its
  error; every later call returns what the first one made, without an error.
\<close>

definition once_New :: "'a \<times> error option \<Rightarrow> 'a option \<Rightarrow> ('a \<times> error option) \<times> 'a option" where
  "once_New made var = (case var of None \<Rightarrow> (made, Some (fst made)) | Some i \<Rightarrow> ((i, None), Some i))"

record 'db database =
  db_db :: "'db memdb option"        \<comment> \<open>\<^const>\<open>None\<close>: nil\<close>
  db_store :: "'db store"

text \<open>\<open>model.New\<close>: the schema, and with it the predefined networks.\<close>

definition made_database ::
  "'db memdb result \<Rightarrow> ('db memdb \<Rightarrow> 'db store \<Rightarrow> 'db store) \<Rightarrow> 'db store \<Rightarrow> 'db database \<times> error option" where
  "made_database schema defaults st = (case schema of
     Inl e \<Rightarrow> (\<lparr>db_db = None, db_store = st\<rparr>, Some e)
   | Inr M \<Rightarrow> (\<lparr>db_db = Some M, db_store = defaults M st\<rparr>, None))"

definition model_New ::
  "'db memdb result \<Rightarrow> ('db memdb \<Rightarrow> 'db store \<Rightarrow> 'db store) \<Rightarrow> 'db store \<Rightarrow> 'db database option \<Rightarrow>
   ('db database \<times> error option) \<times> 'db database option" where
  "model_New schema defaults st var = once_New (made_database schema defaults st) var"

definition events_New :: "observers option \<Rightarrow> observers \<times> observers option" where
  "events_New var = (case once_New ([], None) var of ((i, _), v) \<Rightarrow> (i, v))"

record ('db, 'w) reaper =
  rp_db :: "'db database"
  rp_keepMax :: duration
  rp_kub :: 'w

text \<open>\<open>reaper.New\<close>, with the database as \<open>model.New\<close> returns it at that moment.\<close>

definition reaper_New ::
  "'db database \<times> error option \<Rightarrow> duration \<Rightarrow> 'w \<Rightarrow> ('db, 'w) reaper option \<Rightarrow>
   (('db, 'w) reaper \<times> error option) \<times> ('db, 'w) reaper option" where
  "reaper_New db keepMax kub var =
     once_New (\<lparr>rp_db = fst db, rp_keepMax = keepMax, rp_kub = kub\<rparr>, snd db) var"

section \<open>The connection to Kubernetes\<close>

record 'f rest_config =
  kc_QPS :: 'f
  kc_Burst :: int

text \<open>
  The named configuration, else the one of the pod the process runs in; \<open>qps\<close> is the setting as a
  32-bit floating point number.
\<close>

definition GetKubernetes ::
  "(string \<Rightarrow> 'f rest_config result) \<Rightarrow> 'f rest_config result \<Rightarrow> string \<Rightarrow> 'f::{zero, ord} \<Rightarrow> int \<Rightarrow> 'f rest_config result" where
  "GetKubernetes fromFlags inCluster kubeconfig qps burst =
     bind_res (if kubeconfig \<noteq> [] then (case fromFlags kubeconfig of Inr cfg \<Rightarrow> Inr cfg | Inl e \<Rightarrow> inCluster) else inCluster) (\<lambda>cfg.
       let cfg1 = (if qps > 0 then cfg\<lparr>kc_QPS := qps\<rparr> else cfg)
       in Inr (if burst > 0 then cfg1\<lparr>kc_Burst := burst\<rparr> else cfg1))"

section \<open>State\<close>

record ('n, 'db, 'k, 'q) program =
  pg_vp :: settings
  pg_lock :: bool                   \<comment> \<open>\<open>lock.enabled\<close>\<close>
  pg_prune :: bool                  \<comment> \<open>\<open>prune-start\<close>\<close>
  pg_reapmax :: duration            \<comment> \<open>\<open>reaper.reapmax\<close>\<close>
  pg_socket :: string               \<comment> \<open>\<open>server.socket\<close>\<close>
  pg_addr :: string                 \<comment> \<open>\<open>server.listen-addr\<close>\<close>
  pg_kubernetes :: "error option"   \<comment> \<open>the outcome of \<open>GetKubernetes\<close> and \<open>NewForConfig\<close>\<close>
  pg_decode :: "string \<Rightarrow> (string \<times> 'q pod option) result"
  pg_globals :: globals
  pg_libs :: "'n route_libs"
  pg_env :: environment
  pg_parser :: jwt_parser           \<comment> \<open>\<open>jwt.ParseWithClaims\<close>\<close>
  pg_http :: "string \<Rightarrow> error option"
  pg_open :: "string \<Rightarrow> json_stream result"
  pg_db :: "'db memdb result"
  pg_deploy :: "('k, 'q) deploy_env"
  pg_client :: "'k kube_client"
  pg_images :: "string \<Rightarrow> string list result"
  pg_files :: "('k, 'q) instance_state file_ops"
  pg_archive :: "byte list \<Rightarrow> tar_stream result"
  pg_tar_size :: "string \<Rightarrow> nat result"
  pg_arch :: string

datatype lease = NoLease | Waiting | Held | Lost

text \<open>Where the goroutine that calls \<open>run\<close> is.\<close>

datatype run_phase = NotRun | Starting | Pruning | Launching | Serving | Returned "error option"

datatype sig_phase = Listening | Received int | Cancelled int | Cleaned int

record ('n, 'db, 'k, 'q) main_state =
  ps_exit :: "int option"
  ps_lease :: lease
  ps_ready :: bool          \<comment> \<open>a message is in the channel \<open>ready\<close>\<close>
  ps_lockwait :: bool       \<comment> \<open>the lock time-out still waits\<close>
  ps_cancelled :: bool      \<comment> \<open>the context given to \<open>run\<close> is done\<close>
  ps_sig :: sig_phase
  ps_run :: run_phase
  ps_reaping :: bool
  ps_engine :: "('n, 'db, ('k, 'q) instance_state) engine option"
  ps_listen :: "string list"
  ps_server :: "('db, ('k, 'q) instance_state) server"

section \<open>Start\<close>

text \<open>\<open>klog.Fatalf\<close> ends the process with status 255.\<close>

definition fatal :: int where "fatal = 255"

text \<open>
  \<open>Main\<close> up to the lock: the backend is made of the settings; without a lock \<open>run\<close> is called
  at once, else the election starts and with it the lock time-out.
\<close>

definition main_start ::
  "('n, 'db, 'k, 'q) program \<Rightarrow> ('db, ('k, 'q) instance_state) server \<Rightarrow> ('n, 'db, 'k, 'q) main_state" where
  "main_start pg sv =
     (let ps = \<lparr>ps_exit = None, ps_lease = NoLease, ps_ready = False, ps_lockwait = False, ps_cancelled = False,
                ps_sig = Listening, ps_run = NotRun, ps_reaping = False, ps_engine = None, ps_listen = [], ps_server = sv\<rparr>
      in case pg_kubernetes pg of
           Some e \<Rightarrow> ps\<lparr>ps_exit := Some fatal\<rparr>
         | None \<Rightarrow>
             (case getBackend (rl_validators (pg_libs pg)) (pg_decode pg) (pg_globals pg) (pg_vp pg) of
                Inl e \<Rightarrow> ps\<lparr>ps_exit := Some fatal\<rparr>
              | Inr bk \<Rightarrow>
                  (let ps1 = ps\<lparr>ps_server := sv\<lparr>sv_backend := (sv_backend sv)\<lparr>is_backend := bk\<rparr>\<rparr>\<rparr>
                   in if pg_lock pg then ps1\<lparr>ps_lease := Waiting, ps_lockwait := True\<rparr>
                      else ps1\<lparr>ps_run := Starting\<rparr>)))"

section \<open>Steps\<close>

definition on_kube :: "('k \<Rightarrow> error option \<times> 'k) \<Rightarrow> ('db, ('k, 'q) instance_state) server \<Rightarrow> ('db, ('k, 'q) instance_state) server" where
  "on_kube f sv = sv\<lparr>sv_backend := (sv_backend sv)\<lparr>is_cluster := snd (f (is_cluster (sv_backend sv)))\<rparr>\<rparr>"

definition sv_namespace :: "('db, ('k, 'q) instance_state) server \<Rightarrow> string" where
  "sv_namespace sv = bk_namespace (is_backend (sv_backend sv))"

definition kub_of :: "('n, 'db, 'k, 'q) program \<Rightarrow> ('k, 'q) instance_state backend_ops" where
  "kub_of pg = instance_ops (pg_deploy pg) (pg_client pg) (pg_images pg)"

definition booted :: "('n, 'db, 'k, 'q) program \<Rightarrow> ('n, 'db, ('k, 'q) instance_state) engine result" where
  "booted pg = server_Run (pg_libs pg) (pg_env pg) (pg_http pg) (pg_open pg) (pg_db pg) (kub_of pg) (pg_vp pg)"

definition api_of :: "('n, 'db, 'k, 'q) program \<Rightarrow> ('n, 'db, ('k, 'q) instance_state) router \<Rightarrow> ('n, 'db, ('k, 'q) instance_state) api" where
  "api_of pg cr = \<lparr>ap_router = cr, ap_files = pg_files pg, ap_archive = pg_archive pg, ap_tar_size = pg_tar_size pg, ap_arch = pg_arch pg\<rparr>"

text \<open>\<open>run\<close>, first part: the reaper; without a database the process ends.\<close>

definition run_reaper :: "('n, 'db, 'k, 'q) program \<Rightarrow> ('n, 'db, 'k, 'q) main_state \<Rightarrow> ('n, 'db, 'k, 'q) main_state" where
  "run_reaper pg ps = (case pg_db pg of
     Inl e \<Rightarrow> ps\<lparr>ps_exit := Some fatal\<rparr>
   | Inr M \<Rightarrow> ps\<lparr>ps_reaping := True, ps_run := Pruning\<rparr>)"

text \<open>Second part: what earlier processes left is deleted if the setting says so; an error is logged.\<close>

definition run_prune :: "('n, 'db, 'k, 'q) program \<Rightarrow> ('n, 'db, 'k, 'q) main_state \<Rightarrow> ('n, 'db, 'k, 'q) main_state" where
  "run_prune pg ps = ps\<lparr>ps_run := Launching,
     ps_server := (if pg_prune pg then on_kube (DeleteAll (pg_client pg) (sv_namespace (ps_server ps))) (ps_server ps)
                   else ps_server ps)\<rparr>"

text \<open>
  Third part: the server. The TCP address is listened on always, the socket besides it; an error
  before that is only logged by \<open>run\<close>.
\<close>

definition listeners :: "('n, 'db, 'k, 'q) program \<Rightarrow> string list" where
  "listeners pg = pg_addr pg # (if pg_socket pg \<noteq> [] then [pg_socket pg] else [])"

definition run_server :: "('n, 'db, 'k, 'q) program \<Rightarrow> ('n, 'db, 'k, 'q) main_state \<Rightarrow> ('n, 'db, 'k, 'q) main_state" where
  "run_server pg ps = (case booted pg of
     Inl e \<Rightarrow> ps\<lparr>ps_run := Returned (Some e)\<rparr>
   | Inr eg \<Rightarrow> ps\<lparr>ps_run := Serving, ps_engine := Some eg,
        ps_listen := listeners pg\<rparr>)"

text \<open>
  The end of \<open>server.Run\<close>: the file of the socket is removed; the listener on the TCP address is not
  closed.
\<close>

definition server_returns :: "('n, 'db, 'k, 'q) program \<Rightarrow> error option \<Rightarrow> ('n, 'db, 'k, 'q) main_state \<Rightarrow> ('n, 'db, 'k, 'q) main_state" where
  "server_returns pg e ps = ps\<lparr>ps_run := Returned e,
     ps_listen := (if pg_socket pg \<noteq> [] then remove1 (pg_socket pg) (ps_listen ps) else ps_listen ps)\<rparr>"

text \<open>
  The registered handlers. Which of them a path selects, and with which decoded request, is the web
  framework's choice: \<open>route path\<close> is a handler that acts on the state, or the answer of the framework
  (no such route) or of an endpoint that does not touch the state. Without a router every handler
  panics.
\<close>

type_synonym routing = "string \<Rightarrow> outcome + action"

definition engine_dispatch ::
  "('n, 'db, 'k, 'q) program \<Rightarrow> ('n, 'db, ('k, 'q) instance_state) router option \<Rightarrow> routing \<Rightarrow> string \<Rightarrow>
   ('db, ('k, 'q) instance_state) server \<Rightarrow> outcome \<times> ('db, ('k, 'q) instance_state) server" where
  "engine_dispatch pg router route path sv = (case route path of
     Inl out \<Rightarrow> (out, sv)
   | Inr a \<Rightarrow> (case router of
       None \<Rightarrow> (Reply 500 NoBody, sv)
     | Some cr \<Rightarrow> serve (api_of pg cr) a sv))"

text \<open>
  A request to the engine, through the chain of middleware that \<open>getGinEngine\<close> installs: the version
  alias, which may handle it again with a shorter path, then authentication if there is a verifier,
  then the handler. \<^const>\<open>None\<close>: the handling does not end.
\<close>

definition engine_serve ::
  "('n, 'db, 'k, 'q) program \<Rightarrow> ('n, 'db, ('k, 'q) instance_state) engine \<Rightarrow> routing \<Rightarrow> string list \<Rightarrow> string \<Rightarrow>
   ('db, ('k, 'q) instance_state) server \<Rightarrow> (outcome \<times> verifier option \<times> ('db, ('k, 'q) instance_state) server) option" where
  "engine_serve pg eg route authorization path sv =
     engine_handle (pg_env pg) (pg_parser pg) (engine_dispatch pg (eg_router eg) route) authorization path (eg_verifier eg) sv"

text \<open>One round of the reaper's loop.\<close>

definition reaper_round :: "('n, 'db, 'k, 'q) program \<Rightarrow> time \<Rightarrow> ('db, ('k, 'q) instance_state) server \<Rightarrow> ('db, ('k, 'q) instance_state) server" where
  "reaper_round pg now sv = (case pg_db pg of
     Inl e \<Rightarrow> sv
   | Inr M \<Rightarrow>
       (let w = reaper_clean M (pg_client pg) (sv_namespace sv) now (pg_reapmax pg)
                  \<lparr>w_store = sv_store sv, w_kube = is_cluster (sv_backend sv)\<rparr>
        in sv\<lparr>sv_store := w_store w, sv_backend := (sv_backend sv)\<lparr>is_cluster := w_kube w\<rparr>\<rparr>))"

text \<open>
  The events. A request carries its authorization headers, its path and its answer; one whose handling
  does not end takes no step (that it also uses up the stack of its goroutine is not modelled).
\<close>

datatype event =
    Acquire | ReadyRead | LockTimeout | Lose
  | RunReaper | RunPrune | RunServer | ListenError string error | ContextDone
  | Request "string list" string outcome | Reap time | ClusterChange
  | Signal int | CancelAll | CleanUp | ExitNow

inductive main_step :: "('n, 'db, 'k, 'q) program \<Rightarrow> ('n, 'db, 'k, 'q) main_state \<Rightarrow> event \<Rightarrow> ('n, 'db, 'k, 'q) main_state \<Rightarrow> bool" for pg where
  acquire: "ps_exit ps = None \<Longrightarrow> ps_lease ps = Waiting \<Longrightarrow> \<not> ps_cancelled ps \<Longrightarrow>
    main_step pg ps Acquire (ps\<lparr>ps_lease := Held, ps_ready := True, ps_run := Starting\<rparr>)"
| ready: "ps_exit ps = None \<Longrightarrow> ps_lockwait ps \<Longrightarrow> ps_ready ps \<Longrightarrow>
    main_step pg ps ReadyRead (ps\<lparr>ps_ready := False, ps_lockwait := False\<rparr>)"
| lock_timeout: "ps_exit ps = None \<Longrightarrow> ps_lockwait ps \<Longrightarrow> main_step pg ps LockTimeout (ps\<lparr>ps_exit := Some 1\<rparr>)"
| lose: "ps_exit ps = None \<Longrightarrow> ps_lease ps = Held \<Longrightarrow> main_step pg ps Lose (ps\<lparr>ps_lease := Lost, ps_cancelled := True\<rparr>)"
| reaper: "ps_exit ps = None \<Longrightarrow> ps_run ps = Starting \<Longrightarrow> main_step pg ps RunReaper (run_reaper pg ps)"
| prune: "ps_exit ps = None \<Longrightarrow> ps_run ps = Pruning \<Longrightarrow> main_step pg ps RunPrune (run_prune pg ps)"
| launch: "ps_exit ps = None \<Longrightarrow> ps_run ps = Launching \<Longrightarrow> main_step pg ps RunServer (run_server pg ps)"
| listen_error: "ps_exit ps = None \<Longrightarrow> ps_run ps = Serving \<Longrightarrow> l \<in> set (ps_listen ps) \<Longrightarrow>
    main_step pg ps (ListenError l e) (server_returns pg (Some e) (ps\<lparr>ps_listen := remove1 l (ps_listen ps)\<rparr>))"
| context_done: "ps_exit ps = None \<Longrightarrow> ps_run ps = Serving \<Longrightarrow> ps_cancelled ps \<Longrightarrow>
    main_step pg ps ContextDone (server_returns pg None ps)"
| request: "ps_exit ps = None \<Longrightarrow> ps_listen ps \<noteq> [] \<Longrightarrow> ps_engine ps = Some eg \<Longrightarrow>
    engine_serve pg eg route authorization path (ps_server ps) = Some (out, v, sv) \<Longrightarrow>
    main_step pg ps (Request authorization path out) (ps\<lparr>ps_engine := Some (eg\<lparr>eg_verifier := v\<rparr>), ps_server := sv\<rparr>)"
| reap: "ps_exit ps = None \<Longrightarrow> ps_reaping ps \<Longrightarrow> main_step pg ps (Reap now) (ps\<lparr>ps_server := reaper_round pg now (ps_server ps)\<rparr>)"
| cluster: "ps_exit ps = None \<Longrightarrow>
    main_step pg ps ClusterChange (ps\<lparr>ps_server := (ps_server ps)\<lparr>sv_backend := (sv_backend (ps_server ps))\<lparr>is_cluster := k\<rparr>\<rparr>\<rparr>)"
| signal: "ps_exit ps = None \<Longrightarrow> ps_sig ps = Listening \<Longrightarrow> n \<in> {2, 3, 15} \<Longrightarrow> main_step pg ps (Signal n) (ps\<lparr>ps_sig := Received n\<rparr>)"
| cancel: "ps_exit ps = None \<Longrightarrow> ps_sig ps = Received n \<Longrightarrow> main_step pg ps CancelAll (ps\<lparr>ps_sig := Cancelled n, ps_cancelled := True\<rparr>)"
| clean_up: "ps_exit ps = None \<Longrightarrow> ps_sig ps = Cancelled n \<Longrightarrow>
    main_step pg ps CleanUp (ps\<lparr>ps_sig := Cleaned n, ps_server :=
      on_kube (DeleteWithInstanceID (pg_client pg) (sv_namespace (ps_server ps)) (gl_InstanceID (pg_globals pg))) (ps_server ps)\<rparr>)"
| exit: "ps_exit ps = None \<Longrightarrow> ps_sig ps = Cleaned n \<Longrightarrow> main_step pg ps ExitNow (ps\<lparr>ps_exit := Some (getExitCode (Some n))\<rparr>)"

inductive main_steps :: "('n, 'db, 'k, 'q) program \<Rightarrow> ('n, 'db, 'k, 'q) main_state \<Rightarrow> event list \<Rightarrow> ('n, 'db, 'k, 'q) main_state \<Rightarrow> bool" for pg where
  nil: "main_steps pg ps [] ps"
| snoc: "main_steps pg ps es ps1 \<Longrightarrow> main_step pg ps1 e ps2 \<Longrightarrow> main_steps pg ps (es @ [e]) ps2"

inductive_cases clean_up_cases: "main_step pg ps CleanUp ps'"

lemma main_steps_append: "main_steps pg b fs c \<Longrightarrow> main_steps pg a es b \<Longrightarrow> main_steps pg a (es @ fs) c"
proof (induction rule: main_steps.induct)
  case (snoc b fs c e d)
  then show ?case using main_steps.snoc[of pg a "es @ fs" c e d] by simp
qed simp

text \<open>An invariant of the steps whose events satisfy \<open>Pe\<close> holds along every such run.\<close>

lemma main_steps_invariant:
  assumes "main_steps pg ps es ps'" "Q ps" "\<forall>e \<in> set es. Pe e"
    and "\<And>r e r'. main_step pg r e r' \<Longrightarrow> Q r \<Longrightarrow> Pe e \<Longrightarrow> Q r'"
  shows "Q ps'"
  using assms by (induction rule: main_steps.induct) auto

lemmas part_defs = run_reaper_def run_prune_def run_server_def server_returns_def

section \<open>Nothing listens unguarded\<close>

text \<open>
  The engine of a running server: the one \<open>server.Run\<close> made, with the verifier as the requests since
  then have left it.
\<close>

definition descends :: "('n, 'db, 'k, 'q) program \<Rightarrow> ('n, 'db, ('k, 'q) instance_state) engine \<Rightarrow> ('n, 'db, ('k, 'q) instance_state) engine \<Rightarrow> bool" where
  "descends pg eg0 eg = (eg_router eg = eg_router eg0 \<and>
     (case eg_verifier eg0 of
        None \<Rightarrow> eg_verifier eg = None
      | Some v0 \<Rightarrow> (\<exists>v. eg_verifier eg = Some v \<and>
          (\<forall>cfg. vf_reachable (pg_env pg) (pg_parser pg) cfg v0 \<longrightarrow> vf_reachable (pg_env pg) (pg_parser pg) cfg v))))"

lemma descends_refl: "descends pg eg eg"
  by (simp add: descends_def split: option.split)

lemma descends_verifier: "descends pg eg0 eg \<Longrightarrow> eg_verifier eg = None \<longleftrightarrow> eg_verifier eg0 = None"
  by (auto simp: descends_def split: option.splits)

lemma engine_serve_verifier:
  assumes "descends pg eg0 eg" "engine_serve pg eg route authorization path sv = Some (out, w, sv')"
  shows "descends pg eg0 (eg\<lparr>eg_verifier := w\<rparr>)"
proof (cases "eg_verifier eg0")
  case None
  then have "eg_verifier eg = None" using descends_verifier[OF assms(1)] by simp
  then have "w = None" using engine_handle_open assms(2) by (simp add: engine_serve_def)
  then show ?thesis using assms(1) None by (simp add: descends_def)
next
  case (Some v0)
  then obtain v where v: "eg_verifier eg = Some v"
    "\<forall>cfg. vf_reachable (pg_env pg) (pg_parser pg) cfg v0 \<longrightarrow> vf_reachable (pg_env pg) (pg_parser pg) cfg v"
    using assms(1) by (auto simp: descends_def)
  obtain res where res: "Middleware (pg_env pg) (pg_parser pg) (Some v) authorization = (res, w)"
    using engine_handle_auth assms(2) v(1) unfolding engine_serve_def by metis
  obtain v' where v': "w = Some v'" using Middleware_keeps_verifier[OF res] by blast
  then have "vf_reachable (pg_env pg) (pg_parser pg) cfg v'" if "vf_reachable (pg_env pg) (pg_parser pg) cfg v0" for cfg
    using vf_reachable.request v(2) that res by blast
  then show ?thesis using assms(1) Some v' by (simp add: descends_def)
qed

definition guarded_listeners :: "('n, 'db, 'k, 'q) program \<Rightarrow> ('n, 'db, 'k, 'q) main_state \<Rightarrow> bool" where
  "guarded_listeners pg ps =
     ((ps_listen ps \<noteq> [] \<or> ps_run ps = Serving \<longrightarrow> ps_engine ps \<noteq> None) \<and>
      (\<forall>eg. ps_engine ps = Some eg \<longrightarrow> (\<exists>eg0. booted pg = Inr eg0 \<and> descends pg eg0 eg)))"

lemma main_start_guarded: "guarded_listeners pg (main_start pg sv)"
  by (simp add: guarded_listeners_def main_start_def Let_def split: option.split sum.split)

lemma main_step_guarded:
  assumes "main_step pg ps e ps'" "guarded_listeners pg ps"
  shows "guarded_listeners pg ps'"
  using assms(1)
proof (cases rule: main_step.cases)
  case (request eg route authorization path out v sv)
  then obtain eg0 where "booted pg = Inr eg0" "descends pg eg0 eg" using assms(2) by (auto simp: guarded_listeners_def)
  then show ?thesis using engine_serve_verifier request by (auto simp: guarded_listeners_def)
qed (use assms(2) in \<open>auto simp: guarded_listeners_def part_defs descends_refl split: sum.splits\<close>)

lemma main_steps_guarded: "main_steps pg (main_start pg sv) es ps \<Longrightarrow> guarded_listeners pg ps"
  by (rule main_steps_invariant[where Q = "guarded_listeners pg" and Pe = "\<lambda>_. True"])
    (auto intro: main_step_guarded main_start_guarded)

lemma listening_engine:
  assumes "main_steps pg (main_start pg sv) es ps" "ps_listen ps \<noteq> []"
  shows "\<exists>eg0 eg. booted pg = Inr eg0 \<and> ps_engine ps = Some eg \<and> descends pg eg0 eg \<and>
    (vp_oidc_required (pg_vp pg) \<longrightarrow> eg_verifier eg \<noteq> None)"
proof -
  obtain eg eg0 where eg: "ps_engine ps = Some eg" "booted pg = Inr eg0" "descends pg eg0 eg"
    using main_steps_guarded[OF assms(1)] assms(2) by (auto simp: guarded_listeners_def)
  have "eg_verifier eg \<noteq> None" if "vp_oidc_required (pg_vp pg)"
    using required_verifier[OF eg(2)[unfolded booted_def] that] descends_verifier[OF eg(3)] by fastforce
  then show ?thesis using eg by blast
qed

text \<open>
  Whatever happens in the process (signals, the lock, requests, the reaper, in any order), it
  listens only with an engine that \<open>server.Run\<close> made of the settings without an error; so when
  authentication is required, it never listens without a verifier, and the verifier it has is one that
  requests reach from the configured one.
\<close>

theorem listening_is_guarded:
  assumes "main_steps pg (main_start pg sv) es ps" "ps_listen ps \<noteq> []"
  shows "\<exists>eg0 eg. booted pg = Inr eg0 \<and> ps_engine ps = Some eg \<and> descends pg eg0 eg \<and>
    (vp_oidc_required (pg_vp pg) \<longrightarrow> eg_verifier eg \<noteq> None)"
  by (rule listening_engine[OF assms])

section \<open>The lock\<close>

text \<open>Nothing of \<open>run\<close> has happened yet, and only the backend's world has changed.\<close>

definition untouched :: "('db, ('k, 'q) instance_state) server \<Rightarrow> ('n, 'db, 'k, 'q) main_state \<Rightarrow> bool" where
  "untouched sv ps =
     (ps_run ps = NotRun \<and> \<not> ps_reaping ps \<and> ps_engine ps = None \<and> ps_listen ps = [] \<and> sv_store (ps_server ps) = sv_store sv)"

lemma main_start_locked: "pg_lock pg \<Longrightarrow> untouched sv (main_start pg sv)"
  by (simp add: untouched_def main_start_def Let_def split: option.split sum.split)

lemma untouched_step:
  assumes "main_step pg ps e ps'" "untouched sv ps" "e \<noteq> Acquire"
  shows "untouched sv ps'" and "e \<notin> {ClusterChange, CleanUp} \<Longrightarrow> ps_server ps' = ps_server ps"
  using assms by (cases rule: main_step.cases; auto simp: untouched_def on_kube_def)+

text \<open>
  (C9) With the lock enabled nothing is done before it is acquired: no reaper, no pruning, no
  listener and no request; the database is as at the start, and the cluster is changed by others or
  by the clean-up after a signal only.
\<close>

theorem no_work_before_lock:
  assumes "pg_lock pg" "main_steps pg (main_start pg sv) es ps" "Acquire \<notin> set es"
  shows "ps_run ps = NotRun \<and> \<not> ps_reaping ps \<and> ps_listen ps = [] \<and> sv_store (ps_server ps) = sv_store sv \<and>
    (ClusterChange \<notin> set es \<longrightarrow> CleanUp \<notin> set es \<longrightarrow> ps_server ps = ps_server (main_start pg sv))"
proof -
  have u: "untouched sv ps"
    by (rule main_steps_invariant[where Q = "untouched sv" and Pe = "\<lambda>e. e \<noteq> Acquire", OF assms(2)])
      (use assms(1,3) untouched_step(1) main_start_locked in auto)
  let ?Q = "\<lambda>r. untouched sv r \<and> ps_server r = ps_server (main_start pg sv)"
  have step: "?Q r'" if "main_step pg r e r'" "?Q r" "e \<notin> {Acquire, ClusterChange, CleanUp}" for r e r'
    using untouched_step[OF that(1), of sv] that(2,3) by simp
  have "?Q ps" if "ClusterChange \<notin> set es" "CleanUp \<notin> set es"
    by (rule main_steps_invariant[where Q = ?Q and Pe = "\<lambda>e. e \<notin> {Acquire, ClusterChange, CleanUp}", OF assms(2) _ _ step])
      (use assms(1,3) that main_start_locked in auto)
  then show ?thesis using u by (simp add: untouched_def)
qed

lemma launch_run:
  assumes "pg_db pg = Inr M" "booted pg = Inr eg" "ps_exit s = None" "ps_run s = Starting"
  obtains ps where "main_steps pg s [RunReaper, RunPrune, RunServer] ps" "ps_exit ps = None" "ps_lease ps = ps_lease s"
    "ps_run ps = Serving" "ps_engine ps = Some eg" "ps_listen ps = listeners pg"
proof -
  define s2 where "s2 = run_reaper pg s"
  define s3 where "s3 = run_prune pg s2"
  define s4 where "s4 = run_server pg s3"
  have d: "ps_exit s2 = None" "ps_run s2 = Pruning" "ps_exit s3 = None" "ps_run s3 = Launching"
    using assms by (auto simp: s2_def s3_def part_defs)
  have t2: "main_step pg s RunReaper s2" unfolding s2_def by (rule main_step.reaper[OF assms(3,4)])
  have t3: "main_step pg s2 RunPrune s3" unfolding s3_def by (rule main_step.prune[OF d(1,2)])
  have t4: "main_step pg s3 RunServer s4" unfolding s4_def by (rule main_step.launch[OF d(3,4)])
  have "main_steps pg s ((([] @ [RunReaper]) @ [RunPrune]) @ [RunServer]) s4"
    by (rule main_steps.nil[THEN main_steps.snoc, OF t2, THEN main_steps.snoc, OF t3, THEN main_steps.snoc, OF t4])
  then show ?thesis using assms by (intro that[of s4]) (auto simp: s2_def s3_def s4_def part_defs)
qed

lemma serving_run:
  assumes "pg_lock pg" "pg_kubernetes pg = None" "pg_db pg = Inr M" "booted pg = Inr eg"
    and "getBackend (rl_validators (pg_libs pg)) (pg_decode pg) (pg_globals pg) (pg_vp pg) = Inr bk"
  obtains ps where "main_steps pg (main_start pg sv) [Acquire, RunReaper, RunPrune, RunServer] ps" "ps_exit ps = None"
    "ps_lease ps = Held" "ps_run ps = Serving" "ps_engine ps = Some eg"
    "ps_listen ps = listeners pg"
proof -
  define s0 where "s0 = main_start pg sv"
  have s0: "ps_exit s0 = None" "ps_lease s0 = Waiting" "\<not> ps_cancelled s0"
    using assms(1,2,5) by (simp_all add: s0_def main_start_def Let_def)
  define s1 where "s1 = s0\<lparr>ps_lease := Held, ps_ready := True, ps_run := Starting\<rparr>"
  have "main_step pg s0 Acquire s1" unfolding s1_def by (rule main_step.acquire[OF s0])
  then have a: "main_steps pg s0 ([] @ [Acquire]) s1" by (rule main_steps.snoc[OF main_steps.nil])
  obtain ps where "main_steps pg s1 [RunReaper, RunPrune, RunServer] ps" "ps_exit ps = None" "ps_lease ps = Held" "ps_run ps = Serving"
    "ps_engine ps = Some eg" "ps_listen ps = listeners pg"
    by (rule launch_run[OF assms(3,4), of s1]) (simp_all add: s1_def s0)
  then show ?thesis using that[of ps] main_steps_append[OF _ a] by (simp add: s0_def)
qed

text \<open>Where a server listens while it serves, and once it has served.\<close>

definition settled_run :: "('n, 'db, 'k, 'q) program \<Rightarrow> ('n, 'db, 'k, 'q) main_state \<Rightarrow> bool" where
  "settled_run pg ps = ((ps_run ps \<noteq> NotRun \<longrightarrow> ps_lease ps \<noteq> Waiting) \<and> (ps_run ps = Serving \<longrightarrow> ps_listen ps = listeners pg))"

definition has_served :: "('n, 'db, 'k, 'q) program \<Rightarrow> ('n, 'db, 'k, 'q) main_state \<Rightarrow> bool" where
  "has_served pg ps = (ps_lease ps \<noteq> Waiting \<and>
     (ps_run ps = Serving \<and> ps_listen ps = listeners pg \<or> (\<exists>e. ps_run ps = Returned e) \<and> pg_addr pg \<in> set (ps_listen ps)))"

lemma addr_listed: "pg_addr pg \<in> set (listeners pg)"
  by (simp add: listeners_def)

lemma main_start_settled: "settled_run pg (main_start pg sv)"
  by (simp add: settled_run_def main_start_def Let_def split: option.split sum.split)

lemma main_step_settled: "main_step pg ps e ps' \<Longrightarrow> settled_run pg ps \<Longrightarrow> settled_run pg ps'"
  by (cases rule: main_step.cases) (auto simp: settled_run_def part_defs split: sum.splits)

lemma main_steps_settled: "main_steps pg (main_start pg sv) es ps \<Longrightarrow> settled_run pg ps"
  by (rule main_steps_invariant[where Q = "settled_run pg" and Pe = "\<lambda>_. True"]) (auto intro: main_step_settled main_start_settled)

lemma listens_on:
  "l \<noteq> pg_addr pg \<Longrightarrow> pg_addr pg \<in> set (if pg_socket pg \<noteq> [] then remove1 (pg_socket pg) (remove1 l (listeners pg)) else remove1 l (listeners pg))"
  "pg_addr pg \<in> set (if pg_socket pg \<noteq> [] then remove1 (pg_socket pg) (listeners pg) else listeners pg)"
  by (simp_all add: listeners_def)

lemma main_step_served:
  assumes "main_step pg ps e ps'" "has_served pg ps" "\<forall>x. e \<noteq> ListenError (pg_addr pg) x"
  shows "has_served pg ps'"
  using assms(1)
proof (cases rule: main_step.cases)
  case (listen_error l x)
  then have "ps_listen ps = listeners pg" "l \<noteq> pg_addr pg" "ps_lease ps \<noteq> Waiting" using assms(2,3) by (auto simp: has_served_def)
  then show ?thesis using listen_error(2) listens_on(1)[of l pg] by (cases "pg_socket pg = []") (simp_all add: has_served_def server_returns_def)
next
  case context_done
  then have "ps_listen ps = listeners pg" "ps_lease ps \<noteq> Waiting" using assms(2) by (auto simp: has_served_def)
  then show ?thesis using context_done(2) listens_on(2)[of pg] by (cases "pg_socket pg = []") (simp_all add: has_served_def server_returns_def)
qed (use assms(2) in \<open>simp_all add: has_served_def run_prune_def\<close>)

lemma lease_lost: "main_steps pg ps es ps' \<Longrightarrow> Lose \<in> set es \<Longrightarrow> ps_lease ps' = Lost"
proof (induction rule: main_steps.induct)
  case (snoc ps es ps1 e ps2)
  from snoc(2) show ?case using snoc.IH snoc.prems by (cases rule: main_step.cases) (auto simp: part_defs split: sum.splits)
qed simp

lemma engine_serve_accepted:
  assumes "VersionAliasMiddleware path = None" "route path = Inr a" "eg_router eg = Some cr"
    and "eg_verifier eg = None \<or> (\<exists>i. fst (Middleware (pg_env pg) (pg_parser pg) (eg_verifier eg) authorization) = Some i)"
  shows "\<exists>v. engine_serve pg eg route authorization path sv = Some (fst (serve (api_of pg cr) a sv), v, snd (serve (api_of pg cr) a sv))"
  unfolding engine_serve_def
  using assms by (subst engine_handle.simps) (auto simp: engine_dispatch_def split: prod.splits option.splits)

text \<open>
  (C36) An instance that loses the lock keeps serving: in every run of the process in which the server
  was listening before the lock was lost, it still listens on its TCP address afterwards, as long as
  the process has not ended (on a signal) and the listener itself has not failed. Every request
  whose version prefixes end is still answered, through the same middleware as before, and one that
  is not refused by authentication is still carried out by its handler.
\<close>

theorem lost_lock_still_serves:
  assumes "main_steps pg (main_start pg sv) es0 s" "ps_run s = Serving"
    and "main_steps pg s es ps" "Lose \<in> set es" "ps_exit ps = None" "\<forall>x. ListenError (pg_addr pg) x \<notin> set es"
  shows "ps_lease ps = Lost \<and> pg_addr pg \<in> set (ps_listen ps) \<and>
    (\<exists>eg0 eg. booted pg = Inr eg0 \<and> ps_engine ps = Some eg \<and> descends pg eg0 eg \<and>
      (\<forall>(route :: routing) authorization path. \<not> (\<exists>p. alias_step\<^sup>*\<^sup>* path p \<and> stuck p) \<longrightarrow>
        (\<exists>out v sv'. engine_serve pg eg route authorization path (ps_server ps) = Some (out, v, sv') \<and>
           main_step pg ps (Request authorization path out) (ps\<lparr>ps_engine := Some (eg\<lparr>eg_verifier := v\<rparr>), ps_server := sv'\<rparr>))) \<and>
      (\<forall>(route :: routing) authorization path a cr. VersionAliasMiddleware path = None \<longrightarrow> route path = Inr a \<longrightarrow> eg_router eg = Some cr \<longrightarrow>
        eg_verifier eg = None \<or> (\<exists>i. fst (Middleware (pg_env pg) (pg_parser pg) (eg_verifier eg) authorization) = Some i) \<longrightarrow>
        (\<exists>ps'. main_step pg ps (Request authorization path (fst (serve (api_of pg cr) a (ps_server ps)))) ps' \<and>
           ps_server ps' = snd (serve (api_of pg cr) a (ps_server ps)))))"
proof -
  have run: "main_steps pg (main_start pg sv) (es0 @ es) ps" by (rule main_steps_append[OF assms(3,1)])
  have "has_served pg s" using main_steps_settled[OF assms(1)] assms(2) by (simp add: settled_run_def has_served_def)
  then have "has_served pg ps"
    by (rule main_steps_invariant[where Q = "has_served pg" and Pe = "\<lambda>e. \<forall>x. e \<noteq> ListenError (pg_addr pg) x", OF assms(3)])
      (use assms(6) main_step_served in auto)
  then have l: "pg_addr pg \<in> set (ps_listen ps)" by (auto simp: has_served_def addr_listed)
  then have ne: "ps_listen ps \<noteq> []" by auto
  obtain eg0 eg where eg: "booted pg = Inr eg0" "ps_engine ps = Some eg" "descends pg eg0 eg"
    using listening_engine[OF run ne] by blast
  note step = main_step.request[OF assms(5) ne eg(2)]
  have answered: "\<exists>out v sv'. engine_serve pg eg route authorization path (ps_server ps) = Some (out, v, sv')"
    if "\<not> (\<exists>p. alias_step\<^sup>*\<^sup>* path p \<and> stuck p)" for route authorization path
    using no_answer_stuck that unfolding engine_serve_def by (metis not_Some_eq prod_cases3)
  have carried: "\<exists>ps'. main_step pg ps (Request authorization path (fst (serve (api_of pg cr) a (ps_server ps)))) ps' \<and>
      ps_server ps' = snd (serve (api_of pg cr) a (ps_server ps))"
    if h: "VersionAliasMiddleware path = None" "route path = Inr a" "eg_router eg = Some cr"
      "eg_verifier eg = None \<or> (\<exists>i. fst (Middleware (pg_env pg) (pg_parser pg) (eg_verifier eg) authorization) = Some i)"
    for route :: routing and authorization path a cr
  proof -
    obtain v where "engine_serve pg eg route authorization path (ps_server ps) =
        Some (fst (serve (api_of pg cr) a (ps_server ps)), v, snd (serve (api_of pg cr) a (ps_server ps)))"
      using engine_serve_accepted[of path route a eg cr pg authorization "ps_server ps", OF h] by blast
    from step[OF this] show ?thesis by (intro exI conjI) (assumption, simp)
  qed
  have "\<exists>out v sv'. engine_serve pg eg route authorization path (ps_server ps) = Some (out, v, sv') \<and>
      main_step pg ps (Request authorization path out) (ps\<lparr>ps_engine := Some (eg\<lparr>eg_verifier := v\<rparr>), ps_server := sv'\<rparr>)"
    if h: "\<not> (\<exists>p. alias_step\<^sup>*\<^sup>* path p \<and> stuck p)" for route authorization path
  proof -
    obtain out v sv' where r: "engine_serve pg eg route authorization path (ps_server ps) = Some (out, v, sv')"
      using answered[OF h] by blast
    show ?thesis by (intro exI conjI) (rule r, rule step[OF r])
  qed
  then show ?thesis
    by (intro conjI exI[of _ eg0] exI[of _ eg] allI impI) (rule lease_lost[OF assms(3,4)] l eg carried, assumption?)+
qed

section \<open>The end\<close>

fun sig_of :: "sig_phase \<Rightarrow> int option" where
  "sig_of Listening = None"
| "sig_of (Received n) = Some n"
| "sig_of (Cancelled n) = Some n"
| "sig_of (Cleaned n) = Some n"

lemma main_start_ended:
  "ps_sig (main_start pg sv) = Listening" "ps_lockwait (main_start pg sv) \<Longrightarrow> pg_lock pg"
  "ps_exit (main_start pg sv) = Some c \<Longrightarrow> c = fatal"
  by (auto simp: main_start_def Let_def split: option.splits sum.splits if_splits)

lemma signal_received:
  assumes "main_steps pg ps0 es ps" "ps_sig ps0 = Listening" "sig_of (ps_sig ps) = Some n"
  shows "Signal n \<in> set es"
  using assms
proof (induction rule: main_steps.induct)
  case (snoc ps es ps1 e ps2)
  from snoc(2) show ?case using snoc.IH snoc.prems
    by (cases rule: main_step.cases) (auto simp: part_defs split: sum.splits)
qed simp

text \<open>What is known of a process from how it ended.\<close>

definition ended_ok :: "('n, 'db, 'k, 'q) program \<Rightarrow> ('n, 'db, 'k, 'q) main_state \<Rightarrow> bool" where
  "ended_ok pg ps =
     ((ps_lockwait ps \<longrightarrow> pg_lock pg) \<and> (\<forall>n. ps_sig ps \<in> {Cancelled n, Cleaned n} \<longrightarrow> ps_cancelled ps) \<and>
      (\<forall>c. ps_exit ps = Some c \<longrightarrow> c = fatal \<or> (c = 1 \<and> pg_lock pg) \<or> (\<exists>n. ps_sig ps = Cleaned n \<and> c = 128 + n)))"

lemma main_step_ended: "main_step pg ps e ps' \<Longrightarrow> ended_ok pg ps \<Longrightarrow> ended_ok pg ps'"
  by (cases rule: main_step.cases) (auto simp: ended_ok_def part_defs getExitCode_def split: sum.splits)

lemma main_steps_ended: "main_steps pg (main_start pg sv) es ps \<Longrightarrow> ended_ok pg ps"
proof (rule main_steps_invariant[where Q = "ended_ok pg" and Pe = "\<lambda>_. True"])
  show "ended_ok pg (main_start pg sv)" using main_start_ended[of pg sv] by (auto simp: ended_ok_def)
qed (auto intro: main_step_ended)

lemma cleaned_step:
  assumes "main_step pg ps e ps'" "ps_sig ps' = Cleaned n" "ps_sig ps \<noteq> Cleaned n"
  shows "e = CleanUp \<and> ps_sig ps = Cancelled n"
  using assms by (cases rule: main_step.cases) (auto simp: part_defs split: sum.splits)

lemma cleaned_up:
  assumes "main_steps pg ps0 es ps" "ps_sig ps0 = Listening" "ps_sig ps = Cleaned n"
  shows "\<exists>es1 ps1 ps2 es2. es = es1 @ CleanUp # es2 \<and> main_steps pg ps0 es1 ps1 \<and> ps_sig ps1 = Cancelled n \<and>
    main_step pg ps1 CleanUp ps2 \<and> main_steps pg ps2 es2 ps"
  using assms
proof (induction rule: main_steps.induct)
  case (snoc ps es ps1 e ps2)
  show ?case
  proof (cases "ps_sig ps1 = Cleaned n")
    case True
    then obtain es1 q1 q2 es2 where q: "es = es1 @ CleanUp # es2" "main_steps pg ps es1 q1" "ps_sig q1 = Cancelled n"
      "main_step pg q1 CleanUp q2" "main_steps pg q2 es2 ps1" using snoc.IH snoc.prems(1) by blast
    have "es @ [e] = es1 @ CleanUp # (es2 @ [e])" using q(1) by simp
    then show ?thesis using q(2-4) main_steps.snoc[OF q(5) snoc(2)] by blast
  next
    case False
    then have e: "e = CleanUp" "ps_sig ps1 = Cancelled n" using cleaned_step[OF snoc(2) snoc.prems(2)] by auto
    have "main_step pg ps1 CleanUp ps2" using snoc(2) e(1) by simp
    then show ?thesis using snoc(1) e main_steps.nil[of pg ps2] by blast
  qed
qed simp

fun changes_cluster :: "event \<Rightarrow> bool" where
  "changes_cluster (Request authorization path out) = True"
| "changes_cluster (Reap now) = True"
| "changes_cluster ClusterChange = True"
| "changes_cluster RunPrune = True"
| "changes_cluster CleanUp = True"
| "changes_cluster _ = False"

abbreviation ps_cluster :: "('n, 'db, 'k, 'q) main_state \<Rightarrow> 'k" where
  "ps_cluster ps \<equiv> is_cluster (sv_backend (ps_server ps))"

lemma quiet_step: "main_step pg ps e ps' \<Longrightarrow> \<not> changes_cluster e \<Longrightarrow> ps_cluster ps' = ps_cluster ps"
  by (cases rule: main_step.cases) (auto simp: part_defs split: sum.splits)

lemma quiet_steps:
  assumes "main_steps pg ps es ps'" "\<not> list_ex changes_cluster es"
  shows "ps_cluster ps' = ps_cluster ps"
  using assms by (induction rule: main_steps.induct) (auto dest: quiet_step)

lemma DeleteWithInstanceID_ok:
  assumes "kube_api C objs good" "good k" "selector_value i"
  shows "\<exists>k'. DeleteWithInstanceID C ns i k = (None, k') \<and>
    (\<forall>kd a. a \<in> set (objs k' kd) \<longrightarrow> labelled ns ''testtender.io/instance-id'' i a \<longrightarrow> terminating a) \<and>
    (\<forall>kd a. \<not> labelled ns ''testtender.io/instance-id'' i a \<longrightarrow> a \<in> set (objs k kd) \<longrightarrow> a \<in> set (objs k' kd))"
proof -
  let ?key = "''testtender.io/instance-id''"
  have "CHR ''='' \<notin> set ?key" by simp
  then obtain k' where "delete_three C ns (?key @ ''='' @ i) (Errorf ''failed deleting container %s'' [i]) k = (None, k')"
    "kube_api.shrinks objs (\<lambda>kd a. labelled ns ?key i a) k k'"
    "\<forall>kd. \<forall>b \<in> set (objs k' kd). labelled ns ?key i b \<longrightarrow> terminating b"
    using kube_api.delete_three_ok[OF assms(1,2) _ assms(3)] by blast
  then show ?thesis unfolding DeleteWithInstanceID_def kube_api.shrinks_def[OF assms(1)]
    by (intro exI[of _ k']) simp
qed

text \<open>
  (C10) How the process ends on a signal: its status is 128 and the number of the signal; before it
  ends, the context of the server has been cancelled and the objects of this instance have been
  deleted: with a reachable API server no service, config map or pod with this instance's
  label is left in the namespace that is not being deleted, objects without it are untouched, and
  that stays so until the end unless a request, the reaper or others change the cluster meanwhile.
\<close>

theorem exit_cleans_up:
  assumes "main_steps pg (main_start pg sv) es ps" "ps_exit ps = Some c" "c \<notin> {1, fatal}"
    and "kube_api (pg_client pg) objs good" "selector_value (gl_InstanceID (pg_globals pg))"
  shows "\<exists>n es1 ps1 ps2 es2. c = 128 + n \<and> Signal n \<in> set es1 \<and> es = es1 @ CleanUp # es2 \<and>
    main_steps pg (main_start pg sv) es1 ps1 \<and> ps_cancelled ps1 \<and> main_step pg ps1 CleanUp ps2 \<and> main_steps pg ps2 es2 ps \<and>
    (good (ps_cluster ps1) \<longrightarrow>
      (\<forall>kd a. a \<in> set (objs (ps_cluster ps2) kd) \<longrightarrow>
         labelled (sv_namespace (ps_server ps1)) ''testtender.io/instance-id'' (gl_InstanceID (pg_globals pg)) a \<longrightarrow> terminating a) \<and>
      (\<forall>kd a. \<not> labelled (sv_namespace (ps_server ps1)) ''testtender.io/instance-id'' (gl_InstanceID (pg_globals pg)) a \<longrightarrow>
         a \<in> set (objs (ps_cluster ps1) kd) \<longrightarrow> a \<in> set (objs (ps_cluster ps2) kd))) \<and>
    (\<not> list_ex changes_cluster es2 \<longrightarrow> ps_cluster ps = ps_cluster ps2)"
proof -
  let ?i = "gl_InstanceID (pg_globals pg)"
  obtain n where n: "ps_sig ps = Cleaned n" "c = 128 + n"
    using main_steps_ended[OF assms(1)] assms(2,3) by (auto simp: ended_ok_def)
  obtain es1 ps1 ps2 es2 where h: "es = es1 @ CleanUp # es2" "main_steps pg (main_start pg sv) es1 ps1"
    "ps_sig ps1 = Cancelled n" "main_step pg ps1 CleanUp ps2" "main_steps pg ps2 es2 ps"
    using cleaned_up[OF assms(1) main_start_ended(1) n(1)] by blast
  have s: "Signal n \<in> set es1" by (rule signal_received[OF h(2) main_start_ended(1)]) (simp add: h(3))
  have c: "ps_cancelled ps1" using main_steps_ended[OF h(2)] h(3) by (auto simp: ended_ok_def)
  have k: "ps_cluster ps2 = snd (DeleteWithInstanceID (pg_client pg) (sv_namespace (ps_server ps1)) ?i (ps_cluster ps1))"
    using h(4) by (auto elim!: clean_up_cases simp: on_kube_def)
  have d: "good (ps_cluster ps1) \<longrightarrow>
      (\<forall>kd a. a \<in> set (objs (ps_cluster ps2) kd) \<longrightarrow> labelled (sv_namespace (ps_server ps1)) ''testtender.io/instance-id'' ?i a \<longrightarrow> terminating a) \<and>
      (\<forall>kd a. \<not> labelled (sv_namespace (ps_server ps1)) ''testtender.io/instance-id'' ?i a \<longrightarrow>
         a \<in> set (objs (ps_cluster ps1) kd) \<longrightarrow> a \<in> set (objs (ps_cluster ps2) kd))"
    using DeleteWithInstanceID_ok[OF assms(4) _ assms(5), of "ps_cluster ps1" "sv_namespace (ps_server ps1)"] k by fastforce
  show ?thesis by (intro exI conjI) (use n(2) s h c d quiet_steps[OF h(5)] in auto)
qed

section \<open>An example program\<close>

definition sample_program :: "(string, list_db, list_cluster, string) program" where
  "sample_program = \<lparr>pg_vp = guarded_settings, pg_lock = True, pg_prune = False, pg_reapmax = 3600000000000,
     pg_socket = ''/run/tt.sock'', pg_addr = '':2475'', pg_kubernetes = None, pg_decode = (\<lambda>f. Inl (ExtError f)),
     pg_globals = \<lparr>gl_DefaultLabels = [], gl_DefaultAnnotations = [], gl_InstanceID = ''0a1b2c3d4e5f''\<rparr>,
     pg_libs = sample_libs, pg_env = sample_env, pg_parser = sample_parser, pg_http = (\<lambda>f. None), pg_open = (\<lambda>f. Inl (ExtError f)), pg_db = Inr list_memdb,
     pg_deploy = cluster_deploy, pg_client = list_client, pg_images = (\<lambda>n. Inr []),
     pg_files = \<lparr>fo_ExecContainer = (\<lambda>c ex w. (0, None, w)), fo_CopyToContainer = (\<lambda>c p z w. (None, w)),
       fo_CopyFromContainer = (\<lambda>c p w. (Inr [], w)), fo_FileExistsInContainer = (\<lambda>c p w. (Inr True, w)),
       fo_GetFileModeInContainer = (\<lambda>c p w. (Inr 0, w)), fo_GetLogs = (\<lambda>c opts w. None)\<rparr>,
     pg_archive = (\<lambda>b. Inr ([], None)), pg_tar_size = (\<lambda>p. Inr 0), pg_arch = ''amd64''\<rparr>"

lemma sample_boot:
  obtains eg where "booted sample_program = Inr eg"
proof -
  have "vp_policy_file guarded_settings = []" "vp_allowed_secrets guarded_settings = vp_allowed_secrets sample_settings"
    by (simp_all add: guarded_settings_def sample_settings_def)
  then show ?thesis using that
    by (simp add: booted_def sample_program_def server_Run_def LoadFile_def TrimSpace_def TrimRightFunc_def sample_libs_def
        sample_secrets guarded_auth getGinEngine_def)
qed

lemma sample_main_backend:
  obtains bk where "getBackend (rl_validators (pg_libs sample_program)) (pg_decode sample_program) (pg_globals sample_program)
    (pg_vp sample_program) = Inr bk"
proof -
  have "vp_pod_template guarded_settings = []" "vp_allowed_secrets guarded_settings = vp_allowed_secrets sample_settings"
    by (simp_all add: guarded_settings_def sample_settings_def)
  then show ?thesis using that by (simp add: getBackend_def backend_New_def sample_program_def sample_libs_def sample_secrets)
qed

lemma sample_waits:
  "ps_exit (main_start sample_program sample_world) = None" "ps_sig (main_start sample_program sample_world) = Listening"
  "ps_cluster (main_start sample_program sample_world) = sample_cluster"
proof -
  obtain bk where bk: "getBackend (rl_validators (pg_libs sample_program)) (pg_decode sample_program) (pg_globals sample_program)
    (pg_vp sample_program) = Inr bk" by (rule sample_main_backend)
  have "pg_kubernetes sample_program = None" "pg_lock sample_program" by (simp_all add: sample_program_def)
  then show "ps_exit (main_start sample_program sample_world) = None" "ps_sig (main_start sample_program sample_world) = Listening"
    "ps_cluster (main_start sample_program sample_world) = sample_cluster"
    using bk by (simp_all add: main_start_def Let_def sample_world_def)
qed

text \<open>The sample instance starts, acquires the lock and loses it; a request with a token is still answered.\<close>

theorem lost_lock_still_serves_witness:
  "\<exists>es0 s ps ps' out. main_steps sample_program (main_start sample_program sample_world) es0 s \<and> ps_run s = Serving \<and>
     main_steps sample_program s [Lose, ContextDone] ps \<and> ps_lease ps = Lost \<and> '':2475'' \<in> set (ps_listen ps) \<and>
     main_step sample_program ps (Request [''bearer tok''] ''/v1.41/_ping'' out) ps'"
proof -
  obtain eg where eg: "booted sample_program = Inr eg" by (rule sample_boot)
  obtain bk where bk: "getBackend (rl_validators (pg_libs sample_program)) (pg_decode sample_program) (pg_globals sample_program)
    (pg_vp sample_program) = Inr bk" by (rule sample_main_backend)
  have f: "pg_lock sample_program" "pg_kubernetes sample_program = None" "pg_db sample_program = Inr list_memdb" "pg_addr sample_program = '':2475''"
    by (simp_all add: sample_program_def)
  obtain s where s: "main_steps sample_program (main_start sample_program sample_world) [Acquire, RunReaper, RunPrune, RunServer] s"
    "ps_exit s = None" "ps_lease s = Held" "ps_run s = Serving" by (rule serving_run[OF f(1-3) eg bk, of sample_world])
  define s1 where "s1 = s\<lparr>ps_lease := Lost, ps_cancelled := True\<rparr>"
  define s2 where "s2 = server_returns sample_program None s1"
  have "main_step sample_program s Lose s1" unfolding s1_def by (rule main_step.lose[OF s(2,3)])
  moreover have "main_step sample_program s1 ContextDone s2" unfolding s2_def by (rule main_step.context_done) (simp_all add: s1_def s)
  ultimately have run: "main_steps sample_program s (([] @ [Lose]) @ [ContextDone]) s2" by (blast intro: main_steps.intros)
  have x: "ps_exit s2 = None" using s(2) by (simp add: s2_def s1_def server_returns_def)
  have al: "VersionAliasMiddleware ''/v1.41/_ping'' = Some ''/_ping''" "VersionAliasMiddleware ''/_ping'' = None" by code_simp+
  have "p \<in> {''/v1.41/_ping'', ''/_ping''}" if "alias_step\<^sup>*\<^sup>* ''/v1.41/_ping'' p" for p
    using that by (induction rule: rtranclp_induct) (use al in \<open>auto simp: alias_step_def\<close>)
  moreover have "\<not> stuck ''/v1.41/_ping''" "\<not> stuck ''/_ping''" by (simp_all add: stuck_def HasPrefix_def is_digit_def code_def)
  ultimately have "\<not> (\<exists>p. alias_step\<^sup>*\<^sup>* ''/v1.41/_ping'' p \<and> stuck p)" by blast
  note loops = this
  have "Lose \<in> set (([] @ [Lose]) @ [ContextDone])" "\<forall>x. ListenError (pg_addr sample_program) x \<notin> set (([] @ [Lose]) @ [ContextDone])" by simp_all
  note after = lost_lock_still_serves[OF s(1,4) run this(1) x this(2)]
  have "\<exists>out ps'. main_step sample_program s2 (Request [''bearer tok''] ''/v1.41/_ping'' out) ps'"
  proof -
    obtain eg where "\<forall>(route :: routing) authorization path. \<not> (\<exists>p. alias_step\<^sup>*\<^sup>* path p \<and> stuck p) \<longrightarrow>
        (\<exists>out v sv'. engine_serve sample_program eg route authorization path (ps_server s2) = Some (out, v, sv') \<and>
           main_step sample_program s2 (Request authorization path out) (s2\<lparr>ps_engine := Some (eg\<lparr>eg_verifier := v\<rparr>), ps_server := sv'\<rparr>))"
      using after[THEN conjunct2, THEN conjunct2] by (elim exE conjE) assumption
    from this[rule_format, OF loops] show ?thesis by blast
  qed
  then show ?thesis using after[THEN conjunct1] after[THEN conjunct2, THEN conjunct1] s(1,4) run f(4) by fastforce
qed

theorem listening_is_guarded_witness:
  "\<exists>es ps eg. main_steps sample_program (main_start sample_program sample_world) es ps \<and> ps_listen ps = ['':2475'', ''/run/tt.sock''] \<and>
     ps_engine ps = Some eg \<and> eg_verifier eg \<noteq> None"
proof -
  obtain eg where eg: "booted sample_program = Inr eg" by (rule sample_boot)
  obtain bk where bk: "getBackend (rl_validators (pg_libs sample_program)) (pg_decode sample_program) (pg_globals sample_program)
    (pg_vp sample_program) = Inr bk" by (rule sample_main_backend)
  have f: "pg_lock sample_program" "pg_kubernetes sample_program = None" "pg_db sample_program = Inr list_memdb"
    "pg_addr sample_program = '':2475''" "pg_socket sample_program = ''/run/tt.sock''" "vp_oidc_required (pg_vp sample_program)"
    by (simp_all add: sample_program_def guarded_settings_def)
  obtain ps where ps: "main_steps sample_program (main_start sample_program sample_world) [Acquire, RunReaper, RunPrune, RunServer] ps"
    "ps_listen ps = ['':2475'', ''/run/tt.sock'']"
    by (rule serving_run[OF f(1-3) eg bk, of sample_world]) (simp add: listeners_def f(4,5))
  show ?thesis using listening_is_guarded[OF ps(1)] ps f(6) by auto
qed

text \<open>A termination signal while the process waits for the lock.\<close>

definition signalled :: "(string, list_db, list_cluster, string) main_state" where
  "signalled = (main_start sample_program sample_world)\<lparr>ps_sig := Received 15\<rparr>"

lemma sample_signal: "main_steps sample_program (main_start sample_program sample_world) [Signal 15] signalled"
  using main_steps.snoc[OF main_steps.nil main_step.signal[of "main_start sample_program sample_world" 15 sample_program]] sample_waits
  by (simp add: signalled_def)

theorem no_work_before_lock_witness:
  "ps_listen signalled = [] \<and> ps_server signalled = ps_server (main_start sample_program sample_world)"
  using no_work_before_lock[OF _ sample_signal] by (simp add: sample_program_def)

theorem exit_cleans_up_witness:
  "\<exists>es ps ps1 ps2 es2. main_steps sample_program (main_start sample_program sample_world) es ps \<and> ps_exit ps = Some 143 \<and>
     main_step sample_program ps1 CleanUp ps2 \<and> main_steps sample_program ps2 es2 ps"
proof -
  let ?P = sample_program
  define s2 where "s2 = signalled\<lparr>ps_sig := Cancelled 15, ps_cancelled := True\<rparr>"
  obtain s3 where s3: "main_step ?P s2 CleanUp s3" "ps_exit s3 = None" "ps_sig s3 = Cleaned 15"
    using main_step.clean_up[of s2 15 ?P] sample_waits by (auto simp: s2_def signalled_def)
  define s4 where "s4 = s3\<lparr>ps_exit := Some (getExitCode (Some 15))\<rparr>"
  have "main_step ?P signalled CancelAll s2" unfolding s2_def
    by (rule main_step.cancel) (simp_all add: signalled_def sample_waits)
  moreover have "main_step ?P s3 ExitNow s4" unfolding s4_def by (rule main_step.exit[OF s3(2,3)])
  ultimately have run: "main_steps ?P (main_start ?P sample_world) ((([Signal 15] @ [CancelAll]) @ [CleanUp]) @ [ExitNow]) s4"
    using sample_signal s3(1) main_steps.snoc by blast
  have x: "ps_exit s4 = Some 143" by (simp add: s4_def getExitCode_def)
  have "(143 :: int) \<notin> {1, fatal}" by (simp add: fatal_def)
  moreover have "kube_api (pg_client ?P) cluster_objs cluster_good" using cluster.kube_api_axioms by (simp add: sample_program_def)
  moreover have "selector_value (gl_InstanceID (pg_globals ?P))"
    by (simp add: sample_program_def selector_value_def byte_class_defs code_def)
  ultimately show ?thesis using exit_cleans_up[OF run x] run x by blast
qed

end
