(* ===== verification/CommandLine.thy ===== *)
theory CommandLine
  imports Process
begin

text \<open>
  The command line of the server (\<open>cmd/server.go\<close>): the flags with their defaults, the settings
  they are bound to, the environment variables, and how the program reads the settings.

  The settings library is a parameter: a record with its typed getters. What the program relies on
  is the documented precedence (a flag given on the command line, else a variable of the
  environment that is not empty, else the default of the flag), in the locale
  \<open>settings_library\<close>.
\<close>

section \<open>Declarations\<close>

datatype 'f setting = Str string | Bool bool | Dur duration | I64 int | Num int | F32 'f | F64 'f

text \<open>The flags with their defaults: \<open>ns\<close> is \<open>getContextNamespace()\<close>, \<open>img\<close> the image of the build.\<close>

definition server_flags :: "string \<Rightarrow> string \<Rightarrow> (string \<times> 'f::zero setting) list" where
  "server_flags ns img = [
     (''listen-addr'', Str '':2475''), (''unix-socket'', Str []),
     (''tls-enable'', Bool False), (''tls-key-file'', Str []),
     (''tls-cert-file'', Str []), (''oidc-required'', Bool False),
     (''oidc-issuer'', Str []), (''oidc-discovery-url'', Str []),
     (''oidc-audience'', Str []), (''oidc-allowed-subjects'', Str []),
     (''oidc-allowed-namespaces'', Str []), (''oidc-ca-file'', Str []),
     (''oidc-http-timeout'', Dur 10000000000), (''oidc-jwks-refresh-interval'', Dur 900000000000),
     (''oidc-clock-skew'', Dur 30000000000), (''namespace'', Str ns),
     (''initimage'', Str img), (''pull-policy'', Str ''ifnotpresent''),
     (''service-account'', Str ''default''), (''image-pull-secrets'', Str []),
     (''allowed-secrets'', Str []), (''pod-template'', Str []),
     (''pod-name-prefix'', Str ''testtender''), (''inspector'', Bool False),
     (''image-policy-file'', Str []), (''timeout'', Dur 60000000000),
     (''reapmax'', Dur 3600000000000), (''request-cpu'', Str []),
     (''request-memory'', Str []), (''request-ephemeral-storage'', Str []),
     (''node-selector'', Str []), (''active-deadline-seconds'', I64 (-1)),
     (''runas-user'', Str []), (''lock'', Bool False),
     (''lock-timeout'', Dur 900000000000), (''verbosity'', Str ''1''),
     (''prune-start'', Bool False), (''port-forward'', Bool False),
     (''reverse-proxy'', Bool False), (''pre-archive'', Bool False),
     (''disable-services'', Bool False), (''ignore-container-memory'', Bool False),
     (''kube-api-qps'', F32 0), (''kube-api-burst'', Num 0),
     (''poll-rate'', F64 0), (''poll-burst'', Num 0)]"

text \<open>The home directory and the flag that names the Kubernetes configuration.\<close>

definition homeDir :: "(string \<Rightarrow> string) \<Rightarrow> string" where
  "homeDir getenv = (if getenv ''HOME'' \<noteq> [] then getenv ''HOME'' else getenv ''USERPROFILE'')"

definition kubeconfig_flag :: "string \<Rightarrow> string \<times> 'f setting" where
  "kubeconfig_flag home = (''kubeconfig'', if home \<noteq> [] then Str (path_Clean (home @ ''/.kube/config'')) else Str [])"

text \<open>Settings and the flags they are bound to.\<close>

definition bound_flags :: "(string \<times> string) list" where
  "bound_flags = [
     (''server.listen-addr'', ''listen-addr''), (''server.socket'', ''unix-socket''),
     (''server.tls-enable'', ''tls-enable''), (''server.tls-cert-file'', ''tls-cert-file''),
     (''server.tls-key-file'', ''tls-key-file''), (''oidc.required'', ''oidc-required''),
     (''oidc.issuer'', ''oidc-issuer''), (''oidc.discovery-url'', ''oidc-discovery-url''),
     (''oidc.audience'', ''oidc-audience''), (''oidc.allowed-subjects'', ''oidc-allowed-subjects''),
     (''oidc.allowed-namespaces'', ''oidc-allowed-namespaces''), (''oidc.ca-file'', ''oidc-ca-file''),
     (''oidc.http-timeout'', ''oidc-http-timeout''), (''oidc.jwks-refresh-interval'', ''oidc-jwks-refresh-interval''),
     (''oidc.clock-skew'', ''oidc-clock-skew''), (''kubernetes.namespace'', ''namespace''),
     (''kubernetes.initimage'', ''initimage''), (''kubernetes.pull-policy'', ''pull-policy''),
     (''kubernetes.service-account'', ''service-account''), (''kubernetes.image-pull-secrets'', ''image-pull-secrets''),
     (''kubernetes.allowed-secrets'', ''allowed-secrets''), (''kubernetes.pod-template'', ''pod-template''),
     (''kubernetes.pod-name-prefix'', ''pod-name-prefix''), (''kubernetes.timeout'', ''timeout''),
     (''kubernetes.request-cpu'', ''request-cpu''), (''kubernetes.request-memory'', ''request-memory''),
     (''kubernetes.request-ephemeral-storage'', ''request-ephemeral-storage''), (''kubernetes.node-selector'', ''node-selector''),
     (''kubernetes.active-deadline-seconds'', ''active-deadline-seconds''), (''kubernetes.runas-user'', ''runas-user''),
     (''registry.inspector'', ''inspector''), (''registry.policy-file'', ''image-policy-file''),
     (''reaper.reapmax'', ''reapmax''), (''lock.enabled'', ''lock''),
     (''lock.timeout'', ''lock-timeout''), (''verbosity'', ''verbosity''),
     (''prune-start'', ''prune-start''), (''port-forward'', ''port-forward''),
     (''reverse-proxy'', ''reverse-proxy''), (''pre-archive'', ''pre-archive''),
     (''disable-services'', ''disable-services''), (''ignore-container-memory'', ''ignore-container-memory''),
     (''kubernetes.qps'', ''kube-api-qps''), (''kubernetes.burst'', ''kube-api-burst''),
     (''server.poll-rate'', ''poll-rate''), (''server.poll-burst'', ''poll-burst''),
     (''kubernetes.kubeconfig'', ''kubeconfig'')]"

text \<open>Settings and the variables of the environment they are bound to.\<close>

definition bound_env :: "(string \<times> string) list" where
  "bound_env = [
     (''server.listen-addr'', ''SERVER_LISTEN_ADDR''), (''server.tls-enable'', ''SERVER_TLS_ENABLE''),
     (''server.tls-cert-file'', ''SERVER_TLS_CERT_FILE''), (''server.tls-key-file'', ''SERVER_TLS_KEY_FILE''),
     (''oidc.required'', ''OIDC_REQUIRED''), (''oidc.issuer'', ''OIDC_ISSUER''),
     (''oidc.discovery-url'', ''OIDC_DISCOVERY_URL''), (''oidc.audience'', ''OIDC_AUDIENCE''),
     (''oidc.allowed-subjects'', ''OIDC_ALLOWED_SUBJECTS''), (''oidc.allowed-namespaces'', ''OIDC_ALLOWED_NAMESPACES''),
     (''oidc.ca-file'', ''OIDC_CA_FILE''), (''oidc.http-timeout'', ''OIDC_HTTP_TIMEOUT''),
     (''oidc.jwks-refresh-interval'', ''OIDC_JWKS_REFRESH_INTERVAL''), (''oidc.clock-skew'', ''OIDC_CLOCK_SKEW''),
     (''kubernetes.namespace'', ''NAMESPACE''), (''kubernetes.initimage'', ''INIT_IMAGE''),
     (''kubernetes.pull-policy'', ''PULL_POLICY''), (''kubernetes.service-account'', ''SERVICE_ACCOUNT''),
     (''kubernetes.image-pull-secrets'', ''IMAGE_PULL_SECRETS''), (''kubernetes.allowed-secrets'', ''ALLOWED_SECRETS''),
     (''kubernetes.pod-template'', ''POD_TEMPLATE''), (''kubernetes.pod-name-prefix'', ''POD_NAME_PREFIX''),
     (''kubernetes.timeout'', ''TIME_OUT''), (''kubernetes.request-cpu'', ''K8S_REQUEST_CPU''),
     (''kubernetes.request-memory'', ''K8S_REQUEST_MEMORY''), (''kubernetes.request-ephemeral-storage'', ''K8S_REQUEST_EPHEMERAL_STORAGE''),
     (''kubernetes.node-selector'', ''K8S_NODE_SELECTOR''), (''kubernetes.active-deadline-seconds'', ''K8S_ACTIVE_DEADLINE_SECONDS''),
     (''kubernetes.runas-user'', ''K8S_RUNAS_USER''), (''registry.policy-file'', ''IMAGE_POLICY_FILE''),
     (''kubernetes.timeout'', ''TIME_OUT''), (''reaper.reapmax'', ''REAPER_REAPMAX''),
     (''verbosity'', ''VERBOSITY''), (''kubernetes.qps'', ''K8S_QPS''),
     (''kubernetes.burst'', ''K8S_BURST''), (''server.poll-rate'', ''POLL_RATE''),
     (''server.poll-burst'', ''POLL_BURST'')]"

definition declared :: "string \<Rightarrow> string \<Rightarrow> string \<Rightarrow> (string \<times> 'f::zero setting) list" where
  "declared ns img home = server_flags ns img @ [kubeconfig_flag home]"

text \<open>Each setting has one flag, each variable of the environment one setting, and none is bound in vain.\<close>

lemma declared_names: "map fst (declared ns img home) = map fst (declared [] [] [] :: (string \<times> int setting) list)"
  by (simp add: declared_def server_flags_def kubeconfig_flag_def)

lemma declarations_distinct:
  "distinct (map fst (declared [] [] [] :: (string \<times> int setting) list))" "distinct (map fst bound_flags)" "distinct (map snd bound_flags)"
  "list_all (\<lambda>(key, e). map_of bound_flags key \<noteq> None) bound_env" "distinct (map snd (remdups bound_env))"
  "set (map snd bound_flags) = set (map fst (declared [] [] [] :: (string \<times> int setting) list))"
  by code_simp+

section \<open>Values\<close>

text \<open>
  The start of the program: the declared flags, the flags given on the command line, the
  environment, and the value that the typed getters make of the text of a variable, given the default
  of its flag.
\<close>

record 'f invocation =
  iv_flags :: "(string \<times> 'f setting) list"
  iv_given :: "string \<Rightarrow> 'f setting option"
  iv_env :: "string \<Rightarrow> string"
  iv_parse :: "'f setting \<Rightarrow> string \<Rightarrow> 'f setting"

definition effective :: "'f invocation \<Rightarrow> string \<Rightarrow> 'f setting option" where
  "effective iv key = (case map_of bound_flags key of
     None \<Rightarrow> None
   | Some fl \<Rightarrow> (case map_of (iv_flags iv) fl of
       None \<Rightarrow> None
     | Some dflt \<Rightarrow> (case iv_given iv fl of
         Some v \<Rightarrow> Some v
       | None \<Rightarrow> (case map_of bound_env key of
           Some e \<Rightarrow> if iv_env iv e \<noteq> [] then Some (iv_parse iv dflt (iv_env iv e)) else Some dflt
         | None \<Rightarrow> Some dflt))))"

record 'f viper =
  vi_String :: "string \<Rightarrow> string"
  vi_Bool :: "string \<Rightarrow> bool"
  vi_Duration :: "string \<Rightarrow> duration"
  vi_Int64 :: "string \<Rightarrow> int"
  vi_Int :: "string \<Rightarrow> int"
  vi_Float64 :: "string \<Rightarrow> 'f"

locale settings_library =
  fixes iv :: "'f invocation" and vi :: "'f viper"
  assumes string_read: "effective iv key = Some (Str s) \<Longrightarrow> vi_String vi key = s"
    and bool_read: "effective iv key = Some (Bool b) \<Longrightarrow> vi_Bool vi key = b"
    and duration_read: "effective iv key = Some (Dur d) \<Longrightarrow> vi_Duration vi key = d"
    and int64_read: "effective iv key = Some (I64 n) \<Longrightarrow> vi_Int64 vi key = n"
    and int_read: "effective iv key = Some (Num n) \<Longrightarrow> vi_Int vi key = n"
    and float_read: "effective iv key = Some (F32 x) \<or> effective iv key = Some (F64 x) \<Longrightarrow> vi_Float64 vi key = x"
begin

lemmas library_reads = string_read bool_read duration_read int64_read int_read

text \<open>A variable of the environment takes effect unless its flag is given.\<close>

lemma env_bool:
  assumes "map_of bound_flags key = Some fl" "map_of (iv_flags iv) fl = Some dflt" "iv_given iv fl = None"
    and "map_of bound_env key = Some e" "iv_env iv e \<noteq> []" "iv_parse iv dflt (iv_env iv e) = Bool b"
  shows "vi_Bool vi key = b"
  by (rule bool_read) (simp add: effective_def assms)

end

section \<open>Reading\<close>

text \<open>
  What each function reads. The settings do not change while the program runs, so it makes no
  difference when they are read.
\<close>

text \<open>\<open>getBackend\<close>:\<close>

definition backend_settings :: "'f viper \<Rightarrow> settings \<Rightarrow> settings" where
  "backend_settings vi vp = vp\<lparr>
     vp_namespace := vi_String vi ''kubernetes.namespace'', vp_initimage := vi_String vi ''kubernetes.initimage'',
     vp_timeout := vi_Duration vi ''kubernetes.timeout'', vp_pod_template := vi_String vi ''kubernetes.pod-template'',
     vp_image_pull_secrets := vi_String vi ''kubernetes.image-pull-secrets'',
     vp_allowed_secrets := vi_String vi ''kubernetes.allowed-secrets'', vp_disable_services := vi_Bool vi ''disable-services''\<rparr>"

text \<open>\<open>Server.Run\<close>, for the policies and the verifier:\<close>

definition server_settings :: "'f viper \<Rightarrow> settings \<Rightarrow> settings" where
  "server_settings vi vp = vp\<lparr>
     vp_policy_file := vi_String vi ''registry.policy-file'', vp_allowed_secrets := vi_String vi ''kubernetes.allowed-secrets'',
     vp_oidc_allowed_subjects := vi_String vi ''oidc.allowed-subjects'',
     vp_oidc_allowed_namespaces := vi_String vi ''oidc.allowed-namespaces'', vp_oidc_required := vi_Bool vi ''oidc.required'',
     vp_oidc_issuer := vi_String vi ''oidc.issuer'', vp_oidc_discovery_url := vi_String vi ''oidc.discovery-url'',
     vp_oidc_audience := vi_String vi ''oidc.audience'', vp_oidc_ca_file := vi_String vi ''oidc.ca-file'',
     vp_oidc_http_timeout := vi_Duration vi ''oidc.http-timeout'',
     vp_oidc_refresh_interval := vi_Duration vi ''oidc.jwks-refresh-interval'',
     vp_oidc_clock_skew := vi_Duration vi ''oidc.clock-skew''\<rparr>"

text \<open>\<open>getGinEngine\<close>:\<close>

definition engine_settings :: "'f viper \<Rightarrow> settings \<Rightarrow> settings" where
  "engine_settings vi vp = vp\<lparr>
     vp_inspector := vi_Bool vi ''registry.inspector'', vp_port_forward := vi_Bool vi ''port-forward'',
     vp_reverse_proxy := vi_Bool vi ''reverse-proxy'', vp_pre_archive := vi_Bool vi ''pre-archive'',
     vp_request_cpu := vi_String vi ''kubernetes.request-cpu'', vp_request_memory := vi_String vi ''kubernetes.request-memory'',
     vp_request_ephemeral_storage := vi_String vi ''kubernetes.request-ephemeral-storage'',
     vp_runas_user := vi_String vi ''kubernetes.runas-user'', vp_node_selector := vi_String vi ''kubernetes.node-selector'',
     vp_pull_policy := vi_String vi ''kubernetes.pull-policy'', vp_service_account := vi_String vi ''kubernetes.service-account'',
     vp_pod_name_prefix := vi_String vi ''kubernetes.pod-name-prefix'',
     vp_active_deadline_seconds := vi_Int64 vi ''kubernetes.active-deadline-seconds'',
     vp_ignore_container_memory := vi_Bool vi ''ignore-container-memory''\<rparr>"

text \<open>\<open>Main\<close>, \<open>run\<close>, and \<open>Server.Run\<close> for its listeners:\<close>

definition lock_settings :: "'f viper \<Rightarrow> ('n, 'db, 'k, 'q) program \<Rightarrow> ('n, 'db, 'k, 'q) program" where
  "lock_settings vi pg = pg\<lparr>pg_lock := vi_Bool vi ''lock.enabled''\<rparr>"

definition run_settings :: "'f viper \<Rightarrow> ('n, 'db, 'k, 'q) program \<Rightarrow> ('n, 'db, 'k, 'q) program" where
  "run_settings vi pg = pg\<lparr>pg_reapmax := vi_Duration vi ''reaper.reapmax'', pg_prune := vi_Bool vi ''prune-start''\<rparr>"

definition listen_settings :: "'f viper \<Rightarrow> ('n, 'db, 'k, 'q) program \<Rightarrow> ('n, 'db, 'k, 'q) program" where
  "listen_settings vi pg = pg\<lparr>pg_socket := vi_String vi ''server.socket'', pg_addr := vi_String vi ''server.listen-addr''\<rparr>"

text \<open>The program with everything it reads.\<close>

definition read_settings :: "'f viper \<Rightarrow> settings \<Rightarrow> settings" where
  "read_settings vi vp = engine_settings vi (server_settings vi (backend_settings vi vp))"

definition with_settings :: "'f viper \<Rightarrow> ('n, 'db, 'k, 'q) program \<Rightarrow> ('n, 'db, 'k, 'q) program" where
  "with_settings vi pg = listen_settings vi (run_settings vi (lock_settings vi (pg\<lparr>pg_vp := read_settings vi (pg_vp pg)\<rparr>)))"

lemmas settings_defs = read_settings_def backend_settings_def server_settings_def engine_settings_def
  with_settings_def lock_settings_def run_settings_def listen_settings_def

text \<open>The \<open>server\<close> command: annotations and labels first, then \<open>Main\<close>.\<close>

definition server_program ::
  "'f viper \<Rightarrow> string list \<Rightarrow> string list \<Rightarrow> string list \<Rightarrow> ('n, 'db, 'k, 'q) program \<Rightarrow> ('n, 'db, 'k, 'q) program" where
  "server_program vi environ annotations labels pg =
     (with_settings vi pg)\<lparr>pg_globals := addDefaultLabels environ labels (addDefaultAnnotations environ annotations (pg_globals pg))\<rparr>"

definition serverCmd ::
  "'f viper \<Rightarrow> string list \<Rightarrow> string list \<Rightarrow> string list \<Rightarrow> ('n, 'db, 'k, 'q) program \<Rightarrow>
   ('db, ('k, 'q) instance_state) server \<Rightarrow> ('n, 'db, 'k, 'q) main_state" where
  "serverCmd vi environ annotations labels pg sv = main_start (server_program vi environ annotations labels pg) sv"

section \<open>A library for the examples\<close>

definition plain_viper :: "'f::zero invocation \<Rightarrow> 'f viper" where
  "plain_viper iv = \<lparr>
     vi_String = (\<lambda>key. case effective iv key of Some (Str s) \<Rightarrow> s | _ \<Rightarrow> []),
     vi_Bool = (\<lambda>key. case effective iv key of Some (Bool b) \<Rightarrow> b | _ \<Rightarrow> False),
     vi_Duration = (\<lambda>key. case effective iv key of Some (Dur d) \<Rightarrow> d | _ \<Rightarrow> 0),
     vi_Int64 = (\<lambda>key. case effective iv key of Some (I64 n) \<Rightarrow> n | _ \<Rightarrow> 0),
     vi_Int = (\<lambda>key. case effective iv key of Some (Num n) \<Rightarrow> n | _ \<Rightarrow> 0),
     vi_Float64 = (\<lambda>key. case effective iv key of Some (F32 x) \<Rightarrow> x | Some (F64 x) \<Rightarrow> x | _ \<Rightarrow> 0)\<rparr>"

interpretation plain: settings_library iv "plain_viper iv" for iv
  by unfold_locales (auto simp: plain_viper_def)

text \<open>Texts and switches are read; the other flags keep their defaults.\<close>

definition sample_parse :: "int setting \<Rightarrow> string \<Rightarrow> int setting" where
  "sample_parse dflt s = (case dflt of Str _ \<Rightarrow> Str s | Bool _ \<Rightarrow> Bool (s = ''true'') | _ \<Rightarrow> dflt)"

section \<open>From the environment to the listener\<close>

lemma required_flag: "map_of bound_flags ''oidc.required'' = Some ''oidc-required''" "map_of bound_env ''oidc.required'' = Some ''OIDC_REQUIRED''"
  by code_simp+

lemma required_default: "map_of (declared ns img home) ''oidc-required'' = Some (Bool False)"
  by (simp add: declared_def server_flags_def)

text \<open>
  (C13) The variable \<open>OIDC_REQUIRED\<close> is enough: when it is set to a true value and the flag is not
  given, the process never listens without a verifier, whatever else is configured and whatever
  happens while it runs.
\<close>

theorem required_by_environment:
  assumes "settings_library iv vi" "iv_flags iv = declared ns img home" "iv_given iv ''oidc-required'' = None"
    and "iv_env iv ''OIDC_REQUIRED'' \<noteq> []" "iv_parse iv (Bool False) (iv_env iv ''OIDC_REQUIRED'') = Bool True"
    and "main_steps (server_program vi environ annotations labels pg) (serverCmd vi environ annotations labels pg sv) es ps"
    and "ps_listen ps \<noteq> []"
  shows "\<exists>eg. ps_engine ps = Some eg \<and> eg_verifier eg \<noteq> None"
proof -
  have "vi_Bool vi ''oidc.required'' = True"
    by (rule settings_library.env_bool[OF assms(1) required_flag(1) _ assms(3) required_flag(2) assms(4,5)]) (simp add: assms(2) required_default)
  then have "vp_oidc_required (pg_vp (server_program vi environ annotations labels pg))"
    by (simp add: server_program_def settings_defs)
  then show ?thesis using listening_engine[OF assms(6)[unfolded serverCmd_def] assms(7)] by blast
qed

definition guarded_invocation :: "int invocation" where
  "guarded_invocation = \<lparr>iv_flags = declared ''default'' ''tt:1'' ''/root'',
     iv_given = map_of [(''oidc-http-timeout'', Dur 0), (''oidc-jwks-refresh-interval'', Dur 0), (''oidc-clock-skew'', Dur 0),
       (''allowed-secrets'', Str ''db, tls'')],
     iv_env = (\<lambda>e. case map_of [(''OIDC_REQUIRED'', ''true''), (''OIDC_ISSUER'', '' https://issuer/''), (''OIDC_AUDIENCE'', ''testtender''),
       (''OIDC_ALLOWED_NAMESPACES'', ''ci, ci '')] e of Some s \<Rightarrow> s | None \<Rightarrow> []),
     iv_parse = sample_parse\<rparr>"

abbreviation guarded_program :: "(string, list_db, list_cluster, string) program" where
  "guarded_program \<equiv> server_program (plain_viper guarded_invocation) [] [] [] sample_program"

lemma guarded_current:
  "effective guarded_invocation ''oidc.required'' = Some (Bool True)"
  "effective guarded_invocation ''oidc.issuer'' = Some (Str '' https://issuer/'')"
  "effective guarded_invocation ''oidc.discovery-url'' = Some (Str [])"
  "effective guarded_invocation ''oidc.audience'' = Some (Str ''testtender'')"
  "effective guarded_invocation ''oidc.allowed-subjects'' = Some (Str [])"
  "effective guarded_invocation ''oidc.allowed-namespaces'' = Some (Str ''ci, ci '')"
  "effective guarded_invocation ''oidc.ca-file'' = Some (Str [])"
  "effective guarded_invocation ''oidc.http-timeout'' = Some (Dur 0)"
  "effective guarded_invocation ''oidc.jwks-refresh-interval'' = Some (Dur 0)"
  "effective guarded_invocation ''oidc.clock-skew'' = Some (Dur 0)"
  "effective guarded_invocation ''registry.policy-file'' = Some (Str [])"
  "effective guarded_invocation ''kubernetes.allowed-secrets'' = Some (Str ''db, tls'')"
  "effective guarded_invocation ''kubernetes.pod-template'' = Some (Str [])"
  "effective guarded_invocation ''lock.enabled'' = Some (Bool False)"
  "effective guarded_invocation ''server.listen-addr'' = Some (Str '':2475'')"
  by code_simp+

lemma guarded_reads:
  "oidc_config (read_settings (plain_viper guarded_invocation) vp) = oidc_config guarded_settings"
  "vp_policy_file (read_settings (plain_viper guarded_invocation) vp) = []"
  "vp_allowed_secrets (read_settings (plain_viper guarded_invocation) vp) = vp_allowed_secrets sample_settings"
  "vp_pod_template (read_settings (plain_viper guarded_invocation) vp) = []"
  "vi_Bool (plain_viper guarded_invocation) ''lock.enabled'' = False"
  "vi_String (plain_viper guarded_invocation) ''server.listen-addr'' = '':2475''"
  by (simp_all add: settings_defs plain_viper_def guarded_current oidc_config_def guarded_settings_def sample_settings_def)

theorem required_by_environment_witness:
  "\<exists>es ps eg. main_steps guarded_program (serverCmd (plain_viper guarded_invocation) [] [] [] sample_program sample_world) es ps \<and>
     '':2475'' \<in> set (ps_listen ps) \<and> ps_engine ps = Some eg \<and> eg_verifier eg \<noteq> None"
proof -
  let ?vi = "plain_viper guarded_invocation" and ?pg = guarded_program
  have f: "pg_vp ?pg = read_settings ?vi (pg_vp sample_program)" "\<not> pg_lock ?pg" "pg_addr ?pg = '':2475''" "pg_kubernetes ?pg = None" "pg_db ?pg = Inr list_memdb"
    "pg_libs ?pg = sample_libs" "pg_env ?pg = sample_env" "pg_http ?pg = (\<lambda>f. None)" "pg_decode ?pg = (\<lambda>f. Inl (ExtError f))"
    by (simp_all add: server_program_def settings_defs sample_program_def guarded_reads(5,6))
  obtain eg where eg: "booted ?pg = Inr eg"
    by (simp add: booted_def f server_Run_def LoadFile_def guarded_reads TrimSpace_def TrimRightFunc_def sample_libs_def
        sample_secrets guarded_auth getGinEngine_def)
  define s0 where "s0 = serverCmd ?vi [] [] [] sample_program sample_world"
  have "ps_exit s0 = None" "ps_run s0 = Starting"
    by (simp_all add: s0_def serverCmd_def main_start_def Let_def f getBackend_def backend_New_def guarded_reads sample_libs_def sample_secrets)
  then obtain ps where ps: "main_steps ?pg s0 [RunReaper, RunPrune, RunServer] ps" "'':2475'' \<in> set (ps_listen ps)"
    using launch_run[OF f(5) eg, of s0] f(3) by (metis addr_listed)
  have "iv_flags guarded_invocation = declared ''default'' ''tt:1'' ''/root''" "iv_given guarded_invocation ''oidc-required'' = None"
    "iv_env guarded_invocation ''OIDC_REQUIRED'' \<noteq> []"
    "iv_parse guarded_invocation (Bool False) (iv_env guarded_invocation ''OIDC_REQUIRED'') = Bool True"
    by (simp_all add: guarded_invocation_def sample_parse_def)
  from required_by_environment[OF plain.settings_library_axioms this, of "[]" "[]" "[]" sample_program sample_world] ps
  show ?thesis unfolding s0_def by fastforce
qed

end
