(* ===== verification/Concurrency.thy ===== *)
theory Concurrency
  imports Isolation
begin

text \<open>
  Starting a container is not atomic: \<open>common.StartContainer\<close> waits for the pod, then for the ports
  (with reverse proxies several seconds), and saves the container last, all without a lock. Here a
  start runs in three parts, and any other request may come between them. The container is a pointer:
  each part works on the object as it is then.
\<close>

section \<open>A start in parts\<close>

datatype start_phase = Deploying | Exposing deploy_state | Recording deploy_state | Finished "error option"

text \<open>The parts: the backend, the host address and the ports, the flags and the database.\<close>

fun start_part ::
  "('n, 'db, 'w) router \<Rightarrow> moment \<Rightarrow> container \<Rightarrow> start_phase \<Rightarrow> ('db, 'w) server \<Rightarrow> start_phase \<times> ('db, 'w) server" where
  "start_part cr mo c Deploying sv =
     (case bo_StartContainer (cr_Backend cr) c (sv_backend sv) of
        (state, Some e, c1, w1) \<Rightarrow> (Finished (Some e), put_container c1 (sv\<lparr>sv_backend := w1\<rparr>))
      | (state, None, c1, w1) \<Rightarrow> (Exposing state, put_container c1 (sv\<lparr>sv_backend := w1\<rparr>)))"
| "start_part cr mo c (Exposing state) sv =
     (case expose_ports cr c (sv_backend sv) of
        (Some e, c1, w1) \<Rightarrow> (Finished (Some e), put_container c1 (sv\<lparr>sv_backend := w1\<rparr>))
      | (None, c1, w1) \<Rightarrow> (Recording state, put_container c1 (sv\<lparr>sv_backend := w1\<rparr>)))"
| "start_part cr mo c (Recording state) sv =
     (case save_container cr mo (settle state (mo_now mo) c) sv of (c1, e, sv1) \<Rightarrow> (Finished e, sv1))"
| "start_part cr mo c (Finished e) sv = (Finished e, sv)"

text \<open>The starts in progress, each with the identifier of its container, and the server.\<close>

type_synonym ('db, 'w) conc = "(string \<times> start_phase) list \<times> ('db, 'w) server"

inductive conc_step :: "('n, 'db, 'w) api \<Rightarrow> ('db, 'w) conc \<Rightarrow> ('db, 'w) conc \<Rightarrow> bool" for ap where
  begin_start: "GetContainer (cr_DB (ap_router ap)) (sv_store sv) i = Inr c \<Longrightarrow> \<not> co_Running c \<Longrightarrow> \<not> co_Completed c \<Longrightarrow>
    conc_step ap (ts, sv) (ts @ [(co_ID c, Deploying)], sv)"
| run_part: "n < length ts \<Longrightarrow> ts ! n = (i, ph) \<Longrightarrow> hp sv i = Some c \<Longrightarrow> start_part (ap_router ap) mo c ph sv = (ph', sv') \<Longrightarrow>
    conc_step ap (ts, sv) (ts[n := (i, ph')], sv')"
| other: "action_ok sv a \<Longrightarrow> serve ap a sv = (out, sv') \<Longrightarrow> conc_step ap (ts, sv) (ts, sv')"
| cluster: "conc_step ap (ts, sv) (ts, sv\<lparr>sv_backend := w\<rparr>)"

inductive conc_reachable :: "('n, 'db, 'w) api \<Rightarrow> ('db, 'w) conc \<Rightarrow> bool" for ap where
  initial: "st_containers (sv_store sv) = [] \<Longrightarrow> conc_reachable ap ([], sv)"
| step: "conc_reachable ap s \<Longrightarrow> conc_step ap s s' \<Longrightarrow> conc_reachable ap s'"

section \<open>Undisturbed starts\<close>

fun run_parts ::
  "('n, 'db, 'w) router \<Rightarrow> moment \<Rightarrow> string \<Rightarrow> nat \<Rightarrow> start_phase \<times> ('db, 'w) server \<Rightarrow> start_phase \<times> ('db, 'w) server" where
  "run_parts cr mo i 0 s = s"
| "run_parts cr mo i (Suc n) (ph, sv) =
     (case hp sv i of None \<Rightarrow> (ph, sv) | Some c \<Rightarrow> run_parts cr mo i n (start_part cr mo c ph sv))"

lemma put_hp: "hp (put_container c sv) = (hp sv)(co_ID c \<mapsto> c)"
  by simp

lemma save_put:
  assumes "co_ID c' = co_ID c" "co_ID c' \<noteq> []"
  shows "save_container cr mo c' (put_container c sv) = save_container cr mo c' sv"
  using assms by (simp add: save_container_def put_container_def SaveContainer_def init_container_def Let_def)

lemma put_put:
  "co_ID c' = co_ID c \<Longrightarrow> put_container c' ((put_container c sv)\<lparr>sv_backend := w\<rparr>) = put_container c' (sv\<lparr>sv_backend := w\<rparr>)"
  by (simp add: put_container_def)

lemma put_backend: "(put_container c sv)\<lparr>sv_backend := w\<rparr> = put_container c (sv\<lparr>sv_backend := w\<rparr>)"
  by (simp add: put_container_def)

text \<open>
  The parts of a start in a row, with nothing in between, do what the start does at once: the
  handlers' atomic \<open>StartContainer\<close> is the undisturbed run of the parts.
\<close>

theorem start_parts_sequential:
  assumes be: "container_backend (cr_Backend cr)" and at: "hp sv (co_ID c) = Some c" "co_ID c \<noteq> []"
    and run: "common_StartContainer cr mo c sv = (c', e, sv')"
  shows "run_parts cr mo (co_ID c) 3 (Deploying, sv) = (Finished e, sv') \<and> hp sv' (co_ID c) = Some c'"
proof -
  obtain state err c1 w1 where s: "bo_StartContainer (cr_Backend cr) c (sv_backend sv) = (state, err, c1, w1)" by (metis prod_cases4)
  have i1: "co_ID c1 = co_ID c" by (rule spec_ID[OF container_backend.start_spec[OF be s]])
  let ?sv1 = "put_container c1 (sv\<lparr>sv_backend := w1\<rparr>)"
  show ?thesis
  proof (cases err)
    case (Some er)
    then show ?thesis using s at run i1 by (auto simp: common_StartContainer_def numeral_3_eq_3)
  next
    case None
    obtain e2 c2 w2 where x: "expose_ports cr c1 w1 = (e2, c2, w2)" by (metis prod_cases3)
    have i2: "co_ID c2 = co_ID c1" by (rule expose_ports_ID[OF be x])
    let ?sv2 = "put_container c2 (sv\<lparr>sv_backend := w2\<rparr>)"
    have p2: "put_container c2 (?sv1\<lparr>sv_backend := w2\<rparr>) = ?sv2" using i2 by (simp add: put_put)
    have b1: "sv_backend ?sv1 = w1" by simp
    have h: "hp ?sv1 (co_ID c) = Some c1" "hp ?sv2 (co_ID c) = Some c2" using i1 i2 by simp_all
    show ?thesis
    proof (cases e2)
      case (Some er)
      then show ?thesis using s None x at run i1 i2 h p2 b1 by (auto simp: common_StartContainer_def numeral_3_eq_3)
    next
      case e2: None
      have "save_container cr mo (settle state (mo_now mo) c2) ?sv2 = (c', e, sv')"
        using run s None x e2 save_put[of "settle state (mo_now mo) c2" c2 cr mo "sv\<lparr>sv_backend := w2\<rparr>"] at i1 i2
        by (simp add: common_StartContainer_def)
      moreover have "c' = settle state (mo_now mo) c2 \<and> hp sv' (co_ID c) = Some c'"
        using save_container_hp[OF calculation] at i1 i2 by auto
      ultimately show ?thesis using s None x e2 at h p2 b1 by (simp add: numeral_3_eq_3)
    qed
  qed
qed

section \<open>Policies under interleaving\<close>

definition conc_ok :: "('n, 'db, 'w) router \<Rightarrow> ('db, 'w) server \<Rightarrow> bool" where
  "conc_ok cr sv = (heap_ok sv \<and> (\<forall>i c. hp sv i = Some c \<longrightarrow> admitted cr c))"

lemma conc_ok_upd:
  assumes "conc_ok cr sv" "hp sv i = Some c" "core_of c' = core_of c" "hp sv' = (hp sv)(co_ID c' \<mapsto> c')"
  shows "conc_ok cr sv'"
proof -
  have i: "co_ID c = i" "i \<noteq> []" "admitted cr c" using assms(1,2) by (auto simp: conc_ok_def heap_ok_def)
  then have "co_ID c' = i" "admitted cr c'" using assms(3) admitted_core[OF assms(3), of cr] by (simp_all add: core_of_def)
  then show ?thesis using assms(1,4) i(2) by (auto simp: conc_ok_def heap_ok_def)
qed

lemma fair_conc_ok:
  assumes "conc_ok cr sv" "fair_step cr sv sv'"
  shows "conc_ok cr sv'"
proof -
  have h: "heap_ok sv'" using assms fair_heap_ok by (auto simp: conc_ok_def)
  from assms(2) consider "keeps sv sv'" | i c where "newborn cr c" "hp sv' = (hp sv)(i \<mapsto> c)" by (auto simp: fair_step_def)
  then have "admitted cr c'" if c': "hp sv' i = Some c'" for i c'
  proof cases
    case 1
    obtain c where "hp sv i = Some c" "grows c c'" using keeps_from[OF 1 c'] by blast
    then show ?thesis using assms(1) admitted_grows[of c c' cr] by (simp add: conc_ok_def)
  next
    case 2
    then show ?thesis using c' assms(1) by (auto simp: conc_ok_def newborn_def split: if_splits)
  qed
  with h show ?thesis by (simp add: conc_ok_def)
qed

lemma expose_ports_core:
  assumes "container_backend (cr_Backend cr)" "expose_ports cr c w = (e, c1, w1)"
  shows "core_of c1 = core_of c"
proof -
  have "core_of c1 = core_of c" if "bo_CreatePortForwards (cr_Backend cr) (c\<lparr>co_HostIP := x\<rparr>) w = (c1, w1)" for x
    using spec_of_sel(1)[OF container_backend.forwards_spec[OF assms(1) that]] by (simp add: core_of_def)
  moreover have "core_of c1 = core_of c" if "bo_CreateReverseProxies (cr_Backend cr) (c\<lparr>co_HostIP := x\<rparr>) w = (c1, w1)" for x
    using spec_of_sel(1)[OF container_backend.proxies_spec[OF assms(1) that]] by (simp add: core_of_def)
  moreover have "core_of (c\<lparr>co_HostIP := x\<rparr>) = core_of c" for x by (simp add: core_of_def)
  ultimately show ?thesis using assms(2) by (auto simp: expose_ports_def Let_def split: if_splits sum.splits)
qed

lemma settle_core [simp]: "core_of (settle state now c) = core_of c"
  by (simp add: settle_def core_of_def Let_def)

lemma start_part_ok:
  assumes be: "container_backend (cr_Backend cr)" and ok: "conc_ok cr sv" and at: "hp sv i = Some c"
    and run: "start_part cr mo c ph sv = (ph', sv')"
  shows "conc_ok cr sv'"
proof (cases ph)
  case Deploying
  obtain state err c1 w1 where s: "bo_StartContainer (cr_Backend cr) c (sv_backend sv) = (state, err, c1, w1)" by (metis prod_cases4)
  have "hp sv' = (hp sv)(co_ID c1 \<mapsto> c1)" using run s Deploying by (cases err) auto
  then show ?thesis by (rule conc_ok_upd[OF ok at spec_of_sel(1)[OF container_backend.start_spec[OF be s]]])
next
  case (Exposing state)
  obtain e2 c2 w2 where x: "expose_ports cr c (sv_backend sv) = (e2, c2, w2)" by (metis prod_cases3)
  have "hp sv' = (hp sv)(co_ID c2 \<mapsto> c2)" using run x Exposing by (cases e2) auto
  then show ?thesis by (rule conc_ok_upd[OF ok at expose_ports_core[OF be x]])
next
  case (Recording state)
  obtain c1 e sv1 where s: "save_container cr mo (settle state (mo_now mo) c) sv = (c1, e, sv1)" by (metis prod_cases3)
  have ne: "co_ID (settle state (mo_now mo) c) \<noteq> []" using ok at by (auto simp: conc_ok_def heap_ok_def)
  have "hp sv' = (hp sv)(co_ID (settle state (mo_now mo) c) \<mapsto> settle state (mo_now mo) c)"
    using save_container_hp(2)[OF s ne] run s Recording by simp
  then show ?thesis by (rule conc_ok_upd[OF ok at settle_core])
qed (use run ok in simp)

lemma conc_step_ok:
  assumes "container_backend (cr_Backend (ap_router ap))" "conc_step ap s s'" "conc_ok (ap_router ap) (snd s)"
  shows "conc_ok (ap_router ap) (snd s')"
  using assms(2,3)
proof cases
  case (run_part n ts i ph sv c mo ph' sv')
  then show ?thesis using start_part_ok[OF assms(1)] assms(3) by auto
next
  case (other sv a out sv' ts)
  then have "fair_step (ap_router ap) sv sv'" using serve_fair[OF assms(1), of sv a] assms(3) by (simp add: conc_ok_def)
  then show ?thesis using other assms(3) fair_conc_ok by auto
next
  case (cluster ts sv w)
  then show ?thesis using assms(3) by (simp add: conc_ok_def heap_ok_def)
qed (use assms(3) in simp)

text \<open>
  (C5) The policies hold under concurrency: when starts of containers run in parts, several at a time
  and with any requests between the parts, every container the server knows in any state that is
  reached still runs an image the policy gave out, has passed the Docker-socket and Secret checks and
  carries the configured service account.
\<close>

theorem interleaved_admitted:
  assumes "container_backend (cr_Backend (ap_router ap))" "conc_reachable ap (ts, sv)" "hp sv i = Some c"
  shows "co_ID c = i \<and> admitted (ap_router ap) c"
proof -
  have "conc_ok (ap_router ap) (snd s)" if "conc_reachable ap s" for s
    using that
  proof (induction rule: conc_reachable.induct)
    case (initial sv)
    then show ?case by (simp add: conc_ok_def heap_ok_def hp_def)
  next
    case (step s s')
    then show ?case using conc_step_ok[OF assms(1)] by blast
  qed
  from this[OF assms(2)] assms(3) show ?thesis by (auto simp: conc_ok_def heap_ok_def)
qed

section \<open>Starts and deletes\<close>

lemma co_key_cong: "co_ID c' = co_ID c \<Longrightarrow> co_ShortID c' = co_ShortID c \<Longrightarrow> co_Name c' = co_Name c \<Longrightarrow> co_key c' = co_key c"
  by (simp add: co_key_def)

lemma settle_key [simp]: "co_key (settle state now c) = co_key c"
  by (simp add: settle_def co_key_def Let_def)

text \<open>An object of the heap may change in place as long as it keeps its keys.\<close>

lemma containers_ok_put:
  assumes "containers_ok rows st" "stored rows st c" "co_key c' = co_key c"
    and "set (rows (st_db st') TContainer) = set (rows (st_db st) TContainer)" "map_get (st_containers st') = (map_get (st_containers st))(co_ID c' \<mapsto> c')"
  shows "containers_ok rows st'" and "stored rows st' c'"
proof -
  have i: "co_ID c' = co_ID c" using assms(3) by (simp add: co_key_def)
  show "stored rows st' c'" using assms(2-5) by (simp add: stored_def)
  have "\<exists>r. map_get (st_containers st') (fst k) = Some r \<and> co_key r = k" if k: "k \<in> set (rows (st_db st) TContainer)" for k
  proof (cases "fst k = co_ID c'")
    case True
    obtain r where r: "map_get (st_containers st) (fst k) = Some r" "co_key r = k" using containers_row(3)[OF assms(1) k] by blast
    then have "r = c" using assms(2) True i by (simp add: stored_def)
    then show ?thesis using r True assms(3,5) by auto
  qed (use containers_row(3)[OF assms(1) k] assms(5) in auto)
  then show "containers_ok rows st'" using assms(1,4) by (simp add: containers_ok_def table_ok_def)
qed

text \<open>A delete that answers 204 has taken the row of the container and nothing else away.\<close>

lemma docker_delete_row:
  assumes M: "memdb_table (cr_DB cr) rows" and ok: "containers_ok rows (sv_store sv)"
    and co: "GetContainerByNameOrID (cr_DB cr) (sv_store sv) n = Inr c" "stored rows (sv_store sv) c"
    and run: "docker_ContainerDelete cr mo n sv = (Reply 204 b, sv')"
  obtains c1 where "co_key c1 = co_key c" "hp sv' = (hp sv)(co_ID c \<mapsto> c1)"
    "set (rows (st_db (sv_store sv')) TContainer) = set (rows (st_db (sv_store sv)) TContainer) - {co_key c}"
proof -
  obtain c1 sv1 where sg: "signal_both c sv = (c1, sv1)" by force
  have c1: "co_key c1 = co_key c" "co_ID c1 = co_ID c"
    using sg by (auto simp: signal_both_def SignalDetach_def SignalStop_def co_key_def)
  have sv1: "st_db (sv_store sv1) = st_db (sv_store sv)"
    "map_get (st_containers (sv_store sv1)) = (map_get (st_containers (sv_store sv)))(co_ID c1 \<mapsto> c1)"
    using sg by (auto simp: signal_both_def SignalDetach_def SignalStop_def put_container_def fun_eq_iff)
  have "set (rows (st_db (sv_store sv1)) TContainer) = set (rows (st_db (sv_store sv)) TContainer)" using sv1(1) by simp
  note put = containers_ok_put[OF ok co(2) c1(1) this sv1(2)]
  let ?k = "\<lambda>c1 sv1. case db_DeleteContainer (cr_DB cr) c1 (sv_store sv1) of
      (Some e, st) \<Rightarrow> (httputil_Error 404 e, sv1\<lparr>sv_store := st\<rparr>)
    | (None, st) \<Rightarrow> (Reply 204 NoBody, sv1\<lparr>sv_store := st\<rparr>)"
  have del: "delete_then cr mo c ?k sv = (Reply 204 b, sv')" using run co(1) by (simp add: docker_ContainerDelete_def)
  have "\<exists>sv2. sv_store sv2 = sv_store sv1 \<and> ?k c1 sv2 = (Reply 204 b, sv')"
  proof (cases "\<not> co_Stopped c1 \<and> \<not> co_Killed c1")
    case True
    let ?sv = "backend_delete cr c1 sv1"
    obtain obs ok where p: "Publish (mo_now mo) (co_ID c1) ''container'' ''die'' (sv_events ?sv) = (obs, ok)" by force
    have "?k c1 (?sv\<lparr>sv_events := obs\<rparr>) = (Reply 204 b, sv')"
      using del sg True p by (cases ok) (simp_all add: delete_then_def publish_then_def)
    then show ?thesis by (intro exI[of _ "?sv\<lparr>sv_events := obs\<rparr>"]) (simp add: backend_delete_def)
  qed (use del sg in \<open>auto simp: delete_then_def\<close>)
  then obtain sv2 where s2: "sv_store sv2 = sv_store sv1" "?k c1 sv2 = (Reply 204 b, sv')" by blast
  obtain e st where d: "db_DeleteContainer (cr_DB cr) c1 (sv_store sv1) = (e, st)" by force
  have sv': "sv' = sv2\<lparr>sv_store := st\<rparr>" using s2 d by (cases e) simp_all
  note gone = memdb_table.DeleteContainer_gone[OF M put d]
  have "hp sv' = (hp sv)(co_ID c \<mapsto> c1)" using sv' gone(3) sv1(2) c1(2) by (simp add: hp_def)
  moreover have "set (rows (st_db (sv_store sv')) TContainer) = set (rows (st_db (sv_store sv)) TContainer) - {co_key c}"
    using gone(4) sv' sv1(1) c1(1) by simp
  ultimately show ?thesis using that c1(1) by blast
qed

lemma record_again:
  assumes M: "memdb_table (cr_DB cr) rows" and ok: "containers_ok rows st0" "stored rows st0 c"
    and c': "co_key c' = co_key c"
    and st: "set (rows (st_db (sv_store sv)) TContainer) = set (rows (st_db st0) TContainer) - {co_key c}"
      "map_get (st_containers (sv_store sv)) = (map_get (st_containers st0))(co_ID c \<mapsto> c1)"
  obtains sv' where "save_container cr mo c' sv = (c', None, sv')" "GetContainer (cr_DB cr) (sv_store sv') (co_ID c) = Inr c'"
proof -
  let ?rs = "set (rows (st_db st0) TContainer)"
  have k: "co_key c \<in> ?rs" using ok(2) by (simp add: stored_def)
  have i: "co_ID c' = co_ID c" "co_ShortID c' = co_ShortID c" using c' by (simp_all add: co_key_def)
  have ne: "co_ID c \<noteq> []" "co_ShortID c \<noteq> []"
    using stored_row(1)[OF ok] memdb_table.GetContainer_by_short(1)[OF M ok] by (auto simp: random_id_def IsShortID_def)
  let ?st1 = "(sv_store sv)\<lparr>st_containers := map_set (co_ID c') c' (st_containers (sv_store sv))\<rparr>"
  have "row_ok TContainer (co_key c')" using ne i by (simp add: row_ok_def co_key_def)
  moreover have "\<forall>k' \<in> set (rows (st_db ?st1) TContainer). key_conflict TContainer (co_key c') k' \<longrightarrow> k' = co_key c'"
    using memdb_table.container_unique[OF M ok(1) k] st(1) c' by (auto simp: key_conflict_container)
  ultimately obtain d where d: "db_save (cr_DB cr) TContainer (co_key c') ?st1 = (None, ?st1\<lparr>st_db := d\<rparr>)"
    "set (rows d TContainer) = insert (co_key c') (set (rows (st_db ?st1) TContainer))"
    by (rule memdb_table.save_ok[OF M]) blast
  let ?sv' = "sv\<lparr>sv_store := ?st1\<lparr>st_db := d\<rparr>\<rparr>"
  have sv: "save_container cr mo c' sv = (c', None, ?sv')"
    using d(1) ne i by (simp add: save_container_def SaveContainer_def init_container_def)
  have "set (rows (st_db (sv_store ?sv')) TContainer) = ?rs" using d(2) st(1) c' k by auto
  moreover have "map_get (st_containers (sv_store ?sv')) = (map_get (st_containers st0))(co_ID c' \<mapsto> c')"
    using st(2) i by (simp add: fun_eq_iff)
  ultimately have "containers_ok rows (sv_store ?sv')" "stored rows (sv_store ?sv') c'"
    using containers_ok_put[OF ok c'] by blast+
  from memdb_table.GetContainer_by_id[OF M this] sv that i show ?thesis by simp
qed

text \<open>
  (C35) A deleted container can come back: when a delete request is answered while a start of the
  same container waits for its last part (its pod is ready, the ports are being exposed), the row of
  the container is gone, and whenever the start goes on, it succeeds, puts the container into the
  database again and reports it as running.
\<close>

theorem deleted_container_returns:
  assumes "memdb_table (cr_DB (ap_router ap)) rows" "containers_ok rows (sv_store sv)" "stored rows (sv_store sv) c"
    and "GetContainerByNameOrID (cr_DB (ap_router ap)) (sv_store sv) n = Inr c"
    and "serve ap (DockerDelete mo n) sv = (Reply 204 b, sv1)"
  shows "co_key c \<notin> set (rows (st_db (sv_store sv1)) TContainer) \<and>
    (\<exists>c1. hp sv1 (co_ID c) = Some c1 \<and>
      (\<forall>mo'. \<exists>c2 sv2. start_part (ap_router ap) mo' c1 (Recording DeployRunning) sv1 = (Finished None, sv2) \<and>
        GetContainer (cr_DB (ap_router ap)) (sv_store sv2) (co_ID c) = Inr c2 \<and> co_Running c2))"
proof -
  have "docker_ContainerDelete (ap_router ap) mo n sv = (Reply 204 b, sv1)" using assms(5) by simp
  then obtain c1 where c1: "co_key c1 = co_key c" "hp sv1 = (hp sv)(co_ID c \<mapsto> c1)"
    "set (rows (st_db (sv_store sv1)) TContainer) = set (rows (st_db (sv_store sv)) TContainer) - {co_key c}"
    by (rule docker_delete_row[OF assms(1,2,4,3)])
  have "\<exists>c2 sv2. start_part (ap_router ap) mo' c1 (Recording DeployRunning) sv1 = (Finished None, sv2) \<and>
      GetContainer (cr_DB (ap_router ap)) (sv_store sv2) (co_ID c) = Inr c2 \<and> co_Running c2" for mo'
  proof -
    let ?c2 = "settle DeployRunning (mo_now mo') c1"
    have k: "co_key ?c2 = co_key c" using c1(1) by simp
    have h: "map_get (st_containers (sv_store sv1)) = (map_get (st_containers (sv_store sv)))(co_ID c \<mapsto> c1)"
      using c1(2) by (simp add: hp_def)
    obtain sv2 where "save_container (ap_router ap) mo' ?c2 sv1 = (?c2, None, sv2)"
      "GetContainer (cr_DB (ap_router ap)) (sv_store sv2) (co_ID c) = Inr ?c2"
      by (rule record_again[OF assms(1-3) k c1(3) h])
    moreover have "co_Running ?c2" by (simp add: settle_def Let_def)
    ultimately show ?thesis by (intro exI[of _ ?c2] exI[of _ sv2]) simp
  qed
  then show ?thesis using c1(2,3) by simp
qed

section \<open>Examples\<close>

lemma stored_ok: "containers_ok list_rows (sv_store stored_world)" "stored list_rows (sv_store stored_world) stored_container"
proof -
  have "random_id sample_id" "TruncateID sample_id = co_ShortID stored_container" by code_simp+
  then show "containers_ok list_rows (sv_store stored_world)"
    by (simp add: containers_ok_def table_ok_def stored_world_def sample_world_def empty_store_def list_rows_def co_key_def stored_container_def)
  show "stored list_rows (sv_store stored_world) stored_container"
    by (simp add: stored_def stored_world_def sample_world_def empty_store_def list_rows_def) (simp add: stored_container_def)
qed

lemma stored_deleted: "fst (serve cluster_api (DockerDelete sample_moment sample_id) stored_world) = Reply 204 NoBody"
  by code_simp

theorem deleted_container_returns_witness:
  "\<exists>sv1 c1 c2 sv2. serve cluster_api (DockerDelete sample_moment sample_id) stored_world = (Reply 204 NoBody, sv1) \<and>
     start_part (ap_router cluster_api) sample_moment c1 (Recording DeployRunning) sv1 = (Finished None, sv2) \<and>
     GetContainer list_memdb (sv_store sv2) sample_id = Inr c2 \<and> co_Running c2"
proof -
  obtain sv1 where s: "serve cluster_api (DockerDelete sample_moment sample_id) stored_world = (Reply 204 NoBody, sv1)"
    using stored_deleted by (metis prod.collapse)
  have d: "cr_DB (ap_router cluster_api) = list_memdb" by (simp add: cluster_api_def)
  have g: "GetContainerByNameOrID list_memdb (sv_store stored_world) sample_id = Inr stored_container" by code_simp
  have i: "co_ID stored_container = sample_id" by (simp add: stored_container_def)
  from deleted_container_returns[of cluster_api list_rows stored_world stored_container sample_id sample_moment NoBody sv1]
  show ?thesis using s stored_ok g listdb.memdb_table_axioms unfolding d i by blast
qed

lemma sample_ready:
  "case GetContainer list_memdb (sv_store (snd (serve sample_api sample_create sample_server))) sample_id of
     Inl e \<Rightarrow> False | Inr c \<Rightarrow> co_ID c = sample_id \<and> \<not> co_Running c \<and> \<not> co_Completed c"
  by code_simp

text \<open>A state in which a start is in progress.\<close>

theorem interleaved_admitted_witness:
  "\<exists>sv c. conc_reachable sample_api ([(sample_id, Deploying)], sv) \<and> hp sv sample_id = Some c \<and> admitted sample_router c"
proof -
  let ?sv = "snd (serve sample_api sample_create sample_server)"
  obtain c where c: "GetContainer (cr_DB (ap_router sample_api)) (sv_store ?sv) sample_id = Inr c" "co_ID c = sample_id" "\<not> co_Running c" "\<not> co_Completed c"
    using sample_ready by (auto simp: sample_api_def sample_router_def split: sum.splits)
  have "conc_reachable sample_api ([], sample_server)" by (rule conc_reachable.initial) (simp add: sample_server_def empty_store_def)
  moreover have "conc_step sample_api ([], sample_server) ([], ?sv)" using conc_step.other[OF sample_action_ok] by (metis prod.collapse)
  moreover have "conc_step sample_api ([], ?sv) ([(sample_id, Deploying)], ?sv)"
    using conc_step.begin_start[OF c(1,3,4), of "[]"] c(2) by simp
  ultimately have r: "conc_reachable sample_api ([(sample_id, Deploying)], ?sv)" by (blast intro: conc_reachable.step)
  have "heap_ok ?sv"
    using reachable_invariant[OF _ sample_api_backend] reachable.request[OF sample_start sample_action_ok] by (metis prod.collapse)
  then have "hp ?sv sample_id = Some c" using GetContainer_heap[OF _ c(1)] c(2) by simp
  with interleaved_admitted[OF sample_api_backend r this] r show ?thesis by (auto simp: sample_api_def)
qed

text \<open>The parts of a start, on the stored container.\<close>

theorem start_parts_sequential_witness:
  "\<exists>c' e sv'. common_StartContainer (ap_router cluster_api) sample_moment stored_container stored_world = (c', e, sv') \<and>
     run_parts (ap_router cluster_api) sample_moment sample_id 3 (Deploying, stored_world) = (Finished e, sv') \<and> hp sv' sample_id = Some c'"
proof -
  obtain c' e sv' where r: "common_StartContainer (ap_router cluster_api) sample_moment stored_container stored_world = (c', e, sv')"
    by (metis prod_cases3)
  have b: "container_backend (cr_Backend (ap_router cluster_api))"
    using inst.container_backend_axioms by (simp add: cluster_api_def)
  have i: "co_ID stored_container = sample_id" by (simp add: stored_container_def)
  have "hp stored_world sample_id = Some stored_container" "sample_id \<noteq> []"
    by (simp_all add: hp_def stored_world_def sample_id_def)
  then show ?thesis using start_parts_sequential[OF b _ _ r] r i by auto
qed

end
