(* ===== verification/Consistency.thy ===== *)
theory Consistency
  imports Concurrency
begin

text \<open>
  The table of containers and the containers themselves stay consistent under every request but the
  renaming of a container, and a request leaves the lookups of all other containers as they are. The
  laws of the table library are those of the theory Database, with the one that an operation on one
  table leaves the others alone; the lemmas on the handlers are proved under them.
\<close>

section \<open>New identifiers\<close>

text \<open>A random identifier whose first twelve characters no container in the table has.\<close>

definition fresh_id :: "('db \<Rightarrow> table \<Rightarrow> dbkey list) \<Rightarrow> 'db store \<Rightarrow> string \<Rightarrow> bool" where
  "fresh_id rows st i = (random_id i \<and> (\<forall>k \<in> set (rows (st_db st) TContainer). fst (snd k) \<noteq> TruncateID i))"

section \<open>Creating\<close>

lemma docker_create_stores:
  "snd (docker_ContainerCreate cr mo dat q sv) = sv \<or>
   (\<exists>c. co_ID c = [] \<and> docker_ContainerCreate cr mo dat q sv = store_created cr mo c sv)"
proof -
  have "co_ID c = []"
    if "bind_res (add_host_ports ps (with_image_ports cr (sv_store sv) im (requested_container rq resolved)))
                (connect_networks cr (sv_store sv) rq) = Inr c" for rq resolved im ps c
  proof -
    have "same_request (requested_container rq resolved) c"
      using that by (auto simp: bind_res_Inr dest!: add_host_ports_same connect_networks_same
          intro: same_request_trans with_image_ports_same)
    then show ?thesis using same_request_ID by (simp add: requested_container_def new_container_def)
  qed
  then show ?thesis by (auto simp: docker_ContainerCreate_def Let_def split: sum.splits) blast
qed

lemma libpod_create_stores:
  "snd (libpod_ContainerCreate cr mo dat q sv) = sv \<or>
   (\<exists>c. co_ID c = [] \<and> libpod_ContainerCreate cr mo dat q sv = store_created cr mo c sv)"
proof -
  have "co_ID c4 = []"
    if c1: "add_mappings ms (with_image_ports cr (sv_store sv) im (libpod_container (cr_Config cr) rq q resolved)) = Inr c1"
      and c4: "connect_bridge cr (sv_store sv) ((libpod_addNetworkAliases c1 ns)\<lparr>co_Binds := bs\<rparr>) = Inr c4" for rq resolved im ms c1 ns bs c4
  proof -
    have "co_ID c1 = []" using same_request_ID[OF same_request_trans[OF with_image_ports_same add_mappings_same[OF c1]]]
      by (simp add: libpod_container_def new_container_def)
    then have "co_ID (libpod_addNetworkAliases c1 ns) = []" using same_request_ID[OF connect_same(3)] by simp
    then show ?thesis using same_request_ID[OF connect_bridge_same[OF c4]] by simp
  qed
  then show ?thesis by (auto simp: libpod_ContainerCreate_def Let_def split: sum.splits) blast
qed

section \<open>Orderly runs\<close>

text \<open>
  A new container gets a random identifier whose short form is free, and nothing is renamed: renaming
  changes a stored object before it is saved, which no law of the table library covers.
\<close>

fun proper :: "('db \<Rightarrow> table \<Rightarrow> dbkey list) \<Rightarrow> 'db store \<Rightarrow> action \<Rightarrow> bool" where
  "proper rows st (DockerCreate mo dat q) = fresh_id rows st (mo_newid mo)"
| "proper rows st (LibpodCreate mo dat q) = fresh_id rows st (mo_newid mo)"
| "proper rows st (Rename mo i name) = False"
| "proper rows st _ = True"

text \<open>The reaper deletes containers it has listed, which may be gone by then.\<close>

inductive orderly :: "('db \<Rightarrow> table \<Rightarrow> dbkey list) \<Rightarrow> ('n, 'db, 'w) api \<Rightarrow> ('db, 'w) server \<Rightarrow> bool" for rows ap where
  start: "st_containers (sv_store sv) = [] \<Longrightarrow> rows (st_db (sv_store sv)) TContainer = [] \<Longrightarrow> orderly rows ap sv"
| request: "orderly rows ap sv \<Longrightarrow> action_ok sv a \<Longrightarrow> proper rows (sv_store sv) a \<Longrightarrow> serve ap a sv = (out, sv') \<Longrightarrow> orderly rows ap sv'"
| cluster: "orderly rows ap sv \<Longrightarrow> orderly rows ap (sv\<lparr>sv_backend := w\<rparr>)"
| subscribers: "orderly rows ap sv \<Longrightarrow> orderly rows ap (sv\<lparr>sv_events := obs\<rparr>)"
| reap: "orderly rows ap sv \<Longrightarrow> stored rows (sv_store sv) c \<or> (\<forall>k \<in> set (rows (st_db (sv_store sv)) TContainer). fst k \<noteq> co_ID c) \<Longrightarrow>
    db_DeleteContainer (cr_DB (ap_router ap)) c (sv_store sv) = (e, st) \<Longrightarrow> orderly rows ap (sv\<lparr>sv_store := st\<rparr>)"

lemma orderly_reachable: "orderly rows ap sv \<Longrightarrow> reachable ap sv"
  by (induction rule: orderly.induct) (auto intro: reachable.intros)

section \<open>Consistent states\<close>

context memdb_tables
begin

definition okay :: "('a, 'w) server \<Rightarrow> bool" where
  "okay sv = containers_ok rows (sv_store sv)"

definition held :: "('a, 'w) server \<Rightarrow> container \<Rightarrow> bool" where
  "held sv c = stored rows (sv_store sv) c"

text \<open>Consistent, with the same rows.\<close>

definition kept :: "('a, 'w) server \<Rightarrow> ('a, 'w) server \<Rightarrow> bool" where
  "kept sv sv' = (okay sv' \<and> set (rows (st_db (sv_store sv')) TContainer) = set (rows (st_db (sv_store sv)) TContainer))"

lemma kept_refl [simp]: "okay sv \<Longrightarrow> kept sv sv"
  by (simp add: kept_def)

lemma kept_okay: "kept sv sv' \<Longrightarrow> okay sv'"
  by (simp add: kept_def)

lemma kept_trans: "kept a b \<Longrightarrow> kept b c \<Longrightarrow> kept a c"
  by (simp add: kept_def)

lemma kept_same: "okay sv \<Longrightarrow> sv_store sv' = sv_store sv \<Longrightarrow> kept sv sv'"
  by (simp add: kept_def okay_def)

lemma held_same: "sv_store sv' = sv_store sv \<Longrightarrow> held sv' c = held sv c"
  by (simp add: held_def)

lemma okay_same: "sv_store sv' = sv_store sv \<Longrightarrow> okay sv' = okay sv"
  by (simp add: okay_def)

section \<open>Primitive changes\<close>

lemma put_kept:
  assumes "okay sv" "held sv c" "co_key c' = co_key c" "sv_store sv1 = sv_store sv"
  shows "kept sv (put_container c' sv1)" and "held (put_container c' sv1) c'"
proof -
  have "map_get (st_containers (sv_store (put_container c' sv1))) = (map_get (st_containers (sv_store sv)))(co_ID c' \<mapsto> c')"
    "set (rows (st_db (sv_store (put_container c' sv1))) TContainer) = set (rows (st_db (sv_store sv)) TContainer)"
    using assms(4) by (simp_all add: put_container_def fun_eq_iff)
  with containers_ok_put[OF assms(1)[unfolded okay_def] assms(2)[unfolded held_def] assms(3)]
  show "kept sv (put_container c' sv1)" "held (put_container c' sv1) c'" by (auto simp: kept_def okay_def held_def)
qed

lemma held_ids:
  assumes "okay sv" "held sv c"
  shows "co_ID c \<noteq> []" and "co_ShortID c \<noteq> []" and "hp sv (co_ID c) = Some c"
  using stored_row(1)[OF assms[unfolded okay_def held_def]] GetContainer_by_short(1)[OF assms[unfolded okay_def held_def]] assms(2)
  by (auto simp: random_id_def IsShortID_def held_def stored_def hp_def)

lemma save_kept:
  assumes ok: "okay sv" "held sv c" and k: "co_key c' = co_key c" and m: "cr_DB cr = M"
    and run: "save_container cr mo c' sv = (c2, e, sv')"
  shows "kept sv sv'" and "held sv' c'" and "c2 = c'" and "e = None"
proof -
  let ?rs = "set (rows (st_db (sv_store sv)) TContainer)"
  have i: "co_ID c' = co_ID c" "co_ShortID c' = co_ShortID c" using k by (simp_all add: co_key_def)
  note ne = held_ids[OF ok]
  have mem: "co_key c' \<in> ?rs" using ok(2) k by (simp add: held_def stored_def)
  let ?st1 = "(sv_store sv)\<lparr>st_containers := map_set (co_ID c') c' (st_containers (sv_store sv))\<rparr>"
  have "row_ok TContainer (co_key c')" using ne i by (simp add: row_ok_def co_key_def)
  moreover have "\<forall>k' \<in> set (rows (st_db ?st1) TContainer). key_conflict TContainer (co_key c') k' \<longrightarrow> k' = co_key c'"
    using container_unique[OF ok(1)[unfolded okay_def] mem] by (auto simp: key_conflict_container)
  ultimately obtain d where d: "db_save M TContainer (co_key c') ?st1 = (None, ?st1\<lparr>st_db := d\<rparr>)"
    "set (rows d TContainer) = insert (co_key c') (set (rows (st_db ?st1) TContainer))"
    by (rule save_ok) blast
  have "save_container cr mo c' sv = (c', None, sv\<lparr>sv_store := ?st1\<lparr>st_db := d\<rparr>\<rparr>)"
    using d(1) ne i m by (simp add: save_container_def SaveContainer_def init_container_def)
  then have r: "c2 = c'" "e = None" "sv' = sv\<lparr>sv_store := ?st1\<lparr>st_db := d\<rparr>\<rparr>" using run by simp_all
  then show "c2 = c'" "e = None" by simp_all
  have "set (rows (st_db (sv_store sv')) TContainer) = ?rs" using d(2) r(3) mem by auto
  moreover have "map_get (st_containers (sv_store sv')) = (map_get (st_containers (sv_store sv)))(co_ID c' \<mapsto> c')"
    using r(3) by (simp add: fun_eq_iff)
  ultimately show "kept sv sv'" "held sv' c'"
    using containers_ok_put[OF ok(1)[unfolded okay_def] ok(2)[unfolded held_def] k] by (auto simp: kept_def okay_def held_def)
qed

lemma publish_then_kept:
  assumes "okay sv" "\<And>sv1. sv_store sv1 = sv_store sv \<Longrightarrow> kept sv1 (snd (k sv1))"
  shows "kept sv (snd (publish_then mo i kind action k sv))"
proof -
  obtain obs b where p: "Publish (mo_now mo) i kind action (sv_events sv) = (obs, b)" by force
  have "kept sv (sv\<lparr>sv_events := obs\<rparr>)" by (rule kept_same[OF assms(1)]) simp
  then show ?thesis using p assms(2)[of "sv\<lparr>sv_events := obs\<rparr>"] by (cases b) (auto simp: publish_then_def intro: kept_trans)
qed

lemma publish_reply_kept: "okay sv \<Longrightarrow> kept sv (snd (publish_then mo i kind action (\<lambda>sv1. (r, sv1)) sv))"
  by (rule publish_then_kept) (simp_all add: okay_def)

section \<open>Lookups\<close>

lemma first_held:
  assumes "okay sv" "has_index TContainer ix" "md_First M (st_db (sv_store sv)) TContainer ix x = Inr (Some i)"
    and "deref (st_containers (sv_store sv)) i = Inr c"
  shows "held sv c"
proof -
  obtain k where k: "k \<in> set (rows (st_db (sv_store sv)) TContainer)" "fst k = i" using first_Some[OF assms(2,3)] by blast
  obtain r where r: "map_get (st_containers (sv_store sv)) (fst k) = Some r" "co_key r = k"
    using containers_row(3)[OF assms(1)[unfolded okay_def] k(1)] by blast
  then have "c = r" using assms(4) k(2) by (simp add: deref_def)
  moreover have "fst k = co_ID r" using r(2) by (auto simp: co_key_def)
  ultimately show ?thesis using r k(1) by (simp add: held_def stored_def)
qed

lemma GetContainer_held: "okay sv \<Longrightarrow> GetContainer M (sv_store sv) i = Inr c \<Longrightarrow> held sv c"
  by (auto simp: GetContainer_def found_or_def bind_res_Inr id_index_def intro: first_held split: option.splits if_splits)

lemma GetContainerByName_held: "okay sv \<Longrightarrow> GetContainerByName M (sv_store sv) i = Inr c \<Longrightarrow> held sv c"
  by (auto simp: GetContainerByName_def getContainerByName_def found_or_def bind_res_Inr intro: first_held GetContainer_held
      split: option.splits sum.splits if_splits)

lemma GetContainerByNameOrID_held: "okay sv \<Longrightarrow> GetContainerByNameOrID M (sv_store sv) i = Inr c \<Longrightarrow> held sv c"
  by (auto simp: GetContainerByNameOrID_def intro: GetContainer_held GetContainerByName_held split: sum.splits)

lemma held_found: "okay sv \<Longrightarrow> held sv c \<Longrightarrow> GetContainer M (sv_store sv) (co_ID c) = Inr c"
  unfolding okay_def held_def by (rule GetContainer_by_id)

end

lemma spec_key: "spec_of c' = spec_of c \<Longrightarrow> co_key c' = co_key c"
proof -
  assume "spec_of c' = spec_of c"
  then have "co_key (spec_of c') = co_key (spec_of c)" by simp
  then show ?thesis by (simp add: co_key_def spec_of_def)
qed

lemma expose_ports_key:
  assumes "container_backend (cr_Backend cr)" "expose_ports cr c w = (e, c1, w1)"
  shows "co_key c1 = co_key c"
proof -
  have ip: "co_key (c\<lparr>co_HostIP := x\<rparr>) = co_key c" for x by (simp add: co_key_def)
  have "co_key c1 = co_key c" if "bo_CreatePortForwards (cr_Backend cr) (c\<lparr>co_HostIP := x\<rparr>) w = (c1, w1)" for x
    using spec_key[OF container_backend.forwards_spec[OF assms(1) that]] ip by simp
  moreover have "co_key c1 = co_key c" if "bo_CreateReverseProxies (cr_Backend cr) (c\<lparr>co_HostIP := x\<rparr>) w = (c1, w1)" for x
    using spec_key[OF container_backend.proxies_spec[OF assms(1) that]] ip by simp
  ultimately show ?thesis using assms(2) by (auto simp: expose_ports_def Let_def ip split: if_splits sum.splits)
qed

lemma field_keys [simp]:
  "co_key (mark_status status err now c) = co_key c"
  "co_key (c\<lparr>co_Running := r, co_Completed := d, co_Stopped := s\<rparr>) = co_key c"
  "co_key (c\<lparr>co_Killed := l, co_Running := r, co_Completed := d\<rparr>) = co_key c"
  "co_key (AddAttachChannel c n) = co_key c" "co_key (AddStopChannel c n) = co_key c"
  "co_key (c\<lparr>co_PreArchives := pas\<rparr>) = co_key c" "co_key (c\<lparr>co_AttachChannels := ns\<rparr>) = co_key c"
  "co_key (docker_addNetworkAliases (ConnectNetwork c i) endp) = co_key c"
  by (simp_all add: mark_status_def AddAttachChannel_def AddStopChannel_def docker_addNetworkAliases_def ConnectNetwork_def
      co_key_def Let_def)

lemma disconnect_key: "DisconnectNetwork c i = Inr c1 \<Longrightarrow> co_key c1 = co_key c"
proof -
  assume "DisconnectNetwork c i = Inr c1"
  then have "\<exists>f. c1 = c\<lparr>co_Networks := f\<rparr>" unfolding DisconnectNetwork_def by (simp only: split: if_splits) blast+
  then show ?thesis by (elim exE) (simp add: co_key_def)
qed

context memdb_tables
begin

section \<open>Shared parts of the handlers\<close>

lemma signal_both_kept:
  assumes "okay sv" "held sv c" "signal_both c sv = (c1, sv1)"
  shows "kept sv sv1" and "held sv1 c1" and "co_key c1 = co_key c"
proof -
  have k: "co_key c1 = co_key c" using assms(3) by (auto simp: signal_both_def SignalDetach_def SignalStop_def co_key_def)
  then show "co_key c1 = co_key c" .
  obtain sg where "sv1 = put_container c1 (sv\<lparr>sv_signals := sg\<rparr>)" using assms(3) by (auto simp: signal_both_def split: prod.splits)
  then show "kept sv sv1" "held sv1 c1" using put_kept[OF assms(1,2) k, of "sv\<lparr>sv_signals := sg\<rparr>"] by simp_all
qed

lemma start_kept:
  assumes be: "container_backend (cr_Backend cr)" and m: "cr_DB cr = M" and ok: "okay sv" "held sv c"
    and run: "common_StartContainer cr mo c sv = (c', e, sv')"
  shows "kept sv sv'" and "held sv' c'"
proof -
  obtain state err c1 w1 where s: "bo_StartContainer (cr_Backend cr) c (sv_backend sv) = (state, err, c1, w1)" by (metis prod_cases4)
  obtain e2 c2 w2 where x: "expose_ports cr c1 w1 = (e2, c2, w2)" by (metis prod_cases3)
  have k1: "co_key c1 = co_key c" by (rule spec_key[OF container_backend.start_spec[OF be s]])
  have k2: "co_key c2 = co_key c" using expose_ports_key[OF be x] k1 by simp
  have sv: "kept sv sv' \<and> held sv' c'" if "save_container cr mo (settle state (mo_now mo) c2) (sv\<lparr>sv_backend := w2\<rparr>) = (c', e, sv')"
    using save_kept[OF _ _ _ m that, of c] ok k2 kept_trans[OF kept_same[OF ok(1), of "sv\<lparr>sv_backend := w2\<rparr>"]]
    by (simp add: okay_def held_def)
  have "kept sv sv' \<and> held sv' c'"
    using run s x sv put_kept[OF ok k1, of "sv\<lparr>sv_backend := w1\<rparr>"] put_kept[OF ok k2, of "sv\<lparr>sv_backend := w2\<rparr>"]
    by (cases err; cases e2) (auto simp: common_StartContainer_def)
  then show "kept sv sv'" "held sv' c'" by blast+
qed

lemma start_step_kept:
  assumes "container_backend (cr_Backend cr)" "cr_DB cr = M" "okay sv" "held sv c"
    and "(if \<not> co_Running c \<and> \<not> co_Completed c then common_StartContainer cr mo c sv else (c, None, sv)) = (c1, e, sv1)"
  shows "kept sv sv1" and "held sv1 c1"
  using assms(3-5) start_kept[OF assms(1-4)] by (auto split: if_splits)

lemma status_kept:
  assumes be: "container_backend (cr_Backend cr)" and ok: "okay sv" "held sv c"
  shows "kept sv (snd (UpdateContainerStatus cr mo c sv))"
proof -
  obtain status err c1 where s: "bo_GetContainerStatus (cr_Backend cr) c (sv_backend sv) = (status, err, c1)" by (metis prod_cases3)
  have "co_key c1 = co_key c" by (rule spec_key[OF container_backend.status_spec[OF be s]])
  then show ?thesis using s ok put_kept(1)[OF ok, of "mark_status status err (mo_now mo) c1" sv]
    by (auto simp: UpdateContainerStatus_def Let_def)
qed

section \<open>The handlers\<close>

lemma ContainerStart_kept:
  assumes "container_backend (cr_Backend cr)" "cr_DB cr = M" "okay sv"
  shows "kept sv (snd (ContainerStart cr mo i sv))"
proof (cases "GetContainer M (sv_store sv) i")
  case (Inr c)
  obtain c1 e sv1 where s: "(if \<not> co_Running c \<and> \<not> co_Completed c then common_StartContainer cr mo c sv else (c, None, sv)) = (c1, e, sv1)"
    by (metis prod_cases3)
  note k = start_step_kept(1)[OF assms GetContainer_held[OF assms(3) Inr] s]
  then show ?thesis using Inr s assms(2) kept_trans[OF k publish_reply_kept[OF kept_okay[OF k]]] by (cases e) (auto simp: ContainerStart_def)
qed (use assms in \<open>simp add: ContainerStart_def\<close>)

lemma stop_step_kept:
  assumes "cr_DB cr = M" "okay sv" "held sv c" "signal_both c sv = (c1, sv1)" "sv_store sv2 = sv_store sv1"
    and "\<And>c. co_key (f c) = co_key c" "save_container cr mo (f c1) sv2 = (c2, e, sv3)"
  shows "kept sv sv3" and "held sv3 c2" and "c2 = f c1" and "e = None"
proof -
  note sg = signal_both_kept[OF assms(2-4)]
  have o2: "okay sv2" "held sv2 c1" using sg(1,2) assms(5) by (simp_all add: kept_def okay_def held_def)
  note sa = save_kept[OF o2 assms(6) assms(1,7)]
  show "c2 = f c1" "e = None" "held sv3 c2" using sa by simp_all
  show "kept sv sv3" using sg(1) sa(1) assms(5) by (simp add: kept_def)
qed

lemma stop_kill_kept:
  assumes m: "cr_DB cr = M" and ok: "okay sv"
  shows "kept sv (snd (ContainerStop cr mo i sv))" and "kept sv (snd (ContainerKill cr mo i sgnl sv))"
proof -
  have main: "kept sv (snd (case signal_both c sv of (c1, sv1) \<Rightarrow>
          (let sv2 = (if \<not> co_Stopped c1 \<and> \<not> co_Killed c1 then backend_delete cr c1 sv1 else sv1)
           in case save_container cr mo (f c1) sv2 of
                (c2, Some e, sv3) \<Rightarrow> (httputil_Error 500 e, sv3)
              | (c2, None, sv3) \<Rightarrow> publish_then mo (co_ID c2) ''container'' ''die'' (\<lambda>sv4. (Reply 204 NoBody, sv4)) sv3)))"
    if "held sv c" "\<And>c. co_key (f c) = co_key c" for c f
  proof -
    obtain c1 sv1 where sg: "signal_both c sv = (c1, sv1)" by force
    let ?sv2 = "if \<not> co_Stopped c1 \<and> \<not> co_Killed c1 then backend_delete cr c1 sv1 else sv1"
    obtain c2 e sv3 where sc: "save_container cr mo (f c1) ?sv2 = (c2, e, sv3)" by (metis prod_cases3)
    have st: "sv_store ?sv2 = sv_store sv1" by (simp add: backend_delete_def)
    note k = stop_step_kept[OF m ok that(1) sg st that(2) sc]
    show ?thesis using sg sc k(4) kept_trans[OF k(1) publish_reply_kept[OF kept_okay[OF k(1)]]] by (simp add: Let_def)
  qed
  show "kept sv (snd (ContainerStop cr mo i sv))"
  proof (cases "GetContainer M (sv_store sv) i")
    case (Inr c)
    then show ?thesis using main[OF GetContainer_held[OF ok Inr], of "\<lambda>c. c\<lparr>co_Running := False, co_Completed := False, co_Stopped := True\<rparr>"] m
      by (simp add: ContainerStop_def)
  qed (use m ok in \<open>simp add: ContainerStop_def\<close>)
  show "kept sv (snd (ContainerKill cr mo i sgnl sv))"
  proof (cases "GetContainerByNameOrID M (sv_store sv) i")
    case (Inr c)
    then show ?thesis using main[OF GetContainerByNameOrID_held[OF ok Inr], of "\<lambda>c. c\<lparr>co_Killed := True, co_Running := False, co_Completed := False\<rparr>"] m ok
      by (simp add: ContainerKill_def)
  qed (use m ok in \<open>simp add: ContainerKill_def\<close>)
qed

lemma ContainerRestart_kept:
  assumes "container_backend (cr_Backend cr)" "cr_DB cr = M" "okay sv"
  shows "kept sv (snd (ContainerRestart cr mo i sv))"
proof (cases "GetContainer M (sv_store sv) i")
  case (Inr c)
  let ?f = "\<lambda>c. c\<lparr>co_Running := False, co_Completed := False, co_Stopped := True\<rparr>" and ?sv0 = "backend_delete cr c sv"
  have o0: "okay ?sv0" "held ?sv0 c" using GetContainer_held[OF assms(3) Inr] assms(3) by (simp_all add: backend_delete_def okay_def held_def)
  obtain c1 sv2 where sg: "signal_both c ?sv0 = (c1, sv2)" by force
  obtain c2 e sv3 where sc: "save_container cr mo (?f c1) sv2 = (c2, e, sv3)" by (metis prod_cases3)
  note k = stop_step_kept[where f = ?f, OF assms(2) o0 sg refl _ sc, simplified]
  have k3: "kept sv sv3" using k(1) by (simp add: kept_def backend_delete_def)
  let ?sv4 = "sv3\<lparr>sv_backend := bo_AwaitDeleted (cr_Backend cr) c2 (sv_backend sv3)\<rparr>"
  have o4: "okay ?sv4" "held ?sv4 c2" using kept_okay[OF k3] k(2) by (simp_all add: okay_def held_def)
  obtain c3 e3 sv5 where st: "common_StartContainer cr mo c2 ?sv4 = (c3, e3, sv5)" by (metis prod_cases3)
  have "kept sv sv5" using start_kept(1)[OF assms(1,2) o4 st] k3 by (simp add: kept_def)
  then show ?thesis using Inr sg sc st k3 k(4) assms(2)
    by (cases "bo_WatchDeleteContainer (cr_Backend cr) c (sv_backend sv)"; cases e3) (simp_all add: ContainerRestart_def Let_def)
qed (use assms in \<open>simp add: ContainerRestart_def\<close>)

lemma ContainerAttach_kept:
  fixes sv :: "('a, 'w) server"
  assumes "container_backend (cr_Backend cr)" "cr_DB cr = M" "okay sv"
  shows "kept sv (snd (ContainerAttach cr mo i stream hijack sv))"
proof (cases "GetContainerByNameOrID M (sv_store sv) i")
  case (Inr c)
  obtain c1 e sv1 where s: "(if \<not> co_Running c \<and> \<not> co_Completed c then common_StartContainer cr mo c sv else (c, None, sv)) = (c1, e, sv1)"
    by (metis prod_cases3)
  note k = start_step_kept[OF assms GetContainerByNameOrID_held[OF assms(3) Inr] s]
  let ?c2 = "AddAttachChannel c1 (mo_chan mo)"
  let ?k = "\<lambda>sv2. case SignalDetach ?c2 of (ops, c3) \<Rightarrow> (Reply 200 NoBody, put_container c3 (sv2\<lparr>sv_signals := sv_signals sv2 @ ops\<rparr>))"
  note k2 = put_kept[OF kept_okay[OF k(1)] k(2) field_keys(4)[of c1 "mo_chan mo"] refl]
  have d: "co_key c3 = co_key ?c2" if "SignalDetach ?c2 = (ops, c3)" for ops c3 using that by (auto simp: SignalDetach_def co_key_def)
  have "kept sv2 (snd (?k sv2))" if "sv_store sv2 = sv_store (put_container ?c2 sv1)" for sv2 :: "('a, 'w) server"
  proof -
    have o2: "okay sv2" "held sv2 ?c2" using kept_okay[OF k2(1)] k2(2) okay_same[OF that] held_same[OF that] by simp_all
    obtain ops c3 where "SignalDetach ?c2 = (ops, c3)" by force
    then show ?thesis using put_kept(1)[OF o2 d, of ops c3 "sv2\<lparr>sv_signals := sv_signals sv2 @ ops\<rparr>"] by simp
  qed
  then have "kept (put_container ?c2 sv1) (snd (publish_then mo (co_ID ?c2) ''container'' ''detach'' ?k (put_container ?c2 sv1)))"
    by (rule publish_then_kept[OF kept_okay[OF k2(1)]])
  with kept_trans[OF k(1) k2(1)] have "kept sv (snd (publish_then mo (co_ID ?c2) ''container'' ''detach'' ?k (put_container ?c2 sv1)))"
    by (rule kept_trans)
  then show ?thesis using Inr s k(1) assms(2,3) by (cases e) (auto simp: ContainerAttach_def Let_def)
qed (use assms in \<open>simp add: ContainerAttach_def\<close>)

lemma wait_tick_kept:
  assumes "container_backend (cr_Backend cr)" "cr_DB cr = M" "okay sv"
  shows "kept sv (snd (docker_wait_tick cr mo i sv))" and "kept sv (snd (libpod_wait_tick cr mo i sv))"
  using status_kept[OF assms(1,3)] GetContainer_held[OF assms(3)] GetContainerByNameOrID_held[OF assms(3)] assms(2,3)
  by (fastforce simp: docker_wait_tick_def libpod_wait_tick_def case_prod_beta split: sum.splits)+

lemma getContainerInfo_kept:
  assumes "container_backend (cr_Backend cr)" "okay sv" "held sv c"
  shows "kept sv (snd (docker_getContainerInfo cr mo c detail sv))" and "kept sv (snd (libpod_getContainerInfo cr mo c detail sv))"
  using status_kept[OF assms, of mo] assms(2)
  by (auto simp: docker_getContainerInfo_def libpod_getContainerInfo_def Let_def split: prod.splits)

lemma in_table_held: "okay sv \<Longrightarrow> k \<in> set (rows (st_db (sv_store sv)) TContainer) \<Longrightarrow> fst k = i \<Longrightarrow> hp sv i = Some c \<Longrightarrow> held sv c"
  using containers_row(3)[of rows "sv_store sv" k] by (auto simp: okay_def held_def stored_def hp_def co_key_def)

lemma GetContainers_rows:
  assumes "okay sv" "GetContainers M (sv_store sv) = Inr cs"
  shows "co_ID ` set cs \<subseteq> fst ` set (rows (st_db (sv_store sv)) TContainer)"
proof -
  obtain ids where ids: "md_Get M (st_db (sv_store sv)) TContainer = Inr ids" "set ids = fst ` set (rows (st_db (sv_store sv)) TContainer)"
    using get_ids by blast
  have "map co_ID cs = ids" if "deref_all (st_containers (sv_store sv)) ids = Inr cs" "set ids \<subseteq> fst ` set (rows (st_db (sv_store sv)) TContainer)"
    using that
  proof (induction ids arbitrary: cs)
    case (Cons i ids)
    then obtain k where k: "k \<in> set (rows (st_db (sv_store sv)) TContainer)" "fst k = i" by auto
    obtain r where "map_get (st_containers (sv_store sv)) i = Some r" "co_key r = k"
      using containers_row(3)[OF assms(1)[unfolded okay_def] k(1)] k(2) by blast
    then show ?case using Cons k(2) by (auto simp: deref_def bind_res_Inr co_key_def)
  qed simp
  then show ?thesis using assms(2) ids by (auto simp: GetContainers_def)
qed

lemma list_infos_kept:
  assumes "\<And>mo c sv. okay sv \<Longrightarrow> held sv c \<Longrightarrow> kept sv (snd (info mo c sv))"
    and "okay sv" "co_ID ` set cs \<subseteq> fst ` set (rows (st_db (sv_store sv)) TContainer)"
  shows "kept sv (snd (list_infos info mos n cs sv))"
  using assms(2,3)
proof (induction cs arbitrary: n sv)
  case (Cons c cs)
  obtain js sv1 where r: "info (mos n) (current c sv) sv = (js, sv1)" by force
  obtain k where k: "k \<in> set (rows (st_db (sv_store sv)) TContainer)" "fst k = co_ID c" using Cons.prems(2) by auto
  then obtain c' where c': "hp sv (co_ID c) = Some c'"
    using containers_row(3)[OF Cons.prems(1)[unfolded okay_def] k(1)] by (auto simp: hp_def)
  then have "held sv (current c sv)" using in_table_held[OF Cons.prems(1) k c'] by (simp add: current_def hp_def)
  then have s: "kept sv sv1" using assms(1)[OF Cons.prems(1), of "current c sv" "mos n"] r by simp
  then show ?case using Cons.IH[OF kept_okay[OF s], of "Suc n"] Cons.prems(2) r
    by (auto simp: kept_def split: prod.splits)
qed simp

lemma reports_kept:
  fixes sv :: "('a, 'w) server"
  assumes "container_backend (cr_Backend cr)" "cr_DB cr = M" "okay sv"
  shows "kept sv (snd (docker_ContainerList cr mos filtr sv))" "kept sv (snd (libpod_ContainerList cr mos filtr sv))"
    and "kept sv (snd (docker_ContainerInfo cr mo i sv))" "kept sv (snd (libpod_ContainerInfo cr mo i sv))"
proof -
  note info = getContainerInfo_kept[OF assms(1)]
  have ls: "kept sv (snd (list_containers cr info mos filtr sv))"
    if "\<And>mo c (sv :: ('a, 'w) server). okay sv \<Longrightarrow> held sv c \<Longrightarrow> kept sv (snd (info mo c sv))" for info
  proof (cases "GetContainers M (sv_store sv)")
    case (Inr cs)
    have "co_ID ` set cs \<subseteq> fst ` set (rows (st_db (sv_store sv)) TContainer)"
      using GetContainers_rows[OF assms(3) Inr] .
    then have "kept sv (snd (list_infos info mos 0 (filter f cs) sv))" for f
      by (intro list_infos_kept) (use that assms(3) in auto)
    then show ?thesis using Inr assms(2) by (simp add: list_containers_def case_prod_beta)
  qed (use assms in \<open>simp add: list_containers_def\<close>)
  show "kept sv (snd (docker_ContainerList cr mos filtr sv))" "kept sv (snd (libpod_ContainerList cr mos filtr sv))"
    unfolding docker_ContainerList_def libpod_ContainerList_def by (rule ls; simp add: info)+
  show "kept sv (snd (docker_ContainerInfo cr mo i sv))" "kept sv (snd (libpod_ContainerInfo cr mo i sv))"
    using info[OF assms(3)] GetContainerByNameOrID_held[OF assms(3), of i] assms(2,3)
    by (cases "GetContainerByNameOrID M (sv_store sv) i";
      simp add: docker_ContainerInfo_def libpod_ContainerInfo_def case_prod_beta)+
qed

lemma save_found_kept:
  assumes "cr_DB cr = M" "okay sv" "GetContainer M (sv_store sv) i = Inr c" "save_container cr mo c1 sv = (c2, e, sv1)" "co_key c1 = co_key c"
  shows "kept sv sv1"
  using save_kept(1)[OF assms(2) GetContainer_held[OF assms(2,3)] assms(5,1,4)] .

lemma networks_kept:
  assumes "cr_DB cr = M" "okay sv"
  shows "kept sv (snd (NetworksConnect cr mo n dat1 sv))" and "kept sv (snd (NetworksDisconnect cr mo n dat2 sv))"
  using assms disconnect_key save_found_kept[OF assms]
  by (auto simp: NetworksConnect_def NetworksDisconnect_def split: sum.splits prod.splits option.splits)

lemma PutArchive_kept:
  assumes "container_backend (cr_Backend cr)" "cr_DB cr = M" "okay sv"
  shows "kept sv (snd (PutArchive cr F arch mo i path dat sv))"
proof (cases "GetContainer M (sv_store sv) i")
  case (Inr c)
  obtain c1 e sv1 where s: "start_if_needed cr mo c sv = (c1, e, sv1)" by (metis prod_cases3)
  have k: "kept sv sv1" using s start_step_kept(1)[OF assms GetContainer_held[OF assms(3) Inr]] by (simp add: start_if_needed_def)
  have "sv_store (snd (copy_archive F c1 path d sv1)) = sv_store sv1" for d
    by (auto simp: copy_archive_def split: sum.splits prod.splits option.splits)
  then have "kept sv (snd (start_and_copy cr F mo c path d sv))" for d
    using s k kept_trans[OF k kept_same[OF kept_okay[OF k]]] by (cases e) (auto simp: start_and_copy_def)
  then show ?thesis using Inr assms(2,3)
    by (auto simp: PutArchive_def intro: save_found_kept[OF assms(2,3) Inr] split: sum.splits prod.splits option.splits)
qed (use assms in \<open>simp add: PutArchive_def\<close>)

lemma ContainerLogs_kept:
  assumes "cr_DB cr = M" "okay sv"
  shows "kept sv (snd (ContainerLogs cr F mo i opts hijack sv))"
  using assms put_kept(1)[OF assms(2) GetContainer_held[OF assms(2)] field_keys(5) refl]
  by (auto simp: ContainerLogs_def split: sum.splits option.splits)

section \<open>Requests on the other tables\<close>

lemma other_kept:
  assumes "okay sv" "st_containers st = st_containers (sv_store sv)" "rows (st_db st) TContainer = rows (st_db (sv_store sv)) TContainer"
    and "sv_store sv' = st"
  shows "kept sv sv'"
  using assms by (auto simp: kept_def okay_def containers_ok_def table_ok_def)

lemma other_tables:
  "SaveNetwork M i n netw st = (netw', e, st') \<Longrightarrow> rows (st_db st') TContainer = rows (st_db st) TContainer"
  "SaveImage M i n im st = (im', e, st') \<Longrightarrow> rows (st_db st') TContainer = rows (st_db st) TContainer"
  "SaveExec M i n ex st = (ex', e, st') \<Longrightarrow> rows (st_db st') TContainer = rows (st_db st) TContainer"
  "DeleteNetwork M netw st = (e, st') \<Longrightarrow> rows (st_db st') TContainer = rows (st_db st) TContainer"
  by (auto simp: SaveNetwork_def SaveImage_def SaveExec_def DeleteNetwork_def db_save_def db_delete_def Let_def
      dest: insert_other[where t' = TContainer] delete_other[where t' = TContainer] split: sum.splits)

lemma store_kept:
  assumes "okay sv"
  shows "SaveNetwork M i n netw (sv_store sv) = (netw', e, st) \<Longrightarrow> sv_store sv' = st \<Longrightarrow> kept sv sv'"
    and "SaveImage M i n im (sv_store sv) = (im', e, st) \<Longrightarrow> sv_store sv' = st \<Longrightarrow> kept sv sv'"
    and "SaveExec M i n ex (sv_store sv) = (ex', e, st) \<Longrightarrow> sv_store sv' = st \<Longrightarrow> kept sv sv'"
    and "DeleteNetwork M netw (sv_store sv) = (e, st) \<Longrightarrow> sv_store sv' = st \<Longrightarrow> kept sv sv'"
  using other_tables save_store delete_store(2) other_kept[OF assms] by metis+

lemma prune_loop_kept: "cr_DB cr = M \<Longrightarrow> okay sv \<Longrightarrow> kept sv (snd (prune_loop cr netws names sv))"
proof (induction netws arbitrary: names sv)
  case (Cons netw netws)
  obtain e st where d: "DeleteNetwork M netw (sv_store sv) = (e, st)" by force
  have k: "kept sv (sv\<lparr>sv_store := st\<rparr>)" using store_kept(4)[OF Cons.prems(2) d] by simp
  then show ?case using Cons.IH[OF Cons.prems] Cons.IH[OF Cons.prems(1) kept_okay[OF k]] Cons.prems(1) d
    by (cases e) (auto intro: kept_trans)
qed simp

lemma others_kept:
  assumes "cr_DB cr = M" "okay sv"
  shows "kept sv (snd (NetworksCreate cr mo dat1 sv))" "kept sv (snd (NetworksDelete cr i sv))" "kept sv (snd (NetworksPrune cr sv))"
    "kept sv (snd (docker_ImageCreate cr mo frm tag sv))" "kept sv (snd (libpod_ImagePull cr mo reference sv))"
    "kept sv (snd (ImageJSON cr mo arch path sv))" "kept sv (snd (ContainerExec cr mo i dat2 sv))"
    "kept sv (snd (ExecStart cr F mo i det hijack sv))" "kept sv (snd (HeadArchive cr F i path sv))"
    "kept sv (snd (GetArchive cr F tar_size i path sv))"
proof -
  note st = store_kept[OF assms(2)]
  show "kept sv (snd (NetworksCreate cr mo dat1 sv))" "kept sv (snd (NetworksDelete cr i sv))"
    "kept sv (snd (ContainerExec cr mo i dat2 sv))" "kept sv (snd (ImageJSON cr mo arch path sv))"
    using assms by (auto simp: NetworksCreate_def NetworksDelete_def ContainerExec_def ImageJSON_def Let_def
        intro: st split: sum.splits prod.splits option.splits)
  show "kept sv (snd (NetworksPrune cr sv))"
    using assms by (simp add: NetworksPrune_def prune_loop_kept split: sum.splits)
  have "kept sv (snd (publish_then mo j kd act (\<lambda>sv1. (r, sv1)) (sv\<lparr>sv_store := st\<rparr>))) \<and> kept sv (sv\<lparr>sv_store := st\<rparr>)"
    if "SaveImage M x n im (sv_store sv) = (im', e, st)" for j kd act r x n im im' e st
    using st(2)[OF that, of "sv\<lparr>sv_store := st\<rparr>"] kept_trans[OF _ publish_reply_kept[OF kept_okay]] by simp
  then have "kept sv (snd (pull_image cr mo nm answer sv))" for nm answer
    using assms by (auto simp: pull_image_def split: sum.splits prod.splits option.splits)
  then show "kept sv (snd (docker_ImageCreate cr mo frm tag sv))" "kept sv (snd (libpod_ImagePull cr mo reference sv))"
    by (simp_all add: docker_ImageCreate_def libpod_ImagePull_def)
  have "kept sv (snd (run_exec cr F mo c ex sv))" for c ex
    using assms by (auto simp: run_exec_def intro: st kept_same split: prod.splits option.splits)
  then show "kept sv (snd (ExecStart cr F mo i det hijack sv))"
    using assms by (auto simp: ExecStart_def split: sum.splits)
  show "kept sv (snd (HeadArchive cr F i path sv))" "kept sv (snd (GetArchive cr F tar_size i path sv))"
    using assms by (auto simp: HeadArchive_def GetArchive_def with_existing_file_def intro!: kept_same split: sum.splits prod.splits)
qed

lemma readers_kept:
  assumes "okay sv"
  shows "kept sv (snd (ContainerResize cr i sv))" "kept sv (snd (libpod_ContainerExists cr i sv))" "kept sv (snd (NetworksList cr f sv))"
    "kept sv (snd (NetworksInfo cr i sv))" "kept sv (snd (ImageList cr sv))" "kept sv (snd (ExecInfo cr i sv))"
    "kept sv (snd (ExecResize cr i sv))"
  using assms by (auto simp: ContainerResize_def libpod_ContainerExists_def NetworksList_def NetworksInfo_def ImageList_def ExecInfo_def
      ExecResize_def split: sum.splits)

section \<open>Deleting and creating\<close>

definition moved :: "string set \<Rightarrow> ('a, 'w) server \<Rightarrow> ('a, 'w) server \<Rightarrow> bool" where
  "moved X sv sv' = (okay sv' \<and> (\<forall>k \<in> set (rows (st_db (sv_store sv)) TContainer). fst k \<notin> X \<longrightarrow>
     k \<in> set (rows (st_db (sv_store sv')) TContainer)))"

lemma kept_moved: "kept sv sv' \<Longrightarrow> moved X sv sv'"
  by (simp add: kept_def moved_def)

lemma kept_moved_trans: "kept a b \<Longrightarrow> moved X b c \<Longrightarrow> moved X a c"
  by (simp add: kept_def moved_def)

lemma delete_row_moved:
  assumes "cr_DB cr = M" "okay sv" "held sv c" "co_ID c \<in> X" "db_DeleteContainer (cr_DB cr) c (sv_store sv) = (e, st)"
  shows "moved X sv (sv\<lparr>sv_store := st\<rparr>)"
proof -
  note del = DeleteContainer_gone(2,4)[OF assms(2,3)[unfolded okay_def held_def] assms(5)[unfolded assms(1)]]
  have "k \<noteq> co_key c" if "fst k \<notin> X" for k using that assms(4) by (auto simp: co_key_def)
  then show ?thesis using del by (simp add: moved_def okay_def)
qed

lemma delete_then_moved:
  fixes sv :: "('a, 'w) server"
  assumes "okay sv" "held sv c" "co_ID c \<in> X"
    and "\<And>c1 sv1. okay sv1 \<Longrightarrow> held sv1 c1 \<Longrightarrow> co_ID c1 \<in> X \<Longrightarrow> moved X sv1 (snd (k c1 sv1))"
  shows "moved X sv (snd (delete_then cr mo c k sv))"
proof -
  obtain c1 sv1 where sg: "signal_both c sv = (c1, sv1)" by force
  note k1 = signal_both_kept[OF assms(1,2) sg]
  have step: "moved X sv (snd (k c1 sv2))" if "sv_store sv2 = sv_store sv1" for sv2
  proof -
    have k2: "kept sv sv2" using k1(1) that by (simp add: kept_def okay_def)
    have "held sv2 c1" using k1(2) held_same[OF that] by simp
    then show ?thesis using kept_moved_trans[OF k2 assms(4)[OF kept_okay[OF k2]]] k1(3) assms(3) by (simp add: co_key_def)
  qed
  have quit: "moved X sv sv2" if "sv_store sv2 = sv_store sv1" for sv2
    using kept_moved[OF k1(1)] that by (simp add: moved_def okay_def)
  have "moved X sv (snd (publish_then mo (co_ID c1) ''container'' ''die'' (k c1) (backend_delete cr c1 sv1)))"
    using step quit by (auto simp: publish_then_def backend_delete_def split: prod.splits bool.splits)
  then show ?thesis using sg step[OF refl] by (simp add: delete_then_def)
qed

lemma deletes_moved:
  assumes "cr_DB cr = M" "okay sv"
  shows "moved (by_name cr sv i) sv (snd (docker_ContainerDelete cr mo i sv))" and "moved (by_name cr sv i) sv (snd (libpod_ContainerDelete cr mo i sv))"
  using GetContainerByNameOrID_held[OF assms(2)] by_name_found[of cr sv i] assms kept_moved[OF kept_refl[OF assms(2)]]
  by (auto simp: docker_ContainerDelete_def libpod_ContainerDelete_def intro!: delete_then_moved intro: delete_row_moved[OF assms(1)]
      split: sum.splits prod.splits option.splits)

lemma store_created_moved:
  assumes "cr_DB cr = M" "okay sv" "co_ID c = []" "fresh_id rows (sv_store sv) (mo_newid mo)"
  shows "moved X sv (snd (store_created cr mo c sv))"
proof -
  obtain c1 e sv1 where s: "save_container cr mo c sv = (c1, e, sv1)" by (metis prod_cases3)
  then obtain st where st: "SaveContainer M (mo_newid mo) (mo_now mo) c (sv_store sv) = (c1, e, st)" "sv1 = sv\<lparr>sv_store := st\<rparr>"
    using assms(1) by (auto simp: save_container_def split: prod.splits)
  have "saveable rows (mo_newid mo) (sv_store sv) c" using assms(3,4) by (simp add: saveable_def fresh_id_def)
  note sa = SaveContainer_stored[OF assms(2)[unfolded okay_def] this st(1)]
  have i: "co_ID c1 = mo_newid mo" using st(1) assms(3) by (auto simp: SaveContainer_def init_container_def Let_def)
  have "k \<in> set (rows (st_db st) TContainer)" if k: "k \<in> set (rows (st_db (sv_store sv)) TContainer)" for k
  proof -
    obtain r where r: "map_get (st_containers (sv_store sv)) (fst k) = Some r" "co_key r = k"
      using containers_row(3)[OF assms(2)[unfolded okay_def] k] by blast
    have "fst k \<noteq> mo_newid mo" using containers_row(2)[OF assms(2)[unfolded okay_def] k] assms(4) k by (auto simp: fresh_id_def)
    moreover have "fst k = co_ID r" using r(2) by (auto simp: co_key_def)
    ultimately show ?thesis using sa(4)[of r] r k i by (simp add: stored_def)
  qed
  then have "moved X sv sv1" using sa(2) st(2) by (auto simp: moved_def okay_def)
  moreover have "kept sv1 (snd (publish_then mo i kd act (\<lambda>sv2. (r, sv2)) sv1))" for i kd act r
    by (rule publish_reply_kept) (simp add: okay_def st(2) sa(2))
  ultimately show ?thesis using s by (cases e) (auto simp: store_created_def moved_def kept_def)
qed

lemma creates_moved:
  assumes "cr_DB cr = M" "okay sv" "fresh_id rows (sv_store sv) (mo_newid mo)"
  shows "moved X sv (snd (docker_ContainerCreate cr mo dat1 q sv))" and "moved X sv (snd (libpod_ContainerCreate cr mo dat2 q sv))"
proof -
  note st = store_created_moved[OF assms(1,2) _ assms(3)] and quit = kept_moved[OF kept_refl[OF assms(2)]]
  show "moved X sv (snd (docker_ContainerCreate cr mo dat1 q sv))"
    using docker_create_stores[of cr mo dat1 q sv] st quit by fastforce
  show "moved X sv (snd (libpod_ContainerCreate cr mo dat2 q sv))"
    using libpod_create_stores[of cr mo dat2 q sv] st quit by fastforce
qed

section \<open>Every request\<close>

lemmas handler_kept =
  ContainerStart_kept ContainerRestart_kept stop_kill_kept ContainerAttach_kept wait_tick_kept reports_kept networks_kept
  PutArchive_kept ContainerLogs_kept others_kept readers_kept

lemma serve_moved:
  assumes "container_backend (cr_Backend (ap_router ap))" "cr_DB (ap_router ap) = M" "okay sv" "proper rows (sv_store sv) a"
  shows "moved (addressed (ap_router ap) sv a) sv (snd (serve ap a sv))"
  using assms by (cases a) (simp_all add: wait_outcome_state kept_moved handler_kept deletes_moved creates_moved)

lemma reap_okay:
  assumes "okay sv" "held sv c \<or> (\<forall>k \<in> set (rows (st_db (sv_store sv)) TContainer). fst k \<noteq> co_ID c)"
    and "db_DeleteContainer M c (sv_store sv) = (e, st)"
  shows "okay (sv\<lparr>sv_store := st\<rparr>)"
  using assms(2)
proof
  assume "held sv c"
  then show ?thesis using DeleteContainer_gone(2)[OF assms(1)[unfolded okay_def] _ assms(3)] by (simp add: okay_def held_def)
next
  assume "\<forall>k \<in> set (rows (st_db (sv_store sv)) TContainer). fst k \<noteq> co_ID c"
  then obtain e' where "md_Delete M TContainer (co_key c) (st_db (sv_store sv)) = Inl e'"
    using delete_absent[of "st_db (sv_store sv)" TContainer "co_key c"] by (auto simp: co_key_def)
  then show ?thesis using assms(1,3) by (auto simp: db_DeleteContainer_def db_delete_def okay_def)
qed

lemma orderly_okay:
  assumes "orderly rows ap sv" "container_backend (cr_Backend (ap_router ap))" "cr_DB (ap_router ap) = M"
  shows "okay sv"
  using assms
proof (induction rule: orderly.induct)
  case (start sv)
  then show ?case by (simp add: okay_def containers_ok_def table_ok_def)
next
  case (request sv a out sv')
  then show ?case using serve_moved[of ap sv a] by (simp add: moved_def)
next
  case (reap sv c e st)
  then show ?case using reap_okay[of sv c e st] by (simp add: held_def)
qed (simp_all add: okay_def)

lemma held_moved:
  assumes "okay sv" "held sv c" "co_ID c \<notin> X" "moved X sv sv'" "only X sv sv'"
  shows "held sv' c"
  using assms by (auto simp: held_def stored_def moved_def only_def hp_def co_key_def)

lemma held_found_short: "okay sv \<Longrightarrow> held sv c \<Longrightarrow> GetContainer M (sv_store sv) (co_ShortID c) = Inr c"
  unfolding okay_def held_def by (rule GetContainer_by_short(2))

end

section \<open>Properties\<close>

text \<open>
  (C4) The database stays consistent: after any sequence of requests without a renaming, status polls
  and clean-ups, every row of the container table belongs to a stored container with the same keys, no
  two rows share an identifier or a short identifier, and every stored container is found under both,
  as it is now.
\<close>

theorem database_consistent:
  assumes "memdb_tables (cr_DB (ap_router ap)) rows" "container_backend (cr_Backend (ap_router ap))" "orderly rows ap sv"
  shows "containers_ok rows (sv_store sv) \<and>
    (\<forall>c. stored rows (sv_store sv) c \<longrightarrow>
       GetContainer (cr_DB (ap_router ap)) (sv_store sv) (co_ID c) = Inr c \<and>
       GetContainer (cr_DB (ap_router ap)) (sv_store sv) (co_ShortID c) = Inr c)"
proof -
  note tabs = memdb_tables.okay_def[OF assms(1)] memdb_tables.held_def[OF assms(1)]
  have "memdb_tables.okay rows sv" using memdb_tables.orderly_okay[OF assms(1,3,2) refl] .
  then show ?thesis
    using memdb_tables.held_found[OF assms(1)] memdb_tables.held_found_short[OF assms(1)] tabs by blast
qed

text \<open>
  (C7) Lookups do not interfere: a request other than a renaming, in a run without a renaming, whether
  it succeeds, fails or deletes, leaves every stored container that it does not address to be found
  under its identifier and its short identifier, unchanged. Names are not unique in the table, and a
  lookup by name finds the first row that has it; so a container is found under its name as well when
  no other container stored after the request has that name.
\<close>

theorem lookups_isolated:
  assumes "memdb_tables (cr_DB (ap_router ap)) rows" "container_backend (cr_Backend (ap_router ap))" "orderly rows ap sv"
    and "proper rows (sv_store sv) a" "serve ap a sv = (out, sv')"
    and "stored rows (sv_store sv) c" "co_ID c \<notin> addressed (ap_router ap) sv a"
  shows "GetContainer (cr_DB (ap_router ap)) (sv_store sv') (co_ID c) = Inr c \<and>
    GetContainer (cr_DB (ap_router ap)) (sv_store sv') (co_ShortID c) = Inr c \<and>
    (co_Name c \<noteq> [] \<longrightarrow> (\<forall>c'. stored rows (sv_store sv') c' \<longrightarrow> co_Name c' = co_Name c \<longrightarrow> co_ID c' = co_ID c) \<longrightarrow>
       GetContainerByName (cr_DB (ap_router ap)) (sv_store sv') (co_Name c) = Inr c)"
proof -
  note tabs = memdb_tables.okay_def[OF assms(1)] memdb_tables.held_def[OF assms(1)]
  have ok: "memdb_tables.okay rows sv" using memdb_tables.orderly_okay[OF assms(1,3,2) refl] .
  have "heap_ok sv" using reachable_invariant[OF orderly_reachable[OF assms(3)] assms(2)] by blast
  then have on: "only (addressed (ap_router ap) sv a) sv sv'" using serve_only[OF assms(2), of sv a] assms(5) by simp
  have mv: "memdb_tables.moved rows (addressed (ap_router ap) sv a) sv sv'"
    using memdb_tables.serve_moved[OF assms(1,2) refl ok assms(4)] assms(5) by simp
  then have ok': "memdb_tables.okay rows sv'" by (simp add: memdb_tables.moved_def[OF assms(1)])
  have "memdb_tables.held rows sv' c"
    by (rule memdb_tables.held_moved[OF assms(1) ok _ assms(7) mv on]) (use assms(6) in \<open>simp add: tabs\<close>)
  then have found: "GetContainer (cr_DB (ap_router ap)) (sv_store sv') (co_ID c) = Inr c"
    "GetContainer (cr_DB (ap_router ap)) (sv_store sv') (co_ShortID c) = Inr c"
    and held: "containers_ok rows (sv_store sv')" "stored rows (sv_store sv') c"
    using memdb_tables.held_found[OF assms(1) ok'] memdb_tables.held_found_short[OF assms(1) ok'] ok' by (auto simp: tabs)
  show ?thesis using found memdb_table.GetContainer_by_name[OF memdb_tables.axioms(1)[OF assms(1)] held] by blast
qed

section \<open>Examples\<close>

lemma sample_tables: "memdb_tables (cr_DB (ap_router sample_api)) list_rows"
  using listtabs.memdb_tables_axioms by (simp add: sample_api_def sample_router_def)

lemma sample_fresh: "fresh_id list_rows (sv_store sample_server) sample_id"
  using sample_id_random by (simp add: fresh_id_def list_rows_def sample_server_def)

lemma sample_orderly: "orderly list_rows sample_api (snd (serve sample_api sample_create sample_server))"
proof (rule orderly.request[OF orderly.start sample_action_ok _ prod.collapse[symmetric]])
  show "proper list_rows (sv_store sample_server) sample_create"
    using sample_fresh by (simp add: sample_create_def sample_moment_def)
qed (simp_all add: sample_server_def empty_store_def list_rows_def)

lemma sample_row: "map fst (list_rows (st_db (sv_store (snd (serve sample_api sample_create sample_server)))) TContainer) = [sample_id]"
  by code_simp

lemma sample_stored:
  obtains c where "stored list_rows (sv_store (snd (serve sample_api sample_create sample_server))) c" "co_ID c = sample_id"
proof -
  let ?st = "sv_store (snd (serve sample_api sample_create sample_server))"
  have "listtabs.okay (snd (serve sample_api sample_create sample_server))"
    using memdb_tables.orderly_okay[OF sample_tables sample_orderly sample_api_backend refl] .
  then have ok: "containers_ok list_rows ?st" by (simp add: listtabs.okay_def)
  obtain k where k: "k \<in> set (list_rows (st_db ?st) TContainer)" "fst k = sample_id" using sample_row by (cases "list_rows (st_db ?st) TContainer") auto
  obtain r where "map_get (st_containers ?st) (fst k) = Some r" "co_key r = k" using containers_row(3)[OF ok k(1)] by blast
  then show ?thesis using k that[of r] by (auto simp: stored_def co_key_def)
qed

theorem database_consistent_witness:
  "\<exists>c sv. orderly list_rows sample_api sv \<and> stored list_rows (sv_store sv) c \<and> co_ID c = sample_id \<and>
     GetContainer list_memdb (sv_store sv) sample_id = Inr c"
proof -
  obtain c where c: "stored list_rows (sv_store (snd (serve sample_api sample_create sample_server))) c" "co_ID c = sample_id"
    by (rule sample_stored)
  have "cr_DB (ap_router sample_api) = list_memdb" by (simp add: sample_api_def sample_router_def)
  then show ?thesis using database_consistent[OF sample_tables sample_api_backend sample_orderly] sample_orderly c by metis
qed

text \<open>A second container is created; the first one is found as before.\<close>

theorem lookups_isolated_witness:
  "\<exists>c sv out sv'. orderly list_rows sample_api sv \<and> stored list_rows (sv_store sv) c \<and> co_ID c = sample_id \<and>
     serve sample_api (DockerCreate (sample_moment\<lparr>mo_newid := rev sample_id\<rparr>) (Inr sample_request) []) sv = (out, sv') \<and>
     GetContainer list_memdb (sv_store sv') sample_id = Inr c"
proof -
  let ?a = "DockerCreate (sample_moment\<lparr>mo_newid := rev sample_id\<rparr>) (Inr sample_request) []"
  let ?sv = "snd (serve sample_api sample_create sample_server)"
  obtain c where c: "stored list_rows (sv_store ?sv) c" "co_ID c = sample_id" by (rule sample_stored)
  obtain out sv' where r: "serve sample_api ?a ?sv = (out, sv')" by force
  have "sample_id \<noteq> rev sample_id" by code_simp
  then have n: "co_ID c \<notin> addressed (ap_router sample_api) ?sv ?a" using c(2) by simp
  have "random_id (rev sample_id)" using sample_id_random by (simp add: random_id_def list_all_iff)
  moreover have "list_all (\<lambda>k. fst (snd k) \<noteq> TruncateID (rev sample_id)) (list_rows (st_db (sv_store ?sv)) TContainer)" by code_simp
  ultimately have "proper list_rows (sv_store ?sv) ?a" by (simp add: fresh_id_def list_all_iff)
  note found = lookups_isolated[OF sample_tables sample_api_backend sample_orderly this r c(1) n]
  have "cr_DB (ap_router sample_api) = list_memdb" by (simp add: sample_api_def sample_router_def)
  then show ?thesis using found sample_orderly c r by metis
qed

end
