(* ===== verification/IoProxy.thy ===== *)
theory IoProxy
  imports StringID
begin

text \<open>
  \<open>internal/util/ioproxy/ioproxy.go\<close>: the line-buffering proxy that multiplexes a container's
  standard output and error over one connection with 8-byte headers.

  The output is a state \<open>'w\<close> with a write function \<open>wr\<close> that returns the number of bytes
  taken and possibly an error, as \<open>io.Writer\<close> does. \<open>writeAll\<close> loops as long as the writer
  takes fewer bytes, so it is a partial function: \<^const>\<open>None\<close> means that it never returns.
  Every public method holds the lock that the proxies of one connection share, so an
  interleaving of calls is a sequence of whole calls. The goroutine that \<open>Write\<close> starts is a
  later call of \<open>Flush\<close>; \<open>ip_timers\<close> counts how many have been started.
\<close>

section \<open>Operations\<close>

type_synonym 'w writer = "'w \<Rightarrow> byte list \<Rightarrow> 'w \<times> nat \<times> error option"

definition Stdin :: byte where "Stdin = 0"
definition Stdout :: byte where "Stdout = 1"
definition Stderr :: byte where "Stderr = 2"

record ioproxy =
  ip_prefix :: byte
  ip_buf :: "byte list"
  ip_flusher :: bool
  ip_timers :: nat

definition ioproxy_New :: "byte \<Rightarrow> ioproxy" where
  "ioproxy_New prefix = \<lparr>ip_prefix = prefix, ip_buf = [], ip_flusher = False, ip_timers = 0\<rparr>"

partial_function (option) writeAll ::
  "'w writer \<Rightarrow> 'w \<Rightarrow> byte list \<Rightarrow> ('w \<times> error option) option" where
  "writeAll wr w buf =
     (if buf = [] then Some (w, None)
      else case wr w buf of (w', n, err) \<Rightarrow>
        (case err of Some e \<Rightarrow> Some (w', Some e) | None \<Rightarrow> writeAll wr w' (drop n buf)))"

definition PutUint32 :: "32 word \<Rightarrow> byte list" where
  "PutUint32 v = [ucast (drop_bit 24 v), ucast (drop_bit 16 v), ucast (drop_bit 8 v), ucast v]"

definition header :: "byte \<Rightarrow> byte list \<Rightarrow> byte list" where
  "header prefix p = [prefix, 0, 0, 0] @ PutUint32 (of_nat (length p))"

definition ioproxy_write ::
  "'w writer \<Rightarrow> byte \<Rightarrow> 'w \<Rightarrow> byte list \<Rightarrow> ('w \<times> error option) option" where
  "ioproxy_write wr prefix w p =
     (case writeAll wr w (header prefix p) of
        None \<Rightarrow> None
      | Some (w', Some e) \<Rightarrow> Some (w', Some e)
      | Some (w', None) \<Rightarrow> writeAll wr w' p)"

definition newline :: byte where "newline = 10"

text \<open>\<open>process\<close> returns the number of bytes it passed on; the error of \<open>write\<close> is dropped.\<close>

definition process ::
  "'w writer \<Rightarrow> 'w \<Rightarrow> ioproxy \<Rightarrow> ('w \<times> ioproxy \<times> nat) option" where
  "process wr w p =
     (let pos = length (takeWhile (\<lambda>b. b \<noteq> newline) (ip_buf p))
      in if pos < length (ip_buf p) then
           (case ioproxy_write wr (ip_prefix p) w (take (pos + 1) (ip_buf p)) of
              None \<Rightarrow> None
            | Some (w', _) \<Rightarrow> Some (w', p\<lparr>ip_buf := drop (pos + 1) (ip_buf p)\<rparr>, pos + 1))
         else Some (w, p, 0))"

partial_function (option) process_all ::
  "'w writer \<Rightarrow> 'w \<Rightarrow> ioproxy \<Rightarrow> ('w \<times> ioproxy) option" where
  "process_all wr w p =
     (case process wr w p of
        None \<Rightarrow> None
      | Some (w', p', n) \<Rightarrow> if n \<noteq> 0 then process_all wr w' p' else Some (w', p'))"

definition ioproxy_Write ::
  "'w writer \<Rightarrow> 'w \<Rightarrow> ioproxy \<Rightarrow> byte list \<Rightarrow> ('w \<times> ioproxy \<times> nat) option" where
  "ioproxy_Write wr w p data =
     (case process_all wr w (p\<lparr>ip_buf := ip_buf p @ data\<rparr>) of
        None \<Rightarrow> None
      | Some (w', p') \<Rightarrow>
          Some (w', if ip_buf p' \<noteq> [] \<and> \<not> ip_flusher p'
                    then p'\<lparr>ip_flusher := True, ip_timers := Suc (ip_timers p')\<rparr> else p', length data))"

definition ioproxy_Flush ::
  "'w writer \<Rightarrow> 'w \<Rightarrow> ioproxy \<Rightarrow> ('w \<times> ioproxy \<times> error option) option" where
  "ioproxy_Flush wr w p =
     (if ip_buf p = [] then Some (w, p, None)
      else case ioproxy_write wr (ip_prefix p) w (ip_buf p) of
             None \<Rightarrow> None
           | Some (w', e) \<Rightarrow> Some (w', p\<lparr>ip_buf := [], ip_flusher := False\<rparr>, e))"

section \<open>Two proxies on one connection\<close>

datatype io_op = OpWrite bool "byte list" | OpFlush bool   \<comment> \<open>\<^const>\<open>True\<close>: the error stream\<close>

fun io_step :: "'w writer \<Rightarrow> io_op \<Rightarrow> 'w \<times> ioproxy \<times> ioproxy \<Rightarrow> ('w \<times> ioproxy \<times> ioproxy) option" where
  "io_step wr (OpWrite err data) (w, po, pe) =
     (if err then (case ioproxy_Write wr w pe data of None \<Rightarrow> None | Some (w', p', _) \<Rightarrow> Some (w', po, p'))
      else (case ioproxy_Write wr w po data of None \<Rightarrow> None | Some (w', p', _) \<Rightarrow> Some (w', p', pe)))"
| "io_step wr (OpFlush err) (w, po, pe) =
     (if err then (case ioproxy_Flush wr w pe of None \<Rightarrow> None | Some (w', p', _) \<Rightarrow> Some (w', po, p'))
      else (case ioproxy_Flush wr w po of None \<Rightarrow> None | Some (w', p', _) \<Rightarrow> Some (w', p', pe)))"

fun io_run :: "'w writer \<Rightarrow> io_op list \<Rightarrow> 'w \<times> ioproxy \<times> ioproxy \<Rightarrow> ('w \<times> ioproxy \<times> ioproxy) option" where
  "io_run wr [] s = Some s"
| "io_run wr (x # xs) s = (case io_step wr x s of None \<Rightarrow> None | Some s' \<Rightarrow> io_run wr xs s')"

section \<open>The receiving side\<close>

text \<open>
  The stream format of the Docker API: frames of a type byte, three zero bytes, the payload's
  length in big-endian order, and the payload. \<open>demux\<close> is the reader the format promises.
\<close>

definition Uint32 :: "byte list \<Rightarrow> nat" where
  "Uint32 bs = foldl (\<lambda>n b. 256 * n + unat b) 0 bs"

function demux :: "byte list \<Rightarrow> (byte \<times> byte list) list option" where
  "demux bs =
     (if bs = [] then Some []
      else if length bs < 8 then None
      else let n = Uint32 (take 4 (drop 4 bs)); rest = drop 8 bs
           in if length rest < n then None
              else map_option ((#) (hd bs, take n rest)) (demux (drop n rest)))"
  by pat_completeness auto
termination by (relation "measure length") auto

declare demux.simps [simp del]

definition stream :: "byte \<Rightarrow> (byte \<times> byte list) list \<Rightarrow> byte list" where
  "stream t fs = concat (map snd (filter (\<lambda>f. fst f = t) fs))"

fun op_data :: "bool \<Rightarrow> io_op \<Rightarrow> byte list" where
  "op_data err (OpWrite e data) = (if e = err then data else [])"
| "op_data err (OpFlush e) = []"

text \<open>A writer that keeps everything it is given, at most \<open>k\<close> bytes per call.\<close>

definition chunk_writer :: "nat \<Rightarrow> byte list writer" where
  "chunk_writer k w b = (w @ take k b, length (take k b), None)"

section \<open>Frames\<close>

lemma unat_byte_of:
  assumes "n < 2 ^ 32"
  shows "unat (ucast (drop_bit k (of_nat n :: 32 word)) :: byte) = n div 2 ^ k mod 256"
proof -
  have "unat (drop_bit k (of_nat n :: 32 word)) = drop_bit k (take_bit 32 (unat (of_nat n :: 32 word)))"
    by (rule unsigned_drop_bit_eq[where 'a = nat and 'b = 32, simplified])
  also have "\<dots> = n div 2 ^ k" using assms by (simp add: unat_of_nat take_bit_eq_mod drop_bit_eq_div)
  finally show ?thesis by (simp add: unsigned_ucast_eq take_bit_eq_mod del: unat_drop_bit_eq)
qed

lemma Uint32_PutUint32:
  assumes "n < 2 ^ 32"
  shows "Uint32 (PutUint32 (of_nat n)) = n"
proof -
  have "Uint32 (PutUint32 (of_nat n)) =
      256 * (256 * (256 * (n div 2 ^ 24 mod 256) + n div 2 ^ 16 mod 256) + n div 2 ^ 8 mod 256) + n mod 256"
    using unat_byte_of[OF assms, of 24] unat_byte_of[OF assms, of 16] unat_byte_of[OF assms, of 8]
      unat_byte_of[OF assms, of 0]
    by (simp add: Uint32_def PutUint32_def)
  also have "\<dots> = n"
  proof -
    define a b c where "a = n div 256" and "b = a div 256" and "c = b div 256"
    have "n div 2 ^ 8 = a" "n div 2 ^ 16 = b" "n div 2 ^ 24 = c"
      by (simp_all add: a_def b_def c_def div_mult2_eq[symmetric])
    moreover have "c < 256" using assms by (simp add: a_def b_def c_def div_mult2_eq[symmetric])
    moreover have "256 * c + b mod 256 = b" "256 * b + a mod 256 = a" "256 * a + n mod 256 = n"
      by (simp_all add: a_def b_def c_def)
    ultimately show ?thesis by simp
  qed
  finally show ?thesis .
qed

lemma length_header [simp]: "length (header t d) = 8"
  by (simp add: header_def PutUint32_def)

lemma demux_step:
  "8 \<le> length bs \<Longrightarrow> Uint32 (take 4 (drop 4 bs)) = length d \<Longrightarrow> hd bs = t \<Longrightarrow> drop 8 bs = d @ rest \<Longrightarrow>
   demux bs = map_option ((#) (t, d)) (demux rest)"
  by (subst demux.simps) (auto simp: Let_def)

lemma demux_frame:
  assumes "length d < 2 ^ 32"
  shows "demux (header t d @ d @ rest) = map_option ((#) (t, d)) (demux rest)"
proof (rule demux_step)
  have "take 4 (drop 4 (header t d @ d @ rest)) = PutUint32 (of_nat (length d))"
    by (simp add: header_def PutUint32_def)
  then show "Uint32 (take 4 (drop 4 (header t d @ d @ rest))) = length d"
    by (simp only: Uint32_PutUint32[OF assms])
qed (simp_all add: header_def PutUint32_def)

lemma demux_frames:
  "\<forall>f \<in> set fs. length (snd f) < 2 ^ 32 \<Longrightarrow> demux (concat (map (\<lambda>(t, d). header t d @ d) fs)) = Some fs"
  by (induction fs) (auto simp: demux_frame demux.simps[of "[]"])

section \<open>Writers that make progress\<close>

locale io_writer =
  fixes wr :: "'w writer" and sent :: "'w \<Rightarrow> byte list"
  assumes progress: "b \<noteq> [] \<Longrightarrow> wr w b = (w', n, e) \<Longrightarrow>
      e = None \<and> 0 < n \<and> n \<le> length b \<and> sent w' = sent w @ take n b"
begin

lemma writeAll_sends: "\<exists>w'. writeAll wr w buf = Some (w', None) \<and> sent w' = sent w @ buf"
proof (induction "length buf" arbitrary: w buf rule: less_induct)
  case less
  show ?case
  proof (cases "buf = []")
    case True
    then show ?thesis by (simp add: writeAll.simps)
  next
    case False
    obtain w1 n e where wr: "wr w buf = (w1, n, e)" by (metis prod_cases3)
    note p = progress[OF False wr]
    have "length (drop n buf) < length buf" using p False by (metis diff_less length_drop length_greater_0_conv)
    from less[OF this, of w1] obtain w' where
      "writeAll wr w1 (drop n buf) = Some (w', None)" "sent w' = sent w1 @ drop n buf" by blast
    then show ?thesis using p wr False by (subst writeAll.simps) simp
  qed
qed

lemma write_sends:
  "\<exists>w'. ioproxy_write wr t w p = Some (w', None) \<and> sent w' = sent w @ header t p @ p"
proof -
  obtain w1 where 1: "writeAll wr w (header t p) = Some (w1, None)" "sent w1 = sent w @ header t p"
    using writeAll_sends by blast
  obtain w' where "writeAll wr w1 p = Some (w', None)" "sent w' = sent w1 @ p"
    using writeAll_sends by blast
  with 1 show ?thesis by (simp add: ioproxy_write_def)
qed

lemma process_all_sends:
  "\<exists>w' p' fs. process_all wr w p = Some (w', p') \<and>
     sent w' = sent w @ concat (map (\<lambda>(t, d). header t d @ d) fs) \<and>
     (\<forall>f \<in> set fs. fst f = ip_prefix p) \<and> concat (map snd fs) @ ip_buf p' = ip_buf p \<and>
     newline \<notin> set (ip_buf p') \<and> p' = p\<lparr>ip_buf := ip_buf p'\<rparr>"
proof (induction "length (ip_buf p)" arbitrary: w p rule: less_induct)
  case less
  let ?pos = "length (takeWhile (\<lambda>b. b \<noteq> newline) (ip_buf p))"
  show ?case
  proof (cases "?pos < length (ip_buf p)")
    case False
    then have "takeWhile (\<lambda>b. b \<noteq> newline) (ip_buf p) = ip_buf p"
      by (metis le_neq_implies_less length_takeWhile_le takeWhile_eq_take take_all order_refl)
    then have "newline \<notin> set (ip_buf p)" by (metis (full_types) set_takeWhileD)
    with False show ?thesis
      by (intro exI[of _ w] exI[of _ p] exI[of _ "[]"]) (simp add: process_all.simps process_def)
  next
    case True
    let ?d = "take (?pos + 1) (ip_buf p)" and ?p1 = "p\<lparr>ip_buf := drop (?pos + 1) (ip_buf p)\<rparr>"
    obtain w1 where w1: "ioproxy_write wr (ip_prefix p) w ?d = Some (w1, None)"
      "sent w1 = sent w @ header (ip_prefix p) ?d @ ?d" using write_sends by blast
    have "length (ip_buf ?p1) < length (ip_buf p)" using True by simp
    from less[OF this, of w1] obtain w' p' fs where IH: "process_all wr w1 ?p1 = Some (w', p')"
      "sent w' = sent w1 @ concat (map (\<lambda>(t, d). header t d @ d) fs)" "\<forall>f \<in> set fs. fst f = ip_prefix p"
      "concat (map snd fs) @ ip_buf p' = drop (?pos + 1) (ip_buf p)" "newline \<notin> set (ip_buf p')"
      "p' = ?p1\<lparr>ip_buf := ip_buf p'\<rparr>" by auto
    have "process_all wr w p = Some (w', p')"
      using True w1(1) IH(1) by (subst process_all.simps) (simp add: process_def Let_def)
    moreover have "?d @ concat (map snd fs) @ ip_buf p' = ip_buf p"
      using IH(4) by (metis append_take_drop_id)
    moreover have "p' = p\<lparr>ip_buf := ip_buf p'\<rparr>" using IH(6) by (metis ioproxy.surjective ioproxy.update_convs(2))
    ultimately show ?thesis using IH(2,3,5) w1(2)
      by (intro exI[of _ w'] exI[of _ p'] exI[of _ "(ip_prefix p, ?d) # fs"]) simp
  qed
qed

definition mux_inv :: "byte list \<Rightarrow> 'w \<times> ioproxy \<times> ioproxy \<Rightarrow> byte list \<Rightarrow> byte list \<Rightarrow> bool" where
  "mux_inv base s outs errs = (case s of (w, po, pe) \<Rightarrow>
     ip_prefix po = Stdout \<and> ip_prefix pe = Stderr \<and>
     (\<exists>fs. sent w = base @ concat (map (\<lambda>(t, d). header t d @ d) fs) \<and> (\<forall>f \<in> set fs. fst f \<in> {Stdout, Stderr}) \<and>
        stream Stdout fs @ ip_buf po = outs \<and> stream Stderr fs @ ip_buf pe = errs))"

lemma Write_sends:
  "\<exists>w' p' fs. ioproxy_Write wr w p data = Some (w', p', length data) \<and>
     sent w' = sent w @ concat (map (\<lambda>(t, d). header t d @ d) fs) \<and>
     (\<forall>f \<in> set fs. fst f = ip_prefix p) \<and> concat (map snd fs) @ ip_buf p' = ip_buf p @ data \<and>
     ip_prefix p' = ip_prefix p"
proof -
  obtain w' p' fs where *: "process_all wr w (p\<lparr>ip_buf := ip_buf p @ data\<rparr>) = Some (w', p')"
    "sent w' = sent w @ concat (map (\<lambda>(t, d). header t d @ d) fs)" "\<forall>f \<in> set fs. fst f = ip_prefix p"
    "concat (map snd fs) @ ip_buf p' = ip_buf p @ data"
    "p' = p\<lparr>ip_buf := ip_buf p @ data\<rparr>\<lparr>ip_buf := ip_buf p'\<rparr>"
    using process_all_sends[of w "p\<lparr>ip_buf := ip_buf p @ data\<rparr>"] by auto
  from *(5) have "ip_prefix p' = ip_prefix p" by (metis ioproxy.ext_inject ioproxy.surjective ioproxy.update_convs(2))
  with * show ?thesis by (auto simp: ioproxy_Write_def)
qed

lemma Flush_sends:
  "\<exists>w' p' fs. ioproxy_Flush wr w p = Some (w', p', None) \<and>
     sent w' = sent w @ concat (map (\<lambda>(t, d). header t d @ d) fs) \<and>
     (\<forall>f \<in> set fs. fst f = ip_prefix p) \<and> concat (map snd fs) = ip_buf p \<and> ip_buf p' = [] \<and>
     ip_prefix p' = ip_prefix p"
proof (cases "ip_buf p = []")
  case True
  then show ?thesis by (intro exI[of _ w] exI[of _ p] exI[of _ "[]"]) (simp add: ioproxy_Flush_def)
next
  case False
  obtain w' where "ioproxy_write wr (ip_prefix p) w (ip_buf p) = Some (w', None)"
    "sent w' = sent w @ header (ip_prefix p) (ip_buf p) @ ip_buf p" using write_sends by blast
  with False show ?thesis
    by (intro exI[of _ w'] exI[of _ "p\<lparr>ip_buf := [], ip_flusher := False\<rparr>"]
          exI[of _ "[(ip_prefix p, ip_buf p)]"]) (simp add: ioproxy_Flush_def)
qed

lemma stream_same: "\<forall>f \<in> set fs. fst f = t \<Longrightarrow> stream t fs = concat (map snd fs)"
  by (induction fs) (auto simp: stream_def)

lemma stream_other: "\<forall>f \<in> set fs. fst f = t \<Longrightarrow> t \<noteq> u \<Longrightarrow> stream u fs = []"
  by (induction fs) (auto simp: stream_def)

lemma stream_append: "stream t (fs @ gs) = stream t fs @ stream t gs"
  by (simp add: stream_def)

lemma Stdout_Stderr: "Stdout \<noteq> Stderr" "Stderr \<noteq> Stdout"
  by (simp_all add: Stdout_def Stderr_def)

lemma mux_inv_extend:
  assumes "mux_inv base (w, po, pe) outs errs" "sent w' = sent w @ concat (map (\<lambda>(t, d). header t d @ d) gs)"
  shows "\<forall>f \<in> set gs. fst f = Stdout \<Longrightarrow> ip_prefix p' = Stdout \<Longrightarrow>
      concat (map snd gs) @ ip_buf p' = ip_buf po @ data \<Longrightarrow> mux_inv base (w', p', pe) (outs @ data) errs"
    and "\<forall>f \<in> set gs. fst f = Stderr \<Longrightarrow> ip_prefix p' = Stderr \<Longrightarrow>
      concat (map snd gs) @ ip_buf p' = ip_buf pe @ data \<Longrightarrow> mux_inv base (w', po, p') outs (errs @ data)"
proof -
  obtain fs where fs: "sent w = base @ concat (map (\<lambda>(t, d). header t d @ d) fs)" "\<forall>f \<in> set fs. fst f \<in> {Stdout, Stderr}"
    "stream Stdout fs @ ip_buf po = outs" "stream Stderr fs @ ip_buf pe = errs"
    and pre: "ip_prefix po = Stdout" "ip_prefix pe = Stderr" using assms(1) by (auto simp: mux_inv_def)
  have s: "sent w' = base @ concat (map (\<lambda>(t, d). header t d @ d) (fs @ gs))" using fs(1) assms(2) by simp
  show "mux_inv base (w', p', pe) (outs @ data) errs"
    if "\<forall>f \<in> set gs. fst f = Stdout" "ip_prefix p' = Stdout" "concat (map snd gs) @ ip_buf p' = ip_buf po @ data"
    unfolding mux_inv_def prod.case using that fs(2-4) s pre stream_same[OF that(1)] stream_other[OF that(1) Stdout_Stderr(1)]
    by (intro conjI exI[of _ "fs @ gs"]) (auto simp: stream_append)
  show "mux_inv base (w', po, p') outs (errs @ data)"
    if "\<forall>f \<in> set gs. fst f = Stderr" "ip_prefix p' = Stderr" "concat (map snd gs) @ ip_buf p' = ip_buf pe @ data"
    unfolding mux_inv_def prod.case using that fs(2-4) s pre stream_same[OF that(1)] stream_other[OF that(1) Stdout_Stderr(2)]
    by (intro conjI exI[of _ "fs @ gs"]) (auto simp: stream_append)
qed

lemma step_mux_inv:
  assumes "mux_inv base s outs errs"
  shows "\<exists>s'. io_step wr x s = Some s' \<and> mux_inv base s' (outs @ op_data False x) (errs @ op_data True x)"
proof -
  obtain w po pe where s: "s = (w, po, pe)" by (metis prod_cases3)
  have pre: "ip_prefix po = Stdout" "ip_prefix pe = Stderr" using assms s by (auto simp: mux_inv_def)
  note ext = mux_inv_extend[OF assms[unfolded s]]
  show ?thesis
  proof (cases x)
    case (OpWrite err data)
    show ?thesis
    proof (cases err)
      case True
      obtain w' p' fs where "ioproxy_Write wr w pe data = Some (w', p', length data)"
        "sent w' = sent w @ concat (map (\<lambda>(t, d). header t d @ d) fs)" "\<forall>f \<in> set fs. fst f = Stderr"
        "concat (map snd fs) @ ip_buf p' = ip_buf pe @ data" "ip_prefix p' = Stderr"
        using Write_sends[of w pe data] pre by auto
      with ext(2)[of w' fs p' data] show ?thesis using True OpWrite s by simp
    next
      case False
      obtain w' p' fs where "ioproxy_Write wr w po data = Some (w', p', length data)"
        "sent w' = sent w @ concat (map (\<lambda>(t, d). header t d @ d) fs)" "\<forall>f \<in> set fs. fst f = Stdout"
        "concat (map snd fs) @ ip_buf p' = ip_buf po @ data" "ip_prefix p' = Stdout"
        using Write_sends[of w po data] pre by auto
      with ext(1)[of w' fs p' data] show ?thesis using False OpWrite s by simp
    qed
  next
    case (OpFlush err)
    show ?thesis
    proof (cases err)
      case True
      obtain w' p' fs where "ioproxy_Flush wr w pe = Some (w', p', None)"
        "sent w' = sent w @ concat (map (\<lambda>(t, d). header t d @ d) fs)" "\<forall>f \<in> set fs. fst f = Stderr"
        "concat (map snd fs) = ip_buf pe" "ip_buf p' = []" "ip_prefix p' = Stderr"
        using Flush_sends[of w pe] pre by auto
      with ext(2)[of w' fs p' "[]"] show ?thesis using True OpFlush s by simp
    next
      case False
      obtain w' p' fs where "ioproxy_Flush wr w po = Some (w', p', None)"
        "sent w' = sent w @ concat (map (\<lambda>(t, d). header t d @ d) fs)" "\<forall>f \<in> set fs. fst f = Stdout"
        "concat (map snd fs) = ip_buf po" "ip_buf p' = []" "ip_prefix p' = Stdout"
        using Flush_sends[of w po] pre by auto
      with ext(1)[of w' fs p' "[]"] show ?thesis using False OpFlush s by simp
    qed
  qed
qed

lemma run_mux_inv:
  "mux_inv base s outs errs \<Longrightarrow>
   \<exists>s'. io_run wr xs s = Some s' \<and>
     mux_inv base s' (outs @ concat (map (op_data False) xs)) (errs @ concat (map (op_data True) xs))"
proof (induction xs arbitrary: s outs errs)
  case (Cons x xs)
  from step_mux_inv[OF Cons.prems] obtain s1 where s1: "io_step wr x s = Some s1"
    "mux_inv base s1 (outs @ op_data False x) (errs @ op_data True x)" by blast
  from Cons.IH[OF s1(2)] s1(1) show ?case by simp
qed simp

end

interpretation chunked: io_writer "chunk_writer (Suc k)" "\<lambda>w. w"
  by unfold_locales (auto simp: chunk_writer_def min_def)

lemma stream_length:
  "f \<in> set fs \<Longrightarrow> length (snd f) \<le> length (stream (fst f) fs)"
  by (induction fs) (auto simp: stream_def)

lemma mux_run:
  assumes "io_writer wr sent" "sent w0 = base"
    and "length (concat (map (op_data False) xs)) < 2 ^ 32" "length (concat (map (op_data True) xs)) < 2 ^ 32"
  shows "\<exists>w po pe fs rest. io_run wr xs (w0, ioproxy_New Stdout, ioproxy_New Stderr) = Some (w, po, pe) \<and>
    sent w = base @ rest \<and> demux rest = Some fs \<and>
    stream Stdout fs @ ip_buf po = concat (map (op_data False) xs) \<and>
    stream Stderr fs @ ip_buf pe = concat (map (op_data True) xs)"
proof -
  have "io_writer.mux_inv sent base (w0, ioproxy_New Stdout, ioproxy_New Stderr) [] []"
    unfolding io_writer.mux_inv_def[OF assms(1)]
    using assms(2) by (auto simp: ioproxy_New_def stream_def intro!: exI[of _ "[]"])
  from io_writer.run_mux_inv[OF assms(1) this, of xs] obtain w po pe where
    run: "io_run wr xs (w0, ioproxy_New Stdout, ioproxy_New Stderr) = Some (w, po, pe)"
    and inv: "io_writer.mux_inv sent base (w, po, pe) (concat (map (op_data False) xs)) (concat (map (op_data True) xs))"
    by auto
  from inv obtain fs where fs: "sent w = base @ concat (map (\<lambda>(t, d). header t d @ d) fs)"
    "\<forall>f \<in> set fs. fst f \<in> {Stdout, Stderr}"
    "stream Stdout fs @ ip_buf po = concat (map (op_data False) xs)"
    "stream Stderr fs @ ip_buf pe = concat (map (op_data True) xs)"
    unfolding io_writer.mux_inv_def[OF assms(1)] by auto
  have "length (snd f) < 2 ^ 32" if "f \<in> set fs" for f
  proof -
    have "length (stream Stdout fs) < 2 ^ 32" "length (stream Stderr fs) < 2 ^ 32"
      using assms(3,4) fs(3,4) by (metis length_append trans_less_add1 add_lessD1)+
    with stream_length[OF that] fs(2) that show ?thesis by force
  qed
  then have "demux (concat (map (\<lambda>(t, d). header t d @ d) fs)) = Some fs" by (intro demux_frames) blast
  with run fs(1,3,4) show ?thesis by blast
qed

text \<open>
  Multiplexing loses, reorders and mixes nothing: on a connection that keeps accepting bytes
  (any number per call), every interleaving of writes and flushes on the output and the error
  proxy returns; what has been sent always parses into frames, and per stream the payloads
  followed by what is still buffered are exactly the bytes written (below 4 GiB in total, where
  the 32-bit length cannot wrap).
\<close>

theorem ioproxy_multiplex_roundtrip:
  assumes "io_writer wr sent" "sent w0 = []"
    and "length (concat (map (op_data False) xs)) < 2 ^ 32" "length (concat (map (op_data True) xs)) < 2 ^ 32"
  shows "\<exists>w po pe fs. io_run wr xs (w0, ioproxy_New Stdout, ioproxy_New Stderr) = Some (w, po, pe) \<and>
    demux (sent w) = Some fs \<and>
    stream Stdout fs @ ip_buf po = concat (map (op_data False) xs) \<and>
    stream Stderr fs @ ip_buf pe = concat (map (op_data True) xs)"
  using mux_run[OF assms] by auto

theorem ioproxy_multiplex_roundtrip_witness:
  "\<exists>w po pe fs. io_run (chunk_writer (Suc 2)) [OpWrite False [104, 10, 105], OpWrite True [101], OpFlush False, OpFlush True]
       ([], ioproxy_New Stdout, ioproxy_New Stderr) = Some (w, po, pe) \<and>
     demux w = Some fs \<and> stream Stdout fs @ ip_buf po = [104, 10, 105] \<and> stream Stderr fs @ ip_buf pe = [101]"
  using ioproxy_multiplex_roundtrip[OF chunked.io_writer_axioms[of 2], of "[]"
      "[OpWrite False [104, 10, 105], OpWrite True [101], OpFlush False, OpFlush True]"]
  by (simp del: io_run.simps)

text \<open>
  After a flush nothing of that stream is held back and the flush timer can be armed again;
  but a flush that finds an empty buffer leaves the flag set, so from then on partial lines
  arm no timer.
\<close>

theorem ioproxy_Flush_flag:
  assumes "ioproxy_Flush wr w p = Some (w', p', e)"
  shows "ip_buf p' = [] \<and> ip_flusher p' = (ip_buf p = [] \<and> ip_flusher p)"
  using assms by (auto simp: ioproxy_Flush_def split: if_splits option.splits)

theorem ioproxy_Flush_flag_witness:
  "\<exists>p'. ioproxy_Flush (chunk_writer 4) [] \<lparr>ip_prefix = Stdout, ip_buf = [], ip_flusher = True, ip_timers = 1\<rparr> = Some ([], p', None)
     \<and> ip_flusher p'"
  using ioproxy_Flush_flag[of "chunk_writer 4" "[]" "\<lparr>ip_prefix = Stdout, ip_buf = [], ip_flusher = True, ip_timers = 1\<rparr>" "[]"]
  by (simp add: ioproxy_Flush_def)

end
