(* ===== verification/Streams.thy ===== *)
theory Streams
  imports ExecRoutes IoProxy
begin

text \<open>
  The byte streams of interactive requests: \<open>HijackConnection\<close> and \<open>UpgradeConnection\<close>
  (\<open>internal/server/httputil/util.go\<close>), the writers that \<open>AttachContainer\<close>
  (\<open>internal/backend/attach.go\<close>) and \<open>ExecContainer\<close> (\<open>exec.go\<close>) hand to the remote
  side, the log writers of \<open>logs.go\<close>, and the requests of \<open>internal/util/exec\<close> and
  \<open>internal/util/attach\<close>.

  A session is what the process in the pod writes, call by call, interleaved with the flush timers
  of the proxies. The transport (web sockets, SPDY) is the client library's; of it the model has the
  options the program asks for, and that a terminal merges the two outputs into one.
\<close>

section \<open>Requests to the pod\<close>

record stream_request =
  sr_Cmd :: "string list"
  sr_Stdin :: bool           \<comment> \<open>a reader is given\<close>
  sr_Stdout :: bool
  sr_Stderr :: bool
  sr_TTY :: bool

record stream_options =
  so_Container :: string
  so_Command :: "string list"
  so_Stdin :: bool
  so_Stdout :: bool
  so_Stderr :: bool
  so_TTY :: bool

text \<open>\<open>exec.RemoteCmd\<close>: a terminal only with standard input. \<open>attach.RemoteAttach\<close>: as asked.\<close>

definition exec_options :: "stream_request \<Rightarrow> stream_options" where
  "exec_options r = \<lparr>so_Container = ''main'', so_Command = sr_Cmd r, so_Stdin = sr_Stdin r, so_Stdout = sr_Stdout r,
     so_Stderr = sr_Stderr r, so_TTY = (sr_Stdin r \<and> sr_TTY r)\<rparr>"

definition attach_options :: "stream_request \<Rightarrow> stream_options" where
  "attach_options r = \<lparr>so_Container = ''main'', so_Command = [], so_Stdin = sr_Stdin r, so_Stdout = sr_Stdout r,
     so_Stderr = sr_Stderr r, so_TTY = sr_TTY r\<rparr>"

text \<open>
  The executors of the client library: the errors of making them, the outcome of streaming over a
  web socket (\<^const>\<open>True\<close>) or SPDY, and which errors say that the upgrade failed.
\<close>

record executors =
  xc_NewWebSocket :: "error option"
  xc_NewSPDY :: "error option"
  xc_NewFallback :: "error option"
  xc_Stream :: "bool \<Rightarrow> stream_options \<Rightarrow> error option"
  xc_UpgradeFailure :: "error \<Rightarrow> bool"
  xc_ProxyError :: "error \<Rightarrow> bool"

definition first_error :: "error option \<Rightarrow> error option \<Rightarrow> error option" where
  "first_error e f = (case e of Some x \<Rightarrow> Some x | None \<Rightarrow> f)"

definition RemoteCmd :: "executors \<Rightarrow> stream_request \<Rightarrow> error option" where
  "RemoteCmd X r = first_error (xc_NewWebSocket X) (first_error (xc_NewSPDY X) (first_error (xc_NewFallback X)
     (case xc_Stream X True (exec_options r) of
        None \<Rightarrow> None
      | Some e \<Rightarrow> if xc_UpgradeFailure X e \<or> xc_ProxyError X e then xc_Stream X False (exec_options r) else Some e)))"

definition RemoteAttach :: "executors \<Rightarrow> stream_request \<Rightarrow> error option" where
  "RemoteAttach X r = first_error (xc_NewSPDY X) (xc_Stream X False (attach_options r))"

section \<open>Where the output goes\<close>

text \<open>
  What a request gets as \<open>Stdout\<close> or \<open>Stderr\<close>: nothing, the connection itself, \<open>io.Discard\<close>, a
  proxy on the connection, or a proxy on a nil writer.
\<close>

datatype sink = NoSink | Raw | Drop | Mux | MuxNil

text \<open>\<open>AttachContainer\<close>: the proxy of the error stream is made over the writer of the output stream.\<close>

definition attach_sinks :: "bool \<Rightarrow> bool \<Rightarrow> bool \<Rightarrow> sink \<times> sink" where
  "attach_sinks tty stdout stderr =
     (if tty then (if stdout then Raw else NoSink, Drop)
      else (if stdout then Mux else NoSink, if stderr then (if stdout then Mux else MuxNil) else NoSink))"

definition exec_sinks :: "exec \<Rightarrow> sink \<times> sink" where
  "exec_sinks ex =
     (if ex_TTY ex then (Raw, Drop)
      else (if ex_Stdout ex then Mux else NoSink, if ex_Stderr ex then Mux else NoSink))"

definition sink_request :: "string list \<Rightarrow> bool \<Rightarrow> bool \<Rightarrow> sink \<times> sink \<Rightarrow> stream_request" where
  "sink_request cmd stdin tty sinks = \<lparr>sr_Cmd = cmd, sr_Stdin = stdin, sr_Stdout = (fst sinks \<noteq> NoSink),
     sr_Stderr = (snd sinks \<noteq> NoSink), sr_TTY = tty\<rparr>"

definition AttachContainer ::
  "('k, 'q) deploy_env \<Rightarrow> 'q backend \<Rightarrow> container \<Rightarrow> bool \<Rightarrow> bool \<Rightarrow> bool \<Rightarrow> bool \<Rightarrow> 'k \<Rightarrow> (stream_options \<times> sink \<times> sink) result" where
  "AttachContainer E bk tainr stdin stdout stderr tty k = (case de_GetPod E (bk_namespace bk) (GetPodName tainr) k of
     Inl e \<Rightarrow> Inl e
   | Inr pd \<Rightarrow> (let sinks = attach_sinks tty stdout stderr in Inr (attach_options (sink_request [] stdin tty sinks), sinks)))"

section \<open>Sessions\<close>

datatype 'a session = Going 'a | Crashed     \<comment> \<open>a panic outside every recovery\<close>

text \<open>
  A proxy on a nil writer panics as soon as it has a line to write, or is flushed with a rest. That
  is never in the goroutine of the request, which \<open>gin.Recovery\<close> guards: the handler runs
  \<open>AttachContainer\<close> with its deferred flushes in a goroutine of its own, and the stream executor and the
  flush timer have theirs.
\<close>

fun sink_Write :: "'w writer \<Rightarrow> sink \<Rightarrow> byte list \<Rightarrow> 'w \<times> ioproxy \<Rightarrow> ('w \<times> ioproxy) session option" where
  "sink_Write wr NoSink data (w, p) = Some (Going (w, p))"
| "sink_Write wr Raw data (w, p) = Some (Going (fst (wr w data), p))"
| "sink_Write wr Drop data (w, p) = Some (Going (w, p))"
| "sink_Write wr Mux data (w, p) = (case ioproxy_Write wr w p data of None \<Rightarrow> None | Some (w', p', n) \<Rightarrow> Some (Going (w', p')))"
| "sink_Write wr MuxNil data (w, p) = (if newline \<in> set (ip_buf p @ data) then Some Crashed
     else Some (Going (w, p\<lparr>ip_buf := ip_buf p @ data\<rparr>)))"

fun sink_Flush :: "'w writer \<Rightarrow> sink \<Rightarrow> 'w \<times> ioproxy \<Rightarrow> ('w \<times> ioproxy) session option" where
  "sink_Flush wr Mux (w, p) = (case ioproxy_Flush wr w p of None \<Rightarrow> None | Some (w', p', e) \<Rightarrow> Some (Going (w', p')))"
| "sink_Flush wr MuxNil (w, p) = (if ip_buf p \<noteq> [] then Some Crashed else Some (Going (w, p)))"
| "sink_Flush wr _ (w, p) = Some (Going (w, p))"

definition on_sink ::
  "bool \<Rightarrow> (sink \<Rightarrow> 'w \<times> ioproxy \<Rightarrow> ('w \<times> ioproxy) session option) \<Rightarrow> sink \<times> sink \<Rightarrow> 'w \<times> ioproxy \<times> ioproxy \<Rightarrow>
   ('w \<times> ioproxy \<times> ioproxy) session option" where
  "on_sink err f sinks s = (case s of (w, po, pe) \<Rightarrow>
     (case (if err then f (snd sinks) (w, pe) else f (fst sinks) (w, po)) of
        None \<Rightarrow> None
      | Some Crashed \<Rightarrow> Some Crashed
      | Some (Going (w', p')) \<Rightarrow> Some (Going (if err then (w', po, p') else (w', p', pe)))))"

fun session_step ::
  "'w writer \<Rightarrow> sink \<times> sink \<Rightarrow> io_op \<Rightarrow> 'w \<times> ioproxy \<times> ioproxy \<Rightarrow> ('w \<times> ioproxy \<times> ioproxy) session option" where
  "session_step wr sinks (OpWrite err data) s = on_sink err (\<lambda>k. sink_Write wr k data) sinks s"
| "session_step wr sinks (OpFlush err) s = on_sink err (sink_Flush wr) sinks s"

fun session_run ::
  "'w writer \<Rightarrow> sink \<times> sink \<Rightarrow> io_op list \<Rightarrow> 'w \<times> ioproxy \<times> ioproxy \<Rightarrow> ('w \<times> ioproxy \<times> ioproxy) session option" where
  "session_run wr sinks [] s = Some (Going s)"
| "session_run wr sinks (x # xs) s = (case session_step wr sinks x s of
     None \<Rightarrow> None
   | Some Crashed \<Rightarrow> Some Crashed
   | Some (Going s') \<Rightarrow> session_run wr sinks xs s')"

text \<open>The deferred flushes of the proxies, the last one made first.\<close>

definition deferred :: "sink \<times> sink \<Rightarrow> io_op list" where
  "deferred sinks = (if snd sinks \<in> {Mux, MuxNil} then [OpFlush True] else []) @ (if fst sinks \<in> {Mux, MuxNil} then [OpFlush False] else [])"

text \<open>With a terminal both outputs of the process arrive as one.\<close>

fun merge_op :: "io_op \<Rightarrow> io_op" where
  "merge_op (OpWrite err data) = OpWrite False data"
| "merge_op (OpFlush err) = OpFlush err"

definition remote_output :: "bool \<Rightarrow> io_op list \<Rightarrow> io_op list" where
  "remote_output tty ops = (if tty then map merge_op ops else ops)"

text \<open>The answer that opens the stream; \<open>upgrade\<close>: the request has the header \<open>Upgrade\<close>.\<close>

definition crlf :: string where "crlf = [char_of (13 :: nat), char_of (10 :: nat)]"

definition upgrade_head :: "bool \<Rightarrow> string" where
  "upgrade_head upgrade =
     (if upgrade then ''HTTP/1.1 101 UPGRADED'' @ crlf @ ''Content-Type: application/vnd.docker.raw-stream'' @ crlf @
        ''Connection: Upgrade'' @ crlf @ ''Upgrade: tcp'' @ crlf
      else ''HTTP/1.1 200 OK'' @ crlf @ ''Content-Type: application/vnd.docker.raw-stream'' @ crlf)"

definition bytes_of :: "string \<Rightarrow> byte list" where
  "bytes_of s = map of_char s"

definition UpgradeConnection :: "'w writer \<Rightarrow> bool \<Rightarrow> 'w \<Rightarrow> 'w" where
  "UpgradeConnection wr upgrade w = fst (wr (fst (wr w (bytes_of (upgrade_head upgrade)))) (bytes_of crlf))"

text \<open>\<open>HijackConnection\<close> writes the empty slice first.\<close>

definition HijackConnection :: "'w writer \<Rightarrow> 'w result \<Rightarrow> 'w result" where
  "HijackConnection wr conn = bind_res conn (\<lambda>w. Inr (fst (wr w [])))"

text \<open>
  \<open>CloseStreams\<close> runs at the end of a session. A stream is named by a number, with the methods its
  type has; the calls are listed in their order.
\<close>

record stream_methods =
  sm_CloseWrite :: bool
  sm_Close :: bool

datatype close_call = CloseWrite nat | CloseBoth nat

fun CloseStreams :: "(nat \<times> stream_methods) list \<Rightarrow> close_call list" where
  "CloseStreams [] = []"
| "CloseStreams ((i, m) # streams) =
     (if sm_CloseWrite m then [CloseWrite i] else if sm_Close m then [CloseBoth i] else []) @ CloseStreams streams"

definition stream_session ::
  "'w writer \<Rightarrow> 'w \<Rightarrow> bool \<Rightarrow> stream_options \<Rightarrow> sink \<times> sink \<Rightarrow> io_op list \<Rightarrow> ('w \<times> ioproxy \<times> ioproxy) session option" where
  "stream_session wr w upgrade opts sinks ops =
     session_run wr sinks (remote_output (so_TTY opts) ops @ deferred sinks)
       (UpgradeConnection wr upgrade (fst (wr w [])), ioproxy_New Stdout, ioproxy_New Stderr)"

definition exec_session ::
  "'w writer \<Rightarrow> 'w \<Rightarrow> bool \<Rightarrow> string list \<Rightarrow> exec \<Rightarrow> io_op list \<Rightarrow> ('w \<times> ioproxy \<times> ioproxy) session option" where
  "exec_session wr w upgrade cmd ex ops =
     stream_session wr w upgrade (exec_options (sink_request cmd (ex_Stdin ex) (ex_TTY ex) (exec_sinks ex))) (exec_sinks ex) ops"

definition attach_session ::
  "'w writer \<Rightarrow> 'w \<Rightarrow> bool \<Rightarrow> bool \<Rightarrow> bool \<Rightarrow> bool \<Rightarrow> bool \<Rightarrow> io_op list \<Rightarrow> ('w \<times> ioproxy \<times> ioproxy) session option" where
  "attach_session wr w upgrade stdin stdout stderr tty ops =
     stream_session wr w upgrade (attach_options (sink_request [] stdin tty (attach_sinks tty stdout stderr)))
       (attach_sinks tty stdout stderr) ops"

text \<open>\<open>GetLogs\<close> passes the log through a proxy, \<open>GetLogsRaw\<close> writes it as it is.\<close>

definition GetLogs ::
  "'w writer \<Rightarrow> byte list list \<Rightarrow> 'w \<Rightarrow> ('w \<times> ioproxy \<times> ioproxy) session option" where
  "GetLogs wr chunks w = session_run wr (Mux, NoSink) (map (OpWrite False) chunks @ deferred (Mux, NoSink))
     (w, ioproxy_New Stdout, ioproxy_New Stderr)"

definition GetLogsRaw ::
  "'w writer \<Rightarrow> byte list list \<Rightarrow> 'w \<Rightarrow> ('w \<times> ioproxy \<times> ioproxy) session option" where
  "GetLogsRaw wr chunks w = session_run wr (Raw, NoSink) (map (OpWrite False) chunks) (w, ioproxy_New Stdout, ioproxy_New Stderr)"

section \<open>Connections\<close>

text \<open>A connection that takes what it is given, as \<open>io.Writer\<close> demands of a write without error.\<close>

locale conn_writer =
  fixes wr :: "'w writer" and sent :: "'w \<Rightarrow> byte list"
  assumes takes_all: "wr w b = (w', n, e) \<Longrightarrow> e = None \<and> n = length b \<and> sent w' = sent w @ b"

sublocale conn_writer \<subseteq> io_writer
proof unfold_locales
  fix b :: "byte list" and w w' n e
  assume "b \<noteq> []" "wr w b = (w', n, e)"
  then show "e = None \<and> 0 < n \<and> n \<le> length b \<and> sent w' = sent w @ take n b" using takes_all[of w b w' n e] by simp
qed

context conn_writer
begin

lemma is_io_writer: "io_writer wr sent"
  by unfold_locales

lemma sent_write: "sent (fst (wr w b)) = sent w @ b"
  using takes_all[of w b] by (metis prod.collapse)

lemma sent_head: "sent (UpgradeConnection wr upgrade (fst (wr w []))) = sent w @ bytes_of (upgrade_head upgrade @ crlf)"
  by (simp add: UpgradeConnection_def sent_write bytes_of_def)

end

definition list_conn :: "byte list writer" where
  "list_conn w b = (w @ b, length b, None)"

interpretation list_conn: conn_writer list_conn "\<lambda>w. w"
  by unfold_locales (simp add: list_conn_def)

section \<open>Multiplexed sessions\<close>

fun on_err :: "io_op \<Rightarrow> bool" where
  "on_err (OpWrite err data) = err"
| "on_err (OpFlush err) = err"

text \<open>As long as the calls go to proxies on the connection, a session is a run of the two proxies.\<close>

lemma session_io_run:
  assumes "list_all (\<lambda>x. (if on_err x then snd sinks else fst sinks) = Mux) xs"
  shows "session_run wr sinks xs s = map_option Going (io_run wr xs s)"
  using assms
proof (induction xs arbitrary: s)
  case (Cons x xs)
  obtain w po pe where s: "s = (w, po, pe)" by (metis prod_cases3)
  have "session_step wr sinks x s = map_option Going (io_step wr x s)"
    using Cons.prems by (cases x) (auto simp: s on_sink_def split: option.splits if_splits)
  then show ?case using Cons by (cases "io_step wr x s") auto
qed simp

lemma io_run_append: "io_run wr (xs @ ys) s = Option.bind (io_run wr xs s) (io_run wr ys)"
  by (induction xs arbitrary: s) (auto split: option.splits)

lemma ioproxy_Flush_empty: "ioproxy_Flush wr w p = Some (w', p', e) \<Longrightarrow> ip_buf p' = []"
  by (auto simp: ioproxy_Flush_def split: if_splits option.splits)

lemma deferred_empty:
  assumes "io_run wr (xs @ [OpFlush True, OpFlush False]) s = Some (w, po, pe)"
  shows "ip_buf po = [] \<and> ip_buf pe = []"
proof -
  obtain w1 po1 pe1 where "io_run wr xs s = Some (w1, po1, pe1)" "io_run wr [OpFlush True, OpFlush False] (w1, po1, pe1) = Some (w, po, pe)"
    using assms by (cases "io_run wr xs s") (auto simp: io_run_append)
  then show ?thesis by (auto split: option.splits prod.splits dest!: ioproxy_Flush_empty)
qed

lemma op_data_flush: "concat (map (op_data err) (xs @ [OpFlush a, OpFlush b])) = concat (map (op_data err) xs)"
  by simp

text \<open>What a session over two proxies delivers, behind what the connection has carried before.\<close>

lemma mux_session:
  assumes "io_writer wr sent" "length (concat (map (op_data False) ops)) < 2 ^ 32" "length (concat (map (op_data True) ops)) < 2 ^ 32"
  shows "\<exists>w po pe fs rest. session_run wr (Mux, Mux) (ops @ deferred (Mux, Mux)) (w0, ioproxy_New Stdout, ioproxy_New Stderr) =
      Some (Going (w, po, pe)) \<and> sent w = sent w0 @ rest \<and> demux rest = Some fs \<and>
    stream Stdout fs = concat (map (op_data False) ops) \<and> stream Stderr fs = concat (map (op_data True) ops)"
proof -
  let ?xs = "ops @ [OpFlush True, OpFlush False]"
  obtain w po pe fs rest where r: "io_run wr ?xs (w0, ioproxy_New Stdout, ioproxy_New Stderr) = Some (w, po, pe)"
    "sent w = sent w0 @ rest" "demux rest = Some fs" "stream Stdout fs @ ip_buf po = concat (map (op_data False) ?xs)"
    "stream Stderr fs @ ip_buf pe = concat (map (op_data True) ?xs)"
    using mux_run[OF assms(1) refl, of ?xs w0] assms(2,3) unfolding op_data_flush by blast
  have "session_run wr (Mux, Mux) ?xs (w0, ioproxy_New Stdout, ioproxy_New Stderr) = Some (Going (w, po, pe))"
    using session_io_run[of "(Mux, Mux)" ?xs wr] r(1) by (simp add: list_all_iff)
  then show ?thesis using r(2-5) deferred_empty[OF r(1)] by (auto simp: deferred_def)
qed

text \<open>
  (C24) Interactive sessions are complete: when a client attaches to a container with both outputs
  and no terminal, or runs such a command, then over a working connection it receives the opening
  answer followed by a well-formed multiplexed stream, and what it reads there as standard output and
  standard error is exactly what the process wrote to each, in order and to the end, whatever the
  calls and whenever the flush timers fire.
\<close>

theorem session_delivers:
  assumes "conn_writer wr sent" "length (concat (map (op_data False) ops)) < 2 ^ 32" "length (concat (map (op_data True) ops)) < 2 ^ 32"
    and "\<not> ex_TTY ex" "ex_Stdout ex" "ex_Stderr ex"
  shows "\<exists>w po pe fs rest. attach_session wr w0 upgrade stdin True True False ops = Some (Going (w, po, pe)) \<and>
    exec_session wr w0 upgrade cmd ex ops = Some (Going (w, po, pe)) \<and>
    sent w = sent w0 @ bytes_of (upgrade_head upgrade @ crlf) @ rest \<and> demux rest = Some fs \<and>
    stream Stdout fs = concat (map (op_data False) ops) \<and> stream Stderr fs = concat (map (op_data True) ops)"
proof -
  let ?w1 = "UpgradeConnection wr upgrade (fst (wr w0 []))"
  obtain w po pe fs rest where r: "session_run wr (Mux, Mux) (ops @ deferred (Mux, Mux)) (?w1, ioproxy_New Stdout, ioproxy_New Stderr) =
      Some (Going (w, po, pe))" "sent w = sent ?w1 @ rest" "demux rest = Some fs"
    "stream Stdout fs = concat (map (op_data False) ops)" "stream Stderr fs = concat (map (op_data True) ops)"
    using mux_session[OF conn_writer.is_io_writer[OF assms(1)] assms(2,3), of ?w1] by blast
  have "attach_sinks False True True = (Mux, Mux)" "exec_sinks ex = (Mux, Mux)" using assms(4-6) by (simp_all add: attach_sinks_def exec_sinks_def)
  then have "attach_session wr w0 upgrade stdin True True False ops = Some (Going (w, po, pe))"
    "exec_session wr w0 upgrade cmd ex ops = Some (Going (w, po, pe))" using r(1) assms(4)
    by (simp_all add: attach_session_def exec_session_def stream_session_def remote_output_def attach_options_def exec_options_def sink_request_def)
  moreover have "sent w = sent w0 @ bytes_of (upgrade_head upgrade @ crlf) @ rest"
    using r(2) conn_writer.sent_head[OF assms(1)] by simp
  ultimately show ?thesis using r(3-5) by blast
qed

theorem session_delivers_witness:
  "\<exists>w po pe fs rest. attach_session list_conn [] True False True True False
       [OpWrite False [104, 10, 105], OpWrite True [101], OpFlush True, OpWrite False [10]] = Some (Going (w, po, pe)) \<and>
     w = bytes_of (upgrade_head True @ crlf) @ rest \<and> demux rest = Some fs \<and> stream Stdout fs = [104, 10, 105, 10] \<and> stream Stderr fs = [101]"
proof -
  let ?ex = "\<lparr>ex_ID = ''e1'', ex_ContainerID = ''c1'', ex_Cmd = [''ls''], ex_Env = [], ex_User = [], ex_WorkingDir = [], ex_TTY = False,
     ex_Stdin = False, ex_Stdout = True, ex_Stderr = True, ex_ExitCode = 0, ex_Created = 0\<rparr>"
  show ?thesis
    using session_delivers[OF list_conn.conn_writer_axioms, of "[OpWrite False [104, 10, 105], OpWrite True [101], OpFlush True, OpWrite False [10]]"
        ?ex "[]" True False "[]"]
    by auto
qed

section \<open>Terminals\<close>

lemma raw_session:
  assumes "conn_writer wr sent"
  shows "\<exists>w. session_run wr (Raw, Drop) ops (w0, po, pe) = Some (Going (w, po, pe)) \<and> sent w = sent w0 @ concat (map (op_data False) ops)"
proof (induction ops arbitrary: w0)
  case (Cons x ops)
  show ?case
  proof (cases x)
    case (OpWrite err data)
    show ?thesis using OpWrite Cons[of "if err then w0 else fst (wr w0 data)"] conn_writer.sent_write[OF assms]
      by (cases err) (auto simp: on_sink_def)
  next
    case (OpFlush err)
    then show ?thesis using Cons[of w0] by (cases err) (auto simp: on_sink_def)
  qed
qed simp

lemma merged_data: "op_data False (merge_op x) = op_data False x @ op_data True x"
  by (cases x) auto

text \<open>
  With a terminal an attached client gets the output as it is, both streams in the order in
  which the process wrote them. A command that asks for a terminal gets one only if it also has
  standard input: without it, what it writes to its standard error is lost.
\<close>

theorem terminal_sessions:
  assumes "conn_writer wr sent" "ex_TTY ex"
  shows "\<exists>w po pe. attach_session wr w0 upgrade stdin True stderr True ops = Some (Going (w, po, pe)) \<and>
      sent w = sent w0 @ bytes_of (upgrade_head upgrade @ crlf) @ concat (map (\<lambda>x. op_data False x @ op_data True x) ops)"
    and "\<exists>w po pe. exec_session wr w0 upgrade cmd ex ops = Some (Going (w, po, pe)) \<and>
      sent w = sent w0 @ bytes_of (upgrade_head upgrade @ crlf) @
        concat (map (\<lambda>x. op_data False x @ (if ex_Stdin ex then op_data True x else [])) ops)"
proof -
  note raw = raw_session[OF assms(1), of _ "UpgradeConnection wr upgrade (fst (wr w0 []))" "ioproxy_New Stdout" "ioproxy_New Stderr"]
  have m: "concat (map (op_data False) (remote_output tty ops)) = concat (map (\<lambda>x. op_data False x @ (if tty then op_data True x else [])) ops)" for tty
    by (induction ops) (auto simp: remote_output_def merged_data)
  have d: "deferred (Raw, Drop) = []" by (simp add: deferred_def)
  show "\<exists>w po pe. attach_session wr w0 upgrade stdin True stderr True ops = Some (Going (w, po, pe)) \<and>
      sent w = sent w0 @ bytes_of (upgrade_head upgrade @ crlf) @ concat (map (\<lambda>x. op_data False x @ op_data True x) ops)"
    using raw[of "remote_output True ops"] m[of True] conn_writer.sent_head[OF assms(1)]
    by (auto simp: attach_session_def stream_session_def attach_sinks_def attach_options_def sink_request_def d)
  show "\<exists>w po pe. exec_session wr w0 upgrade cmd ex ops = Some (Going (w, po, pe)) \<and>
      sent w = sent w0 @ bytes_of (upgrade_head upgrade @ crlf) @
        concat (map (\<lambda>x. op_data False x @ (if ex_Stdin ex then op_data True x else [])) ops)"
    using raw[of "remote_output (ex_Stdin ex) ops"] m[of "ex_Stdin ex"] conn_writer.sent_head[OF assms(1)] assms(2)
    by (auto simp: exec_session_def stream_session_def exec_sinks_def exec_options_def sink_request_def d)
qed

section \<open>The error stream alone\<close>

lemma nil_session:
  "session_run wr (NoSink, MuxNil) (ops @ [OpFlush True]) (w, po, pe) =
     Some (if ip_buf pe @ concat (map (op_data True) ops) = [] then Going (w, po, pe) else Crashed)"
proof (induction ops arbitrary: pe)
  case Nil
  then show ?case by (simp add: on_sink_def)
next
  case (Cons x ops)
  show ?case
  proof (cases x)
    case (OpWrite err data)
    then show ?thesis using Cons[of "pe\<lparr>ip_buf := ip_buf pe @ data\<rparr>"] Cons[of pe] by (cases err) (auto simp: on_sink_def)
  next
    case (OpFlush err)
    then show ?thesis using Cons[of pe] by (cases err) (auto simp: on_sink_def)
  qed
qed

text \<open>
  The streams of a hijacked connection are the connection itself, twice. TCP and TLS connections have
  \<open>CloseWrite\<close>, so they are shut down for writing, two times, and never closed.
\<close>

lemma hijacked_never_closed:
  assumes "sm_CloseWrite m"
  shows "CloseStreams [(i, m), (i, m)] = [CloseWrite i, CloseWrite i]" and "CloseBoth i \<notin> set (CloseStreams [(i, m), (i, m)])"
  using assms by simp_all

lemma CloseStreams_closes: "(i, m) \<in> set streams \<Longrightarrow> \<not> sm_CloseWrite m \<Longrightarrow> sm_Close m \<Longrightarrow> CloseBoth i \<in> set (CloseStreams streams)"
  by (induction streams rule: CloseStreams.induct) auto

text \<open>
  (C37) A client that attaches to the error stream alone can bring the server down: without a terminal
  the proxy of the error stream is made over the missing writer of the output stream, so the session
  panics, outside every recovery, exactly when the process writes anything to its standard error.
\<close>

theorem attach_stderr_only_crashes:
  "attach_session wr w upgrade stdin False True False ops = Some Crashed \<longleftrightarrow> concat (map (op_data True) ops) \<noteq> []"
proof -
  have "attach_sinks False False True = (NoSink, MuxNil)" "deferred (NoSink, MuxNil) = [OpFlush True]"
    by (simp_all add: attach_sinks_def deferred_def)
  then show ?thesis using nil_session[of wr ops]
    by (simp add: attach_session_def stream_session_def remote_output_def attach_options_def sink_request_def ioproxy_New_def)
qed

end
