(* ===== verification/ReverseProxy.thy ===== *)
theory ReverseProxy
  imports BackendOps
begin

text \<open>
  \<open>internal/util/reverseproxy/tcpproxy.go\<close>: a listener whose connections are passed on to a
  port of a pod. \<open>Proxy\<close> starts two goroutines, one that waits for the stop channel and one that
  probes the remote side and then accepts connections; they are a transition system, in which the
  two interleave in any order. The bytes that are copied between two connections are not modelled.
\<close>

section \<open>Connecting\<close>

text \<open>The answers of the remote side: whether the \<open>n\<close>-th attempt to connect succeeds.\<close>

type_synonym remote_side = "nat \<Rightarrow> bool"

definition retryRate :: nat where "retryRate = 5"
definition initialConnectTimeOut :: nat where "initialConnectTimeOut = 5"

text \<open>Up to \<open>tries\<close> attempts from the \<open>n\<close>-th on: the attempt that succeeded.\<close>

fun try_connect :: "remote_side \<Rightarrow> nat \<Rightarrow> nat \<Rightarrow> nat option" where
  "try_connect remote n 0 = None"
| "try_connect remote n (Suc tries) = (if remote n then Some n else try_connect remote (Suc n) tries)"

definition waitUntilRemoteAcceptsConnection :: "remote_side \<Rightarrow> nat \<Rightarrow> string \<Rightarrow> error option" where
  "waitUntilRemoteAcceptsConnection side timeout remote =
     (case try_connect side 0 (timeout * retryRate) of
        Some _ \<Rightarrow> None
      | None \<Rightarrow> Some (Errorf ''timeout connecting to %s'' [remote]))"

datatype connection_end = Copied | GaveUp

definition handleConnection :: "remote_side \<Rightarrow> nat \<Rightarrow> connection_end" where
  "handleConnection side maxRetry = (case try_connect side 0 (maxRetry * retryRate) of Some _ \<Rightarrow> Copied | None \<Rightarrow> GaveUp)"

text \<open>\<open>net.JoinHostPort\<close> and the two addresses.\<close>

definition JoinHostPort :: "string \<Rightarrow> string \<Rightarrow> string" where
  "JoinHostPort host port = (if CHR '':'' \<in> set host then ''['' @ host @ '']:'' @ port else host @ '':'' @ port)"

record proxy_request =
  px_LocalPort :: int
  px_RemotePort :: int
  px_RemoteIP :: string
  px_MaxRetry :: nat

definition proxy_local :: "proxy_request \<Rightarrow> string" where
  "proxy_local req = ''0.0.0.0:'' @ show_int (px_LocalPort req)"

definition proxy_remote :: "proxy_request \<Rightarrow> string" where
  "proxy_remote req = JoinHostPort (px_RemoteIP req) (show_int (px_RemotePort req))"

section \<open>The two goroutines\<close>

datatype stopper = AwaitsStop | ClosesListener | StopperDone
datatype acceptor = Probing nat | Accepting | AcceptorDone

record proxy_state =
  px_stop :: bool           \<comment> \<open>the stop channel has been signalled\<close>
  px_done :: bool           \<comment> \<open>the channel \<open>done\<close> is closed\<close>
  px_open :: bool           \<comment> \<open>the listener is open\<close>
  px_stopper :: stopper
  px_acceptor :: acceptor
  px_conns :: nat           \<comment> \<open>connections handed to \<open>handleConnection\<close>\<close>

text \<open>The outcome of waiting for the remote side is dropped; only listening can fail.\<close>

definition Proxy :: "(string \<Rightarrow> error option) \<Rightarrow> remote_side \<Rightarrow> proxy_request \<Rightarrow> proxy_state result" where
  "Proxy listen side req =
     (let waited = waitUntilRemoteAcceptsConnection side initialConnectTimeOut (proxy_remote req)
      in case listen (proxy_local req) of
           Some e \<Rightarrow> Inl e
         | None \<Rightarrow> Inr \<lparr>px_stop = False, px_done = False, px_open = True, px_stopper = AwaitsStop, px_acceptor = Probing 0, px_conns = 0\<rparr>)"

datatype proxy_event = StopSent | StopSeen | ListenerClosed | ProbeStopped | ProbeOk | ProbeFailed | ProbesOver | Accepted | AcceptFailed

text \<open>An error of \<open>Accept\<close> ends the loop whether it comes from the stop or not.\<close>

inductive proxy_step :: "proxy_request \<Rightarrow> remote_side \<Rightarrow> proxy_state \<Rightarrow> proxy_event \<Rightarrow> proxy_state \<Rightarrow> bool" for req side where
  stop_sent: "\<not> px_stop s \<Longrightarrow> proxy_step req side s StopSent (s\<lparr>px_stop := True\<rparr>)"
| stop_seen: "px_stopper s = AwaitsStop \<Longrightarrow> px_stop s \<Longrightarrow>
    proxy_step req side s StopSeen (s\<lparr>px_done := True, px_stopper := ClosesListener\<rparr>)"
| closed: "px_stopper s = ClosesListener \<Longrightarrow> proxy_step req side s ListenerClosed (s\<lparr>px_open := False, px_stopper := StopperDone\<rparr>)"
| probe_stopped: "px_acceptor s = Probing n \<Longrightarrow> n < px_MaxRetry req * retryRate \<Longrightarrow> px_done s \<Longrightarrow>
    proxy_step req side s ProbeStopped (s\<lparr>px_acceptor := AcceptorDone\<rparr>)"
| probe_ok: "px_acceptor s = Probing n \<Longrightarrow> n < px_MaxRetry req * retryRate \<Longrightarrow> \<not> px_done s \<Longrightarrow> side n \<Longrightarrow>
    proxy_step req side s ProbeOk (s\<lparr>px_acceptor := Accepting\<rparr>)"
| probe_failed: "px_acceptor s = Probing n \<Longrightarrow> n < px_MaxRetry req * retryRate \<Longrightarrow> \<not> px_done s \<Longrightarrow> \<not> side n \<Longrightarrow>
    proxy_step req side s ProbeFailed (s\<lparr>px_acceptor := Probing (Suc n)\<rparr>)"
| probes_over: "px_acceptor s = Probing n \<Longrightarrow> px_MaxRetry req * retryRate \<le> n \<Longrightarrow>
    proxy_step req side s ProbesOver (s\<lparr>px_acceptor := Accepting\<rparr>)"
| accepted: "px_acceptor s = Accepting \<Longrightarrow> px_open s \<Longrightarrow> proxy_step req side s Accepted (s\<lparr>px_conns := Suc (px_conns s)\<rparr>)"
| accept_failed: "px_acceptor s = Accepting \<Longrightarrow> proxy_step req side s AcceptFailed (s\<lparr>px_acceptor := AcceptorDone\<rparr>)"

inductive proxy_steps :: "proxy_request \<Rightarrow> remote_side \<Rightarrow> proxy_state \<Rightarrow> proxy_event list \<Rightarrow> proxy_state \<Rightarrow> bool" for req side where
  nil: "proxy_steps req side s [] s"
| cons: "proxy_step req side s e s1 \<Longrightarrow> proxy_steps req side s1 es s2 \<Longrightarrow> proxy_steps req side s (e # es) s2"

inductive_simps proxy_steps_nil [simp]: "proxy_steps req side s [] s'"
inductive_simps proxy_steps_cons: "proxy_steps req side s (e # es) s'"

section \<open>Properties\<close>

lemma try_connect_None: "try_connect side n tries = None \<longleftrightarrow> (\<forall>m \<in> {n..<n + tries}. \<not> side m)"
proof (induction tries arbitrary: n)
  case (Suc tries)
  have "{n..<n + Suc tries} = insert n {Suc n..<Suc n + tries}" by auto
  then show ?case using Suc.IH[of "Suc n"] by simp
qed simp

text \<open>Waiting ends without error exactly when one of the five attempts per second succeeds.\<close>

lemma waitUntil_returns:
  "waitUntilRemoteAcceptsConnection side timeout remote = None \<longleftrightarrow> (\<exists>m \<in> {0..<timeout * 5}. side m)"
  using try_connect_None[of side 0 "timeout * retryRate"]
  by (cases "try_connect side 0 (timeout * retryRate)") (auto simp: waitUntilRemoteAcceptsConnection_def retryRate_def)

text \<open>How many steps other than accepting a connection are left at most.\<close>

definition stopper_left :: "proxy_state \<Rightarrow> nat" where
  "stopper_left s = (case px_stopper s of AwaitsStop \<Rightarrow> 2 | ClosesListener \<Rightarrow> 1 | StopperDone \<Rightarrow> 0)"

definition acceptor_left :: "proxy_request \<Rightarrow> proxy_state \<Rightarrow> nat" where
  "acceptor_left req s = (case px_acceptor s of Probing n \<Rightarrow> 2 + (px_MaxRetry req * retryRate - n) | Accepting \<Rightarrow> 1 | AcceptorDone \<Rightarrow> 0)"

definition steps_left :: "proxy_request \<Rightarrow> proxy_state \<Rightarrow> nat" where
  "steps_left req s = (if px_stop s then 0 else 1) + stopper_left s + acceptor_left req s"

lemmas left_defs = steps_left_def stopper_left_def acceptor_left_def

lemma step_left:
  "proxy_step req side s e s' \<Longrightarrow> (if e = Accepted then steps_left req s' = steps_left req s else steps_left req s' < steps_left req s)"
  by (induction rule: proxy_step.induct) (simp_all add: left_defs)

lemma steps_bounded:
  assumes "proxy_steps req side s es s'"
  shows "length (filter (\<lambda>e. e \<noteq> Accepted) es) + steps_left req s' \<le> steps_left req s"
  using assms
proof (induction rule: proxy_steps.induct)
  case (cons s e s1 es s2)
  show ?case using step_left[OF cons(1)] cons.IH by (cases "e = Accepted") auto
qed simp

definition proxy_ok :: "proxy_state \<Rightarrow> bool" where
  "proxy_ok s = ((px_open s \<longleftrightarrow> px_stopper s \<noteq> StopperDone) \<and> (px_done s \<longleftrightarrow> px_stopper s \<noteq> AwaitsStop))"

lemma proxy_steps_ok: "proxy_steps req side s es s' \<Longrightarrow> proxy_ok s \<Longrightarrow> proxy_ok s'"
proof (induction rule: proxy_steps.induct)
  case (cons s e s1 es s2)
  from cons(1) have "proxy_ok s1" using cons.prems by (cases rule: proxy_step.cases) (auto simp: proxy_ok_def)
  then show ?case by (rule cons.IH)
qed

lemma closed_conns:
  "proxy_steps req side s es s' \<Longrightarrow> \<not> px_open s \<Longrightarrow> px_conns s' = px_conns s"
proof (induction rule: proxy_steps.induct)
  case (cons s e s1 es s2)
  from cons(1) have "\<not> px_open s1 \<and> px_conns s1 = px_conns s" using cons.prems by (cases rule: proxy_step.cases) auto
  then show ?case using cons.IH by simp
qed simp

lemma stuck_stopped:
  assumes "px_stop s" "\<forall>e s'. \<not> proxy_step req side s e s'"
  shows "px_stopper s = StopperDone \<and> px_acceptor s = AcceptorDone"
proof -
  have "px_stopper s = StopperDone"
    using assms proxy_step.stop_seen[of s req side] proxy_step.closed[of s req side] by (cases "px_stopper s") auto
  moreover have "px_acceptor s \<noteq> Accepting" using assms(2) proxy_step.accept_failed[of s req side] by auto
  moreover have "px_acceptor s \<noteq> Probing n" for n
    using assms(2) proxy_step.probe_stopped[of s n req side] proxy_step.probe_ok[of s n req side]
      proxy_step.probe_failed[of s n req side] proxy_step.probes_over[of s n req side] by (metis not_le)
  ultimately show ?thesis by (cases "px_acceptor s") auto
qed

text \<open>
  (C31) A reverse proxy can be stopped: whatever the order in which its goroutines run, between two
  accepted connections only boundedly many steps happen (one for the signal, two to stop and
  close, the probes and two to end them), a signalled proxy that cannot go on has closed its listener
  and left both goroutines, and once the listener is closed no connection is accepted any more.
\<close>

theorem proxy_stops:
  assumes "Proxy listen side req = Inr s0" "proxy_steps req side s0 es s"
  shows "length (filter (\<lambda>e. e \<noteq> Accepted) es) \<le> 5 + px_MaxRetry req * retryRate \<and>
    (px_stop s \<longrightarrow> (\<forall>e s'. \<not> proxy_step req side s e s') \<longrightarrow> \<not> px_open s \<and> px_acceptor s = AcceptorDone) \<and>
    (\<forall>fs s'. \<not> px_open s \<longrightarrow> proxy_steps req side s fs s' \<longrightarrow> px_conns s' = px_conns s)"
proof -
  have s0: "s0 = \<lparr>px_stop = False, px_done = False, px_open = True, px_stopper = AwaitsStop, px_acceptor = Probing 0, px_conns = 0\<rparr>"
    using assms(1) by (auto simp: Proxy_def Let_def split: option.splits)
  have "steps_left req s0 = 5 + px_MaxRetry req * retryRate" by (simp add: s0 left_defs)
  then have "length (filter (\<lambda>e. e \<noteq> Accepted) es) \<le> 5 + px_MaxRetry req * retryRate" using steps_bounded[OF assms(2)] by simp
  moreover have "proxy_ok s" by (rule proxy_steps_ok[OF assms(2)]) (simp add: s0 proxy_ok_def)
  ultimately show ?thesis using stuck_stopped[of s req side] closed_conns[of req side s] by (auto simp: proxy_ok_def)
qed

definition sample_proxy :: proxy_request where
  "sample_proxy = \<lparr>px_LocalPort = 40001, px_RemotePort = 6379, px_RemoteIP = ''10.0.0.7'', px_MaxRetry = 30\<rparr>"

theorem proxy_stops_witness:
  "\<exists>s0 s. Proxy (\<lambda>a. None) (\<lambda>n. n = 1) sample_proxy = Inr s0 \<and>
     proxy_steps sample_proxy (\<lambda>n. n = 1) s0 [ProbeFailed, ProbeOk, Accepted, StopSent, StopSeen, ListenerClosed, AcceptFailed] s \<and>
     px_conns s = 1 \<and> \<not> px_open s \<and> (\<forall>fs s'. proxy_steps sample_proxy (\<lambda>n. n = 1) s fs s' \<longrightarrow> px_conns s' = 1)"
proof -
  define s0 where "s0 = \<lparr>px_stop = False, px_done = False, px_open = True, px_stopper = AwaitsStop, px_acceptor = Probing 0, px_conns = 0\<rparr>"
  define s where "s = \<lparr>px_stop = True, px_done = True, px_open = False, px_stopper = StopperDone, px_acceptor = AcceptorDone, px_conns = 1\<rparr>"
  have p: "Proxy (\<lambda>a. None) (\<lambda>n. n = 1) sample_proxy = Inr s0" by (simp add: Proxy_def Let_def s0_def)
  have r: "proxy_steps sample_proxy (\<lambda>n. n = 1) s0 [ProbeFailed, ProbeOk, Accepted, StopSent, StopSeen, ListenerClosed, AcceptFailed] s"
    by (auto simp: s0_def s_def proxy_steps_cons proxy_step.simps sample_proxy_def retryRate_def)
  show ?thesis using proxy_stops[OF p r] p r by (auto simp: s_def)
qed

section \<open>The proxies of a container\<close>

text \<open>
  \<open>reverseProxy\<close> of \<open>internal/backend/deploy.go\<close>: one proxy for every port that is not negative,
  each with a stop channel of its own.
\<close>

definition reverseProxy :: "container \<Rightarrow> (int, int) gomap \<Rightarrow> proxy_request list" where
  "reverseProxy tainr ports =
     map (\<lambda>(src, dst). \<lparr>px_LocalPort = src, px_RemotePort = dst, px_RemoteIP = co_HostIP tainr, px_MaxRetry = 30\<rparr>)
       (filter (\<lambda>(src, dst). \<not> src < 0) ports)"

lemma add_stop_channels_all:
  "add_stop_channels ports tainr n = (t', n') \<Longrightarrow>
     n' = n + length (reverseProxy tainr ports) \<and> t' = tainr\<lparr>co_StopChannels := co_StopChannels tainr @ [n..<n']\<rparr>"
proof (induction ports tainr n arbitrary: t' n' rule: add_stop_channels.induct)
  case (2 src dst ports tainr n)
  show ?case
  proof (cases "src < 0")
    case False
    from 2(2)[OF False, of t' n'] 2(3) False
    have r: "n' = Suc n + length (reverseProxy (AddStopChannel tainr n) ports)"
      "t' = (AddStopChannel tainr n)\<lparr>co_StopChannels := co_StopChannels (AddStopChannel tainr n) @ [Suc n..<n']\<rparr>" by auto
    have "length (reverseProxy (AddStopChannel tainr n) ports) = length (reverseProxy tainr ports)" by (simp add: reverseProxy_def)
    moreover from calculation have "[n..<n'] = n # [Suc n..<n']" using r(1) by (simp add: upt_rec)
    ultimately show ?thesis using r False by (simp add: AddStopChannel_def reverseProxy_def)
  qed (use 2 in \<open>auto simp: reverseProxy_def\<close>)
qed (simp add: reverseProxy_def)

text \<open>
  When the channels are added one after the other, every proxy has a stop channel that the container
  knows, so \<open>SignalStop\<close> reaches it.
\<close>

lemma proxies_are_signalled:
  assumes "CreateReverseProxies tainr n = (t', n')"
  shows "n' = n + length (reverseProxy tainr (co_HostPorts tainr)) + length (reverseProxy tainr (co_MappedPorts tainr))"
    and "set [n..<n'] \<subseteq> set (co_StopChannels t')"
proof -
  obtain t1 n1 where a: "add_stop_channels (co_HostPorts tainr) tainr n = (t1, n1)" by force
  then have b: "add_stop_channels (co_MappedPorts t1) t1 n1 = (t', n')" using assms by (simp add: CreateReverseProxies_def)
  note a' = add_stop_channels_all[OF a] and b' = add_stop_channels_all[OF b]
  have "length (reverseProxy t1 (co_MappedPorts t1)) = length (reverseProxy tainr (co_MappedPorts tainr))"
    using a' by (simp add: reverseProxy_def)
  then show n: "n' = n + length (reverseProxy tainr (co_HostPorts tainr)) + length (reverseProxy tainr (co_MappedPorts tainr))"
    using a' b' by simp
  show "set [n..<n'] \<subseteq> set (co_StopChannels t')" using a' b' n by auto
qed

section \<open>Adding stop channels at the same time\<close>

text \<open>
  \<open>reverseProxy\<close> starts one goroutine per port, and each of them calls \<open>AddStopChannel\<close>, which
  appends to the slice of the container without a lock: it loads the slice and stores the longer one.
\<close>

datatype append_phase = BeforeLoad | HasLoaded "nat list" | HasStored

fun append_part :: "nat \<Rightarrow> append_phase \<Rightarrow> nat list \<Rightarrow> append_phase \<times> nat list" where
  "append_part stop BeforeLoad chans = (HasLoaded chans, chans)"
| "append_part stop (HasLoaded seen) chans = (HasStored, seen @ [stop])"
| "append_part stop HasStored chans = (HasStored, chans)"

text \<open>Two goroutines under a schedule that tells which one goes on.\<close>

fun run_appends :: "bool list \<Rightarrow> nat \<Rightarrow> nat \<Rightarrow> append_phase \<times> append_phase \<times> nat list \<Rightarrow> append_phase \<times> append_phase \<times> nat list" where
  "run_appends [] a b s = s"
| "run_appends (first # sched) a b (p, q, chans) =
     (if first then (case append_part a p chans of (p', chans') \<Rightarrow> run_appends sched a b (p', q, chans'))
      else (case append_part b q chans of (q', chans') \<Rightarrow> run_appends sched a b (p, q', chans')))"

lemma both_stored: "run_appends sched a b (HasStored, HasStored, chans) = (HasStored, HasStored, chans)"
  by (induction sched) auto

lemma one_stored:
  "run_appends sched a b (HasStored, HasLoaded seen, chans) = (HasStored, HasStored, r) \<Longrightarrow> r = seen @ [b]"
  "run_appends sched a b (HasLoaded seen, HasStored, chans) = (HasStored, HasStored, r) \<Longrightarrow> r = seen @ [a]"
  by (induction sched) (auto simp: both_stored split: if_splits)

lemma second_alone:
  "run_appends sched a b (HasStored, BeforeLoad, chans) = (HasStored, HasStored, r) \<Longrightarrow> r = chans @ [b]"
  "run_appends sched a b (BeforeLoad, HasStored, chans) = (HasStored, HasStored, r) \<Longrightarrow> r = chans @ [a]"
  by (induction sched) (auto dest: one_stored split: if_splits)

lemma both_loaded:
  "run_appends sched a b (HasLoaded chans, HasLoaded chans, chans) = (HasStored, HasStored, r) \<Longrightarrow> r \<in> {chans @ [a], chans @ [b]}"
  by (induction sched) (auto dest: one_stored split: if_splits)

lemma one_loaded:
  "run_appends sched a b (HasLoaded chans, BeforeLoad, chans) = (HasStored, HasStored, r) \<Longrightarrow>
     r \<in> {chans @ [a, b], chans @ [a], chans @ [b]}"
  "run_appends sched a b (BeforeLoad, HasLoaded chans, chans) = (HasStored, HasStored, r) \<Longrightarrow>
     r \<in> {chans @ [b, a], chans @ [a], chans @ [b]}"
  by (induction sched) (auto dest!: second_alone both_loaded split: if_splits)

text \<open>
  Two goroutines that add their stop channels leave both of them, in some order, or lose one of
  them, and losing one does happen: a proxy whose channel is lost is never told to stop.
\<close>

theorem stop_channel_lost:
  "(\<forall>sched r. run_appends sched a b (BeforeLoad, BeforeLoad, chans) = (HasStored, HasStored, r) \<longrightarrow>
      r \<in> {chans @ [a, b], chans @ [b, a], chans @ [a], chans @ [b]}) \<and>
   (\<exists>sched. run_appends sched a b (BeforeLoad, BeforeLoad, chans) = (HasStored, HasStored, chans @ [b]))"
proof (intro conjI allI impI)
  fix sched r assume "run_appends sched a b (BeforeLoad, BeforeLoad, chans) = (HasStored, HasStored, r)"
  then show "r \<in> {chans @ [a, b], chans @ [b, a], chans @ [a], chans @ [b]}"
    by (cases sched) (auto dest!: one_loaded split: if_splits)
next
  have "run_appends [True, False, True, False] a b (BeforeLoad, BeforeLoad, chans) = (HasStored, HasStored, chans @ [b])" by simp
  then show "\<exists>sched. run_appends sched a b (BeforeLoad, BeforeLoad, chans) = (HasStored, HasStored, chans @ [b])" by blast
qed

end
