(* ===== verification/Transport.thy ===== *)
theory Transport
  imports Auth Tar BackendOps
begin

text \<open>
  Connections the program opens itself: the HTTP client for OIDC discovery
  (\<open>newHTTPClient\<close> in \<open>internal/auth/oidc.go\<close>) and the redirects it follows, the requests for
  port forwards (\<open>internal/util/portforward\<close>) and the inspection of images
  (\<open>internal/util/image\<close>, \<open>internal/backend/image.go\<close>). Certificates, round trips, tunnels and the
  image library are parameters.
\<close>

section \<open>The OIDC client\<close>

text \<open>\<open>'p\<close> is a certificate pool.\<close>

record 'p http_client =
  ht_Timeout :: duration
  ht_MinVersion :: string
  ht_RootCAs :: 'p

definition newHTTPClient ::
  "'p result \<Rightarrow> (string \<Rightarrow> byte list result) \<Rightarrow> ('p \<Rightarrow> byte list \<Rightarrow> 'p option) \<Rightarrow> config \<Rightarrow> 'p http_client result" where
  "newHTTPClient systemPool readFile addPEM cfg =
     (case systemPool of
        Inl e \<Rightarrow> Inl (Wrapf ''load system CA pool: %w'' [] e)
      | Inr roots \<Rightarrow>
          bind_res (if cf_CAFile cfg \<noteq> [] then
                      (case readFile (cf_CAFile cfg) of
                         Inl e \<Rightarrow> Inl (Wrapf ''read OIDC CA file: %w'' [] e)
                       | Inr pem \<Rightarrow> (case addPEM roots pem of
                           None \<Rightarrow> Inl (Errorf ''OIDC CA file contains no valid certificates'' [])
                         | Some roots' \<Rightarrow> Inr roots'))
                    else Inr roots) (\<lambda>roots1.
            Inr \<lparr>ht_Timeout = cf_HTTPTimeout cfg, ht_MinVersion = ''TLS 1.2'', ht_RootCAs = roots1\<rparr>))"

text \<open>\<open>CheckRedirect\<close>: \<open>via\<close> are the requests made so far, the first one included.\<close>

definition CheckRedirect :: "(string \<Rightarrow> url result) \<Rightarrow> string list \<Rightarrow> string \<Rightarrow> error option" where
  "CheckRedirect url_Parse via raw =
     (if length via \<ge> 3 then Some (Errorf ''too many OIDC redirects'' []) else validateHTTPSURL url_Parse ''OIDC redirect'' raw)"

datatype 'r trip = Answer 'r | RedirectTo string | TripError error

text \<open>
  \<open>Client.Do\<close> of the standard library: a redirect is followed when \<open>CheckRedirect\<close> has no objection. The
  result is the requests that were sent and the answer.
\<close>

function client_Do :: "(string \<Rightarrow> url result) \<Rightarrow> (string list \<Rightarrow> string \<Rightarrow> 'r trip) \<Rightarrow> string list \<Rightarrow> string \<Rightarrow> string list \<times> 'r result" where
  "client_Do url_Parse trip via raw = (case trip via raw of
     Answer r \<Rightarrow> (via @ [raw], Inr r)
   | TripError e \<Rightarrow> (via @ [raw], Inl e)
   | RedirectTo loc \<Rightarrow>
       (case CheckRedirect url_Parse (via @ [raw]) loc of
          Some e \<Rightarrow> (via @ [raw], Inl e)
        | None \<Rightarrow> client_Do url_Parse trip (via @ [raw]) loc))"
  by pat_completeness auto
termination
  by (relation "measure (\<lambda>(_, _, via, _). 3 - length via)") (auto simp: CheckRedirect_def split: if_splits)

declare client_Do.simps [simp del]

lemma client_Do_cases:
  "trip via raw = Answer r \<Longrightarrow> client_Do url_Parse trip via raw = (via @ [raw], Inr r)"
  "trip via raw = TripError e \<Longrightarrow> client_Do url_Parse trip via raw = (via @ [raw], Inl e)"
  "trip via raw = RedirectTo loc \<Longrightarrow> CheckRedirect url_Parse (via @ [raw]) loc = Some e \<Longrightarrow>
    client_Do url_Parse trip via raw = (via @ [raw], Inl e)"
  "trip via raw = RedirectTo loc \<Longrightarrow> CheckRedirect url_Parse (via @ [raw]) loc = None \<Longrightarrow>
    client_Do url_Parse trip via raw = client_Do url_Parse trip (via @ [raw]) loc"
  by (subst client_Do.simps, simp)+

lemma client_Do_urls:
  assumes "length via < 3" "\<forall>raw' \<in> set (tl (via @ [raw])). \<exists>u. url_Parse raw' = Inr u \<and> https_url u"
    and "client_Do url_Parse trip via raw = (reqs, res)"
  shows "length reqs \<le> 3 \<and> hd reqs = hd (via @ [raw]) \<and> reqs \<noteq> [] \<and> (\<forall>raw' \<in> set (tl reqs). \<exists>u. url_Parse raw' = Inr u \<and> https_url u)"
  using assms
proof (induction url_Parse trip via raw rule: client_Do.induct)
  case (1 url_Parse trip via raw)
  have ended: ?case if "reqs = via @ [raw]" using that "1.prems"(1,2) by (cases via) auto
  show ?case
  proof (cases "trip via raw")
    case (RedirectTo loc)
    show ?thesis
    proof (cases "CheckRedirect url_Parse (via @ [raw]) loc")
      case None
      then have l: "length (via @ [raw]) < 3" "\<exists>u. url_Parse loc = Inr u \<and> https_url u"
        by (auto simp: CheckRedirect_def validateHTTPSURL_None split: if_splits)
      have "client_Do url_Parse trip (via @ [raw]) loc = (reqs, res)"
        using "1.prems"(3) client_Do_cases(4)[of trip via raw loc url_Parse] RedirectTo None by simp
      moreover have "\<forall>raw' \<in> set (tl ((via @ [raw]) @ [loc])). \<exists>u. url_Parse raw' = Inr u \<and> https_url u"
        using "1.prems"(2) l(2) by (cases via) auto
      ultimately have "length reqs \<le> 3 \<and> hd reqs = hd ((via @ [raw]) @ [loc]) \<and> reqs \<noteq> [] \<and>
          (\<forall>raw' \<in> set (tl reqs). \<exists>u. url_Parse raw' = Inr u \<and> https_url u)"
        using "1.IH"[OF RedirectTo None l(1)] by blast
      then show ?thesis by (cases via) auto
    qed (use "1.prems"(3) client_Do_cases(3)[of trip via raw loc url_Parse] RedirectTo ended in auto)
  qed (use "1.prems"(3) client_Do_cases(1)[of trip via raw _ url_Parse] client_Do_cases(2)[of trip via raw _ url_Parse] ended in auto)
qed

text \<open>
  (C33) Whatever the servers answer, a request of the OIDC client ends after at most three requests on
  the wire, and every request after the first one goes to an absolute HTTPS URL without credentials,
  query and fragment; so the keys are never fetched over an insecure redirect.
\<close>

theorem redirects_stay_secure:
  assumes "client_Do url_Parse trip [] raw = (reqs, res)"
  shows "length reqs \<le> 3 \<and> hd reqs = raw \<and> (\<forall>raw' \<in> set (tl reqs). \<exists>u. url_Parse raw' = Inr u \<and> https_url u)"
  using client_Do_urls[OF _ _ assms] by simp

theorem redirects_stay_secure_witness:
  "client_Do sample_url_Parse (\<lambda>via raw. if via = [] then RedirectTo ''https://issuer'' else Answer (0 :: nat)) [] ''https://start'' =
     ([''https://start'', ''https://issuer''], Inr 0) \<and> (\<exists>u. sample_url_Parse ''https://issuer'' = Inr u \<and> https_url u)"
proof -
  have "client_Do sample_url_Parse (\<lambda>via raw. if via = [] then RedirectTo ''https://issuer'' else Answer (0 :: nat)) [] ''https://start'' =
     ([''https://start'', ''https://issuer''], Inr 0)"
    by code_simp
  then show ?thesis using redirects_stay_secure[of sample_url_Parse _ "''https://start''"] by force
qed

section \<open>Port forwards\<close>

text \<open>Scheme, host and path of a URL.\<close>

type_synonym base_url = "string \<times> string \<times> string"

definition getURLScheme :: "(string \<Rightarrow> base_url result) \<Rightarrow> string \<Rightarrow> string \<Rightarrow> string \<Rightarrow> base_url result" where
  "getURLScheme parse host namespace name =
     (let portfw = ''/api/v1/namespaces/'' @ namespace @ ''/pods/'' @ name @ ''/portforward''
      in case parse host of
           Inl e \<Rightarrow> Inl (Wrapf ''error parsing base URL: %w'' [] e)
         | Inr (scheme, h, p) \<Rightarrow> Inr (if scheme = [] then ''https'' else scheme, h, path_Join p portfw))"

record forward_request =
  fr_Host :: string
  fr_Namespace :: string
  fr_Pod :: string
  fr_LocalPort :: int
  fr_PodPort :: int

text \<open>\<open>tunnel\<close> makes and runs the forwarder of the client library on the URL and the port pair.\<close>

definition ToPod ::
  "error option \<Rightarrow> (string \<Rightarrow> base_url result) \<Rightarrow> (base_url \<Rightarrow> string \<Rightarrow> error option) \<Rightarrow> forward_request \<Rightarrow> error option" where
  "ToPod roundTripper parse tunnel req = (case roundTripper of
     Some e \<Rightarrow> Some e
   | None \<Rightarrow> (case getURLScheme parse (fr_Host req) (fr_Namespace req) (fr_Pod req) of
       Inl e \<Rightarrow> Some e
     | Inr u \<Rightarrow> tunnel u (show_int (fr_LocalPort req) @ '':'' @ show_int (fr_PodPort req))))"

text \<open>A path element that \<open>path.Clean\<close> leaves alone.\<close>

definition plain_elem :: "string \<Rightarrow> bool" where
  "plain_elem e = (e \<noteq> [] \<and> e \<noteq> ''.'' \<and> e \<noteq> ''..'' \<and> CHR ''/'' \<notin> set e)"

lemma clean_plain: "list_all plain_elem es \<Longrightarrow> clean_elems rooted es out = out @ es"
  by (induction es arbitrary: out) (auto simp: plain_elem_def)

lemma Split_Join: "es \<noteq> [] \<Longrightarrow> list_all (\<lambda>e. sep \<notin> set e) es \<Longrightarrow> Split (Join es [sep]) sep = es"
  by (induction es rule: induct_list012) (auto simp: Split_single Split_append_sep)

lemma path_Clean_plain:
  assumes "list_all plain_elem es" "es \<noteq> []"
  shows "path_Clean (''/'' @ Join es ''/'') = ''/'' @ Join es ''/''"
proof -
  have "Split (''/'' @ Join es ''/'') (CHR ''/'') = [] # es"
    using Split_append_sep[of "CHR ''/''" "[]"] Split_Join[of es "CHR ''/''"] assms by (auto simp: plain_elem_def list_all_iff)
  then show ?thesis using clean_plain[OF assms(1)] by (simp add: path_Clean_def Let_def)
qed

text \<open>With a base URL without path, names of namespace and pod are one element of the path each.\<close>

lemma getURLScheme_exact:
  assumes "parse host = Inr (scheme, h, [])" "plain_elem namespace" "plain_elem name"
  shows "getURLScheme parse host namespace name =
    Inr (if scheme = [] then ''https'' else scheme, h, ''/api/v1/namespaces/'' @ namespace @ ''/pods/'' @ name @ ''/portforward'')"
proof -
  let ?es = "[''api'', ''v1'', ''namespaces'', namespace, ''pods'', name, ''portforward'']"
  have "list_all plain_elem ?es" using assms(2,3) by (simp add: plain_elem_def)
  from path_Clean_plain[OF this] show ?thesis using assms(1) by (simp add: getURLScheme_def path_Join_def)
qed

section \<open>Images\<close>

record 'i image_lib =
  il_ParseImageName :: "string \<Rightarrow> 'i result"
  il_NewImageSource :: "'i \<Rightarrow> 'i result"
  il_FromUnparsedImage :: "'i \<Rightarrow> 'i result"
  il_OCIConfig :: "'i \<Rightarrow> string list result"        \<comment> \<open>the exposed ports of the configuration\<close>

definition parseImageSource :: "'i image_lib \<Rightarrow> string \<Rightarrow> 'i result" where
  "parseImageSource IL name = bind_res (il_ParseImageName IL name) (il_NewImageSource IL)"

definition InspectConfig :: "'i image_lib \<Rightarrow> string \<Rightarrow> string list result" where
  "InspectConfig IL name = bind_res (parseImageSource IL name) (\<lambda>src.
     case il_FromUnparsedImage IL src of
       Inl e \<Rightarrow> Inl (Wrapf ''Error parsing manifest for image: %w'' [] e)
     | Inr img1 \<Rightarrow> (case il_OCIConfig IL img1 of
         Inl e \<Rightarrow> Inl (Wrapf ''Error reading OCI-formatted configuration data: %w'' [] e)
       | Inr ports \<Rightarrow> Inr ports))"

definition GetImageExposedPorts :: "'i image_lib \<Rightarrow> string \<Rightarrow> string list result" where
  "GetImageExposedPorts IL name = InspectConfig IL (''docker://'' @ name)"

end
