(* ===== verification/TarWrite.thy ===== *)
theory TarWrite
  imports Tar
begin

text \<open>
  The writing half of \<open>internal/util/tar\<close>: \<open>PackFolder\<close>, and \<open>GetTarSize\<close> with the counter of
  the reader. What \<open>filepath.Walk\<close> visits is a list of visits; the writer of \<open>archive/tar\<close> is
  modelled as far as the program uses it: the entries with what was written of each, and the sizes
  their headers promised.
\<close>

section \<open>The tar writer\<close>

record tar_writer =
  tw_entries :: "tar_entry list"
  tw_left :: nat                \<comment> \<open>bytes the current entry still needs\<close>

definition tar_NewWriter :: tar_writer where
  "tar_NewWriter = \<lparr>tw_entries = [], tw_left = 0\<rparr>"

definition tw_Flush :: "tar_writer \<Rightarrow> error option" where
  "tw_Flush tw = (if tw_left tw > 0 then Some (Errorf ''archive/tar: missed writing %d bytes'' [show_int (int (tw_left tw))]) else None)"

definition tw_WriteHeader :: "tar_entry \<Rightarrow> nat \<Rightarrow> tar_writer \<Rightarrow> error option \<times> tar_writer" where
  "tw_WriteHeader h sz tw = (case tw_Flush tw of
     Some e \<Rightarrow> (Some e, tw)
   | None \<Rightarrow> (None, \<lparr>tw_entries = tw_entries tw @ [h], tw_left = sz\<rparr>))"

text \<open>Bytes beyond the promised size are refused; the writer stays usable.\<close>

definition add_data :: "byte list \<Rightarrow> tar_entry list \<Rightarrow> tar_entry list" where
  "add_data bs hs = (if hs = [] then [] else butlast hs @ [(last hs)\<lparr>te_Data := te_Data (last hs) @ bs\<rparr>])"

definition tw_Write :: "byte list \<Rightarrow> tar_writer \<Rightarrow> error option \<times> tar_writer" where
  "tw_Write bs tw =
     (let part = take (tw_left tw) bs; tw1 = \<lparr>tw_entries = add_data part (tw_entries tw), tw_left = tw_left tw - length part\<rparr>
      in (if length bs > tw_left tw then Some (Errorf ''archive/tar: write too long'' []) else None, tw1))"

definition tw_Close :: "tar_writer \<Rightarrow> error option" where
  "tw_Close tw = tw_Flush tw"

section \<open>Packing a folder\<close>

datatype file_kind = FRegular | FDir | FSymlink | FSocket

record file_info =
  fi_Kind :: file_kind
  fi_Mode :: "32 word"
  fi_Size :: nat

text \<open>
  One call of the walk function: the path relative to the folder, the file information (\<^const>\<open>None\<close>:
  it could not be had), and what opening and reading the file gives (links are followed).
\<close>

record visit =
  vs_Rel :: "string result"
  vs_Info :: "file_info option"
  vs_Open :: "byte list result"

fun kind_flag :: "file_kind \<Rightarrow> typeflag" where
  "kind_flag FRegular = TypeReg"
| "kind_flag FDir = TypeDir"
| "kind_flag _ = TypeOther"

text \<open>The header of a file and the size it promises: only regular files have one.\<close>

definition FileInfoHeader :: "file_info option \<Rightarrow> (tar_entry \<times> nat) result" where
  "FileInfoHeader fi = (case fi of
     None \<Rightarrow> Inl (Errorf ''archive/tar: FileInfo is nil'' [])
   | Some i \<Rightarrow>
       if fi_Kind i = FSocket then Inl (Errorf ''archive/tar: sockets not supported'' [])
       else Inr (\<lparr>te_Name = [], te_Typeflag = kind_flag (fi_Kind i), te_Mode = fi_Mode i, te_Data = []\<rparr>,
                 if fi_Kind i = FRegular then fi_Size i else 0))"

text \<open>The walk function. The error it is called with is ignored.\<close>

definition pack_visit :: "visit \<Rightarrow> tar_writer \<Rightarrow> error option \<times> tar_writer" where
  "pack_visit v tw = (case FileInfoHeader (vs_Info v) of
     Inl e \<Rightarrow> (Some e, tw)
   | Inr (h, sz) \<Rightarrow> (case vs_Rel v of
       Inl e \<Rightarrow> (Some e, tw)
     | Inr rel \<Rightarrow> (case tw_WriteHeader (h\<lparr>te_Name := rel\<rparr>) sz tw of
         (Some e, tw1) \<Rightarrow> (Some e, tw1)
       | (None, tw1) \<Rightarrow>
           if te_Typeflag h = TypeDir then (None, tw1)
           else (case vs_Open v of Inl e \<Rightarrow> (Some e, tw1) | Inr bs \<Rightarrow> tw_Write bs tw1))))"

text \<open>The walk ends at the first error.\<close>

fun pack_walk :: "visit list \<Rightarrow> tar_writer \<Rightarrow> error option \<times> tar_writer" where
  "pack_walk [] tw = (None, tw)"
| "pack_walk (v # vs) tw = (case pack_visit v tw of (Some e, tw1) \<Rightarrow> (Some e, tw1) | (None, tw1) \<Rightarrow> pack_walk vs tw1)"

text \<open>The error of the walk is dropped.\<close>

definition PackFolder :: "visit list \<Rightarrow> error option \<times> tar_entry list" where
  "PackFolder vs = (let tw = snd (pack_walk vs tar_NewWriter) in (tw_Close tw, tw_entries tw))"

section \<open>The size of an archive\<close>

text \<open>
  The decoder's answer comes with the sizes of the reads it made; the counter of the reader then says
  how much it has delivered.
\<close>

definition GetTarSize :: "(byte list \<Rightarrow> tar_stream result \<times> nat list) \<Rightarrow> byte list \<Rightarrow> nat \<times> error option" where
  "GetTarSize decode dat = (case read_first5 (bytes_NewReader dat) of (first5, r1) \<Rightarrow>
     (case decode (first5 @ rd_data r1) of
        (Inl e, ns) \<Rightarrow> (0, Some e)
      | (Inr (hs, e), ns) \<Rightarrow> (ReadBytes (snd (concat_reads ns (NewConcatReader first5 r1))), e)))"

section \<open>Properties\<close>

definition entry_of :: "string \<Rightarrow> file_info \<Rightarrow> byte list \<Rightarrow> tar_entry" where
  "entry_of rel i bs = \<lparr>te_Name = rel, te_Typeflag = kind_flag (fi_Kind i), te_Mode = fi_Mode i,
     te_Data = (if fi_Kind i = FRegular then bs else [])\<rparr>"

text \<open>A visit of a folder, or of a regular file that has the size it had when it was listed.\<close>

definition packs :: "visit \<Rightarrow> tar_entry \<Rightarrow> bool" where
  "packs v h = (\<exists>rel i bs. vs_Rel v = Inr rel \<and> vs_Info v = Some i \<and> h = entry_of rel i bs \<and>
     (fi_Kind i = FDir \<or> fi_Kind i = FRegular \<and> vs_Open v = Inr bs \<and> length bs = fi_Size i))"

lemma pack_visit_good:
  assumes "packs v h" "tw_left tw = 0"
  shows "pack_visit v tw = (None, \<lparr>tw_entries = tw_entries tw @ [h], tw_left = 0\<rparr>)"
  using assms
  by (auto simp: packs_def pack_visit_def FileInfoHeader_def tw_WriteHeader_def tw_Flush_def tw_Write_def add_data_def entry_of_def Let_def)

lemma pack_walk_good:
  assumes "list_all2 packs vs hs" "tw_left tw = 0"
  shows "pack_walk (vs @ rest) tw = pack_walk rest \<lparr>tw_entries = tw_entries tw @ hs, tw_left = 0\<rparr>"
  using assms
proof (induction vs hs arbitrary: tw rule: list_all2_induct)
  case Nil
  then have "\<lparr>tw_entries = tw_entries tw, tw_left = 0\<rparr> = tw" by simp
  then show ?case by simp
next
  case (Cons v vs h hs)
  then show ?case using pack_visit_good[of v h tw] Cons(3)[of "\<lparr>tw_entries = tw_entries tw @ [h], tw_left = 0\<rparr>"] by simp
qed

text \<open>A symbolic link to something that is not empty, or an empty file that cannot be opened.\<close>

definition spoils :: "visit \<Rightarrow> bool" where
  "spoils v = (\<exists>rel i. vs_Rel v = Inr rel \<and> vs_Info v = Some i \<and>
     (fi_Kind i = FSymlink \<and> (\<forall>bs. vs_Open v = Inr bs \<longrightarrow> bs \<noteq> []) \<or>
      fi_Kind i = FRegular \<and> fi_Size i = 0 \<and> (\<exists>e. vs_Open v = Inl e)))"

text \<open>
  Packing loses files silently: when the walk meets a symbolic link to a file with contents, the
  link is stored without contents, nothing that comes after it gets into the archive, and
  \<open>PackFolder\<close> reports success.
\<close>

lemma pack_stops_silently:
  assumes "list_all2 packs vs hs" "spoils v"
  shows "\<exists>h. PackFolder (vs @ v # rest) = (None, hs @ [h]) \<and> te_Data h = []"
proof -
  let ?tw = "\<lparr>tw_entries = hs, tw_left = 0\<rparr>"
  obtain rel i where v: "vs_Rel v = Inr rel" "vs_Info v = Some i"
    and c: "fi_Kind i = FSymlink \<and> (\<forall>bs. vs_Open v = Inr bs \<longrightarrow> bs \<noteq> []) \<or> fi_Kind i = FRegular \<and> fi_Size i = 0 \<and> (\<exists>e. vs_Open v = Inl e)"
    using assms(2) by (auto simp: spoils_def)
  have "\<exists>e. pack_visit v ?tw = (Some e, \<lparr>tw_entries = hs @ [entry_of rel i []], tw_left = 0\<rparr>)"
    using v c by (cases "vs_Open v")
      (auto simp: pack_visit_def FileInfoHeader_def tw_WriteHeader_def tw_Flush_def tw_Write_def add_data_def entry_of_def Let_def)
  then obtain e where "pack_walk (v # rest) ?tw = (Some e, \<lparr>tw_entries = hs @ [entry_of rel i []], tw_left = 0\<rparr>)" by auto
  then have "PackFolder (vs @ v # rest) = (None, hs @ [entry_of rel i []])"
    using pack_walk_good[OF assms(1), of tar_NewWriter "v # rest"] by (simp add: PackFolder_def tar_NewWriter_def tw_Close_def tw_Flush_def)
  moreover have "te_Data (entry_of rel i []) = []" by (simp add: entry_of_def)
  ultimately show ?thesis by blast
qed






definition sample_visits :: "visit list" where
  "sample_visits = [
     \<lparr>vs_Rel = Inr ''.'', vs_Info = Some \<lparr>fi_Kind = FDir, fi_Mode = 493, fi_Size = 4096\<rparr>, vs_Open = Inl (ExtError ''is a directory'')\<rparr>,
     \<lparr>vs_Rel = Inr ''a.txt'', vs_Info = Some \<lparr>fi_Kind = FRegular, fi_Mode = 420, fi_Size = 2\<rparr>, vs_Open = Inr [104, 105]\<rparr>]"

definition sample_packed :: "tar_entry list" where
  "sample_packed = [\<lparr>te_Name = ''.'', te_Typeflag = TypeDir, te_Mode = 493, te_Data = []\<rparr>,
     \<lparr>te_Name = ''a.txt'', te_Typeflag = TypeReg, te_Mode = 420, te_Data = [104, 105]\<rparr>]"

lemma sample_packs: "list_all2 packs sample_visits sample_packed"
  by (simp add: sample_visits_def sample_packed_def packs_def entry_of_def)


theorem pack_stops_silently_witness:
  "\<exists>h. PackFolder (sample_visits @ \<lparr>vs_Rel = Inr ''b'', vs_Info = Some \<lparr>fi_Kind = FSymlink, fi_Mode = 511, fi_Size = 5\<rparr>, vs_Open = Inr [1]\<rparr> #
       [\<lparr>vs_Rel = Inr ''c'', vs_Info = Some \<lparr>fi_Kind = FRegular, fi_Mode = 420, fi_Size = 1\<rparr>, vs_Open = Inr [2]\<rparr>]) =
     (None, sample_packed @ [h]) \<and> te_Data h = []"
  by (rule pack_stops_silently[OF sample_packs]) (simp add: spoils_def)

text \<open>
  The reported size is the number of bytes of the archive that the decoder has read, so for an
  archive of at least five bytes it never exceeds the length of the data.
\<close>

theorem GetTarSize_bound:
  assumes "5 \<le> length dat" "GetTarSize decode dat = (n, e)"
  shows "n \<le> length dat"
proof -
  obtain first5 r1 where r: "read_first5 (bytes_NewReader dat) = (first5, r1)" by force
  have d: "first5 @ rd_data r1 = dat" using read_first5_full[OF assms(1)] r by simp
  have "ReadBytes (snd (concat_reads ns (NewConcatReader first5 r1))) \<le> length dat" for ns
  proof -
    obtain bs r' where s: "concat_reads ns (NewConcatReader first5 r1) = (bs, r')" by force
    show ?thesis using concat_reads_stream[OF s] d s by (metis le_add1 length_append snd_conv)
  qed
  then show ?thesis using assms(2) r by (auto simp: GetTarSize_def split: prod.splits sum.splits)
qed

end
