(* ===== verification/Spec2Isabelle.thy ===== *)
theory Spec2Isabelle
  imports Commands CommandLine Consistency Streams ReverseProxy Transport TarWrite
begin

text \<open>
  Verification of TestTender, a server that offers the container APIs of Docker and Podman (libpod)
  and runs the containers as pods of a Kubernetes namespace.

  \<^bold>\<open>The program and its parts.\<close> The command line (\<open>cmd/server.go\<close>) declares flags and environment
  variables and calls \<open>internal.Main\<close>. That makes the backend (\<open>internal/backend\<close>), waits for a
  namespace lock if one is configured, starts the reaper (\<open>internal/reaper\<close>) and the API server
  (\<open>internal/server\<close>). The server reads the image policy and the Secret policy
  (\<open>internal/policy\<close>) and the OIDC configuration (\<open>internal/auth\<close>) and listens with a chain of
  middleware (version alias, recovery, authentication) in front of the handlers
  (\<open>internal/server/routes\<close>). A handler looks containers, networks, images and execs up in an
  in-memory database (\<open>internal/model\<close>), checks a request against the policies, calls the backend
  and publishes events (\<open>internal/events\<close>). The backend turns a container into a pod with its
  config maps and services, watches it, copies archives, runs commands and forwards ports. The
  output of a process reaches a client through the multiplexer \<open>internal/util/ioproxy\<close>. A second
  command is a proxy for clients that adds a token (\<open>internal/clientproxy\<close>).

  \<^bold>\<open>Theories, from the bottom up.\<close>
  \<^item> \<open>Prelude\<close>, \<open>Strings\<close>: the result type (an error or a value), maps as association lists, the Go
    string library (\<open>TrimSpace\<close>, \<open>Split\<close>, \<open>ReplaceAll\<close>, \<open>Fields\<close>, \<open>Cut\<close>, path functions) with
    the lemma collections the proofs use.
  \<^item> \<open>StringID\<close> (\<open>util/stringid\<close>), \<open>Kube\<close> (the Kubernetes objects the program builds), \<open>Container\<close>
    and \<open>ContainerProps\<close> (\<open>model/types/container.go\<close>: the record of a container and every accessor that
    turns it into names, ports, resources, volumes and states), \<open>Network\<close> (\<open>model/types/network.go\<close>,
    \<open>exec.go\<close>, \<open>image.go\<close> and \<open>internal/events\<close>), \<open>Filters\<close> (\<open>server/filter\<close>).
  \<^item> \<open>Database\<close> (\<open>internal/model\<close>): the tables with their indexes. The table library keeps keys and
    the objects are a heap by identifier, because the code changes stored objects in place.
  \<^item> \<open>SecretPolicy\<close> and \<open>ImagePolicy\<close> (\<open>policy/secret\<close>, \<open>policy/image\<close>).
  \<^item> \<open>Tar\<close>, \<open>TarWrite\<close> (\<open>util/tar\<close>): reading and writing of archives.
  \<^item> \<open>Delete\<close> (\<open>backend/delete.go\<close> and the cleaners of \<open>internal/reaper\<close>), \<open>KubeNames\<close>
    (\<open>backend/util.go\<close>), \<open>Deploy\<close> (\<open>backend/deploy.go\<close>), \<open>Exec\<close> (\<open>backend/exec.go\<close>, \<open>copy.go\<close>,
    \<open>logs.go\<close>), \<open>BackendOps\<close> (the interface of \<open>backend/main.go\<close> and its implementation).
  \<^item> \<open>Routes\<close>, \<open>DockerRoutes\<close>, \<open>Inspect\<close>, \<open>NetworkRoutes\<close>, \<open>ExecRoutes\<close>: the handlers of
    \<open>routes/common\<close>, \<open>routes/docker\<close> and \<open>routes/libpod\<close>; \<open>Lifecycle\<close>: what each of them keeps and
    changes of a container; \<open>Isolation\<close>: which containers each of them can change at all, in the
    database and in the cluster; \<open>Concurrency\<close>: starts that run in parts, with requests in between;
    \<open>Consistency\<close>: the container table and the lookups under every request but the renaming.
  \<^item> \<open>Server\<close>: one step of the API (a request with its decoded parameters, or a round of the reaper)
    and the states that sequences of steps reach; \<open>Admission\<close> and \<open>RouteProps\<close>: properties of all
    reachable states and of single handlers.
  \<^item> \<open>OidcKeys\<close>, \<open>Auth\<close> (\<open>internal/auth\<close>); \<open>Transport\<close> (its HTTP client with the redirect policy,
    \<open>util/portforward\<close>, \<open>util/image\<close>); \<open>ClientProxy\<close> (\<open>internal/clientproxy\<close>, with what the
    reverse proxy of the standard library does to the headers of a request).
  \<^item> \<open>Settings\<close> (from the settings to policies, verifier, router and backend), \<open>Gateway\<close> (the
    middleware chain with the version alias and its re-entry), \<open>System\<close> (fixed endpoints, routes, the
    event stream), \<open>Process\<close> (\<open>internal/main.go\<close>, the listeners, the requests to them through the chain
    of \<open>Gateway\<close>, the loop of the reaper), \<open>CommandLine\<close> (\<open>cmd/server.go\<close>, and what \<open>Main\<close>, \<open>run\<close>,
    \<open>getBackend\<close>, \<open>Server.Run\<close> and \<open>getGinEngine\<close> read of the settings).
  \<^item> \<open>IoProxy\<close> (\<open>util/ioproxy\<close>) and \<open>Streams\<close> (attach, exec and log sessions on it);
    \<open>ReverseProxy\<close> (\<open>util/reverseproxy\<close>); \<open>Help\<close> (\<open>util/md2text\<close>); \<open>Commands\<close> (the other commands of \<open>cmd\<close>).

  \<^bold>\<open>How code corresponds to definitions.\<close> A struct is a record, a function a definition of the same
  name (with the package or receiver in front where names clash), a returned error a value of
  \<open>error\<close> on the left of a sum, a panic a value of its own that the recovery middleware turns into
  status 500. A handler is a function of the router, the moment of the call, the decoded parameters
  and the state of the server; its outcome is a reply, a handler that never returns, or a connection
  that was taken over. A Go map is an association list whose order stands for the order of an
  iteration; results that must not depend on it are proved for every order. Times are nanoseconds
  and the zero time is 0; durations that are converted to floating point stay below four million
  seconds, where the conversion is exact enough. Goroutines are steps of transition relations:
  \<open>main_step\<close> for the process, \<open>proxy_step\<close> for a reverse proxy, \<open>serving_step\<close> for the local proxy,
  \<open>conc_step\<close> for starts in progress; the one that watches a deletion is a loop over what it receives. Timers may fire at any time, because
  no property depends on the clock.

  \<^bold>\<open>Interfaces.\<close> Code outside the repository is a parameter, and what the program relies on is a
  locale with an interpretation: \<open>memdb_table\<close> and its extension \<open>memdb_tables\<close> (the table library,
  with the tables independent of each other), \<open>kube_api\<close> (the Kubernetes
  client), \<open>jwt_library\<close> (the token parser), \<open>io_writer\<close> and its extension \<open>conn_writer\<close> (the
  connection to a client), \<open>settings_library\<close> (the precedence of flags, variables and defaults).
  Contracts between components of the program are locales too and are interpreted by the model's own
  definitions: \<open>container_backend\<close> (what every backend operation keeps of a container),
  \<open>image_resolver\<close>, \<open>matcher\<close>.

  \<^bold>\<open>What is shown.\<close>
  \<^item> Authentication: a request passes only with a token of the configured issuer, audience and
    identity, signed by a trusted, strong and fresh key; with authentication required nothing changes
    without such a token, for every sequence of requests, through the version alias, and from the
    environment variable to the listener; keys are fetched over HTTPS redirects only.
  \<^item> Policies: every container that any sequence of requests leaves in the database has passed the
    image policy and the Secret policy, and the pod made of it uses allowed Secrets only, end to end
    from the settings; policies fail closed; outcomes do not depend on the order of maps.
  \<^item> The state of the server refines an abstract register of containers with their life cycle; a
    created container is found again; deletions and the reaper remove exactly what they should; a
    request changes only the containers it addresses, and the policies hold under interleaved starts;
    as long as nothing is renamed the table stays consistent with the containers, and a request leaves
    the lookups of every other container by identifier, and by a name no other container has, as they
    are; networks in use are never deleted.
  \<^item> The process does nothing before it holds the lock, cleans up before it ends on a signal, and an
    instance that has lost the lock keeps listening and carries out every request that authentication
    does not refuse; a version prefix changes neither the answer nor the effect of a request.
  \<^item> The pod, its labels, names, services and commands are confined to what the code promises; an
    exec command reaches the pod unchanged.
  \<^item> Streams: whatever a process writes is recovered exactly by the client; the directories and regular
    files of a packed folder are found again in its archive, up to the first entry of another kind.
  \<^item> Termination: waiting for a pod, stopping a reverse proxy, answering a request (with the exact
    set of paths on which the version alias never ends).
  \<^item> Error behaviour and defects of the code: sessions on standard error alone, restarts whose watch
    fails, deletes that a start in progress undoes, watches closed by the API server, clients of the
    local proxy that strip their own token,
    lost stop channels, connections that are never closed, the silent end of packing, the
    last table of a help text.

  \<^bold>\<open>Bounds and partial functions.\<close> No definition uses fuel. The recursion of the middleware
  (\<open>engine_handle\<close>) and the write loops of the multiplexer (\<open>writeAll\<close>, \<open>process_all\<close>) may run forever
  in the code, so they are partial functions into \<open>option\<close>; that they return is proved (for writers
  that make progress, and for exactly the paths without a stuck alias). Loops over retries and
  redirects are bounded by the code's own constants.

  \<^bold>\<open>Not modelled.\<close> The bytes of the transports (TLS, SPDY, websockets) and standard input; log
  output; the internals of leader election and of the web framework's routing (with its redirects
  for trailing slashes); what becomes of the goroutine of a request whose version alias never ends; the interleaving inside
  handlers other than the start of a container (each is one step); the traffic through forwarded
  ports; the walk of a directory itself (its visits are a list); the choice of a command by the
  command line library; sleeps.
\<close>

section \<open>From the settings to the pod\<close>

lemma server_Run_backend:
  assumes "server_Run L en mk_client open_file db kub vp = Inr eg" "eg_router eg = Some cr"
  shows "cr_Backend cr = kub"
  using assms by (auto simp: server_Run_def getGinEngine_def NewContextRouter_def Let_def bind_res_Inr split: sum.splits)

text \<open>
  (C8) Secrets end to end: in every state that a server started from the settings can reach, every
  container it knows passes the Secret check of the backend made from the same settings when its
  pod is built, and the environment of that pod refers to no Secret outside the setting.
\<close>

theorem known_containers_use_allowed_secrets:
  assumes "server_Run L en mk_client open_file db kub vp = Inr eg" "eg_router eg = Some (ap_router ap)" "container_backend kub"
    and "getBackend (rl_validators L) decode gl vp = Inr bk" "de_validators E = rl_validators L"
    and "list_all (\<lambda>v. vol_Name v \<noteq> VolumeName) (pod_Volumes (bk_podTemplate bk))"
    and "reachable ap sv" "hp sv i = Some c"
  shows "\<exists>env vols mnts. main_env E bk c = Inr (env, vols, mnts) \<and>
    (\<forall>v \<in> set env. \<forall>n k. ev_SecretKeyRef v = Some (n, k) \<longrightarrow> n \<in> TrimSpace ` set (split_setting (vp_allowed_secrets vp)))"
proof -
  have "cr_Backend (ap_router ap) = kub" by (rule server_Run_backend[OF assms(1,2)])
  then have "admitted (ap_router ap) c"
    using reachable_invariant[OF assms(7)] assms(3,8) by (simp add: all_admitted_def)
  then show ?thesis by (rule admitted_passes_backend[OF assms(1,2,4-6)])
qed

definition policy_settings :: settings where
  "policy_settings = sample_settings\<lparr>vp_policy_file := ''policy.json'', vp_allowed_secrets := ''db''\<rparr>"

lemma policy_auth: "auth_New sample_env h (oidc_config policy_settings) = Inr None"
  using sample_open by (simp add: policy_settings_def oidc_config_def)

lemma policy_router:
  obtains eg where "server_Run sample_libs sample_env (\<lambda>f. None) (\<lambda>f. Inr sample_stream) (Inr list_memdb)
      (instance_ops sample_deploy sample_client (\<lambda>n. Inr [])) policy_settings = Inr eg" "eg_router eg = Some (ap_router sample_api)"
proof -
  have r: "LoadFile plain_lib (\<lambda>f. Inr sample_stream) (vp_policy_file policy_settings) =
      Inr \<lparr>enabled = True, allowUnmatched = False, rules = [(''redis:latest'', ''mirror/redis:7'')]\<rparr>" by code_simp
  have s: "secret_New accept_all (split_setting (vp_allowed_secrets policy_settings)) = Inr sample_policy" by code_simp
  have "route_config policy_settings = sample_rconfig\<lparr>rc_ImageResolver := Passthrough\<rparr>"
    by (simp add: route_config_def policy_settings_def sample_settings_def sample_rconfig_def)
  then show ?thesis using that r s policy_auth
    by (simp add: server_Run_def sample_libs_def getGinEngine_def NewContextRouter_def sample_api_def sample_router_def sample_rconfig_def)
qed

theorem known_containers_use_allowed_secrets_witness:
  "\<exists>sv c. \<exists>bk :: string backend. \<exists>env vols mnts. reachable sample_api sv \<and> hp sv sample_id = Some c \<and>
     getBackend accept_all (\<lambda>f. Inl (ExtError f)) \<lparr>gl_DefaultLabels = [], gl_DefaultAnnotations = [], gl_InstanceID = []\<rparr> policy_settings = Inr bk \<and>
     main_env sample_deploy bk c = Inr (env, vols, mnts)"
proof -
  let ?gl = "\<lparr>gl_DefaultLabels = [], gl_DefaultAnnotations = [], gl_InstanceID = []\<rparr>"
  obtain eg where run: "server_Run sample_libs sample_env (\<lambda>f. None) (\<lambda>f. Inr sample_stream) (Inr list_memdb)
      (instance_ops sample_deploy sample_client (\<lambda>n. Inr [])) policy_settings = Inr eg" "eg_router eg = Some (ap_router sample_api)"
    by (rule policy_router)
  have s: "secret_New accept_all (split_setting (vp_allowed_secrets policy_settings)) = Inr sample_policy" by code_simp
  obtain bk :: "string backend" where b: "getBackend accept_all (\<lambda>f. Inl (ExtError f)) ?gl policy_settings = Inr bk" "bk_podTemplate bk = blank_pod"
    by (simp add: getBackend_def backend_New_def s) (simp add: policy_settings_def sample_settings_def)
  obtain c sv where c: "reachable sample_api sv" "hp sv sample_id = Some c" by (rule sample_created_in)
  have "list_all (\<lambda>v. vol_Name v \<noteq> VolumeName) (pod_Volumes (bk_podTemplate bk))" using b(2) by (simp add: blank_pod_def)
  moreover have "rl_validators sample_libs = accept_all" "de_validators sample_deploy = accept_all"
    by (simp_all add: sample_libs_def sample_deploy_def)
  ultimately show ?thesis
    using known_containers_use_allowed_secrets[OF run inst.container_backend_axioms _ _ _ c(1,2), of "\<lambda>f. Inl (ExtError f)" ?gl bk sample_deploy] b(1) c
    by auto
qed

end
